(* ===== verification/Prelude.thy ===== *)
theory Prelude
  imports Complex_Main "HOL-Library.Word" "HOL-Library.Multiset"
begin

text \<open>
  What the components share: names for Go's fixed-width integers, the sort of the
  library package \<open>sort\<close> with its contract, the trimming done by \<open>--limit\<close>, and
  ordered grouping (a Go map together with the slice that remembers the order of its keys).
\<close>

section \<open>Integers and automation\<close>

text \<open>
  Go's sized integers are machine words; a signed one is read with \<^const>\<open>sint\<close>, an
  unsigned one with \<^const>\<open>uint\<close>.
\<close>

type_synonym int32 = "32 word"
type_synonym int64 = "64 word"
type_synonym uint32 = "32 word"
type_synonym uint64 = "64 word"

text \<open>Facts a group of proofs rewrites with: verdicts, and the sizes of what a report holds.\<close>

named_theorems verdict_simps
named_theorems report_simps

lemma sint64_bounds: "- (2 ^ 63) \<le> sint (w :: int64)" "sint (w :: int64) < 2 ^ 63"
  using sint_ge [of w] sint_lt [of w] by simp_all

lemma sint32_bounds: "- (2 ^ 31) \<le> sint (w :: int32)" "sint (w :: int32) < 2 ^ 31"
  using sint_ge [of w] sint_lt [of w] by simp_all

lemma sint_word_of_int64: "- (2 ^ 63) \<le> i \<Longrightarrow> i < 2 ^ 63 \<Longrightarrow> sint (word_of_int i :: int64) = i"
  by (simp add: signed_of_int signed_take_bit_int_eq_self)

lemma sint_word_of_int32: "- (2 ^ 31) \<le> i \<Longrightarrow> i < 2 ^ 31 \<Longrightarrow> sint (word_of_int i :: int32) = i"
  by (simp add: signed_of_int signed_take_bit_int_eq_self)

lemma sint_neq: "v \<noteq> w \<Longrightarrow> sint v < sint w \<or> sint w < sint v"
  by (metis linorder_neqE signed_word_eqI)

section \<open>Limits\<close>

text \<open>
  \<open>if limit > 0 && len(xs) > limit { xs = xs[:limit] }\<close>: every list a command shows is cut
  this way; 0 and negative limits show everything.
\<close>

definition cut_limit :: "int \<Rightarrow> 'a list \<Rightarrow> 'a list" where
  "cut_limit limit xs =
     (if 0 < limit \<and> limit < int (length xs) then take (nat limit) xs else xs)"

lemma cut_limit_0 [simp]: "limit \<le> 0 \<Longrightarrow> cut_limit limit xs = xs"
  by (simp add: cut_limit_def)

lemma length_cut_limit:
  "int (length (cut_limit limit xs)) = (if 0 < limit then min limit (int (length xs)) else int (length xs))"
  by (auto simp: cut_limit_def min_def)

lemma cut_limit_prefix: "\<exists>rest. xs = cut_limit limit xs @ rest"
  by (auto simp: cut_limit_def intro: exI [of _ "[]"] exI [of _ "drop (nat limit) xs"])

lemma set_cut_limit: "x \<in> set (cut_limit limit xs) \<Longrightarrow> x \<in> set xs"
  by (auto simp: cut_limit_def dest: in_set_takeD split: if_splits)

section \<open>Stable sorting\<close>

text \<open>
  \<open>sort.SliceStable(xs, less)\<close>. The library runs insertion sort on blocks and merges
  them; on a strict weak order every stable sort returns the same list, which the locale below
  proves, so the model is the plain insertion sort.
\<close>

primrec insert_stable :: "('a \<Rightarrow> 'a \<Rightarrow> bool) \<Rightarrow> 'a \<Rightarrow> 'a list \<Rightarrow> 'a list" where
  "insert_stable lt x [] = [x]"
| "insert_stable lt x (y # ys) =
     (if lt x y then x # y # ys else y # insert_stable lt x ys)"

definition slice_stable :: "('a \<Rightarrow> 'a \<Rightarrow> bool) \<Rightarrow> 'a list \<Rightarrow> 'a list" where
  "slice_stable lt xs = foldl (\<lambda>acc x. insert_stable lt x acc) [] xs"

lemma mset_insert_stable [simp]: "mset (insert_stable lt x xs) = add_mset x (mset xs)"
  by (induction xs) auto

lemma set_insert_stable [simp]: "set (insert_stable lt x xs) = insert x (set xs)"
  by (induction xs) auto

lemma slice_stable_snoc:
  "slice_stable lt (xs @ [x]) = insert_stable lt x (slice_stable lt xs)"
  by (simp add: slice_stable_def)

lemma slice_stable_Nil [simp]: "slice_stable lt [] = []"
  by (simp add: slice_stable_def)

lemma mset_slice_stable [simp]: "mset (slice_stable lt xs) = mset xs"
  by (induction xs rule: rev_induct) (simp_all add: slice_stable_snoc)

lemma set_slice_stable [simp]: "set (slice_stable lt xs) = set xs"
  by (metis mset_slice_stable set_mset_mset)

lemma length_slice_stable [simp]: "length (slice_stable lt xs) = length xs"
  by (metis mset_slice_stable size_mset)

text \<open>
  The contract of \<open>sort.SliceStable\<close>: the comparator is a strict weak order on the
  values that occur (\<open>ok\<close>). The clients are the orders the commands show their rows in.
\<close>

definition in_order :: "('a \<Rightarrow> 'a \<Rightarrow> bool) \<Rightarrow> 'a list \<Rightarrow> bool" where
  "in_order lt xs = sorted_wrt (\<lambda>x y. \<not> lt y x) xs"

locale slice_order =
  fixes ok :: "'a \<Rightarrow> bool" and lt :: "'a \<Rightarrow> 'a \<Rightarrow> bool"
  assumes less_irrefl: "ok x \<Longrightarrow> \<not> lt x x"
    and less_trans: "ok x \<Longrightarrow> ok y \<Longrightarrow> ok z \<Longrightarrow> lt x y \<Longrightarrow> lt y z \<Longrightarrow> lt x z"
    and less_cotrans: "ok x \<Longrightarrow> ok y \<Longrightarrow> ok z \<Longrightarrow> lt x z \<Longrightarrow> lt x y \<or> lt y z"
begin

lemma less_asym: "ok x \<Longrightarrow> ok y \<Longrightarrow> lt x y \<Longrightarrow> \<not> lt y x"
  using less_irrefl less_trans by blast

lemma in_order_insert:
  "ok x \<Longrightarrow> \<forall>y\<in>set xs. ok y \<Longrightarrow> in_order lt xs \<Longrightarrow> in_order lt (insert_stable lt x xs)"
proof (induction xs)
  case Nil
  then show ?case by (simp add: in_order_def)
next
  case (Cons y ys)
  show ?case
  proof (cases "lt x y")
    case True
    have "\<not> lt z x" if "z \<in> set ys" for z
    proof
      assume "lt z x"
      then have "lt z y" using True Cons.prems that less_trans [of z x y] by simp
      then show False using Cons.prems that by (auto simp: in_order_def)
    qed
    with True Cons.prems show ?thesis
      using less_asym [of x y] by (auto simp: in_order_def)
  next
    case False
    with Cons show ?thesis by (auto simp: in_order_def)
  qed
qed

lemma in_order_slice_stable: "\<forall>x\<in>set xs. ok x \<Longrightarrow> in_order lt (slice_stable lt xs)"
proof (induction xs rule: rev_induct)
  case Nil
  then show ?case by (simp add: in_order_def)
next
  case (snoc x xs)
  then show ?case by (simp add: slice_stable_snoc in_order_insert)
qed

text \<open>Values neither of which is less than the other keep their order.\<close>

definition level :: "'a \<Rightarrow> 'a \<Rightarrow> bool" where
  "level x y \<longleftrightarrow> \<not> lt x y \<and> \<not> lt y x"

lemma level_trans: "ok x \<Longrightarrow> ok y \<Longrightarrow> ok z \<Longrightarrow> level x y \<Longrightarrow> level y z \<Longrightarrow> level x z"
  unfolding level_def using less_cotrans by blast

lemma filter_insert_stable:
  "ok x \<Longrightarrow> ok z \<Longrightarrow> \<forall>y\<in>set xs. ok y \<Longrightarrow> in_order lt xs \<Longrightarrow>
   filter (level z) (insert_stable lt x xs) =
     filter (level z) xs @ (if level z x then [x] else [])"
proof (induction xs)
  case Nil
  then show ?case by simp
next
  case (Cons y ys)
  show ?case
  proof (cases "lt x y")
    case True
    have no: "\<not> level z w" if "w \<in> set (y # ys)" "level z x" for w
    proof
      assume "level z w"
      have okw: "ok w" using that Cons.prems by auto
      from Cons.prems that have "\<not> lt w y"
        using less_irrefl [of y] by (auto simp: in_order_def)
      then have "lt x w"
        using less_cotrans [of x w y] True Cons.prems okw by simp
      then show False
        using less_cotrans [of x z w] that \<open>level z w\<close> Cons.prems okw unfolding level_def by blast
    qed
    show ?thesis
    proof (cases "level z x")
      case True
      with \<open>lt x y\<close> no show ?thesis by (simp add: filter_False)
    next
      case False
      with \<open>lt x y\<close> show ?thesis by simp
    qed
  next
    case False
    with Cons show ?thesis by (simp add: in_order_def)
  qed
qed

lemma stable_slice_stable:
  "ok z \<Longrightarrow> \<forall>x\<in>set xs. ok x \<Longrightarrow> filter (level z) (slice_stable lt xs) = filter (level z) xs"
proof (induction xs rule: rev_induct)
  case Nil
  then show ?case by simp
next
  case (snoc x xs)
  then have "filter (level z) (insert_stable lt x (slice_stable lt xs)) =
      filter (level z) (slice_stable lt xs) @ (if level z x then [x] else [])"
    by (intro filter_insert_stable) (simp_all add: in_order_slice_stable)
  with snoc show ?case by (simp add: slice_stable_snoc)
qed

text \<open>
  The contract determines the result: any list that holds the same values, in order, with
  level values kept as they were, is the one the model computes.
\<close>

lemma in_order_stable_unique:
  "\<lbrakk>mset ys = mset zs; in_order lt ys; in_order lt zs; \<forall>x\<in>set ys. ok x;
    \<forall>z\<in>set ys. filter (level z) ys = filter (level z) zs\<rbrakk> \<Longrightarrow> ys = zs"
proof (induction ys arbitrary: zs)
  case Nil
  then show ?case by simp
next
  case (Cons y ys)
  obtain z zs' where zs: "zs = z # zs'"
    using Cons.prems(1) by (cases zs) auto
  have sets: "set zs = set (y # ys)"
    using Cons.prems(1) by (metis set_mset_mset)
  have oky: "ok y" and okz: "ok z" using Cons.prems(4) sets zs by auto
  have "\<not> lt z y" using Cons.prems(2) sets zs less_irrefl [OF oky] by (auto simp: in_order_def)
  moreover have "\<not> lt y z"
    using Cons.prems(3) sets zs less_irrefl [OF okz] by (auto simp: in_order_def)
  ultimately have lv: "level y z" by (simp add: level_def)
  have "level y y" using less_irrefl [OF oky] by (simp add: level_def)
  then have "y = z"
    using Cons.prems(5) lv zs by auto
  have "ys = zs'"
  proof (rule Cons.IH)
    show "mset ys = mset zs'" using Cons.prems(1) zs \<open>y = z\<close> by simp
    show "in_order lt ys" "in_order lt zs'"
      using Cons.prems(2,3) zs by (auto simp: in_order_def)
    show "\<forall>x\<in>set ys. ok x" using Cons.prems(4) by simp
    show "\<forall>w\<in>set ys. filter (level w) ys = filter (level w) zs'"
      using Cons.prems(5) zs \<open>y = z\<close> by (auto split: if_splits)
  qed
  with \<open>y = z\<close> zs show ?case by simp
qed

lemma slice_stable_unique:
  assumes "mset ys = mset xs" and "in_order lt ys" and "\<forall>x\<in>set xs. ok x"
    and "\<forall>z\<in>set xs. filter (level z) ys = filter (level z) xs"
  shows "ys = slice_stable lt xs"
proof (rule in_order_stable_unique)
  have "set ys = set xs" using assms(1) by (metis set_mset_mset)
  then show "\<forall>x\<in>set ys. ok x"
    and "\<forall>z\<in>set ys. filter (level z) ys = filter (level z) (slice_stable lt xs)"
    using assms(3,4) stable_slice_stable by simp_all
qed (use assms in_order_slice_stable in simp_all)

end

text \<open>
  Comparators are written as a cascade: compare one key, and only on a tie the next. Two
  strict weak orders combine into one.
\<close>

definition then_less :: "('a \<Rightarrow> 'a \<Rightarrow> bool) \<Rightarrow> ('a \<Rightarrow> 'a \<Rightarrow> bool) \<Rightarrow> 'a \<Rightarrow> 'a \<Rightarrow> bool" where
  "then_less first rest x y \<longleftrightarrow> first x y \<or> (\<not> first y x \<and> rest x y)"

lemma slice_order_then:
  assumes f: "slice_order ok first" and r: "slice_order ok rest"
  shows "slice_order ok (then_less first rest)"
proof (rule slice_order.intro)
  note fr = slice_order.less_irrefl [OF f] slice_order.less_irrefl [OF r]
  show "ok x \<Longrightarrow> \<not> then_less first rest x x" for x
    using fr by (simp add: then_less_def)
next
  fix x y z
  assume ok: "ok x" "ok y" "ok z" and xy: "then_less first rest x y" and yz: "then_less first rest y z"
  then show "then_less first rest x z"
    using slice_order.less_cotrans [OF f, of x z y] slice_order.less_cotrans [OF f, of y x z]
      slice_order.less_cotrans [OF f, of z y x]
      slice_order.less_trans [OF f, of x y z] slice_order.less_trans [OF r, of x y z]
    unfolding then_less_def by blast
next
  fix x y z
  assume ok: "ok x" "ok y" "ok z" and xz: "then_less first rest x z"
  then show "then_less first rest x y \<or> then_less first rest y z"
    using slice_order.less_cotrans [OF f, of x y z] slice_order.less_cotrans [OF f, of y z x]
      slice_order.less_cotrans [OF f, of z x y] slice_order.less_cotrans [OF r, of x y z]
    unfolding then_less_def by blast
qed

lemma slice_order_up: "slice_order ok (\<lambda>x y. (key x :: 'k :: linorder) < key y)"
  by (rule slice_order.intro) auto

lemma slice_order_down: "slice_order ok (\<lambda>x y. (key y :: 'k :: linorder) < key x)"
  by (rule slice_order.intro) auto

lemma slice_order_cong:
  assumes o: "slice_order ok lt"
    and eq: "\<And>x y. ok x \<Longrightarrow> ok y \<Longrightarrow> lt' x y = lt x y"
  shows "slice_order ok lt'"
proof (rule slice_order.intro)
  show "ok x \<Longrightarrow> \<not> lt' x x" for x
    using slice_order.less_irrefl [OF o, of x] eq [of x x] by simp
next
  fix x y z
  assume ok: "ok x" "ok y" "ok z"
  show "lt' x y \<Longrightarrow> lt' y z \<Longrightarrow> lt' x z"
    using slice_order.less_trans [OF o ok] eq ok by simp
  show "lt' x z \<Longrightarrow> lt' x y \<or> lt' y z"
    using slice_order.less_cotrans [OF o ok] eq ok by simp
qed

lemma slice_order_mono:
  assumes o: "slice_order ok lt" and sub: "\<And>x. ok' x \<Longrightarrow> ok x"
  shows "slice_order ok' lt"
proof (rule slice_order.intro)
  show "ok' x \<Longrightarrow> \<not> lt x x" for x
    by (rule slice_order.less_irrefl [OF o sub])
  show "ok' x \<Longrightarrow> ok' y \<Longrightarrow> ok' z \<Longrightarrow> lt x y \<Longrightarrow> lt y z \<Longrightarrow> lt x z" for x y z
    by (rule slice_order.less_trans [OF o sub sub sub])
  show "ok' x \<Longrightarrow> ok' y \<Longrightarrow> ok' z \<Longrightarrow> lt x z \<Longrightarrow> lt x y \<or> lt y z" for x y z
    by (rule slice_order.less_cotrans [OF o sub sub sub])
qed

text \<open>What a stable sort returns, said without the comparisons it makes.\<close>

definition stable_sort_of :: "('a \<Rightarrow> 'a \<Rightarrow> bool) \<Rightarrow> 'a list \<Rightarrow> 'a list \<Rightarrow> bool" where
  "stable_sort_of lt xs ys \<longleftrightarrow> mset ys = mset xs \<and> in_order lt ys \<and>
     (\<forall>z\<in>set xs. filter (\<lambda>x. \<not> lt z x \<and> \<not> lt x z) ys = filter (\<lambda>x. \<not> lt z x \<and> \<not> lt x z) xs)"

context slice_order
begin

lemma stable_sort_iff:
  "\<forall>x\<in>set xs. ok x \<Longrightarrow> stable_sort_of lt xs ys \<longleftrightarrow> ys = slice_stable lt xs"
proof -
  assume ok: "\<forall>x\<in>set xs. ok x"
  have lv: "level z = (\<lambda>x. \<not> lt z x \<and> \<not> lt x z)" for z by (simp add: fun_eq_iff level_def)
  show ?thesis
    using slice_stable_unique [of ys xs] in_order_slice_stable [OF ok] stable_slice_stable [OF _ ok] ok
    by (auto simp: stable_sort_of_def lv)
qed

end

section \<open>Ordered grouping\<close>

text \<open>
  \<open>f, ok := m[k]; if !ok { order = append(order, k) }; m[k] = ...\<close>: a map whose keys are
  remembered in the order they first came. The model is one association list in that order.
\<close>

primrec group_add :: "'k \<Rightarrow> ('b option \<Rightarrow> 'b) \<Rightarrow> ('k \<times> 'b) list \<Rightarrow> ('k \<times> 'b) list" where
  "group_add k f [] = [(k, f None)]"
| "group_add k f (p # ps) =
     (if fst p = k then (k, f (Some (snd p))) # ps else p # group_add k f ps)"

lemma map_of_group_add:
  "map_of (group_add k f ps) = (map_of ps)(k \<mapsto> f (map_of ps k))"
  by (induction ps) (auto simp: fun_eq_iff)

lemma keys_group_add:
  "map fst (group_add k f ps) = map fst ps @ (if k \<in> set (map fst ps) then [] else [k])"
  by (induction ps) auto

lemma distinct_group_add:
  "distinct (map fst ps) \<Longrightarrow> distinct (map fst (group_add k f ps))"
  by (simp add: keys_group_add)

section \<open>First occurrences\<close>

text \<open>
  \<open>if !slices.Contains(out, b) { out = append(out, b) }\<close> over a list: every value once, at
  its first place.
\<close>

definition firsts :: "'a list \<Rightarrow> 'a list" where
  "firsts xs = foldl (\<lambda>out b. if b \<in> set out then out else out @ [b]) [] xs"

lemma firsts_Nil [simp]: "firsts [] = []"
  by (simp add: firsts_def)

lemma firsts_snoc:
  "firsts (xs @ [x]) = (if x \<in> set (firsts xs) then firsts xs else firsts xs @ [x])"
  by (simp add: firsts_def)

lemma set_firsts [simp]: "set (firsts xs) = set xs"
  by (induction xs rule: rev_induct) (auto simp: firsts_snoc)

lemma distinct_firsts [simp]: "distinct (firsts xs)"
  by (induction xs rule: rev_induct) (auto simp: firsts_snoc)

lemma firsts_distinct: "distinct xs \<Longrightarrow> firsts xs = xs"
  by (induction xs rule: rev_induct) (auto simp: firsts_snoc)

lemma firsts_empty_iff [simp]: "firsts xs = [] \<longleftrightarrow> xs = []"
  by (metis set_empty set_firsts)

text \<open>The first value of a list that is not passed over.\<close>

lemma ex_split_Cons:
  "(\<exists>b x a. y # ys = b @ x # a \<and> list_all Q b \<and> P x) \<longleftrightarrow>
   P y \<or> Q y \<and> (\<exists>b x a. ys = b @ x # a \<and> list_all Q b \<and> P x)"
proof
  assume "\<exists>b x a. y # ys = b @ x # a \<and> list_all Q b \<and> P x"
  then obtain b x a where "y # ys = b @ x # a" "list_all Q b" "P x" by blast
  then show "P y \<or> Q y \<and> (\<exists>b x a. ys = b @ x # a \<and> list_all Q b \<and> P x)"
    by (cases b) auto
next
  assume "P y \<or> Q y \<and> (\<exists>b x a. ys = b @ x # a \<and> list_all Q b \<and> P x)"
  then show "\<exists>b x a. y # ys = b @ x # a \<and> list_all Q b \<and> P x"
  proof (elim disjE conjE exE)
    assume "P y"
    then have "y # ys = [] @ y # ys \<and> list_all Q [] \<and> P y" by simp
    then show ?thesis by blast
  next
    fix b x a
    assume "Q y" "ys = b @ x # a" "list_all Q b" "P x"
    then have "y # ys = (y # b) @ x # a \<and> list_all Q (y # b) \<and> P x" by simp
    then show ?thesis by blast
  qed
qed

text \<open>A loop that adds one value for some rows is a filter followed by a map.\<close>

lemma concat_map_if: "concat (map (\<lambda>x. if P x then [f x] else []) xs) = map f (filter P xs)"
  by (induction xs) simp_all

end
