(* ===== verification/GoText.thy ===== *)
theory GoText
  imports Prelude
begin

text \<open>
  What the program uses of Go's strings: a string is its bytes (\<^typ>\<open>string\<close>, one
  \<^typ>\<open>char\<close> per byte), \<open>range\<close> and \<open>utf8.DecodeRuneInString\<close> read runes off it, and
  \<open>strings\<close>, \<open>strconv\<close> and \<open>fmt\<close> work on the bytes.
\<close>

section \<open>Bytes and runes\<close>

text \<open>The code of a byte.\<close>

definition byte :: "char \<Rightarrow> nat" where
  "byte c = (of_char c :: nat)"

definition byte_char :: "nat \<Rightarrow> char" where
  "byte_char n = (char_of n :: char)"

lemma byte_less [simp]: "byte c < 256"
  by (simp add: byte_def)

lemma byte_char_byte [simp]: "byte_char (byte c) = c"
  by (simp add: byte_char_def byte_def)

lemma byte_byte_char [simp]: "n < 256 \<Longrightarrow> byte (byte_char n) = n"
  by (simp add: byte_char_def byte_def)

definition rune_error :: nat where
  "rune_error = 65533"

text \<open>A continuation byte between the given bounds.\<close>

definition cont_in :: "nat \<Rightarrow> nat \<Rightarrow> char \<Rightarrow> bool" where
  "cont_in lo hi c \<longleftrightarrow> lo \<le> byte c \<and> byte c \<le> hi"

text \<open>
  \<open>utf8.DecodeRuneInString\<close>: the first rune and its width in bytes; an encoding that is
  not UTF-8 (too long, a surrogate, past U+10FFFF, cut short) is the error rune of width 1.
  The bounds of the second byte are the library's \<open>acceptRanges\<close>.
\<close>

definition decode_rune :: "string \<Rightarrow> nat \<times> nat" where
  "decode_rune s = (case s of
       [] \<Rightarrow> (rune_error, 0)
     | c0 # t \<Rightarrow> (let b0 = byte c0; bad = (rune_error, 1) in
         if b0 < 128 then (b0, 1)
         else if b0 < 194 then bad
         else if b0 < 224 then
           (case t of c1 # _ \<Rightarrow>
               if cont_in 128 191 c1 then ((b0 - 192) * 64 + (byte c1 - 128), 2) else bad
             | [] \<Rightarrow> bad)
         else if b0 < 240 then
           (case t of c1 # c2 # _ \<Rightarrow>
               if cont_in (if b0 = 224 then 160 else 128) (if b0 = 237 then 159 else 191) c1 \<and>
                  cont_in 128 191 c2
               then ((b0 - 224) * 4096 + (byte c1 - 128) * 64 + (byte c2 - 128), 3) else bad
             | _ \<Rightarrow> bad)
         else if b0 < 245 then
           (case t of c1 # c2 # c3 # _ \<Rightarrow>
               if cont_in (if b0 = 240 then 144 else 128) (if b0 = 244 then 143 else 191) c1 \<and>
                  cont_in 128 191 c2 \<and> cont_in 128 191 c3
               then ((b0 - 240) * 262144 + (byte c1 - 128) * 4096 + (byte c2 - 128) * 64 +
                     (byte c3 - 128), 4) else bad
             | _ \<Rightarrow> bad)
         else bad))"

lemma decode_rune_Nil [simp]: "decode_rune [] = (rune_error, 0)"
  by (simp add: decode_rune_def)

lemma decode_rune_ascii [simp]: "byte c < 128 \<Longrightarrow> decode_rune (c # s) = (byte c, 1)"
  by (simp add: decode_rune_def Let_def)

lemma decode_rune_size: "s \<noteq> [] \<Longrightarrow> 1 \<le> snd (decode_rune s) \<and> snd (decode_rune s) \<le> length s"
  by (cases s) (auto simp: decode_rune_def Let_def split: list.split if_split)

text \<open>
  \<open>for i, r := range s\<close> and \<open>utf8.DecodeRuneInString(s[i:])\<close> in a loop: the runes of
  the string, each with the bytes it was read from.
\<close>

function chunks :: "string \<Rightarrow> (nat \<times> string) list" where
  "chunks s = (if s = [] then [] else
     (let (r, n) = decode_rune s in (r, take n s) # chunks (drop n s)))"
  by pat_completeness auto
termination
proof (relation "measure length", goal_cases)
  case 1
  then show ?case by simp
next
  case (2 s p r n)
  then show ?case using decode_rune_size [of s] by (cases "decode_rune s") auto
qed

declare chunks.simps [simp del]

lemma chunks_Nil [simp]: "chunks [] = []"
  by (simp add: chunks.simps)

lemma chunks_ascii [simp]: "byte c < 128 \<Longrightarrow> chunks (c # s) = (byte c, [c]) # chunks s"
  by (subst chunks.simps) simp

definition runes :: "string \<Rightarrow> nat list" where
  "runes s = map fst (chunks s)"

lemma concat_chunks: "concat (map snd (chunks s)) = s"
proof (induction s rule: chunks.induct)
  case (1 s)
  show ?case
  proof (cases "s = []")
    case False
    obtain r n where d: "decode_rune s = (r, n)" by (cases "decode_rune s")
    with 1 False have "concat (map snd (chunks (drop n s))) = drop n s" by simp
    with False d show ?thesis by (subst chunks.simps) simp
  qed simp
qed

text \<open>\<open>utf8.ValidString\<close>: no rune is the error rune of width 1.\<close>

definition bad_chunk :: "nat \<times> string \<Rightarrow> bool" where
  "bad_chunk p \<longleftrightarrow> fst p = rune_error \<and> length (snd p) = 1"

definition valid_string :: "string \<Rightarrow> bool" where
  "valid_string s \<longleftrightarrow> \<not> list_ex bad_chunk (chunks s)"

text \<open>\<open>strings.IndexFunc(s, f) >= 0\<close>.\<close>

definition any_rune :: "(nat \<Rightarrow> bool) \<Rightarrow> string \<Rightarrow> bool" where
  "any_rune f s \<longleftrightarrow> list_ex (\<lambda>p. f (fst p)) (chunks s)"

text \<open>
  \<open>unicode.IsControl\<close>, and \<open>unicode.In(r, unicode.Cf, unicode.Zl, unicode.Zp)\<close> with
  the format characters of the Unicode tables (the same 170 since Unicode 15).
\<close>

definition is_control :: "nat \<Rightarrow> bool" where
  "is_control r \<longleftrightarrow> r < 32 \<or> (127 \<le> r \<and> r < 160)"

definition in_ranges :: "(nat \<times> nat) list \<Rightarrow> nat \<Rightarrow> bool" where
  "in_ranges rs r \<longleftrightarrow> list_ex (\<lambda>(lo, hi). lo \<le> r \<and> r \<le> hi) rs"

definition format_ranges :: "(nat \<times> nat) list" where
  "format_ranges =
     [(0xAD, 0xAD), (0x600, 0x605), (0x61C, 0x61C), (0x6DD, 0x6DD), (0x70F, 0x70F),
      (0x890, 0x891), (0x8E2, 0x8E2), (0x180E, 0x180E), (0x200B, 0x200F), (0x202A, 0x202E),
      (0x2060, 0x2064), (0x2066, 0x206F), (0xFEFF, 0xFEFF), (0xFFF9, 0xFFFB),
      (0x110BD, 0x110BD), (0x110CD, 0x110CD), (0x13430, 0x1343F), (0x1BCA0, 0x1BCA3),
      (0x1D173, 0x1D17A), (0xE0001, 0xE0001), (0xE0020, 0xE007F)]"

definition separator_ranges :: "(nat \<times> nat) list" where
  "separator_ranges = [(0x2028, 0x2028), (0x2029, 0x2029)]"

text \<open>\<open>unicode.IsSpace\<close>.\<close>

definition is_space :: "nat \<Rightarrow> bool" where
  "is_space r \<longleftrightarrow> in_ranges
     [(9, 13), (32, 32), (0x85, 0x85), (0xA0, 0xA0), (0x1680, 0x1680), (0x2000, 0x200A),
      (0x2028, 0x2029), (0x202F, 0x202F), (0x205F, 0x205F), (0x3000, 0x3000)] r"

text \<open>\<open>string(r)\<close> and \<open>Builder.WriteRune\<close>: UTF-8, the error rune for no scalar value.\<close>

definition scalar :: "nat \<Rightarrow> bool" where
  "scalar r \<longleftrightarrow> r < 0xD800 \<or> (0xE000 \<le> r \<and> r < 0x110000)"

definition encode_scalar :: "nat \<Rightarrow> string" where
  "encode_scalar r =
     (if r < 128 then [byte_char r]
      else if r < 2048 then [byte_char (192 + r div 64), byte_char (128 + r mod 64)]
      else if r < 65536 then
        [byte_char (224 + r div 4096), byte_char (128 + r div 64 mod 64), byte_char (128 + r mod 64)]
      else
        [byte_char (240 + r div 262144), byte_char (128 + r div 4096 mod 64),
         byte_char (128 + r div 64 mod 64), byte_char (128 + r mod 64)])"

definition encode_rune :: "nat \<Rightarrow> string" where
  "encode_rune r = encode_scalar (if scalar r then r else rune_error)"

section \<open>Encoding and decoding\<close>

text \<open>Numbers written with digits of six bits.\<close>

lemma snoc64: "c < 64 \<Longrightarrow> (x * 64 + c) div 64 = (x :: nat)" "c < 64 \<Longrightarrow> (x * 64 + c) mod 64 = c"
  by simp_all

lemma div4096: "r div 4096 = r div 64 div (64 :: nat)"
  by (simp add: div_mult2_eq [symmetric])

lemma div262144: "r div 262144 = r div 64 div 64 div (64 :: nat)"
  by (simp add: div_mult2_eq [symmetric])

lemma digits64_3:
  assumes "r = a * 4096 + b * 64 + (c :: nat)" and "b < 64" and "c < 64"
  shows "r div 4096 = a" "r div 64 mod 64 = b" "r mod 64 = c"
proof -
  have r: "r = (a * 64 + b) * 64 + c" using assms(1) by simp
  show "r div 4096 = a" "r div 64 mod 64 = b" "r mod 64 = c"
    unfolding div4096 unfolding r using assms(2,3) by (simp_all only: snoc64)
qed

lemma digits64_4:
  assumes "r = a * 262144 + b * 4096 + c * 64 + (d :: nat)" and "b < 64" and "c < 64" and "d < 64"
  shows "r div 262144 = a" "r div 4096 mod 64 = b" "r div 64 mod 64 = c" "r mod 64 = d"
proof -
  have r: "r = ((a * 64 + b) * 64 + c) * 64 + d" using assms(1) by simp
  show "r div 262144 = a" "r div 4096 mod 64 = b" "r div 64 mod 64 = c" "r mod 64 = d"
    unfolding div4096 div262144 unfolding r using assms(2,3,4) by (simp_all only: snoc64)
qed

lemma recompose3: "(r :: nat) = r div 4096 * 4096 + r div 64 mod 64 * 64 + r mod 64"
proof -
  have "r = (r div 64 div 64 * 64 + r div 64 mod 64) * 64 + r mod 64" by (simp only: div_mult_mod_eq)
  then show ?thesis unfolding div4096 by (simp only: distrib_right mult.assoc)
qed

lemma recompose4:
  "(r :: nat) = r div 262144 * 262144 + r div 4096 mod 64 * 4096 + r div 64 mod 64 * 64 + r mod 64"
proof -
  have "r = ((r div 64 div 64 div 64 * 64 + r div 64 div 64 mod 64) * 64 + r div 64 mod 64) * 64 + r mod 64"
    by (simp only: div_mult_mod_eq)
  then show ?thesis unfolding div4096 div262144 by (simp only: distrib_right mult.assoc)
qed

lemma encode3: "2048 \<le> r \<Longrightarrow> r < 65536 \<Longrightarrow>
   encode_scalar r = [byte_char (224 + r div 4096), byte_char (128 + r div 64 mod 64), byte_char (128 + r mod 64)]"
  by (simp add: encode_scalar_def)

lemma encode4: "65536 \<le> r \<Longrightarrow>
   encode_scalar r = [byte_char (240 + r div 262144), byte_char (128 + r div 4096 mod 64),
     byte_char (128 + r div 64 mod 64), byte_char (128 + r mod 64)]"
  by (simp add: encode_scalar_def)

lemma scalar_le: "scalar r \<Longrightarrow> r < 0x110000"
  by (auto simp: scalar_def)

lemma decode_encode: "scalar r \<Longrightarrow> decode_rune (encode_scalar r @ s) = (r, length (encode_scalar r))"
proof -
  assume sc: "scalar r"
  consider (1) "r < 128" | (2) "128 \<le> r" "r < 2048" | (3) "2048 \<le> r" "r < 65536" | (4) "65536 \<le> r"
    by linarith
  then show ?thesis
  proof cases
    case 1
    then show ?thesis by (simp add: encode_scalar_def)
  next
    case 2
    then have "2 \<le> r div 64" "r div 64 < 32" by auto
    with 2 show ?thesis
      by (simp add: encode_scalar_def decode_rune_def Let_def cont_in_def)
  next
    case 3
    define a b c where "a = r div 4096" and "b = r div 64 mod 64" and "c = r mod 64"
    have r: "r = a * 4096 + b * 64 + c" unfolding a_def b_def c_def by (rule recompose3)
    have lt: "a < 16" "b < 64" "c < 64" using 3 unfolding a_def b_def c_def by auto
    have lo: "a = 0 \<Longrightarrow> 32 \<le> b" using 3 r lt by auto
    have hi: "a = 13 \<Longrightarrow> b < 32" using sc r lt by (auto simp: scalar_def)
    have enc: "encode_scalar r = [byte_char (224 + a), byte_char (128 + b), byte_char (128 + c)]"
      unfolding a_def b_def c_def using 3 by (rule encode3)
    have "cont_in (if 224 + a = 224 then 160 else 128) (if 224 + a = 237 then 159 else 191) (byte_char (128 + b))"
      and "cont_in 128 191 (byte_char (128 + c))"
      using lt lo hi by (auto simp add: cont_in_def)
    with lt r show ?thesis unfolding enc by (simp add: decode_rune_def Let_def)
  next
    case 4
    define a b c d where "a = r div 262144" and "b = r div 4096 mod 64" and "c = r div 64 mod 64"
      and "d = r mod 64"
    have r: "r = a * 262144 + b * 4096 + c * 64 + d" unfolding a_def b_def c_def d_def by (rule recompose4)
    have lt: "a < 5" "b < 64" "c < 64" "d < 64"
      using scalar_le [OF sc] unfolding a_def b_def c_def d_def by auto
    have lo: "a = 0 \<Longrightarrow> 16 \<le> b" using 4 r lt by auto
    have hi: "a = 4 \<Longrightarrow> b < 16" using scalar_le [OF sc] r lt by auto
    have enc: "encode_scalar r = [byte_char (240 + a), byte_char (128 + b), byte_char (128 + c), byte_char (128 + d)]"
      unfolding a_def b_def c_def d_def using 4 by (rule encode4)
    have "cont_in (if 240 + a = 240 then 144 else 128) (if 240 + a = 244 then 143 else 191) (byte_char (128 + b))"
      and "cont_in 128 191 (byte_char (128 + c))" and "cont_in 128 191 (byte_char (128 + d))"
      using lt lo hi by (auto simp add: cont_in_def)
    with lt r show ?thesis unfolding enc by (simp add: decode_rune_def Let_def)
  qed
qed

lemma encode_scalar_not_Nil [simp]: "encode_scalar r \<noteq> []"
  by (simp add: encode_scalar_def)

lemma chunks_encode: "scalar r \<Longrightarrow> chunks (encode_scalar r @ s) = (r, encode_scalar r) # chunks s"
  by (subst chunks.simps) (simp add: decode_encode)

lemma encode_decode:
  assumes "s \<noteq> []" and "decode_rune s = (r, n)" and "\<not> (r = rune_error \<and> n = 1)"
  shows "scalar r \<and> take n s = encode_scalar r"
proof -
  have bc: "byte_char k = c \<longleftrightarrow> k = byte c" if "k < 256" for k c
    using that by (metis byte_byte_char byte_char_byte)
  obtain c0 t where s: "s = c0 # t" using assms(1) by (cases s) auto
  consider (1) "byte c0 < 128" | (2) "128 \<le> byte c0" "byte c0 < 224" | (3) "224 \<le> byte c0" "byte c0 < 240"
    | (4) "240 \<le> byte c0" by linarith
  then show ?thesis
  proof cases
    case 1
    with assms s show ?thesis by (auto simp: encode_scalar_def scalar_def)
  next
    case 2
    with assms(2,3) s obtain c1 t' where t: "t = c1 # t'" "194 \<le> byte c0" "cont_in 128 191 c1"
      and rn: "r = (byte c0 - 192) * 64 + (byte c1 - 128)" "n = 2"
      by (auto simp: decode_rune_def Let_def split: list.splits if_splits)
    define a b where "a = byte c0 - 192" and "b = byte c1 - 128"
    have ab: "byte c0 = 192 + a" "byte c1 = 128 + b" "2 \<le> a" "a < 32" "b < 64"
      using 2 t by (auto simp: a_def b_def cont_in_def)
    have "r = a * 64 + b" using rn ab by simp
    then have "r div 64 = a" "r mod 64 = b" "128 \<le> r" "r < 2048" using ab by auto
    with ab rn t s show ?thesis
      by (simp add: encode_scalar_def scalar_def bc [symmetric]) (metis bc ab(1,2) byte_char_byte)
  next
    case 3
    with assms(2,3) s obtain c1 c2 t' where t: "t = c1 # c2 # t'"
        "cont_in (if byte c0 = 224 then 160 else 128) (if byte c0 = 237 then 159 else 191) c1" "cont_in 128 191 c2"
      and rn: "r = (byte c0 - 224) * 4096 + (byte c1 - 128) * 64 + (byte c2 - 128)" "n = 3"
      by (auto simp: decode_rune_def Let_def split: list.splits if_splits)
    define a b c where "a = byte c0 - 224" and "b = byte c1 - 128" and "c = byte c2 - 128"
    have ab: "byte c0 = 224 + a" "byte c1 = 128 + b" "byte c2 = 128 + c" "a < 16" "b < 64" "c < 64"
      "a = 0 \<Longrightarrow> 32 \<le> b" "a = 13 \<Longrightarrow> b < 32"
      using 3 t by (auto simp: a_def b_def c_def cont_in_def split: if_splits)
    have r: "r = a * 4096 + b * 64 + c" using rn ab by simp
    note eq = digits64_3 [OF r ab(5,6)]
    have "2048 \<le> r" using ab(7) r by (cases "a = 0") simp_all
    moreover have "r < 65536" using ab(4-6) r by simp
    moreover have "r < 0xD800 \<or> 0xE000 \<le> r"
      using ab(4-6,8) r by (cases "a < 13"; cases "a = 13") simp_all
    ultimately have rng: "2048 \<le> r" "r < 65536" "r < 0xD800 \<or> 0xE000 \<le> r" .
    have "byte_char (224 + a) = c0" "byte_char (128 + b) = c1" "byte_char (128 + c) = c2"
      using ab byte_char_byte by metis+
    then have "take n s = encode_scalar r"
      unfolding encode3 [OF rng(1,2)] eq rn(2) s t(1) by simp
    moreover have "scalar r" using rng unfolding scalar_def by linarith
    ultimately show ?thesis by simp
  next
    case 4
    with assms(2,3) s obtain c1 c2 c3 t' where t: "t = c1 # c2 # c3 # t'" "byte c0 < 245"
        "cont_in (if byte c0 = 240 then 144 else 128) (if byte c0 = 244 then 143 else 191) c1"
        "cont_in 128 191 c2" "cont_in 128 191 c3"
      and rn: "r = (byte c0 - 240) * 262144 + (byte c1 - 128) * 4096 + (byte c2 - 128) * 64 + (byte c3 - 128)" "n = 4"
      by (auto simp: decode_rune_def Let_def split: list.splits if_splits)
    define a b c d where "a = byte c0 - 240" and "b = byte c1 - 128" and "c = byte c2 - 128" and "d = byte c3 - 128"
    have ab: "byte c0 = 240 + a" "byte c1 = 128 + b" "byte c2 = 128 + c" "byte c3 = 128 + d"
      "a < 5" "b < 64" "c < 64" "d < 64" "a = 0 \<Longrightarrow> 16 \<le> b" "a = 4 \<Longrightarrow> b < 16"
      using 4 t by (auto simp: a_def b_def c_def d_def cont_in_def split: if_splits)
    have r: "r = a * 262144 + b * 4096 + c * 64 + d" using rn ab by simp
    note eq = digits64_4 [OF r ab(6,7,8)]
    have "65536 \<le> r" using ab(9) r by (cases "a = 0") simp_all
    moreover have "r < 0x110000" using ab(5-8,10) r by (cases "a = 4") simp_all
    ultimately have rng: "65536 \<le> r" "r < 0x110000" .
    have "byte_char (240 + a) = c0" "byte_char (128 + b) = c1" "byte_char (128 + c) = c2" "byte_char (128 + d) = c3"
      using ab byte_char_byte by metis+
    then have "take n s = encode_scalar r"
      unfolding encode4 [OF rng(1)] eq rn(2) s t(1) by simp
    moreover have "scalar r" using rng unfolding scalar_def by linarith
    ultimately show ?thesis by simp
  qed
qed

lemma chunk_cases:
  assumes "p \<in> set (chunks s)"
  shows "(bad_chunk p) \<or> (scalar (fst p) \<and> snd p = encode_scalar (fst p))"
  using assms
proof (induction s rule: chunks.induct)
  case (1 s)
  show ?case
  proof (cases "s = []")
    case False
    obtain r n where d: "decode_rune s = (r, n)" by (cases "decode_rune s")
    have n: "1 \<le> n" "n \<le> length s" using decode_rune_size [OF False] d by simp_all
    from "1.prems" False d have "p = (r, take n s) \<or> p \<in> set (chunks (drop n s))"
      by (subst (asm) chunks.simps) simp
    then show ?thesis
    proof
      assume "p = (r, take n s)"
      then show ?thesis using encode_decode [OF False d] n by (auto simp: bad_chunk_def)
    qed (use 1 False d in simp)
  qed (use "1.prems" in simp)
qed

text \<open>A string whose runes are all ASCII is read byte by byte.\<close>

lemma decode_rune_high:
  assumes "128 \<le> byte c"
  shows "128 \<le> fst (decode_rune (c # s))"
proof -
  obtain r n where d: "decode_rune (c # s) = (r, n)" by (cases "decode_rune (c # s)")
  have "128 \<le> r"
  proof (cases "r = rune_error \<and> n = 1")
    case True
    then show ?thesis by (simp add: rune_error_def)
  next
    case False
    have n: "1 \<le> n" using decode_rune_size [of "c # s"] d by simp
    from encode_decode [OF _ d False] have e: "take n (c # s) = encode_scalar r" by simp
    show ?thesis
    proof (rule ccontr)
      assume "\<not> 128 \<le> r"
      then have "r < 128" "hd (encode_scalar r) = byte_char r" by (simp_all add: encode_scalar_def)
      moreover have "hd (take n (c # s)) = c" using n by (cases n) simp_all
      ultimately have "byte c = r" using e byte_byte_char [of r] by simp
      with \<open>r < 128\<close> show False using assms by simp
    qed
  qed
  then show ?thesis by (simp add: d)
qed

lemma runes_ascii:
  "\<forall>r\<in>set (runes s). r < 128 \<Longrightarrow> runes s = map byte s"
proof (induction s)
  case Nil
  then show ?case by (simp add: runes_def)
next
  case (Cons c s)
  have "byte c < 128"
  proof (rule ccontr)
    assume "\<not> byte c < 128"
    then have "128 \<le> fst (decode_rune (c # s))" by (intro decode_rune_high) simp
    moreover have "fst (decode_rune (c # s)) \<in> set (runes (c # s))"
      unfolding runes_def by (subst chunks.simps) (simp add: split_beta)
    ultimately show False using Cons.prems by fastforce
  qed
  with Cons show ?case by (simp add: runes_def)
qed

lemma runes_of_ascii: "\<forall>c\<in>set s. byte c < 128 \<Longrightarrow> runes s = map byte s"
  by (induction s) (simp_all add: runes_def)

text \<open>The bytes of a rune: itself below 128, bytes above ASCII only from there on.\<close>

lemma bad_chunk_high: "p \<in> set (chunks s) \<Longrightarrow> bad_chunk p \<Longrightarrow> \<exists>c. snd p = [c] \<and> 128 \<le> byte c"
proof (induction s rule: chunks.induct)
  case (1 s)
  show ?case
  proof (cases s)
    case Nil
    with 1 show ?thesis by simp
  next
    case (Cons c t)
    obtain r n where d: "decode_rune s = (r, n)" by (cases "decode_rune s")
    from "1.prems"(1) Cons d have "p = (r, take n s) \<or> p \<in> set (chunks (drop n s))"
      by (subst (asm) chunks.simps) simp
    then show ?thesis
    proof
      assume p: "p = (r, take n s)"
      with "1.prems"(2) have n: "r = rune_error" "length (take n s) = 1" by (simp_all add: bad_chunk_def)
      then have "take n s = [c]" using Cons by (cases n; cases t) auto
      moreover have "128 \<le> byte c"
      proof (rule ccontr)
        assume "\<not> 128 \<le> byte c"
        then have "decode_rune s = (byte c, 1)" using Cons by simp
        with d n(1) have "byte c = 65533" by (simp add: rune_error_def)
        with byte_less [of c] show False by simp
      qed
      ultimately show ?thesis using p by simp
    qed (use 1 Cons d in simp)
  qed
qed

lemma encode_scalar_high:
  assumes "scalar r" and "128 \<le> r" and "c \<in> set (encode_scalar r)"
  shows "128 \<le> byte c"
proof -
  have "r < 0x110000" using assms(1) by (rule scalar_le)
  then have "r div 262144 < 5" by auto
  moreover have "r < 2048 \<Longrightarrow> r div 64 < 32" "r < 65536 \<Longrightarrow> r div 4096 < 16"
    "r div 64 mod 64 < 64" "r mod 64 < 64" "r div 4096 mod 64 < 64" by auto
  ultimately show ?thesis using assms(2,3) by (auto simp: encode_scalar_def split: if_splits)
qed

lemma chunk_bytes:
  assumes "p \<in> set (chunks s)"
  shows "fst p < 128 \<and> snd p = [byte_char (fst p)] \<or> 128 \<le> fst p \<and> (\<forall>c\<in>set (snd p). 128 \<le> byte c)"
proof -
  from chunk_cases [OF assms] consider "bad_chunk p" | "scalar (fst p)" "snd p = encode_scalar (fst p)" by blast
  then show ?thesis
  proof cases
    case 1
    then show ?thesis using bad_chunk_high [OF assms] by (auto simp: bad_chunk_def rune_error_def)
  next
    case 2
    show ?thesis
    proof (cases "fst p < 128")
      case True
      then show ?thesis using 2 by (simp add: encode_scalar_def)
    next
      case False
      then show ?thesis using 2 encode_scalar_high [of "fst p"] by auto
    qed
  qed
qed

section \<open>Package strings\<close>

definition has_prefix :: "string \<Rightarrow> string \<Rightarrow> bool" where
  "has_prefix s p \<longleftrightarrow> take (length p) s = p"

text \<open>\<open>strings.Join\<close>.\<close>

fun join :: "string \<Rightarrow> string list \<Rightarrow> string" where
  "join sep [] = []"
| "join sep [x] = x"
| "join sep (x # y # xs) = x @ sep @ join sep (y # xs)"

text \<open>\<open>strings.ReplaceAll\<close> of one byte.\<close>

definition replace_byte :: "char \<Rightarrow> string \<Rightarrow> string \<Rightarrow> string" where
  "replace_byte c new s = concat (map (\<lambda>x. if x = c then new else [x]) s)"

text \<open>\<open>strings.ReplaceAll\<close> of a non-empty string: from the left, without overlap.\<close>

function replace_all :: "string \<Rightarrow> string \<Rightarrow> string \<Rightarrow> string" where
  "replace_all old new s =
     (if s = [] \<or> old = [] then s
      else if has_prefix s old then new @ replace_all old new (drop (length old) s)
      else hd s # replace_all old new (tl s))"
  by pat_completeness auto
termination
  by (relation "measure (\<lambda>(old, new, s). length s)") auto

declare replace_all.simps [simp del]

text \<open>\<open>strings.Cut(s, sep)\<close> at the first byte \<open>sep\<close>.\<close>

definition cut_at :: "char \<Rightarrow> string \<Rightarrow> (string \<times> string) option" where
  "cut_at c s = (case dropWhile (\<lambda>x. x \<noteq> c) s of
       [] \<Rightarrow> None
     | _ # after \<Rightarrow> Some (takeWhile (\<lambda>x. x \<noteq> c) s, after))"

text \<open>\<open>strings.Split(s, sep)\<close> at every byte \<open>sep\<close>.\<close>

fun split_at :: "char \<Rightarrow> string \<Rightarrow> string list" where
  "split_at c [] = [[]]"
| "split_at c (x # xs) =
     (if x = c then [] # split_at c xs
      else (case split_at c xs of [] \<Rightarrow> [[x]] | w # ws \<Rightarrow> (x # w) # ws))"

text \<open>\<open>strings.TrimSpace\<close>: spaces off both ends; and \<open>strings.Fields\<close>.\<close>

definition space_chunk :: "nat \<times> string \<Rightarrow> bool" where
  "space_chunk p \<longleftrightarrow> is_space (fst p)"

definition trim_space :: "string \<Rightarrow> string" where
  "trim_space s = concat (map snd (rev (dropWhile space_chunk (rev (dropWhile space_chunk (chunks s))))))"

fun fields_of :: "(nat \<times> string) list \<Rightarrow> string \<Rightarrow> string list" where
  "fields_of [] w = (if w = [] then [] else [w])"
| "fields_of (p # ps) w =
     (if space_chunk p then (if w = [] then fields_of ps [] else w # fields_of ps [])
      else fields_of ps (w @ snd p))"

definition split_fields :: "string \<Rightarrow> string list" where
  "split_fields s = fields_of (chunks s) []"

text \<open>\<open>strings.TrimRight(s, cutset)\<close> of one byte.\<close>

definition trim_right :: "char \<Rightarrow> string \<Rightarrow> string" where
  "trim_right c s = rev (dropWhile (\<lambda>x. x = c) (rev s))"

text \<open>
  \<open>strings.ToLower\<close>, where the program only compares the result with words of ASCII
  letters other than \<open>i\<close> and \<open>k\<close>: no rune outside ASCII lower-cases to one of those
  letters, so folding \<open>A\<close> to \<open>Z\<close> decides the same. (Two runes do map into ASCII and are left as they are
  here: U+212A, the Kelvin sign, to \<open>k\<close> and U+0130 to \<open>i\<close>.)
\<close>

definition lower_byte :: "char \<Rightarrow> char" where
  "lower_byte c = (if 65 \<le> byte c \<and> byte c \<le> 90 then byte_char (byte c + 32) else c)"

definition to_lower :: "string \<Rightarrow> string" where
  "to_lower s = map lower_byte s"

text \<open>
  \<open>strings.EqualFold\<close>: rune by rune under simple case folding. \<open>orbit\<close> gives the
  representative of the folding orbit of a rune outside ASCII; the orbits that hold an ASCII letter
  are written out (K with the Kelvin sign, S with the long s).
\<close>

definition fold_rune :: "(nat \<Rightarrow> nat) \<Rightarrow> nat \<Rightarrow> nat" where
  "fold_rune orbit r =
     (if 65 \<le> r \<and> r \<le> 90 then r + 32
      else if r < 128 then r
      else if r = 0x212A then 107
      else if r = 0x17F then 115
      else orbit r)"

definition equal_fold :: "(nat \<Rightarrow> nat) \<Rightarrow> string \<Rightarrow> string \<Rightarrow> bool" where
  "equal_fold orbit s t \<longleftrightarrow> map (fold_rune orbit) (runes s) = map (fold_rune orbit) (runes t)"

section \<open>Numbers as text\<close>

definition digit_char :: "nat \<Rightarrow> char" where
  "digit_char d = byte_char (if d < 10 then 48 + d else 87 + d)"

text \<open>The digits of a number in a base, at least one.\<close>

function digits_in :: "nat \<Rightarrow> nat \<Rightarrow> string" where
  "digits_in b n =
     (if n < b \<or> b \<le> 1 then [digit_char n] else digits_in b (n div b) @ [digit_char (n mod b)])"
  by pat_completeness auto
termination
  by (relation "measure snd") auto

declare digits_in.simps [simp del]

definition dec_nat :: "nat \<Rightarrow> string" where
  "dec_nat n = digits_in 10 n"

text \<open>\<open>%d\<close>, \<open>strconv.Itoa\<close> and \<open>fmt.Sprint\<close> of an integer.\<close>

definition fmt_d :: "int \<Rightarrow> string" where
  "fmt_d i = (if i < 0 then ''-'' @ dec_nat (nat (- i)) else dec_nat (nat i))"

definition pad_left :: "char \<Rightarrow> nat \<Rightarrow> string \<Rightarrow> string" where
  "pad_left c w s = replicate (w - length s) c @ s"

text \<open>\<open>%0wx\<close>: at least \<open>w\<close> hexadecimal digits.\<close>

definition fmt_hex :: "nat \<Rightarrow> nat \<Rightarrow> string" where
  "fmt_hex w n = pad_left (CHR ''0'') w (digits_in 16 n)"

definition is_digit :: "char \<Rightarrow> bool" where
  "is_digit c \<longleftrightarrow> 48 \<le> byte c \<and> byte c \<le> 57"

fun read_nat :: "nat \<Rightarrow> string \<Rightarrow> nat" where
  "read_nat acc [] = acc"
| "read_nat acc (c # cs) = read_nat (10 * acc + (byte c - 48)) cs"

text \<open>
  \<open>strconv.Atoi\<close> and \<open>strconv.ParseInt(s, 10, bits)\<close>: an optional sign, digits, and
  a value in range; anything else is an error.
\<close>

definition parse_int :: "nat \<Rightarrow> string \<Rightarrow> int option" where
  "parse_int bits s =
     (let (neg, ds) = (case s of
            [] \<Rightarrow> (False, [])
          | c # cs \<Rightarrow> if c = CHR ''-'' then (True, cs) else if c = CHR ''+'' then (False, cs) else (False, s));
        n = int (read_nat 0 ds);
        i = (if neg then - n else n)
      in if ds = [] \<or> \<not> list_all is_digit ds then None
         else if - (2 ^ (bits - 1)) \<le> i \<and> i < 2 ^ (bits - 1) then Some i else None)"

definition atoi :: "string \<Rightarrow> int option" where
  "atoi s = parse_int 64 s"

text \<open>Decimal numbers read back.\<close>

lemma dec_nat_rec: "dec_nat n = (if n < 10 then [digit_char n] else dec_nat (n div 10) @ [digit_char (n mod 10)])"
  unfolding dec_nat_def by (subst digits_in.simps) simp

lemma byte_digit_char: "d < 10 \<Longrightarrow> byte (digit_char d) = 48 + d"
  by (simp add: digit_char_def)

lemma digits_dec_nat: "list_all is_digit (dec_nat n)"
proof (induction n rule: less_induct)
  case (less n)
  have d: "d < 10 \<Longrightarrow> is_digit (digit_char d)" for d by (simp add: is_digit_def byte_digit_char)
  show ?case
  proof (cases "n < 10")
    case True
    then show ?thesis by (subst dec_nat_rec) (simp add: d)
  next
    case False
    then have "n div 10 < n" by simp
    with less False show ?thesis by (subst dec_nat_rec) (simp add: d)
  qed
qed

lemma dec_nat_not_Nil [simp]: "dec_nat n \<noteq> []"
  by (subst dec_nat_rec) simp

lemma read_nat_append: "read_nat acc (s @ t) = read_nat (read_nat acc s) t"
  by (induction acc s rule: read_nat.induct) simp_all

lemma read_dec_nat: "read_nat 0 (dec_nat n) = n"
proof (induction n rule: less_induct)
  case (less n)
  show ?case
  proof (cases "n < 10")
    case True
    then show ?thesis by (subst dec_nat_rec) (simp add: byte_digit_char)
  next
    case False
    then have "n div 10 < n" by simp
    with less False show ?thesis
      by (subst dec_nat_rec) (simp add: read_nat_append byte_digit_char)
  qed
qed

lemma atoi_dec_nat:
  assumes "n < 2 ^ 63"
  shows "atoi (dec_nat n) = Some (int n)"
proof -
  obtain c cs where d: "dec_nat n = c # cs" by (cases "dec_nat n") auto
  have "is_digit c" using digits_dec_nat [of n] by (simp add: d)
  then have "c \<noteq> CHR ''-''" "c \<noteq> CHR ''+''" by (auto simp: is_digit_def byte_def)
  moreover have "int n < 2 ^ 63" using assms by (metis of_nat_less_iff of_nat_numeral of_nat_power)
  ultimately show ?thesis
    using digits_dec_nat [of n] read_dec_nat [of n]
    by (simp add: atoi_def parse_int_def d)
qed

section \<open>Strings that are UTF-8\<close>

text \<open>A valid string is the encodings of its runes, and what follows it is read on its own.\<close>

lemma chunks_concat:
  "\<forall>p\<in>set ps. scalar (fst p) \<and> snd p = encode_scalar (fst p) \<Longrightarrow>
   chunks (concat (map snd ps) @ t) = ps @ chunks t"
proof (induction ps)
  case (Cons p ps)
  then have "chunks (encode_scalar (fst p) @ concat (map snd ps) @ t) =
      (fst p, encode_scalar (fst p)) # chunks (concat (map snd ps) @ t)"
    by (intro chunks_encode) simp
  with Cons show ?case by (cases p) simp
qed simp

lemma valid_chunk: "valid_string s \<Longrightarrow> p \<in> set (chunks s) \<Longrightarrow> scalar (fst p) \<and> snd p = encode_scalar (fst p)"
  using chunk_cases [of p s] by (auto simp: valid_string_def list_ex_iff)

lemma chunks_append: "valid_string s \<Longrightarrow> chunks (s @ t) = chunks s @ chunks t"
  using chunks_concat [of "chunks s" t] valid_chunk [of s] by (simp add: concat_chunks)

lemma runes_append: "valid_string s \<Longrightarrow> runes (s @ t) = runes s @ runes t"
  by (simp add: runes_def chunks_append)

lemma encode_runes: "valid_string s \<Longrightarrow> concat (map encode_rune (runes s)) = s"
proof -
  assume v: "valid_string s"
  have "encode_rune (fst p) = snd p" if "p \<in> set (chunks s)" for p
    using valid_chunk [OF v that] by (simp add: encode_rune_def)
  then have "map (\<lambda>p. encode_rune (fst p)) (chunks s) = map snd (chunks s)" by simp
  then have "concat (map (\<lambda>p. encode_rune (fst p)) (chunks s)) = s" by (simp only: concat_chunks)
  then show ?thesis by (simp add: runes_def comp_def)
qed

lemma valid_ascii: "\<forall>c\<in>set s. byte c < 128 \<Longrightarrow> valid_string s"
proof (induction s)
  case (Cons c s)
  moreover from this have "byte c \<noteq> 65533" by simp
  ultimately show ?case by (simp add: valid_string_def bad_chunk_def rune_error_def)
qed (simp add: valid_string_def)

lemma valid_append: "valid_string s \<Longrightarrow> valid_string t \<Longrightarrow> valid_string (s @ t)"
  by (simp add: valid_string_def chunks_append [unfolded valid_string_def])

text \<open>Replacing an ASCII byte replaces the rune.\<close>

lemma runes_replace_byte:
  assumes "valid_string s" and c: "byte c < 128" and new: "\<forall>x\<in>set new. byte x < 128"
  shows "runes (replace_byte c new s) = concat (map (\<lambda>r. if r = byte c then map byte new else [r]) (runes s))"
proof -
  have enc: "replace_byte c new (encode_scalar r) = (if r = byte c then new else encode_scalar r)" if "scalar r" for r
  proof (cases "r < 128")
    case True
    then show ?thesis by (auto simp: encode_scalar_def replace_byte_def)
  next
    case False
    then have "c \<notin> set (encode_scalar r)" using encode_scalar_high [OF that, of c] c by auto
    moreover have "c \<notin> set w \<Longrightarrow> replace_byte c new w = w" for w
      by (induction w) (auto simp: replace_byte_def)
    ultimately have "replace_byte c new (encode_scalar r) = encode_scalar r" by simp
    then show ?thesis using False c by auto
  qed
  have "\<forall>p\<in>set ps. scalar (fst p) \<and> snd p = encode_scalar (fst p) \<Longrightarrow>
      runes (replace_byte c new (concat (map snd ps))) =
      concat (map (\<lambda>r. if r = byte c then map byte new else [r]) (map fst ps))" for ps
  proof (induction ps)
    case (Cons p ps)
    then have "replace_byte c new (concat (map snd (p # ps))) =
        (if fst p = byte c then new else encode_scalar (fst p)) @ replace_byte c new (concat (map snd ps))"
      using enc [of "fst p"] by (simp add: replace_byte_def)
    moreover have "runes (encode_scalar (fst p) @ t) = fst p # runes t" for t
      using Cons.prems by (simp add: runes_def chunks_encode)
    moreover have "runes (new @ t) = map byte new @ runes t" for t
      using new by (simp add: runes_append valid_ascii runes_of_ascii)
    ultimately show ?case using Cons by simp
  qed (simp add: replace_byte_def runes_def)
  from this [of "chunks s"] show ?thesis
    using valid_chunk [OF assms(1)] by (simp add: concat_chunks runes_def)
qed

lemma valid_replace_byte:
  assumes "valid_string s" and c: "byte c < 128" and new: "\<forall>x\<in>set new. byte x < 128"
  shows "valid_string (replace_byte c new s)"
proof -
  have valid_enc: "valid_string (encode_scalar r)" if "scalar r" for r
    using chunks_encode [OF that, of "[]"] that
    by (auto simp: valid_string_def bad_chunk_def rune_error_def encode_scalar_def)
  have one: "valid_string (replace_byte c new (encode_scalar r))" if "scalar r" for r
  proof (cases "r < 128")
    case True
    then show ?thesis using valid_enc [OF that] new
      by (auto simp: encode_scalar_def replace_byte_def intro: valid_ascii)
  next
    case False
    then have "c \<notin> set (encode_scalar r)" using encode_scalar_high [OF that, of c] c by auto
    moreover have "c \<notin> set w \<Longrightarrow> replace_byte c new w = w" for w
      by (induction w) (auto simp: replace_byte_def)
    ultimately show ?thesis using valid_enc [OF that] by simp
  qed
  have "\<forall>p\<in>set ps. scalar (fst p) \<and> snd p = encode_scalar (fst p) \<Longrightarrow>
      valid_string (replace_byte c new (concat (map snd ps)))" for ps
  proof (induction ps)
    case (Cons p ps)
    then have "replace_byte c new (concat (map snd (p # ps))) =
        replace_byte c new (encode_scalar (fst p)) @ replace_byte c new (concat (map snd ps))"
      by (simp add: replace_byte_def)
    with Cons one show ?case by (simp add: valid_append)
  qed (simp add: replace_byte_def valid_string_def)
  from this [of "chunks s"] show ?thesis
    using valid_chunk [OF assms(1)] by (simp add: concat_chunks)
qed

end
