(* ===== verification/GoFloat.thy ===== *)
theory GoFloat
  imports GoText
begin

text \<open>
  Go's \<open>float64\<close> and \<open>float32\<close>: IEEE 754 values with exact rational content, rounded to
  nearest even after every operation, and the ways the program prints and reads them. A float is
  not-a-number, an infinity, minus zero or a rational number; the two widths differ in the
  rounding only, so one type serves both.
\<close>

section \<open>Values and comparison\<close>

datatype flt = FNaN | FInf bool | FNegZero | Fin rat

text \<open>\<open>FInf True\<close> is minus infinity; \<open>Fin 0\<close> is plus zero.\<close>

fun f_rank :: "flt \<Rightarrow> int \<times> rat" where
  "f_rank FNaN = (0, 0)"
| "f_rank (FInf neg) = (if neg then -1 else 1, 0)"
| "f_rank FNegZero = (0, 0)"
| "f_rank (Fin q) = (0, q)"

definition f_less :: "flt \<Rightarrow> flt \<Rightarrow> bool" where
  "f_less x y \<longleftrightarrow> x \<noteq> FNaN \<and> y \<noteq> FNaN \<and>
     (fst (f_rank x) < fst (f_rank y) \<or>
      fst (f_rank x) = fst (f_rank y) \<and> snd (f_rank x) < snd (f_rank y))"

definition f_eq :: "flt \<Rightarrow> flt \<Rightarrow> bool" where
  "f_eq x y \<longleftrightarrow> x \<noteq> FNaN \<and> y \<noteq> FNaN \<and> f_rank x = f_rank y"

definition f_le :: "flt \<Rightarrow> flt \<Rightarrow> bool" where
  "f_le x y \<longleftrightarrow> f_less x y \<or> f_eq x y"

lemma f_less_Fin [simp]: "f_less (Fin p) (Fin q) \<longleftrightarrow> p < q"
  by (simp add: f_less_def)

lemma f_le_Fin [simp]: "f_le (Fin p) (Fin q) \<longleftrightarrow> p \<le> q"
  by (auto simp: f_le_def f_less_def f_eq_def)

lemma f_eq_Fin [simp]: "f_eq (Fin p) (Fin q) \<longleftrightarrow> p = q"
  by (simp add: f_eq_def)

lemma f_less_irrefl [simp]: "\<not> f_less x x"
  by (simp add: f_less_def)

lemma f_less_trans: "f_less x y \<Longrightarrow> f_less y z \<Longrightarrow> f_less x z"
  by (auto simp: f_less_def)

lemma f_less_linear: "x \<noteq> FNaN \<Longrightarrow> y \<noteq> FNaN \<Longrightarrow> f_less x y \<or> f_eq x y \<or> f_less y x"
  by (auto simp: f_less_def f_eq_def prod_eq_iff)

lemma f_not_less: "x \<noteq> FNaN \<Longrightarrow> y \<noteq> FNaN \<Longrightarrow> \<not> f_less x y \<longleftrightarrow> f_le y x"
  by (auto simp: f_less_def f_eq_def f_le_def prod_eq_iff)

lemma f_eq_not_less: "f_eq x y \<Longrightarrow> \<not> f_less x y \<and> \<not> f_less y x"
  by (auto simp: f_less_def f_eq_def)

lemma f_eq_iff_level: "x \<noteq> FNaN \<Longrightarrow> y \<noteq> FNaN \<Longrightarrow> f_eq x y \<longleftrightarrow> \<not> f_less x y \<and> \<not> f_less y x"
  using f_less_linear [of x y] f_eq_not_less [of x y] by blast

text \<open>On values that are numbers the comparison is a strict weak order; NaN breaks it.\<close>

lemma slice_order_f_less: "slice_order (\<lambda>x. key x \<noteq> FNaN) (\<lambda>x y. f_less (key x) (key y))"
  by (rule slice_order.intro) (auto simp: f_less_def)

lemma slice_order_f_greater: "slice_order (\<lambda>x. key x \<noteq> FNaN) (\<lambda>x y. f_less (key y) (key x))"
  by (rule slice_order.intro) (auto simp: f_less_def)

section \<open>Rounding\<close>

text \<open>The nearest integer, the even one of two.\<close>

definition round_even :: "rat \<Rightarrow> int" where
  "round_even q =
     (let f = \<lfloor>q\<rfloor>; r = q - of_int f
      in if r < 1 / 2 then f else if 1 / 2 < r then f + 1 else if even f then f else f + 1)"

definition pow2 :: "int \<Rightarrow> rat" where
  "pow2 e = (if 0 \<le> e then 2 ^ nat e else 1 / 2 ^ nat (- e))"

function bitlen :: "nat \<Rightarrow> nat" where
  "bitlen n = (if n = 0 then 0 else Suc (bitlen (n div 2)))"
  by pat_completeness auto
termination
  by (relation "measure id") auto

declare bitlen.simps [simp del]

text \<open>The largest \<open>e\<close> with \<open>2\<^sup>e \<le> q\<close>, for a positive number.\<close>

definition ilog2 :: "rat \<Rightarrow> int" where
  "ilog2 q =
     (let (a, b) = quotient_of q; e = int (bitlen (nat a)) - int (bitlen (nat b))
      in if pow2 e \<le> q then e else e - 1)"

text \<open>
  Round a rational number to a format of \<open>p\<close> significant bits whose smallest positive value
  is \<open>2\<^sup>emin\<close> and whose values lie below \<open>2\<^sup>emax\<close>; a result of zero keeps the sign.
\<close>

definition round_fmt :: "nat \<Rightarrow> int \<Rightarrow> int \<Rightarrow> rat \<Rightarrow> flt" where
  "round_fmt p emin emax q =
     (if q = 0 then Fin 0
      else let e = max (ilog2 \<bar>q\<bar> - int (p - 1)) emin;
               r = of_int (round_even (q / pow2 e)) * pow2 e
           in if pow2 emax \<le> \<bar>r\<bar> then FInf (q < 0)
              else if r = 0 \<and> q < 0 then FNegZero
              else Fin r)"

lemma round_fmt_number: "round_fmt p emin emax q \<noteq> FNaN"
  by (simp add: round_fmt_def Let_def)

definition rnd64 :: "rat \<Rightarrow> flt" where
  "rnd64 q = round_fmt 53 (-1074) 1024 q"

definition rnd32 :: "rat \<Rightarrow> flt" where
  "rnd32 q = round_fmt 24 (-149) 128 q"

lemma round_even_of_int [simp]: "round_even (of_int i) = i"
  by (simp add: round_even_def)

lemma round_even_bounds: "\<bar>of_int (round_even q) - q\<bar> \<le> 1 / 2"
proof -
  have "of_int \<lfloor>q\<rfloor> \<le> q" "q < of_int \<lfloor>q\<rfloor> + 1" by linarith+
  then show ?thesis by (simp add: round_even_def Let_def)
qed

lemma pow2_pos [simp]: "0 < pow2 e"
  by (simp add: pow2_def)

lemma pow2_not_0 [simp]: "pow2 e \<noteq> 0" and abs_pow2 [simp]: "\<bar>pow2 e\<bar> = pow2 e"
  using pow2_pos [of e] by (simp_all del: pow2_pos)

lemma pow2_add: "pow2 (a + b) = pow2 a * pow2 b"
proof -
  have "pow2 e = (2 :: rat) powi e" for e
    by (cases "0 \<le> e") (simp_all only: pow2_def power_int_def if_True if_False power_inverse divide_inverse mult_1_left)
  then show ?thesis by (simp add: power_int_add)
qed

lemma bitlen_0 [simp]: "bitlen 0 = 0"
  by (simp add: bitlen.simps)

lemma bitlen_1 [simp]: "bitlen (Suc 0) = Suc 0"
  by (subst bitlen.simps) simp

lemma bitlen_bounds: "0 < n \<Longrightarrow> 2 ^ (bitlen n - 1) \<le> n \<and> n < 2 ^ bitlen n \<and> 0 < bitlen n"
proof (induction n rule: bitlen.induct)
  case (1 n)
  show ?case
  proof (cases "n = 1")
    case True
    then show ?thesis by simp
  next
    case False
    with 1 have ih: "2 ^ (bitlen (n div 2) - 1) \<le> n div 2" "n div 2 < 2 ^ bitlen (n div 2)" "0 < bitlen (n div 2)"
      by auto
    have step: "bitlen n = Suc (bitlen (n div 2))" using 1(2) by (simp add: bitlen.simps [of n])
    obtain k where k: "bitlen (n div 2) = Suc k" using ih(3) by (cases "bitlen (n div 2)") auto
    show ?thesis using ih(1,2) unfolding step k by auto
  qed
qed

lemma pow2_of_nat: "pow2 (int n) = 2 ^ n"
  by (simp add: pow2_def)

lemma pow2_diff: "pow2 (a - b) = pow2 a / pow2 b"
  using pow2_add [of "a - b" b] by (simp add: field_simps)

lemma pow2_mono: "a \<le> b \<Longrightarrow> pow2 a \<le> pow2 b"
proof -
  assume "a \<le> b"
  then obtain n where b: "b = a + int n" using zle_iff_zadd by blast
  have "1 \<le> (2 :: rat) ^ n" by simp
  then show ?thesis unfolding b pow2_add pow2_of_nat by simp
qed

lemma pow2_less_imp: "pow2 a < pow2 b \<Longrightarrow> a < b"
  by (meson linorder_not_less pow2_mono)

lemma ilog2_bounds:
  assumes "0 < q"
  shows "pow2 (ilog2 q) \<le> q \<and> q < pow2 (ilog2 q + 1)"
proof -
  obtain a b where ab: "quotient_of q = (a, b)" by force
  have b: "0 < b" using ab quotient_of_denom_pos by blast
  have q: "q = of_int a / of_int b" using ab by (rule quotient_of_div)
  have a: "0 < a" using assms b unfolding q by (simp add: zero_less_divide_iff)
  define na nb where "na = nat a" and "nb = nat b"
  have q': "q = of_nat na / of_nat nb" using a b by (simp add: q na_def nb_def)
  have pos: "0 < na" "0 < nb" using a b by (simp_all add: na_def nb_def)
  define la lb where "la = bitlen na" and "lb = bitlen nb"
  have A: "(2 :: rat) ^ (la - 1) \<le> of_nat na" "of_nat na < (2 :: rat) ^ la" "0 < la"
    using bitlen_bounds [OF pos(1)] unfolding la_def
    by (metis of_nat_le_iff of_nat_numeral of_nat_power,
        metis of_nat_less_iff of_nat_numeral of_nat_power, simp)
  have B: "(2 :: rat) ^ (lb - 1) \<le> of_nat nb" "of_nat nb < (2 :: rat) ^ lb" "0 < lb"
    using bitlen_bounds [OF pos(2)] unfolding lb_def
    by (metis of_nat_le_iff of_nat_numeral of_nat_power,
        metis of_nat_less_iff of_nat_numeral of_nat_power, simp)
  define e where "e = int la - int lb"
  have pos2: "(0 :: rat) < of_nat nb" using pos by simp
  have hi: "q < pow2 (e + 1)"
  proof -
    have "pow2 (e + 1) = 2 ^ la / 2 ^ (lb - 1)"
      using B(3) pow2_diff [of "int la" "int (lb - 1)"]
      by (simp add: e_def pow2_of_nat [symmetric] algebra_simps)
    moreover have "of_nat na / of_nat nb < (2 :: rat) ^ la / 2 ^ (lb - 1)"
      using A B pos2 by (intro frac_less) simp_all
    ultimately show ?thesis by (simp add: q')
  qed
  have lo: "pow2 (e - 1) \<le> q"
  proof -
    have "pow2 (e - 1) = 2 ^ (la - 1) / 2 ^ lb"
      using A(3) pow2_diff [of "int (la - 1)" "int lb"]
      by (simp add: e_def pow2_of_nat [symmetric] algebra_simps)
    moreover have "(2 :: rat) ^ (la - 1) / 2 ^ lb \<le> of_nat na / of_nat nb"
      using A B pos2 by (intro frac_le) simp_all
    ultimately show ?thesis by (simp add: q')
  qed
  have "ilog2 q = (if pow2 e \<le> q then e else e - 1)"
    by (simp add: ilog2_def ab e_def la_def lb_def na_def nb_def)
  with hi lo show ?thesis by auto
qed

text \<open>A value the format holds is not changed: every integer that fits in the significand among them.\<close>

lemma round_fmt_exact:
  assumes q: "q = of_int m * pow2 k" and m: "\<bar>m\<bar> < 2 ^ p" and k: "emin \<le> k"
    and hi: "\<bar>q\<bar> < pow2 emax" and p: "0 < p"
  shows "round_fmt p emin emax q = Fin q"
proof (cases "q = 0")
  case True
  then show ?thesis by (simp add: round_fmt_def)
next
  case False
  define e where "e = max (ilog2 \<bar>q\<bar> - int (p - 1)) emin"
  have "pow2 (ilog2 \<bar>q\<bar>) \<le> \<bar>q\<bar>" using ilog2_bounds [of "\<bar>q\<bar>"] False by simp
  also have "\<bar>q\<bar> = of_int \<bar>m\<bar> * pow2 k" unfolding q by (simp add: abs_mult)
  also have "\<dots> < pow2 (int p) * pow2 k"
  proof -
    have "(of_int \<bar>m\<bar> :: rat) < of_int (2 ^ p)" using m by (simp only: of_int_less_iff)
    then show ?thesis by (simp add: pow2_of_nat)
  qed
  finally have "ilog2 \<bar>q\<bar> < int p + k" by (auto simp: pow2_add [symmetric] dest: pow2_less_imp)
  then have "e \<le> k" using k p by (auto simp: e_def)
  then have "pow2 (k - e) = of_int (2 ^ nat (k - e))" by (simp add: pow2_def)
  then have "q / pow2 e = of_int (m * 2 ^ nat (k - e))"
    using q by (simp add: pow2_diff flip: times_divide_eq_right)
  then have "of_int (round_even (q / pow2 e)) * pow2 e = q / pow2 e * pow2 e"
    by (simp only: round_even_of_int)
  also have "\<dots> = q" using pow2_pos [of e] by simp
  finally have r: "of_int (round_even (q / pow2 e)) * pow2 e = q" .
  show ?thesis
    unfolding round_fmt_def Let_def e_def [symmetric] r using False hi by simp
qed

lemma rnd64_int: "\<bar>i\<bar> < 2 ^ 53 \<Longrightarrow> rnd64 (of_int i) = Fin (of_int i)"
  unfolding rnd64_def
proof (rule round_fmt_exact [where m = i and k = 0])
  assume i: "\<bar>i\<bar> < 2 ^ 53"
  have "(of_int \<bar>i\<bar> :: rat) < of_int (2 ^ 53)" using i by (simp only: of_int_less_iff)
  also have "\<dots> = pow2 53" by (simp add: pow2_def)
  also have "pow2 53 \<le> pow2 1024" by (rule pow2_mono) simp
  finally show "\<bar>of_int i\<bar> < pow2 1024" by simp
qed (simp_all add: pow2_def)

lemma rnd32_int: "\<bar>i\<bar> < 2 ^ 24 \<Longrightarrow> rnd32 (of_int i) = Fin (of_int i)"
  unfolding rnd32_def
proof (rule round_fmt_exact [where m = i and k = 0])
  assume i: "\<bar>i\<bar> < 2 ^ 24"
  have "(of_int \<bar>i\<bar> :: rat) < of_int (2 ^ 24)" using i by (simp only: of_int_less_iff)
  also have "\<dots> = pow2 24" by (simp add: pow2_def)
  also have "pow2 24 \<le> pow2 128" by (rule pow2_mono) simp
  finally show "\<bar>of_int i\<bar> < pow2 128" by simp
qed (simp_all add: pow2_def)

text \<open>The rational values a \<open>float64\<close> can hold are those rounding leaves alone.\<close>

definition is_f64 :: "rat \<Rightarrow> bool" where
  "is_f64 q \<longleftrightarrow> rnd64 q = Fin q"

lemma is_f64E:
  assumes "is_f64 q"
  obtains m k where "q = of_int m * pow2 k" and "\<bar>m\<bar> < 2 ^ 53" and "-1074 \<le> k" and "\<bar>q\<bar> < pow2 1024"
proof (cases "q = 0")
  case True
  then show ?thesis by (intro that [of 0 0]) simp_all
next
  case False
  define e where "e = max (ilog2 \<bar>q\<bar> - 52) (-1074)"
  define m where "m = round_even (q / pow2 e)"
  have eq: "of_int m * pow2 e = q" and lt: "\<not> pow2 1024 \<le> \<bar>of_int m * pow2 e\<bar>"
    using assms False
    by (auto simp: is_f64_def rnd64_def round_fmt_def Let_def e_def m_def split: if_splits)
  have "\<bar>q\<bar> < pow2 (ilog2 \<bar>q\<bar> + 1)" using ilog2_bounds [of "\<bar>q\<bar>"] False by simp
  also have "\<dots> \<le> pow2 (53 + e)" by (rule pow2_mono) (simp add: e_def)
  also have "\<dots> = 2 ^ 53 * pow2 e" by (simp add: pow2_add) (simp add: pow2_def)
  finally have "\<bar>of_int m\<bar> * pow2 e < 2 ^ 53 * pow2 e" unfolding eq [symmetric] by (simp add: abs_mult)
  then have "(of_int \<bar>m\<bar> :: rat) < of_int (2 ^ 53)" by simp
  then have "\<bar>m\<bar> < 2 ^ 53" by (simp only: of_int_less_iff)
  then show ?thesis using eq lt by (intro that [of m e]) (auto simp: e_def)
qed

lemma is_f64I:
  "q = of_int m * pow2 k \<Longrightarrow> \<bar>m\<bar> < 2 ^ 53 \<Longrightarrow> -1074 \<le> k \<Longrightarrow> \<bar>q\<bar> < pow2 1024 \<Longrightarrow> is_f64 q"
  unfolding is_f64_def rnd64_def by (rule round_fmt_exact) simp_all

text \<open>Dividing by a power of two is exact above the smallest magnitudes.\<close>

lemma is_f64_div_pow2:
  assumes q: "is_f64 q" and big: "1 \<le> \<bar>q\<bar>" and n: "n \<le> 1000"
  shows "is_f64 (q / 2 ^ n)"
proof -
  from q obtain m k where mk: "q = of_int m * pow2 k" "\<bar>m\<bar> < 2 ^ 53" "-1074 \<le> k" "\<bar>q\<bar> < pow2 1024"
    by (rule is_f64E)
  have "pow2 0 \<le> \<bar>q\<bar>" using big by (simp add: pow2_def)
  also have "\<bar>q\<bar> = of_int \<bar>m\<bar> * pow2 k" unfolding mk(1) by (simp add: abs_mult)
  also have "\<dots> < pow2 53 * pow2 k"
  proof -
    have "(of_int \<bar>m\<bar> :: rat) < of_int (2 ^ 53)" using mk(2) by (simp only: of_int_less_iff)
    also have "\<dots> = pow2 53" by (simp add: pow2_def)
    finally show ?thesis by simp
  qed
  finally have k: "0 < 53 + k" by (auto simp: pow2_add [symmetric] dest: pow2_less_imp)
  have "\<bar>q / 2 ^ n\<bar> \<le> \<bar>q\<bar>"
    using mult_left_mono [of 1 "2 ^ n" "\<bar>q\<bar>"] by (simp add: divide_le_eq)
  then show ?thesis
    using mk k n
    by (intro is_f64I [of _ m "k - int n"]) (auto simp: pow2_diff pow2_of_nat)
qed

section \<open>Operations\<close>

fun f_val :: "flt \<Rightarrow> rat" where
  "f_val (Fin q) = q"
| "f_val _ = 0"

fun f_neg :: "flt \<Rightarrow> bool" where
  "f_neg (FInf s) = s"
| "f_neg FNegZero = True"
| "f_neg (Fin q) = (q < 0)"
| "f_neg FNaN = False"

fun f_is_inf :: "flt \<Rightarrow> bool" where
  "f_is_inf (FInf s) = True"
| "f_is_inf _ = False"

definition f_zero :: "bool \<Rightarrow> flt" where
  "f_zero neg = (if neg then FNegZero else Fin 0)"

text \<open>
  Addition, multiplication and division with the rounding of the operands' width. The special
  cases are those of IEEE 754: infinities that cancel, zero times infinity, zero by zero.
\<close>

definition f_add :: "(rat \<Rightarrow> flt) \<Rightarrow> flt \<Rightarrow> flt \<Rightarrow> flt" where
  "f_add rnd x y =
     (if x = FNaN \<or> y = FNaN then FNaN
      else if f_is_inf x then (if f_is_inf y \<and> f_neg x \<noteq> f_neg y then FNaN else x)
      else if f_is_inf y then y
      else if x = FNegZero \<and> y = FNegZero then FNegZero
      else rnd (f_val x + f_val y))"

definition f_mul :: "(rat \<Rightarrow> flt) \<Rightarrow> flt \<Rightarrow> flt \<Rightarrow> flt" where
  "f_mul rnd x y =
     (let neg = (f_neg x \<noteq> f_neg y) in
      if x = FNaN \<or> y = FNaN then FNaN
      else if f_is_inf x then (if \<not> f_is_inf y \<and> f_val y = 0 then FNaN else FInf neg)
      else if f_is_inf y then (if f_val x = 0 then FNaN else FInf neg)
      else if f_val x * f_val y = 0 then f_zero neg
      else rnd (f_val x * f_val y))"

definition f_div :: "(rat \<Rightarrow> flt) \<Rightarrow> flt \<Rightarrow> flt \<Rightarrow> flt" where
  "f_div rnd x y =
     (let neg = (f_neg x \<noteq> f_neg y) in
      if x = FNaN \<or> y = FNaN then FNaN
      else if f_is_inf x then (if f_is_inf y then FNaN else FInf neg)
      else if f_is_inf y then f_zero neg
      else if f_val y = 0 then (if f_val x = 0 then FNaN else FInf neg)
      else if f_val x = 0 then f_zero neg
      else rnd (f_val x / f_val y))"

lemma f_add_Fin [simp]: "f_add rnd (Fin p) (Fin q) = rnd (p + q)"
  by (simp add: f_add_def)

lemma f_mul_Fin: "p * q \<noteq> 0 \<Longrightarrow> f_mul rnd (Fin p) (Fin q) = rnd (p * q)"
  by (simp add: f_mul_def)

lemma f_div_Fin: "p \<noteq> 0 \<Longrightarrow> q \<noteq> 0 \<Longrightarrow> f_div rnd (Fin p) (Fin q) = rnd (p / q)"
  by (simp add: f_div_def)

text \<open>\<open>math.Abs\<close>, \<open>math.Round\<close> (half away from zero), \<open>math.Floor\<close> and the built-ins \<open>max\<close> and \<open>min\<close>.\<close>

fun f_abs :: "flt \<Rightarrow> flt" where
  "f_abs FNaN = FNaN"
| "f_abs (FInf s) = FInf False"
| "f_abs FNegZero = Fin 0"
| "f_abs (Fin q) = Fin \<bar>q\<bar>"

definition away :: "rat \<Rightarrow> int" where
  "away q = (if q < 0 then - \<lfloor>\<bar>q\<bar> + 1 / 2\<rfloor> else \<lfloor>q + 1 / 2\<rfloor>)"

fun f_round :: "flt \<Rightarrow> flt" where
  "f_round (Fin q) = (if q < 0 \<and> away q = 0 then FNegZero else Fin (of_int (away q)))"
| "f_round x = x"

fun f_floor :: "flt \<Rightarrow> flt" where
  "f_floor (Fin q) = Fin (of_int \<lfloor>q\<rfloor>)"
| "f_floor x = x"

definition f_max :: "flt \<Rightarrow> flt \<Rightarrow> flt" where
  "f_max x y =
     (if x = FNaN \<or> y = FNaN then FNaN
      else if f_less x y then y
      else if f_eq x y \<and> x = FNegZero then y
      else x)"

definition f_min :: "flt \<Rightarrow> flt \<Rightarrow> flt" where
  "f_min x y =
     (if x = FNaN \<or> y = FNaN then FNaN
      else if f_less y x then y
      else if f_eq x y \<and> y = FNegZero then y
      else x)"

lemma f_clamp_number: "x \<noteq> FNaN \<Longrightarrow> f_min (Fin 1) (f_max (Fin 0) x) \<noteq> FNaN"
  by (simp add: f_min_def f_max_def)

lemma f_max_Fin [simp]: "f_max (Fin p) (Fin q) = Fin (max p q)"
  by (simp add: f_max_def max_def)

lemma f_min_Fin [simp]: "f_min (Fin p) (Fin q) = Fin (min p q)"
  by (auto simp: f_min_def min_def)

text \<open>
  Conversions. A float outside the range of \<open>int64\<close> converts to what amd64 makes of it,
  the smallest \<open>int64\<close>; the language leaves that value open.
\<close>

definition f64_of_int :: "int \<Rightarrow> flt" where
  "f64_of_int i = rnd64 (of_int i)"

definition f32_of_int :: "int \<Rightarrow> flt" where
  "f32_of_int i = rnd32 (of_int i)"

fun to_f32 :: "flt \<Rightarrow> flt" where
  "to_f32 (Fin q) = rnd32 q"
| "to_f32 x = x"

definition truncate :: "rat \<Rightarrow> int" where
  "truncate q = (if q < 0 then - \<lfloor>- q\<rfloor> else \<lfloor>q\<rfloor>)"

definition int64_of_flt :: "flt \<Rightarrow> int64" where
  "int64_of_flt x =
     (let t = truncate (f_val x) in
      if x = FNaN \<or> f_is_inf x \<or> t < - (2 ^ 63) \<or> 2 ^ 63 \<le> t then word_of_int (- (2 ^ 63))
      else word_of_int t)"

lemma f64_of_int_exact: "\<bar>i\<bar> < 2 ^ 53 \<Longrightarrow> f64_of_int i = Fin (of_int i)"
  by (simp add: f64_of_int_def rnd64_int)

lemma away_of_int [simp]: "away (of_int i) = i"
proof -
  have "\<lfloor>(of_int j :: rat) + 1 / 2\<rfloor> = j" for j by linarith
  from this [of i] this [of "\<bar>i\<bar>"] show ?thesis by (simp add: away_def)
qed

lemma away_nonneg: "0 \<le> q \<Longrightarrow> 0 \<le> away q"
  by (simp add: away_def)

lemma truncate_of_int [simp]: "truncate (of_int i) = i"
  by (simp add: truncate_def)

lemma f_round_int [simp]: "f_round (Fin (of_int i)) = Fin (of_int i)"
  by simp

lemma int64_of_flt_int:
  "- (2 ^ 63) \<le> i \<Longrightarrow> i < 2 ^ 63 \<Longrightarrow> sint (int64_of_flt (Fin (of_int i))) = i"
  by (simp add: int64_of_flt_def Let_def sint_word_of_int64)

section \<open>Text\<close>

text \<open>\<open>%.nf\<close>: the exact value rounded to \<open>n\<close> decimals, half to even.\<close>

definition fixed_rat :: "nat \<Rightarrow> rat \<Rightarrow> string" where
  "fixed_rat n q =
     (let m = nat (round_even (q * 10 ^ n))
      in if n = 0 then dec_nat m
         else dec_nat (m div 10 ^ n) @ ''.'' @ pad_left (CHR ''0'') n (dec_nat (m mod 10 ^ n)))"

fun fmt_fixed :: "nat \<Rightarrow> flt \<Rightarrow> string" where
  "fmt_fixed n FNaN = ''NaN''"
| "fmt_fixed n (FInf s) = (if s then ''-Inf'' else ''+Inf'')"
| "fmt_fixed n FNegZero = ''-'' @ fixed_rat n 0"
| "fmt_fixed n (Fin q) = (if q < 0 then ''-'' else []) @ fixed_rat n \<bar>q\<bar>"

text \<open>\<open>%.0f\<close>, the form every symptom and column uses.\<close>

abbreviation fmt_f0 :: "flt \<Rightarrow> string" where
  "fmt_f0 x \<equiv> fmt_fixed 0 x"

lemma fmt_f0_int [simp]: "fmt_f0 (Fin (of_int i)) = fmt_d i"
proof -
  have "round_even \<bar>of_int i\<bar> = \<bar>i\<bar>" using round_even_of_int [of "\<bar>i\<bar>"] by simp
  then show ?thesis by (simp add: fixed_rat_def fmt_d_def)
qed

end
