(* ===== verification/GoTime.thy ===== *)
theory GoTime
  imports GoText
begin

text \<open>
  Package \<open>time\<close> as the program uses it: an instant with the offset of its zone, dropped to whole
  seconds and printed as RFC 3339 or as a date and a time of day. The calendar is the proleptic
  Gregorian one.
\<close>

record gotime =
  Unix :: int
  Nanos :: nat
  Offset :: int

text \<open>Year, month and day of the \<open>n\<close>-th day after 1970-01-01.\<close>

definition civil_of_days :: "int \<Rightarrow> int \<times> int \<times> int" where
  "civil_of_days n =
     (let z = n + 719468; era = z div 146097; doe = z mod 146097;
          yoe = (doe - doe div 1460 + doe div 36524 - doe div 146096) div 365;
          doy = doe - (365 * yoe + yoe div 4 - yoe div 100);
          mp = (5 * doy + 2) div 153;
          day = doy - (153 * mp + 2) div 5 + 1;
          month = (if mp < 10 then mp + 3 else mp - 9)
      in (yoe + era * 400 + (if month \<le> 2 then 1 else 0), month, day))"

definition two :: "int \<Rightarrow> string" where
  "two i = pad_left (CHR ''0'') 2 (dec_nat (nat i))"

definition year4 :: "int \<Rightarrow> string" where
  "year4 y = (if y < 0 then ''-'' else []) @ pad_left (CHR ''0'') 4 (dec_nat (nat \<bar>y\<bar>))"

definition date_text :: "gotime \<Rightarrow> string" where
  "date_text t =
     (let (y, m, d) = civil_of_days ((gotime.Unix t + gotime.Offset t) div 86400)
      in year4 y @ ''-'' @ two m @ ''-'' @ two d)"

definition clock_text :: "gotime \<Rightarrow> string" where
  "clock_text t =
     (let s = (gotime.Unix t + gotime.Offset t) mod 86400
      in two (s div 3600) @ '':'' @ two (s mod 3600 div 60) @ '':'' @ two (s mod 60))"

text \<open>The zone of RFC 3339: \<open>Z\<close>, or a sign with hours and minutes.\<close>

definition zone_text :: "int \<Rightarrow> string" where
  "zone_text off =
     (if off = 0 then ''Z''
      else (let m = \<bar>off\<bar> div 60 in
        (if off < 0 then ''-'' else ''+'') @ two (m div 60) @ '':'' @ two (m mod 60)))"

definition format_rfc3339 :: "gotime \<Rightarrow> string" where
  "format_rfc3339 t = date_text t @ ''T'' @ clock_text t @ zone_text (gotime.Offset t)"

definition format_datetime :: "gotime \<Rightarrow> string" where
  "format_datetime t = date_text t @ '' '' @ clock_text t"

definition trunc_second :: "gotime \<Rightarrow> gotime" where
  "trunc_second t = t\<lparr>gotime.Nanos := 0\<rparr>"

lemma trunc_second_text [simp]: "format_rfc3339 (trunc_second t) = format_rfc3339 t"
  by (simp add: trunc_second_def format_rfc3339_def date_text_def clock_text_def)

end
