(* ===== verification/FactsBase.thy ===== *)
theory FactsBase
  imports Prelude GoFloat GoTime
begin

text \<open>
  Package \<open>facts\<close> (\<open>internal/facts/facts.go\<close>): the status of a probe, what every probe returns,
  and the redactions. A pointer that may be nil is an \<open>option\<close>; the cells of a row, Go's
  \<open>any\<close>, are the type \<open>val\<close>, which keeps the two widths of floats apart because they print
  differently.
\<close>

datatype status = StatusOK | StatusSkipped | StatusError | StatusNotApplicable

text \<open>The result of a probe: every probe has its own struct with these three fields.\<close>

record 'a coll =
  Status :: status
  Reason :: string
  Rows :: "'a list"

record Context =
  Version :: string
  Role :: string
  Location :: string
  User :: string
  Database :: string
  CollectedAt :: gotime

record Redaction =
  ProbeID :: string
  Field :: string
  Reason :: string
  RowsAffected :: int

definition ReasonInsufficientPrivilege :: string where
  "ReasonInsufficientPrivilege = ''insufficient_privilege''"

definition ReasonTrackActivitiesOff :: string where
  "ReasonTrackActivitiesOff = ''track_activities_off''"

text \<open>
  The \<open>add\<close> closures and the single-field variants: one entry per column when some row is
  affected, none otherwise.
\<close>

definition redactions :: "string \<Rightarrow> string list \<Rightarrow> string \<Rightarrow> int \<Rightarrow> Redaction list" where
  "redactions probe cols reason n =
     (if n = 0 then []
      else map (\<lambda>f. \<lparr>Redaction.ProbeID = probe, Redaction.Field = f, Redaction.Reason = reason,
        Redaction.RowsAffected = n\<rparr>) cols)"

definition count_rows :: "('a \<Rightarrow> bool) \<Rightarrow> 'a list \<Rightarrow> int" where
  "count_rows P xs = int (length (filter P xs))"

lemma count_rows_eq_0 [simp]: "count_rows P xs = 0 \<longleftrightarrow> (\<forall>x\<in>set xs. \<not> P x)"
  by (simp add: count_rows_def filter_empty_conv)

lemma redactions_empty_iff: "cols \<noteq> [] \<Longrightarrow> redactions probe cols reason n = [] \<longleftrightarrow> n = 0"
  by (simp add: redactions_def)

section \<open>Cells\<close>

datatype val =
    VNull
  | VStr string
  | VInt int
  | VFlt flt
  | VFlt32 flt
  | VBool bool
  | VStrs "string list"
  | VInts "int list"

definition v_int :: "('w :: len) word \<Rightarrow> val" where
  "v_int w = VInt (sint w)"

definition v_uint :: "('w :: len) word \<Rightarrow> val" where
  "v_uint w = VInt (uint w)"

definition v_ints :: "int32 list \<Rightarrow> val" where
  "v_ints ws = VInts (map sint ws)"

definition v_opt :: "('a \<Rightarrow> val) \<Rightarrow> 'a option \<Rightarrow> val" where
  "v_opt f x = (case x of None \<Rightarrow> VNull | Some a \<Rightarrow> f a)"

definition v_time :: "gotime \<Rightarrow> val" where
  "v_time t = VStr (format_rfc3339 t)"

end
