(* ===== verification/FactsInst.thy ===== *)
theory FactsInst
  imports FactsBase
begin

text \<open>
  What the probes read of the instance: connections, databases, replication, disk, slots, WAL,
  checkpoints, archiving and parameters
  (\<open>internal/facts/{inst,slot,wal,checkpoint,archive,params}.go\<close>).
\<close>

section \<open>The instance\<close>

definition InfoColumns :: "string list" where
  "InfoColumns = [
    ''version'', ''start_time'', ''uptime_s'', ''connections'', ''max_connections'',
    ''superuser_reserved_connections'', ''data_directory'', ''port'', ''usable_connections'']"

definition DatabaseColumns :: "string list" where
  "DatabaseColumns = [
    ''datname'', ''size_bytes'']"

definition DownstreamsColumns :: "string list" where
  "DownstreamsColumns = [
    ''application_name'', ''client_addr'', ''state'', ''sync_state'']"

definition UpstreamColumns :: "string list" where
  "UpstreamColumns = [
    ''status'', ''sender_host'', ''sender_port'', ''slot_name'', ''last_msg_age_s'',
    ''wal_receiver_timeout_s'']"

definition DiskColumns :: "string list" where
  "DiskColumns = [
    ''total_bytes'', ''used_bytes'', ''avail_bytes'']"

definition InstInfoID :: string where
  "InstInfoID = ''inst.info''"

definition InstDatabasesID :: string where
  "InstDatabasesID = ''inst.databases''"

definition InstDownstreamsID :: string where
  "InstDownstreamsID = ''inst.downstreams''"

definition InstUpstreamID :: string where
  "InstUpstreamID = ''inst.upstream''"

definition InstDiskID :: string where
  "InstDiskID = ''inst.disk''"

record Info =
  Version :: "string"
  StartTime :: "gotime"
  UptimeS :: "flt"
  Connections :: "int32"
  MaxConnections :: "int32"
  SuperuserReserved :: "int32"
  DataDirectory :: "string option"
  Port :: "int32"

definition Info_Usable :: "Info \<Rightarrow> int32" where
  "Info_Usable i = Info.MaxConnections i - Info.SuperuserReserved i"

definition Info_Row :: "Info \<Rightarrow> val list" where
  "Info_Row i = [
    VStr (Info.Version i), v_time (trunc_second (Info.StartTime i)), VFlt (Info.UptimeS i),
    v_int (Info.Connections i), v_int (Info.MaxConnections i),
    v_int (Info.SuperuserReserved i), v_opt VStr (Info.DataDirectory i), v_int (Info.Port i),
    v_int (Info_Usable i)]"

record Database =
  Datname :: "string"
  SizeBytes :: "int64 option"

definition Database_Row :: "Database \<Rightarrow> val list" where
  "Database_Row d = [
    VStr (Database.Datname d), v_opt v_int (Database.SizeBytes d)]"

type_synonym InstInfo = "Info coll"

type_synonym InstDatabases = "Database coll"

record Downstream =
  ApplicationName :: "string option"
  ClientAddr :: "string option"
  State :: "string option"
  SyncState :: "string option"

definition Downstream_Row :: "Downstream \<Rightarrow> val list" where
  "Downstream_Row d = [
    v_opt VStr (Downstream.ApplicationName d), v_opt VStr (Downstream.ClientAddr d),
    v_opt VStr (Downstream.State d), v_opt VStr (Downstream.SyncState d)]"

type_synonym InstDownstreams = "Downstream coll"

record Upstream =
  Status :: "string option"
  SenderHost :: "string option"
  SenderPort :: "int32 option"
  SlotName :: "string option"
  LastMsgAgeS :: "flt option"
  WALReceiverTimeoutS :: "flt option"

definition Upstream_Row :: "Upstream \<Rightarrow> val list" where
  "Upstream_Row u = [
    v_opt VStr (Upstream.Status u), v_opt VStr (Upstream.SenderHost u),
    v_opt v_int (Upstream.SenderPort u), v_opt VStr (Upstream.SlotName u),
    v_opt VFlt (Upstream.LastMsgAgeS u), v_opt VFlt (Upstream.WALReceiverTimeoutS u)]"

type_synonym InstUpstream = "Upstream coll"

record Disk =
  TotalBytes :: "uint64"
  UsedBytes :: "uint64"
  AvailBytes :: "uint64"
  FSID :: "string"

definition Disk_Row :: "Disk \<Rightarrow> val list" where
  "Disk_Row d = [
    v_uint (Disk.TotalBytes d), v_uint (Disk.UsedBytes d), v_uint (Disk.AvailBytes d)]"

type_synonym InstDisk = "Disk coll"

definition InstDatabases_Redacted :: "InstDatabases \<Rightarrow> Redaction list" where
  "InstDatabases_Redacted d = redactions InstDatabasesID [''size_bytes''] ReasonInsufficientPrivilege
     (count_rows (\<lambda>x. Database.SizeBytes x = None) (coll.Rows d))"

definition InstDownstreams_Redacted :: "InstDownstreams \<Rightarrow> Redaction list" where
  "InstDownstreams_Redacted d = redactions InstDownstreamsID [''state'', ''sync_state''] ReasonInsufficientPrivilege
     (count_rows (\<lambda>x. Downstream.State x = None) (coll.Rows d))"

definition InstUpstream_Redacted :: "InstUpstream \<Rightarrow> Redaction list" where
  "InstUpstream_Redacted u = redactions InstUpstreamID [''status''] ReasonInsufficientPrivilege
     (count_rows (\<lambda>x. Upstream.Status x = None) (coll.Rows u))"

section \<open>Replication slots\<close>

definition SlotColumns :: "string list" where
  "SlotColumns = [
    ''slot_name'', ''slot_type'', ''active'', ''active_pid'', ''xmin'', ''catalog_xmin'',
    ''xmin_age'', ''restart_lsn'', ''retained_wal_bytes'']"

definition SlotListID :: string where
  "SlotListID = ''slot.list''"

record Slot =
  Name :: "string"
  Type :: "string"
  Active :: "bool"
  ActivePID :: "int32 option"
  Xmin :: "uint32 option"
  CatalogXmin :: "uint32 option"
  XminAge :: "int32 option"
  RestartLSN :: "string option"
  RetainedWALBytes :: "int64 option"

definition Slot_Row :: "Slot \<Rightarrow> val list" where
  "Slot_Row s = [
    VStr (Slot.Name s), VStr (Slot.Type s), VBool (Slot.Active s),
    v_opt v_int (Slot.ActivePID s), v_opt v_uint (Slot.Xmin s),
    v_opt v_uint (Slot.CatalogXmin s), v_opt v_int (Slot.XminAge s),
    v_opt VStr (Slot.RestartLSN s), v_opt v_int (Slot.RetainedWALBytes s)]"

type_synonym SlotList = "Slot coll"

section \<open>WAL position\<close>

definition WALPositionColumns :: "string list" where
  "WALPositionColumns = [
    ''in_recovery'', ''lsn'', ''wal_file'']"

definition WALPositionID :: string where
  "WALPositionID = ''wal.position''"

record Position =
  InRecovery :: "bool"
  LSN :: "string option"
  WALFile :: "string option"

definition Position_Row :: "Position \<Rightarrow> val list" where
  "Position_Row p = [
    VBool (Position.InRecovery p), v_opt VStr (Position.LSN p), v_opt VStr (Position.WALFile p)]"

type_synonym WALPosition = "Position coll"

section \<open>Archiving\<close>

definition ArchiveStatusColumns :: "string list" where
  "ArchiveStatusColumns = [
    ''archive_mode'', ''archive_command'', ''archive_timeout_s'', ''archived_count'',
    ''last_archived_wal'', ''last_archived_time'', ''last_archived_age_s'', ''failed_count'',
    ''last_failed_wal'', ''last_failed_time'', ''last_failed_age_s'', ''stats_reset'']"

definition ArchiveReadyColumns :: "string list" where
  "ArchiveReadyColumns = [
    ''ready'', ''done'', ''oldest_ready_age_s'']"

definition ArchiveStatusID :: string where
  "ArchiveStatusID = ''archive.status''"

definition ArchiveReadyID :: string where
  "ArchiveReadyID = ''archive.ready''"

record Archiver =
  Mode :: "string"
  Command :: "string option"
  TimeoutS :: "int64"
  ArchivedCount :: "int64"
  LastArchivedWAL :: "string option"
  LastArchivedTime :: "gotime option"
  LastArchivedAgeS :: "flt option"
  FailedCount :: "int64"
  LastFailedWAL :: "string option"
  LastFailedTime :: "gotime option"
  LastFailedAgeS :: "flt option"
  StatsReset :: "gotime option"

definition isoTime :: "gotime option \<Rightarrow> string option" where
  "isoTime t = map_option format_rfc3339 t"

definition Archiver_Row :: "Archiver \<Rightarrow> val list" where
  "Archiver_Row a = [
    VStr (Archiver.Mode a), v_opt VStr (Archiver.Command a), v_int (Archiver.TimeoutS a),
    v_int (Archiver.ArchivedCount a), v_opt VStr (Archiver.LastArchivedWAL a),
    v_opt VStr (isoTime (Archiver.LastArchivedTime a)),
    v_opt VFlt (Archiver.LastArchivedAgeS a), v_int (Archiver.FailedCount a),
    v_opt VStr (Archiver.LastFailedWAL a), v_opt VStr (isoTime (Archiver.LastFailedTime a)),
    v_opt VFlt (Archiver.LastFailedAgeS a), v_opt VStr (isoTime (Archiver.StatsReset a))]"

type_synonym ArchiveStatus = "Archiver coll"

record ArchiveQueue =
  Ready :: "int64"
  Done :: "int64"
  OldestReadyAgeS :: "flt option"

definition ArchiveQueue_Row :: "ArchiveQueue \<Rightarrow> val list" where
  "ArchiveQueue_Row q = [
    v_int (ArchiveQueue.Ready q), v_int (ArchiveQueue.Done q),
    v_opt VFlt (ArchiveQueue.OldestReadyAgeS q)]"

type_synonym ArchiveReady = "ArchiveQueue coll"

section \<open>Checkpoints\<close>

definition CheckpointStatsColumns :: "string list" where
  "CheckpointStatsColumns = [
    ''checkpoints_timed'', ''checkpoints_req'', ''checkpoint_write_s'', ''checkpoint_sync_s'',
    ''buffers_checkpoint'', ''buffers_clean'', ''maxwritten_clean'', ''buffers_backend'',
    ''buffers_backend_fsync'', ''buffers_alloc'', ''stats_reset'', ''stats_reset_age_s'']"

definition CheckpointLastColumns :: "string list" where
  "CheckpointLastColumns = [
    ''checkpoint_time'', ''checkpoint_age_s'', ''checkpoint_lsn'', ''redo_lsn'',
    ''redo_wal_file'']"

definition CheckpointSettingsColumns :: "string list" where
  "CheckpointSettingsColumns = [
    ''checkpoint_timeout_s'', ''max_wal_size_bytes'', ''checkpoint_completion_target'',
    ''checkpoint_warning_s'', ''log_checkpoints'']"

definition CheckpointStatsID :: string where
  "CheckpointStatsID = ''checkpoint.stats''"

definition CheckpointLastID :: string where
  "CheckpointLastID = ''checkpoint.last''"

definition CheckpointSettingsID :: string where
  "CheckpointSettingsID = ''checkpoint.settings''"

record BGWriter =
  CheckpointsTimed :: "int64"
  CheckpointsReq :: "int64"
  CheckpointWriteS :: "flt"
  CheckpointSyncS :: "flt"
  BuffersCheckpoint :: "int64"
  BuffersClean :: "int64"
  MaxwrittenClean :: "int64"
  BuffersBackend :: "int64"
  BuffersBackendFsync :: "int64"
  BuffersAlloc :: "int64"
  StatsReset :: "gotime option"
  StatsResetAgeS :: "flt option"

definition BGWriter_Row :: "BGWriter \<Rightarrow> val list" where
  "BGWriter_Row b = [
    v_int (BGWriter.CheckpointsTimed b), v_int (BGWriter.CheckpointsReq b),
    VFlt (BGWriter.CheckpointWriteS b), VFlt (BGWriter.CheckpointSyncS b),
    v_int (BGWriter.BuffersCheckpoint b), v_int (BGWriter.BuffersClean b),
    v_int (BGWriter.MaxwrittenClean b), v_int (BGWriter.BuffersBackend b),
    v_int (BGWriter.BuffersBackendFsync b), v_int (BGWriter.BuffersAlloc b),
    v_opt VStr (isoTime (BGWriter.StatsReset b)), v_opt VFlt (BGWriter.StatsResetAgeS b)]"

type_synonym CheckpointStats = "BGWriter coll"

record LastCheckpoint =
  Time :: "gotime option"
  AgeS :: "flt option"
  LSN :: "string option"
  RedoLSN :: "string option"
  RedoWALFile :: "string option"

definition LastCheckpoint_Row :: "LastCheckpoint \<Rightarrow> val list" where
  "LastCheckpoint_Row l = [
    v_opt VStr (isoTime (LastCheckpoint.Time l)), v_opt VFlt (LastCheckpoint.AgeS l),
    v_opt VStr (LastCheckpoint.LSN l), v_opt VStr (LastCheckpoint.RedoLSN l),
    v_opt VStr (LastCheckpoint.RedoWALFile l)]"

type_synonym CheckpointLast = "LastCheckpoint coll"

record CheckpointSetting =
  TimeoutS :: "int64"
  MaxWALSizeBytes :: "int64"
  CompletionTarget :: "flt"
  WarningS :: "int64"
  LogCheckpoints :: "string"

definition CheckpointSetting_Row :: "CheckpointSetting \<Rightarrow> val list" where
  "CheckpointSetting_Row s = [
    v_int (CheckpointSetting.TimeoutS s), v_int (CheckpointSetting.MaxWALSizeBytes s),
    VFlt (CheckpointSetting.CompletionTarget s), v_int (CheckpointSetting.WarningS s),
    VStr (CheckpointSetting.LogCheckpoints s)]"

type_synonym CheckpointSettings = "CheckpointSetting coll"

section \<open>Parameters\<close>

definition ParamColumns :: "string list" where
  "ParamColumns = [
    ''name'', ''setting'', ''unit'', ''source'', ''sourcefile'', ''sourceline'', ''boot_val'',
    ''reset_val'', ''context'', ''pending_restart'']"

definition ParamsChangedID :: string where
  "ParamsChangedID = ''params.changed''"

record Param =
  Name :: "string"
  Setting :: "string option"
  Unit :: "string option"
  Source :: "string"
  Sourcefile :: "string option"
  Sourceline :: "int32 option"
  BootVal :: "string option"
  ResetVal :: "string option"
  Context :: "string"
  PendingRestart :: "bool"

definition Param_Row :: "Param \<Rightarrow> val list" where
  "Param_Row p = [
    VStr (Param.Name p), v_opt VStr (Param.Setting p), v_opt VStr (Param.Unit p),
    VStr (Param.Source p), v_opt VStr (Param.Sourcefile p), v_opt v_int (Param.Sourceline p),
    v_opt VStr (Param.BootVal p), v_opt VStr (Param.ResetVal p), VStr (Param.Context p),
    VBool (Param.PendingRestart p)]"

type_synonym ParamsChanged = "Param coll"

definition ParamsChanged_Redacted :: "ParamsChanged \<Rightarrow> Redaction list" where
  "ParamsChanged_Redacted p = redactions ParamsChangedID [''sourcefile'', ''sourceline''] ReasonInsufficientPrivilege
     (count_rows (\<lambda>x. Param.Source x = ''configuration file'' \<and> Param.Sourcefile x = None) (coll.Rows p))"

end
