(* ===== verification/FactsSpace.thy ===== *)
theory FactsSpace
  imports FactsInst
begin

text \<open>
  What the probes read of the storage: tablespaces, WAL and file systems, freeze ages, vacuum,
  tables, sequences, statements and long operations
  (\<open>internal/facts/{space,freeze,vacuum,table,object,seq,top,progress}.go\<close>).
\<close>

section \<open>Space\<close>

definition TablespaceColumns :: "string list" where
  "TablespaceColumns = [
    ''spcname'', ''location'', ''size_bytes'']"

definition WALColumns :: "string list" where
  "WALColumns = [
    ''files'', ''bytes'', ''max_wal_size_bytes'', ''wal_keep_bytes'', ''wal_segment_bytes'']"

definition SpaceDiskColumns :: "string list" where
  "SpaceDiskColumns = [
    ''path_kind'', ''path'', ''total_bytes'', ''used_bytes'', ''avail_bytes'']"

definition SpaceTablespacesID :: string where
  "SpaceTablespacesID = ''space.tablespaces''"

definition SpaceWALID :: string where
  "SpaceWALID = ''space.wal''"

definition SpaceDiskID :: string where
  "SpaceDiskID = ''space.disk''"

record Tablespace =
  Name :: "string"
  Location :: "string option"
  SizeBytes :: "int64 option"

definition Tablespace_Row :: "Tablespace \<Rightarrow> val list" where
  "Tablespace_Row t = [
    VStr (Tablespace.Name t), v_opt VStr (Tablespace.Location t),
    v_opt v_int (Tablespace.SizeBytes t)]"

type_synonym SpaceTablespaces = "Tablespace coll"

record WAL =
  Files :: "int64"
  Bytes :: "int64"
  MaxWALSizeBytes :: "int64 option"
  WALKeepBytes :: "int64 option"
  WALSegmentBytes :: "int64 option"

definition WAL_Row :: "WAL \<Rightarrow> val list" where
  "WAL_Row w = [
    v_int (WAL.Files w), v_int (WAL.Bytes w), v_opt v_int (WAL.MaxWALSizeBytes w),
    v_opt v_int (WAL.WALKeepBytes w), v_opt v_int (WAL.WALSegmentBytes w)]"

type_synonym SpaceWAL = "WAL coll"

record Mount =
  Kind :: "string"
  Path :: "string"
  Disk :: "Disk"

definition Mount_Row :: "Mount \<Rightarrow> val list" where
  "Mount_Row m = [
    VStr (Mount.Kind m), VStr (Mount.Path m), v_uint (Disk.TotalBytes (Mount.Disk m)),
    v_uint (Disk.UsedBytes (Mount.Disk m)), v_uint (Disk.AvailBytes (Mount.Disk m))]"

type_synonym SpaceDisk = "Mount coll"

definition SpaceTablespaces_Redacted :: "SpaceTablespaces \<Rightarrow> Redaction list" where
  "SpaceTablespaces_Redacted s = redactions SpaceTablespacesID [''size_bytes''] ReasonInsufficientPrivilege
     (count_rows (\<lambda>x. Tablespace.SizeBytes x = None) (coll.Rows s))"

section \<open>Freeze ages\<close>

definition FreezeDatabaseColumns :: "string list" where
  "FreezeDatabaseColumns = [
    ''datname'', ''datfrozenxid'', ''xid_age'', ''datminmxid'', ''mxid_age'', ''datallowconn'']"

definition FreezeTableColumns :: "string list" where
  "FreezeTableColumns = [
    ''relation'', ''relkind'', ''relfrozenxid'', ''xid_age'', ''relminmxid'', ''mxid_age'',
    ''heap_bytes_est'']"

definition FreezeLimitColumns :: "string list" where
  "FreezeLimitColumns = [
    ''autovacuum_freeze_max_age'', ''autovacuum_multixact_freeze_max_age'',
    ''vacuum_freeze_table_age'']"

definition FreezeDatabasesID :: string where
  "FreezeDatabasesID = ''freeze.databases''"

definition FreezeTablesID :: string where
  "FreezeTablesID = ''freeze.tables''"

definition FreezeLimitsID :: string where
  "FreezeLimitsID = ''freeze.limits''"

record FrozenDatabase =
  Datname :: "string"
  DatFrozenXID :: "uint32"
  XIDAge :: "int32"
  DatMinMXID :: "uint32"
  MXIDAge :: "int32"
  AllowConn :: "bool"

definition FrozenDatabase_Row :: "FrozenDatabase \<Rightarrow> val list" where
  "FrozenDatabase_Row d = [
    VStr (FrozenDatabase.Datname d), v_uint (FrozenDatabase.DatFrozenXID d),
    v_int (FrozenDatabase.XIDAge d), v_uint (FrozenDatabase.DatMinMXID d),
    v_int (FrozenDatabase.MXIDAge d), VBool (FrozenDatabase.AllowConn d)]"

type_synonym FreezeDatabases = "FrozenDatabase coll"

record FrozenTable =
  Relation :: "string"
  Relkind :: "string"
  RelFrozenXID :: "uint32"
  XIDAge :: "int32"
  RelMinMXID :: "uint32"
  MXIDAge :: "int32"
  HeapBytesEst :: "int64"

definition FrozenTable_Row :: "FrozenTable \<Rightarrow> val list" where
  "FrozenTable_Row t = [
    VStr (FrozenTable.Relation t), VStr (FrozenTable.Relkind t),
    v_uint (FrozenTable.RelFrozenXID t), v_int (FrozenTable.XIDAge t),
    v_uint (FrozenTable.RelMinMXID t), v_int (FrozenTable.MXIDAge t),
    v_int (FrozenTable.HeapBytesEst t)]"

type_synonym FreezeTables = "FrozenTable coll"

record FreezeLimit =
  FreezeMaxAge :: "int64"
  MultiFreezeMaxAge :: "int64"
  FreezeTableAge :: "int64"

definition FreezeLimit_Row :: "FreezeLimit \<Rightarrow> val list" where
  "FreezeLimit_Row l = [
    v_int (FreezeLimit.FreezeMaxAge l), v_int (FreezeLimit.MultiFreezeMaxAge l),
    v_int (FreezeLimit.FreezeTableAge l)]"

type_synonym FreezeLimits = "FreezeLimit coll"

definition XIDStopAge :: int where
  "XIDStopAge = 2 ^ 31 - 1 - 1000000"

definition MXIDStopAge :: int where
  "MXIDStopAge = 2 ^ 31 - 1 - 100"

section \<open>Vacuum\<close>

definition VacuumTableColumns :: "string list" where
  "VacuumTableColumns = [
    ''schemaname'', ''relname'', ''n_live_tup'', ''n_dead_tup'', ''reltuples'', ''reloptions'',
    ''last_vacuum_age_s'', ''last_autovacuum_age_s'', ''vacuum_count'', ''autovacuum_count'']"

definition VacuumProgressColumns :: "string list" where
  "VacuumProgressColumns = [
    ''pid'', ''datname'', ''relation'', ''phase'', ''heap_blks_total'', ''heap_blks_scanned'',
    ''is_autovacuum'', ''xact_age_s'']"

definition VacuumSettingColumns :: "string list" where
  "VacuumSettingColumns = [
    ''autovacuum'', ''track_counts'', ''autovacuum_vacuum_threshold'',
    ''autovacuum_vacuum_scale_factor'', ''autovacuum_naptime_s'', ''autovacuum_max_workers'']"

definition VacuumTablesID :: string where
  "VacuumTablesID = ''vacuum.tables''"

definition VacuumProgressID :: string where
  "VacuumProgressID = ''vacuum.progress''"

definition VacuumSettingsID :: string where
  "VacuumSettingsID = ''vacuum.settings''"

record VacuumTable =
  Schemaname :: "string"
  Relname :: "string"
  NLiveTup :: "int64"
  NDeadTup :: "int64"
  Reltuples :: "flt"
  Reloptions :: "string list"
  LastVacuumAgeS :: "flt option"
  LastAutovacuumAgeS :: "flt option"
  VacuumCount :: "int64"
  AutovacuumCount :: "int64"

definition VacuumTable_Row :: "VacuumTable \<Rightarrow> val list" where
  "VacuumTable_Row t = [
    VStr (VacuumTable.Schemaname t), VStr (VacuumTable.Relname t),
    v_int (VacuumTable.NLiveTup t), v_int (VacuumTable.NDeadTup t),
    VFlt32 (VacuumTable.Reltuples t), VStrs (VacuumTable.Reloptions t),
    v_opt VFlt (VacuumTable.LastVacuumAgeS t), v_opt VFlt (VacuumTable.LastAutovacuumAgeS t),
    v_int (VacuumTable.VacuumCount t), v_int (VacuumTable.AutovacuumCount t)]"

type_synonym VacuumTables = "VacuumTable coll"

record VacuumRun =
  PID :: "int32"
  Datname :: "string option"
  Relation :: "string option"
  Phase :: "string option"
  HeapBlksTotal :: "int64 option"
  HeapBlksScanned :: "int64 option"
  IsAutovacuum :: "bool option"
  XactAgeS :: "flt option"

definition VacuumRun_Row :: "VacuumRun \<Rightarrow> val list" where
  "VacuumRun_Row v = [
    v_int (VacuumRun.PID v), v_opt VStr (VacuumRun.Datname v),
    v_opt VStr (VacuumRun.Relation v), v_opt VStr (VacuumRun.Phase v),
    v_opt v_int (VacuumRun.HeapBlksTotal v), v_opt v_int (VacuumRun.HeapBlksScanned v),
    v_opt VBool (VacuumRun.IsAutovacuum v), v_opt VFlt (VacuumRun.XactAgeS v)]"

type_synonym VacuumProgress = "VacuumRun coll"

record VacuumSetting =
  Autovacuum :: "string"
  TrackCounts :: "string"
  Threshold :: "int64"
  ScaleFactor :: "flt"
  NaptimeS :: "int64"
  MaxWorkers :: "int32"

definition VacuumSetting_Row :: "VacuumSetting \<Rightarrow> val list" where
  "VacuumSetting_Row s = [
    VStr (VacuumSetting.Autovacuum s), VStr (VacuumSetting.TrackCounts s),
    v_int (VacuumSetting.Threshold s), VFlt (VacuumSetting.ScaleFactor s),
    v_int (VacuumSetting.NaptimeS s), v_int (VacuumSetting.MaxWorkers s)]"

type_synonym VacuumSettings = "VacuumSetting coll"

definition VacuumProgress_Redacted :: "VacuumProgress \<Rightarrow> Redaction list" where
  "VacuumProgress_Redacted p = redactions VacuumProgressID [''phase''] ReasonInsufficientPrivilege
     (count_rows (\<lambda>x. VacuumRun.Phase x = None) (coll.Rows p))"

section \<open>One table\<close>

definition TableInfoColumns :: "string list" where
  "TableInfoColumns = [
    ''oid'', ''schemaname'', ''relname'', ''relkind'', ''relpersistence'', ''reltuples'',
    ''relpages'', ''reloptions'', ''xid_age'', ''mxid_age'']"

definition TableSizeColumns :: "string list" where
  "TableSizeColumns = [
    ''total_bytes'', ''table_bytes'', ''index_bytes'', ''toast_bytes'']"

definition TableStatsColumns :: "string list" where
  "TableStatsColumns = [
    ''n_live_tup'', ''n_dead_tup'', ''n_mod_since_analyze'', ''last_vacuum_age_s'',
    ''last_autovacuum_age_s'', ''last_analyze_age_s'', ''last_autoanalyze_age_s'',
    ''vacuum_count'', ''autovacuum_count'', ''analyze_count'', ''autoanalyze_count'',
    ''seq_scan'', ''seq_tup_read'', ''idx_scan'', ''idx_tup_fetch'', ''n_tup_ins'',
    ''n_tup_upd'', ''n_tup_del'', ''n_tup_hot_upd'', ''heap_blks_read'', ''heap_blks_hit'',
    ''idx_blks_read'', ''idx_blks_hit'']"

definition TableIndexColumns :: "string list" where
  "TableIndexColumns = [
    ''indexrelname'', ''definition'', ''bytes'', ''is_unique'', ''is_primary'', ''is_valid'',
    ''idx_scan'']"

definition TableInfoID :: string where
  "TableInfoID = ''table.info''"

definition TableSizeID :: string where
  "TableSizeID = ''table.size''"

definition TableStatsID :: string where
  "TableStatsID = ''table.stats''"

definition TableIndexesID :: string where
  "TableIndexesID = ''table.indexes''"

record TableInfo =
  OID :: "uint32"
  Schemaname :: "string"
  Relname :: "string"
  Relkind :: "string"
  Relpersistence :: "string"
  Reltuples :: "flt"
  Relpages :: "int32"
  Reloptions :: "string list"
  XIDAge :: "int32 option"
  MXIDAge :: "int32 option"

definition TableInfo_Row :: "TableInfo \<Rightarrow> val list" where
  "TableInfo_Row t = [
    v_uint (TableInfo.OID t), VStr (TableInfo.Schemaname t), VStr (TableInfo.Relname t),
    VStr (TableInfo.Relkind t), VStr (TableInfo.Relpersistence t),
    VFlt32 (TableInfo.Reltuples t), v_int (TableInfo.Relpages t),
    VStrs (TableInfo.Reloptions t), v_opt v_int (TableInfo.XIDAge t),
    v_opt v_int (TableInfo.MXIDAge t)]"

type_synonym TableInfos = "TableInfo coll"

record TableSize =
  TotalBytes :: "int64"
  TableBytes :: "int64"
  IndexBytes :: "int64"
  ToastBytes :: "int64 option"

definition TableSize_Row :: "TableSize \<Rightarrow> val list" where
  "TableSize_Row t = [
    v_int (TableSize.TotalBytes t), v_int (TableSize.TableBytes t),
    v_int (TableSize.IndexBytes t), v_opt v_int (TableSize.ToastBytes t)]"

type_synonym TableSizes = "TableSize coll"

record TableStat =
  NLiveTup :: "int64"
  NDeadTup :: "int64"
  NModSinceAnalyze :: "int64"
  LastVacuumAgeS :: "flt option"
  LastAutovacuumAgeS :: "flt option"
  LastAnalyzeAgeS :: "flt option"
  LastAutoanalyzeAgeS :: "flt option"
  VacuumCount :: "int64"
  AutovacuumCount :: "int64"
  AnalyzeCount :: "int64"
  AutoanalyzeN :: "int64"
  SeqScan :: "int64"
  SeqTupRead :: "int64"
  IdxScan :: "int64 option"
  IdxTupFetch :: "int64 option"
  NTupIns :: "int64"
  NTupUpd :: "int64"
  NTupDel :: "int64"
  NTupHotUpd :: "int64"
  HeapBlksRead :: "int64 option"
  HeapBlksHit :: "int64 option"
  IdxBlksRead :: "int64 option"
  IdxBlksHit :: "int64 option"

definition TableStat_Row :: "TableStat \<Rightarrow> val list" where
  "TableStat_Row s = [
    v_int (TableStat.NLiveTup s), v_int (TableStat.NDeadTup s),
    v_int (TableStat.NModSinceAnalyze s), v_opt VFlt (TableStat.LastVacuumAgeS s),
    v_opt VFlt (TableStat.LastAutovacuumAgeS s), v_opt VFlt (TableStat.LastAnalyzeAgeS s),
    v_opt VFlt (TableStat.LastAutoanalyzeAgeS s), v_int (TableStat.VacuumCount s),
    v_int (TableStat.AutovacuumCount s), v_int (TableStat.AnalyzeCount s),
    v_int (TableStat.AutoanalyzeN s), v_int (TableStat.SeqScan s),
    v_int (TableStat.SeqTupRead s), v_opt v_int (TableStat.IdxScan s),
    v_opt v_int (TableStat.IdxTupFetch s), v_int (TableStat.NTupIns s),
    v_int (TableStat.NTupUpd s), v_int (TableStat.NTupDel s), v_int (TableStat.NTupHotUpd s),
    v_opt v_int (TableStat.HeapBlksRead s), v_opt v_int (TableStat.HeapBlksHit s),
    v_opt v_int (TableStat.IdxBlksRead s), v_opt v_int (TableStat.IdxBlksHit s)]"

type_synonym TableStats = "TableStat coll"

record TableIndex =
  Name :: "string"
  Definition :: "string"
  Bytes :: "int64 option"
  IsUnique :: "bool"
  IsPrimary :: "bool"
  IsValid :: "bool"
  IdxScan :: "int64 option"

definition TableIndex_Row :: "TableIndex \<Rightarrow> val list" where
  "TableIndex_Row i = [
    VStr (TableIndex.Name i), VStr (TableIndex.Definition i), v_opt v_int (TableIndex.Bytes i),
    VBool (TableIndex.IsUnique i), VBool (TableIndex.IsPrimary i),
    VBool (TableIndex.IsValid i), v_opt v_int (TableIndex.IdxScan i)]"

type_synonym TableIndexes = "TableIndex coll"

section \<open>Large objects of the database\<close>

definition ObjectTableColumns :: "string list" where
  "ObjectTableColumns = [
    ''schemaname'', ''relname'', ''relkind'', ''total_bytes'', ''table_bytes'',
    ''index_bytes'', ''toast_bytes'', ''reltuples'']"

definition ObjectIndexColumns :: "string list" where
  "ObjectIndexColumns = [
    ''schemaname'', ''relname'', ''table_name'', ''bytes'']"

definition ObjectTablesID :: string where
  "ObjectTablesID = ''object.tables''"

definition ObjectIndexesID :: string where
  "ObjectIndexesID = ''object.indexes''"

record ObjectTable =
  Schemaname :: "string"
  Relname :: "string"
  Relkind :: "string"
  TotalBytes :: "int64"
  TableBytes :: "int64"
  IndexBytes :: "int64"
  ToastBytes :: "int64 option"
  Reltuples :: "int64"

definition ObjectTable_Row :: "ObjectTable \<Rightarrow> val list" where
  "ObjectTable_Row t = [
    VStr (ObjectTable.Schemaname t), VStr (ObjectTable.Relname t),
    VStr (ObjectTable.Relkind t), v_int (ObjectTable.TotalBytes t),
    v_int (ObjectTable.TableBytes t), v_int (ObjectTable.IndexBytes t),
    v_opt v_int (ObjectTable.ToastBytes t), v_int (ObjectTable.Reltuples t)]"

type_synonym ObjectTables = "ObjectTable coll"

record ObjectIndex =
  Schemaname :: "string"
  Relname :: "string"
  TableName :: "string"
  Bytes :: "int64"

definition ObjectIndex_Row :: "ObjectIndex \<Rightarrow> val list" where
  "ObjectIndex_Row i = [
    VStr (ObjectIndex.Schemaname i), VStr (ObjectIndex.Relname i),
    VStr (ObjectIndex.TableName i), v_int (ObjectIndex.Bytes i)]"

type_synonym ObjectIndexes = "ObjectIndex coll"

section \<open>Sequences\<close>

definition SeqColumns :: "string list" where
  "SeqColumns = [
    ''schemaname'', ''sequencename'', ''data_type'', ''start_value'', ''min_value'',
    ''max_value'', ''increment_by'', ''cycle'', ''cache_size'', ''last_value'', ''readable'']"

definition SeqListID :: string where
  "SeqListID = ''seq.list''"

record Sequence =
  Schemaname :: "string"
  Sequencename :: "string"
  DataType :: "string"
  StartValue :: "int64"
  MinValue :: "int64"
  MaxValue :: "int64"
  IncrementBy :: "int64"
  Cycle :: "bool"
  CacheSize :: "int64"
  LastValue :: "int64 option"
  Readable :: "bool"

definition Sequence_Row :: "Sequence \<Rightarrow> val list" where
  "Sequence_Row s = [
    VStr (Sequence.Schemaname s), VStr (Sequence.Sequencename s), VStr (Sequence.DataType s),
    v_int (Sequence.StartValue s), v_int (Sequence.MinValue s), v_int (Sequence.MaxValue s),
    v_int (Sequence.IncrementBy s), VBool (Sequence.Cycle s), v_int (Sequence.CacheSize s),
    v_opt v_int (Sequence.LastValue s), VBool (Sequence.Readable s)]"

type_synonym SeqList = "Sequence coll"

definition SeqList_Redacted :: "SeqList \<Rightarrow> Redaction list" where
  "SeqList_Redacted l = redactions SeqListID [''last_value''] ReasonInsufficientPrivilege
     (count_rows (\<lambda>x. \<not> Sequence.Readable x) (coll.Rows l))"

section \<open>Statements\<close>

definition TopColumns :: "string list" where
  "TopColumns = [
    ''queryid'', ''username'', ''datname'', ''calls'', ''total_exec_s'', ''mean_exec_s'',
    ''max_exec_s'', ''rows'', ''shared_blks_hit'', ''shared_blks_read'', ''temp_blks_written'',
    ''query'']"

definition SQLTopID :: string where
  "SQLTopID = ''sql.top''"

record Statement =
  QueryID :: "int64 option"
  Username :: "string option"
  Datname :: "string option"
  Calls :: "int64"
  TotalExecS :: "flt"
  MeanExecS :: "flt"
  MaxExecS :: "flt"
  Rows :: "int64"
  SharedBlksHit :: "int64"
  SharedBlksRead :: "int64"
  TempBlksWritten :: "int64"
  Query :: "string option"

definition Statement_Row :: "Statement \<Rightarrow> val list" where
  "Statement_Row s = [
    v_opt v_int (Statement.QueryID s), v_opt VStr (Statement.Username s),
    v_opt VStr (Statement.Datname s), v_int (Statement.Calls s), VFlt (Statement.TotalExecS s),
    VFlt (Statement.MeanExecS s), VFlt (Statement.MaxExecS s), v_int (Statement.Rows s),
    v_int (Statement.SharedBlksHit s), v_int (Statement.SharedBlksRead s),
    v_int (Statement.TempBlksWritten s), v_opt VStr (Statement.Query s)]"

record SQLTop = "Statement coll" +
  Track :: "string"

definition Statement_Masked :: "Statement \<Rightarrow> bool" where
  "Statement_Masked s \<longleftrightarrow> Statement.Query s = Some ''<insufficient privilege>''"

definition SQLTop_Redacted :: "SQLTop \<Rightarrow> Redaction list" where
  "SQLTop_Redacted t = redactions SQLTopID [''query'', ''queryid''] ReasonInsufficientPrivilege
     (count_rows Statement_Masked (coll.Rows t))"

section \<open>Long operations\<close>

definition ProgressColumns :: "string list" where
  "ProgressColumns = [
    ''pid'', ''command'', ''datname'', ''relation'', ''phase'', ''done'', ''total'', ''unit'',
    ''running_s'', ''waiting_lockers'']"

definition ProgressListID :: string where
  "ProgressListID = ''progress.list''"

definition ProgressCheckpointID :: string where
  "ProgressCheckpointID = ''progress.checkpoint''"

record Operation =
  PID :: "int32"
  Command :: "string"
  Datname :: "string option"
  Relation :: "string option"
  Phase :: "string option"
  Done :: "int64 option"
  Total :: "int64 option"
  Unit :: "string"
  RunningS :: "flt option"
  WaitingLockers :: "int64 option"

definition Operation_Row :: "Operation \<Rightarrow> val list" where
  "Operation_Row x = [
    v_int (Operation.PID x), VStr (Operation.Command x), v_opt VStr (Operation.Datname x),
    v_opt VStr (Operation.Relation x), v_opt VStr (Operation.Phase x),
    v_opt v_int (Operation.Done x), v_opt v_int (Operation.Total x), VStr (Operation.Unit x),
    v_opt VFlt (Operation.RunningS x), v_opt v_int (Operation.WaitingLockers x)]"

type_synonym ProgressList = "Operation coll"

definition ProgressList_Redacted :: "string \<Rightarrow> ProgressList \<Rightarrow> Redaction list" where
  "ProgressList_Redacted probe p = redactions probe [''phase''] ReasonInsufficientPrivilege
     (count_rows (\<lambda>x. Operation.Phase x = None) (coll.Rows p))"

end
