(* ===== verification/FactsRepl.thy ===== *)
theory FactsRepl
  imports FactsBase
begin

text \<open>
  What the probes read of replication and of repmgr
  (\<open>internal/facts/{repl,cluster}.go\<close>).
\<close>

section \<open>Replication\<close>

definition ReplDownstreamColumns :: "string list" where
  "ReplDownstreamColumns = [
    ''pid'', ''application_name'', ''client_addr'', ''state'', ''sync_state'',
    ''sync_priority'', ''sent_lsn'', ''write_lsn'', ''flush_lsn'', ''replay_lsn'',
    ''sent_lag_bytes'', ''flush_lag_bytes'', ''replay_lag_bytes'', ''write_lag_s'',
    ''flush_lag_s'', ''replay_lag_s'', ''reply_age_s'']"

definition ReplSyncColumns :: "string list" where
  "ReplSyncColumns = [
    ''synchronous_standby_names'', ''synchronous_commit'']"

definition ReplReplayColumns :: "string list" where
  "ReplReplayColumns = [
    ''receive_lsn'', ''replay_lsn'', ''replay_gap_bytes'', ''last_replay_age_s'',
    ''replay_paused'']"

definition ReplDownstreamsID :: string where
  "ReplDownstreamsID = ''repl.downstreams''"

definition ReplSyncID :: string where
  "ReplSyncID = ''repl.sync''"

definition ReplReplayID :: string where
  "ReplReplayID = ''repl.replay''"

record Replica =
  PID :: "int32"
  ApplicationName :: "string option"
  ClientAddr :: "string option"
  State :: "string option"
  SyncState :: "string option"
  SyncPriority :: "int32 option"
  SentLSN :: "string option"
  WriteLSN :: "string option"
  FlushLSN :: "string option"
  ReplayLSN :: "string option"
  SentLagBytes :: "int64 option"
  FlushLagBytes :: "int64 option"
  ReplayLagBytes :: "int64 option"
  WriteLagS :: "flt option"
  FlushLagS :: "flt option"
  ReplayLagS :: "flt option"
  ReplyAgeS :: "flt option"

definition Replica_Row :: "Replica \<Rightarrow> val list" where
  "Replica_Row r = [
    v_int (Replica.PID r), v_opt VStr (Replica.ApplicationName r),
    v_opt VStr (Replica.ClientAddr r), v_opt VStr (Replica.State r),
    v_opt VStr (Replica.SyncState r), v_opt v_int (Replica.SyncPriority r),
    v_opt VStr (Replica.SentLSN r), v_opt VStr (Replica.WriteLSN r),
    v_opt VStr (Replica.FlushLSN r), v_opt VStr (Replica.ReplayLSN r),
    v_opt v_int (Replica.SentLagBytes r), v_opt v_int (Replica.FlushLagBytes r),
    v_opt v_int (Replica.ReplayLagBytes r), v_opt VFlt (Replica.WriteLagS r),
    v_opt VFlt (Replica.FlushLagS r), v_opt VFlt (Replica.ReplayLagS r),
    v_opt VFlt (Replica.ReplyAgeS r)]"

type_synonym ReplDownstreams = "Replica coll"

record SyncSetting =
  StandbyNames :: "string option"
  Commit :: "string"

definition SyncSetting_Row :: "SyncSetting \<Rightarrow> val list" where
  "SyncSetting_Row s = [
    v_opt VStr (SyncSetting.StandbyNames s), VStr (SyncSetting.Commit s)]"

type_synonym ReplSync = "SyncSetting coll"

record Replay =
  ReceiveLSN :: "string option"
  ReplayLSN :: "string option"
  ReplayGapBytes :: "int64 option"
  LastReplayAgeS :: "flt option"
  ReplayPaused :: "bool"

definition Replay_Row :: "Replay \<Rightarrow> val list" where
  "Replay_Row r = [
    v_opt VStr (Replay.ReceiveLSN r), v_opt VStr (Replay.ReplayLSN r),
    v_opt v_int (Replay.ReplayGapBytes r), v_opt VFlt (Replay.LastReplayAgeS r),
    VBool (Replay.ReplayPaused r)]"

type_synonym ReplReplay = "Replay coll"

section \<open>The repmgr cluster\<close>

definition ClusterNodeColumns :: "string list" where
  "ClusterNodeColumns = [
    ''node_id'', ''node_name'', ''type'', ''upstream_node_id'', ''active'', ''priority'',
    ''location'', ''slot_name'', ''is_local'']"

definition ClusterEventColumns :: "string list" where
  "ClusterEventColumns = [
    ''node_id'', ''event'', ''successful'', ''event_time'', ''event_age_s'', ''details'']"

definition ClusterSyncColumns :: "string list" where
  "ClusterSyncColumns = [
    ''conf_path'', ''synchronous'', ''synchronous_standby_names'']"

definition ClusterNodesID :: string where
  "ClusterNodesID = ''cluster.nodes''"

definition ClusterEventsID :: string where
  "ClusterEventsID = ''cluster.events''"

definition ClusterSyncID :: string where
  "ClusterSyncID = ''cluster.sync''"

record ClusterNode =
  NodeID :: "int32"
  NodeName :: "string"
  Type :: "string"
  UpstreamNodeID :: "int32 option"
  Active :: "bool"
  Priority :: "int32 option"
  Location :: "string option"
  SlotName :: "string option"
  IsLocal :: "bool"

definition ClusterNode_Row :: "ClusterNode \<Rightarrow> val list" where
  "ClusterNode_Row n = [
    v_int (ClusterNode.NodeID n), VStr (ClusterNode.NodeName n), VStr (ClusterNode.Type n),
    v_opt v_int (ClusterNode.UpstreamNodeID n), VBool (ClusterNode.Active n),
    v_opt v_int (ClusterNode.Priority n), v_opt VStr (ClusterNode.Location n),
    v_opt VStr (ClusterNode.SlotName n), VBool (ClusterNode.IsLocal n)]"

type_synonym ClusterNodes = "ClusterNode coll"

record ClusterEvent =
  NodeID :: "int32"
  Event :: "string"
  Successful :: "bool"
  Time :: "gotime"
  AgeS :: "flt"
  Details :: "string option"

definition ClusterEvent_Row :: "ClusterEvent \<Rightarrow> val list" where
  "ClusterEvent_Row e = [
    v_int (ClusterEvent.NodeID e), VStr (ClusterEvent.Event e),
    VBool (ClusterEvent.Successful e), v_time (ClusterEvent.Time e),
    VFlt (ClusterEvent.AgeS e), v_opt VStr (ClusterEvent.Details e)]"

type_synonym ClusterEvents = "ClusterEvent coll"

record ClusterSync =
  ConfPath :: "string"
  Synchronous :: "string option"
  StandbyNames :: "string option"

definition ClusterSync_Row :: "ClusterSync \<Rightarrow> val list" where
  "ClusterSync_Row s = [
    VStr (ClusterSync.ConfPath s), v_opt VStr (ClusterSync.Synchronous s),
    v_opt VStr (ClusterSync.StandbyNames s)]"

type_synonym ClusterSyncs = "ClusterSync coll"

definition ClusterEventLimit :: int where
  "ClusterEventLimit = 20"

end
