(* ===== verification/FactsSession.thy ===== *)
theory FactsSession
  imports FactsBase
begin

text \<open>
  What the probes read of sessions, locks, two-phase transactions and waits
  (\<open>internal/facts/{session,lock,txn,wait}.go\<close>).
\<close>

section \<open>Sessions\<close>

definition SessionColumns :: "string list" where
  "SessionColumns = [
    ''pid'', ''usename'', ''datname'', ''application_name'', ''client_addr'', ''backend_type'',
    ''state'', ''backend_xid'', ''backend_xmin'', ''xact_age_s'', ''query_age_s'',
    ''state_age_s'', ''wait_event_type'', ''wait_event'', ''query'']"

definition SessionActivityID :: string where
  "SessionActivityID = ''session.activity''"

record Session =
  PID :: "int32"
  Usename :: "string option"
  Datname :: "string option"
  ApplicationName :: "string option"
  ClientAddr :: "string option"
  BackendType :: "string option"
  State :: "string option"
  BackendXID :: "uint32 option"
  BackendXmin :: "uint32 option"
  XactAgeS :: "flt option"
  QueryAgeS :: "flt option"
  StateAgeS :: "flt option"
  WaitEventType :: "string option"
  WaitEvent :: "string option"
  Query :: "string option"

definition Session_Row :: "Session \<Rightarrow> val list" where
  "Session_Row s = [
    v_int (Session.PID s), v_opt VStr (Session.Usename s), v_opt VStr (Session.Datname s),
    v_opt VStr (Session.ApplicationName s), v_opt VStr (Session.ClientAddr s),
    v_opt VStr (Session.BackendType s), v_opt VStr (Session.State s),
    v_opt v_uint (Session.BackendXID s), v_opt v_uint (Session.BackendXmin s),
    v_opt VFlt (Session.XactAgeS s), v_opt VFlt (Session.QueryAgeS s),
    v_opt VFlt (Session.StateAgeS s), v_opt VStr (Session.WaitEventType s),
    v_opt VStr (Session.WaitEvent s), v_opt VStr (Session.Query s)]"

type_synonym SessionActivity = "Session coll"

definition insufficientPrivilege :: string where
  "insufficientPrivilege = ''<insufficient privilege>''"

definition maskedSessionColumns :: "string list" where
  "maskedSessionColumns = [''client_addr'', ''backend_type'', ''state'', ''xact_age_s'',
    ''query_age_s'', ''state_age_s'', ''wait_event_type'', ''wait_event'', ''query'']"

definition Session_Masked :: "Session \<Rightarrow> bool" where
  "Session_Masked s \<longleftrightarrow> Session.Query s = Some insufficientPrivilege"

definition untrackedSessionColumns :: "string list" where
  "untrackedSessionColumns = [''state'', ''state_age_s'', ''wait_event_type'', ''wait_event'', ''query'']"

definition Session_Untracked :: "Session \<Rightarrow> bool" where
  "Session_Untracked s \<longleftrightarrow> Session.State s = Some ''disabled''"

definition SessionActivity_Redacted :: "SessionActivity \<Rightarrow> Redaction list" where
  "SessionActivity_Redacted a =
     redactions SessionActivityID maskedSessionColumns ReasonInsufficientPrivilege
       (count_rows Session_Masked (coll.Rows a)) @
     redactions SessionActivityID untrackedSessionColumns ReasonTrackActivitiesOff
       (count_rows (\<lambda>s. \<not> Session_Masked s \<and> Session_Untracked s) (coll.Rows a))"

section \<open>Locks\<close>

definition LockColumns :: "string list" where
  "LockColumns = [
    ''pid'', ''locktype'', ''relation'', ''mode'', ''granted'', ''wait_s'', ''blocked_by'']"

definition LockListID :: string where
  "LockListID = ''lock.list''"

record Lock =
  PID :: "int32 option"
  Locktype :: "string"
  Relation :: "string option"
  Mode :: "string"
  Granted :: "bool"
  WaitS :: "flt option"
  BlockedBy :: "int32 list"
  Masked :: "bool"

definition Lock_Row :: "Lock \<Rightarrow> val list" where
  "Lock_Row l = [
    v_opt v_int (Lock.PID l), VStr (Lock.Locktype l), v_opt VStr (Lock.Relation l),
    VStr (Lock.Mode l), VBool (Lock.Granted l), v_opt VFlt (Lock.WaitS l),
    v_ints (Lock.BlockedBy l)]"

type_synonym LockList = "Lock coll"

text \<open>A pid that blocks twice counts once.\<close>

definition Lock_Blockers :: "Lock \<Rightarrow> int32 list" where
  "Lock_Blockers l = firsts (Lock.BlockedBy l)"

definition PreparedBlocker :: int32 where
  "PreparedBlocker = 0"

definition LockList_Redacted :: "LockList \<Rightarrow> Redaction list" where
  "LockList_Redacted l = redactions LockListID [''wait_s''] ReasonInsufficientPrivilege
     (count_rows (\<lambda>x. \<not> Lock.Granted x \<and> Lock.Masked x) (coll.Rows l))"

section \<open>Two-phase transactions\<close>

definition PreparedColumns :: "string list" where
  "PreparedColumns = [
    ''gid'', ''owner'', ''database'', ''prepared_at'', ''age_s'', ''transaction'']"

definition TxnPreparedID :: string where
  "TxnPreparedID = ''txn.prepared''"

record Prepared =
  GID :: "string"
  Owner :: "string"
  Database :: "string"
  PreparedAt :: "gotime"
  AgeS :: "flt"
  Transaction :: "uint32"

definition Prepared_Row :: "Prepared \<Rightarrow> val list" where
  "Prepared_Row p = [
    VStr (Prepared.GID p), VStr (Prepared.Owner p), VStr (Prepared.Database p),
    v_time (trunc_second (Prepared.PreparedAt p)), VFlt (Prepared.AgeS p),
    v_uint (Prepared.Transaction p)]"

type_synonym TxnPrepared = "Prepared coll"

section \<open>Wait events\<close>

definition WaitColumns :: "string list" where
  "WaitColumns = [
    ''wait_event_type'', ''wait_event'', ''state'', ''sessions'', ''pids'']"

definition WaitSummaryID :: string where
  "WaitSummaryID = ''wait.summary''"

record Wait =
  WaitEventType :: "string option"
  WaitEvent :: "string option"
  State :: "string option"
  Sessions :: "int"
  PIDs :: "int32 list"
  Masked :: "int"
  Background :: "int32 list"

definition Wait_Row :: "Wait \<Rightarrow> val list" where
  "Wait_Row w = [
    v_opt VStr (Wait.WaitEventType w), v_opt VStr (Wait.WaitEvent w),
    v_opt VStr (Wait.State w), VInt (Wait.Sessions w), v_ints (Wait.PIDs w)]"

type_synonym WaitSummary = "Wait coll"

definition redactedWaitColumns :: "string list" where
  "redactedWaitColumns = [''wait_event_type'', ''wait_event'', ''state'']"

text \<open>Sessions are counted, not groups.\<close>

definition wait_masked :: "Wait list \<Rightarrow> int" where
  "wait_masked ws = sum_list (map Wait.Masked ws)"

definition wait_untracked :: "Wait list \<Rightarrow> int" where
  "wait_untracked ws =
     sum_list (map (\<lambda>w. if Wait.State w = Some ''disabled'' then Wait.Sessions w - Wait.Masked w else 0) ws)"

definition WaitSummary_Redacted :: "WaitSummary \<Rightarrow> Redaction list" where
  "WaitSummary_Redacted s =
     redactions WaitSummaryID redactedWaitColumns ReasonInsufficientPrivilege (wait_masked (coll.Rows s)) @
     redactions WaitSummaryID redactedWaitColumns ReasonTrackActivitiesOff (wait_untracked (coll.Rows s))"

end
