(* ===== verification/Units.thy ===== *)
theory Units
  imports GoFloat
begin

text \<open>
  Package \<open>units\<close> (\<open>internal/units/units.go\<close>): sizes and durations as people read them, used by
  the symptoms of findings and by every text layout.
\<close>

definition byte_units :: "string list" where
  "byte_units = [''bytes'', ''kB'', ''MB'', ''GB'', ''TB'', ''PB'']"

fun bytes_loop :: "flt \<Rightarrow> string list \<Rightarrow> flt \<times> string" where
  "bytes_loop b [] = (b, [])"
| "bytes_loop b [u] = (b, u)"
| "bytes_loop b (u # v # us) =
     (if f_le (Fin 10240) (f_abs (f_round b)) then bytes_loop (f_div rnd64 b (Fin 1024)) (v # us)
      else (b, u))"

definition Bytes :: "flt \<Rightarrow> string" where
  "Bytes b = (let (x, u) = bytes_loop b byte_units in fmt_f0 (f_round x) @ '' '' @ u)"

definition duration_secs :: "flt \<Rightarrow> int" where
  "duration_secs s = (let n = sint (int64_of_flt (f_round s)) in if n < 0 then 0 else n)"

definition duration_units :: "int \<Rightarrow> (int \<times> string) list" where
  "duration_units n =
     [(n div 86400, ''d''), (n mod 86400 div 3600, ''h''), (n mod 3600 div 60, ''m''), (n mod 60, ''s'')]"

fun duration_loop :: "(int \<times> string) list \<Rightarrow> string" where
  "duration_loop [] = ''0s''"
| "duration_loop [p] = fmt_d (fst p) @ snd p"
| "duration_loop (p # q # ps) =
     (if fst p = 0 then duration_loop (q # ps)
      else fmt_d (fst p) @ snd p @ '' '' @ fmt_d (fst q) @ snd q)"

definition Duration :: "flt \<Rightarrow> string" where
  "Duration s = duration_loop (duration_units (duration_secs s))"

section \<open>Sizes\<close>

text \<open>
  What \<open>pg_size_pretty\<close> promises: divide by 1024 as often as it takes for the rounded number
  to fall under 10240, at most five times. On the exact value, no rounding in between.
\<close>

fun pretty_steps :: "nat \<Rightarrow> rat \<Rightarrow> nat" where
  "pretty_steps 0 q = 0"
| "pretty_steps (Suc n) q = (if \<bar>away q\<bar> < 10240 then 0 else Suc (pretty_steps n (q / 1024)))"

lemma pretty_steps_le: "pretty_steps n q \<le> n"
  by (induction n arbitrary: q) auto

lemma pretty_steps_small: "pretty_steps n q < n \<Longrightarrow> \<bar>away (q / 1024 ^ pretty_steps n q)\<bar> < 10240"
proof (induction n arbitrary: q)
  case (Suc n)
  then show ?case using Suc.IH [of "q / 1024"] by (auto split: if_splits)
qed simp

lemma pretty_steps_least: "i < pretty_steps n q \<Longrightarrow> 10240 \<le> \<bar>away (q / 1024 ^ i)\<bar>"
proof (induction n arbitrary: q i)
  case (Suc n)
  then show ?case using Suc.IH [of "i - 1" "q / 1024"] by (cases i) (auto split: if_splits)
qed simp

lemma f_abs_round: "f_le (Fin (of_int k)) (f_abs (f_round (Fin q))) \<longleftrightarrow> k \<le> \<bar>away q\<bar>"
  by (simp flip: of_int_abs)

lemma away_large: "2 \<le> \<bar>away q\<bar> \<Longrightarrow> 1 \<le> \<bar>q\<bar>"
  by (auto simp: away_def split: if_splits)

lemma bytes_loop_pretty:
  "is_f64 q \<Longrightarrow> us \<noteq> [] \<Longrightarrow>
   bytes_loop (Fin q) us =
     (Fin (q / 1024 ^ pretty_steps (length us - 1) q), us ! pretty_steps (length us - 1) q)"
proof (induction us arbitrary: q rule: induct_list012)
  case (3 u v us)
  show ?case
  proof (cases "\<bar>away q\<bar> < 10240")
    case True
    then show ?thesis using f_abs_round [of 10240 q] by simp
  next
    case False
    then have q1: "1 \<le> \<bar>q\<bar>" by (intro away_large) simp
    then have "is_f64 (q / 1024)" using is_f64_div_pow2 [OF 3(3) q1, of 10] by simp
    moreover from this have "f_div rnd64 (Fin q) (Fin 1024) = Fin (q / 1024)"
      using q1 by (subst f_div_Fin) (auto simp: is_f64_def)
    ultimately show ?thesis using False 3(2) [of "q / 1024"] f_abs_round [of 10240 q]
      by (simp add: field_simps)
  qed
qed simp_all

section \<open>Durations\<close>

lemma duration_secs_nonneg [simp]: "0 \<le> duration_secs s"
  by (simp add: duration_secs_def Let_def)

lemma duration_secs_int:
  "0 \<le> i \<Longrightarrow> i < 2 ^ 63 \<Longrightarrow> duration_secs (Fin (of_int i)) = i"
  using int64_of_flt_int [of i] by (simp add: duration_secs_def del: f_round.simps)

lemma Duration_small:
  "n = duration_secs s \<Longrightarrow> n < 60 \<Longrightarrow> Duration s = fmt_d n @ ''s''"
  using duration_secs_nonneg [of s] by (simp add: Duration_def duration_units_def)

end
