(* ===== verification/RuleCore.thy ===== *)
theory RuleCore
  imports FactsSession Units
begin

text \<open>
  Package \<open>rule\<close> (\<open>internal/rule/rule.go\<close>): findings, verdicts, and how the results of
  several rules become one. The loops of the rules over their rows are runs of \<open>scan\<close>: each row
  may add findings, and may report that something could not be seen.
\<close>

section \<open>Verdicts\<close>

datatype level = LevelOK | LevelWARN | LevelFAIL

datatype verdict = VerdictOK | VerdictWARN | VerdictFAIL | VerdictUNKNOWN

record Evidence =
  ProbeID :: string
  Fields :: "(string \<times> val) list"

record Next =
  Kind :: string
  Command :: string
  SQL :: string
  Note :: string

record Finding =
  ID :: string
  Level :: level
  Symptom :: string
  Evidence :: "Evidence list"
  Cause :: "string option"
  Next :: "Next list"

record Result =
  Verdict :: verdict
  Findings :: "Finding list"

text \<open>How bad a verdict is: not having seen is worse than fine and better than a warning.\<close>

instantiation verdict :: linorder
begin

definition severity :: "verdict \<Rightarrow> nat" where
  "severity v = (case v of VerdictOK \<Rightarrow> 0 | VerdictUNKNOWN \<Rightarrow> 1 | VerdictWARN \<Rightarrow> 2 | VerdictFAIL \<Rightarrow> 3)"

definition less_eq_verdict :: "verdict \<Rightarrow> verdict \<Rightarrow> bool" where
  "less_eq_verdict v w \<longleftrightarrow> severity v \<le> severity w"

definition less_verdict :: "verdict \<Rightarrow> verdict \<Rightarrow> bool" where
  "less_verdict v w \<longleftrightarrow> severity v < severity w"

instance
  by standard (auto simp: less_eq_verdict_def less_verdict_def severity_def split: verdict.splits)

end

lemmas verdict_order = less_eq_verdict_def less_verdict_def severity_def

fun verdict_loop :: "verdict \<Rightarrow> Finding list \<Rightarrow> bool \<Rightarrow> verdict" where
  "verdict_loop v [] unknown = (if v = VerdictOK \<and> unknown then VerdictUNKNOWN else v)"
| "verdict_loop v (f # fs) unknown =
     (case Finding.Level f of
        LevelFAIL \<Rightarrow> VerdictFAIL
      | LevelWARN \<Rightarrow> verdict_loop VerdictWARN fs unknown
      | LevelOK \<Rightarrow> verdict_loop v fs unknown)"

definition verdictOf :: "Finding list \<Rightarrow> bool \<Rightarrow> verdict" where
  "verdictOf fs unknown = verdict_loop VerdictOK fs unknown"

definition has_level :: "level \<Rightarrow> Finding list \<Rightarrow> bool" where
  "has_level l fs \<longleftrightarrow> (\<exists>f\<in>set fs. Finding.Level f = l)"

lemma has_level_simps [simp]:
  "\<not> has_level l []"
  "has_level l (f # fs) \<longleftrightarrow> Finding.Level f = l \<or> has_level l fs"
  "has_level l (fs @ gs) \<longleftrightarrow> has_level l fs \<or> has_level l gs"
  by (auto simp: has_level_def)

lemma has_level_map:
  "(\<And>x. Finding.Level (f x) = m) \<Longrightarrow> has_level l (map f xs) \<longleftrightarrow> l = m \<and> xs \<noteq> []"
  by (cases xs) (auto simp: has_level_def)

lemma verdict_loop_cases:
  "v = VerdictOK \<or> v = VerdictWARN \<Longrightarrow>
   verdict_loop v fs unknown =
     (if has_level LevelFAIL fs then VerdictFAIL
      else if v = VerdictWARN \<or> has_level LevelWARN fs then VerdictWARN
      else if unknown then VerdictUNKNOWN else VerdictOK)"
  by (induction v fs unknown rule: verdict_loop.induct) (auto split: level.splits)

lemma verdictOf_cases:
  "verdictOf fs unknown =
     (if has_level LevelFAIL fs then VerdictFAIL
      else if has_level LevelWARN fs then VerdictWARN
      else if unknown then VerdictUNKNOWN else VerdictOK)"
  by (simp add: verdictOf_def verdict_loop_cases)

lemma verdictOf_Nil [verdict_simps]: "verdictOf [] unknown = (if unknown then VerdictUNKNOWN else VerdictOK)"
  by (simp add: verdictOf_cases)

lemma verdictOf_OK_iff [verdict_simps]:
  "verdictOf fs unknown = VerdictOK \<longleftrightarrow> \<not> unknown \<and> \<not> has_level LevelFAIL fs \<and> \<not> has_level LevelWARN fs"
  by (simp add: verdictOf_cases)

lemma verdictOf_append:
  "verdictOf (fs @ gs) (u \<or> v) = max (verdictOf fs u) (verdictOf gs v)"
  by (auto simp: verdictOf_cases max_def verdict_order)

definition judged :: "Finding list \<Rightarrow> bool \<Rightarrow> Result" where
  "judged fs unknown = \<lparr>Result.Verdict = verdictOf fs unknown, Result.Findings = fs\<rparr>"

lemma judged_simps [simp]:
  "Result.Verdict (judged fs unknown) = verdictOf fs unknown"
  "Result.Findings (judged fs unknown) = fs"
  by (simp_all add: judged_def)

section \<open>Joining results\<close>

definition Merge :: "Result list \<Rightarrow> Result" where
  "Merge rs = judged (concat (map Result.Findings rs)) (\<exists>r\<in>set rs. Result.Verdict r = VerdictUNKNOWN)"

text \<open>
  The contract of a rule: its verdict is that of its findings and of whether something it judges
  by could not be seen. Everything the commands say about the verdict rests on it.
\<close>

definition sound_result :: "Result \<Rightarrow> bool" where
  "sound_result r \<longleftrightarrow>
     Result.Verdict r = verdictOf (Result.Findings r) (Result.Verdict r = VerdictUNKNOWN)"

lemma sound_judged [simp]: "sound_result (judged fs u)"
  by (auto simp: sound_result_def verdictOf_cases)

lemma sound_Merge [simp]: "sound_result (Merge rs)"
  by (simp add: Merge_def)

lemma Merge_verdict:
  "\<forall>r\<in>set rs. sound_result r \<Longrightarrow>
   Result.Verdict (Merge rs) = foldr max (map Result.Verdict rs) VerdictOK"
proof (induction rs)
  case Nil
  then show ?case by (simp add: Merge_def verdict_simps)
next
  case (Cons r rs)
  have "Result.Verdict (Merge (r # rs)) =
      max (verdictOf (Result.Findings r) (Result.Verdict r = VerdictUNKNOWN)) (Result.Verdict (Merge rs))"
    by (simp add: Merge_def flip: verdictOf_append)
  also have "verdictOf (Result.Findings r) (Result.Verdict r = VerdictUNKNOWN) = Result.Verdict r"
    using Cons.prems by (simp add: sound_result_def)
  finally show ?case using Cons by simp
qed

locale rule_contract =
  fixes judge :: "'i \<Rightarrow> Result" and unseen :: "'i \<Rightarrow> bool"
  assumes verdict: "Result.Verdict (judge i) = verdictOf (Result.Findings (judge i)) (unseen i)"
begin

lemma sound: "sound_result (judge i)"
  using verdict [of i] by (auto simp: sound_result_def verdictOf_cases)

lemma OK_iff:
  "Result.Verdict (judge i) = VerdictOK \<longleftrightarrow>
     \<not> unseen i \<and> \<not> has_level LevelFAIL (Result.Findings (judge i)) \<and>
     \<not> has_level LevelWARN (Result.Findings (judge i))"
  by (simp add: verdict verdictOf_OK_iff)

lemma unseen_not_OK: "unseen i \<Longrightarrow> Result.Verdict (judge i) \<noteq> VerdictOK"
  by (simp add: OK_iff)

lemma FAIL_iff:
  "Result.Verdict (judge i) = VerdictFAIL \<longleftrightarrow> has_level LevelFAIL (Result.Findings (judge i))"
  by (simp add: verdict verdictOf_cases)

lemma UNKNOWN_iff:
  "Result.Verdict (judge i) = VerdictUNKNOWN \<longleftrightarrow>
     unseen i \<and> \<not> has_level LevelFAIL (Result.Findings (judge i)) \<and>
     \<not> has_level LevelWARN (Result.Findings (judge i))"
  by (simp add: verdict verdictOf_cases)

end

section \<open>What a rule sees of a probe\<close>

text \<open>Whether the rows can be judged, and whether not judging them means something was not seen.\<close>

definition collected :: "status \<Rightarrow> bool \<times> bool" where
  "collected st = (case st of
       StatusOK \<Rightarrow> (True, False)
     | StatusNotApplicable \<Rightarrow> (False, False)
     | _ \<Rightarrow> (False, True))"

abbreviation judgeable :: "status \<Rightarrow> bool" where
  "judgeable st \<equiv> fst (collected st)"

abbreviation unseen_probe :: "status \<Rightarrow> bool" where
  "unseen_probe st \<equiv> snd (collected st)"

lemma collected_simps [simp]:
  "collected StatusOK = (True, False)" "collected StatusNotApplicable = (False, False)"
  "collected StatusSkipped = (False, True)" "collected StatusError = (False, True)"
  by (simp_all add: collected_def)

lemma judgeable_iff [simp]: "judgeable st \<longleftrightarrow> st = StatusOK"
  by (cases st) simp_all

lemma unseen_probe_iff: "unseen_probe st \<longleftrightarrow> st = StatusSkipped \<or> st = StatusError"
  by (cases st) simp_all

definition scan :: "('a \<Rightarrow> Finding list \<times> bool) \<Rightarrow> bool \<Rightarrow> 'a list \<Rightarrow> Finding list \<times> bool" where
  "scan row unknown xs =
     foldl (\<lambda>(fs, u) x. let (gs, v) = row x in (fs @ gs, u \<or> v)) ([], unknown) xs"

lemma scan_Nil [simp]: "scan row unknown [] = ([], unknown)"
  by (simp add: scan_def)

lemma scan_eq:
  "scan row unknown xs = (concat (map (fst \<circ> row) xs), unknown \<or> (\<exists>x\<in>set xs. snd (row x)))"
  by (induction xs rule: rev_induct) (auto simp: scan_def split_beta)

text \<open>
  The body of most rules: nothing to judge unless the rows were collected, else one pass over them.
\<close>

definition scan_rule :: "('a \<Rightarrow> Finding list \<times> bool) \<Rightarrow> status \<Rightarrow> 'a list \<Rightarrow> Result" where
  "scan_rule row st xs =
     (let (judge, unknown) = collected st
      in if \<not> judge then judged [] unknown
         else let (fs, u) = scan row unknown xs in judged fs u)"

lemma scan_rule_verdict:
  "Result.Verdict (scan_rule row st xs) =
     verdictOf (Result.Findings (scan_rule row st xs))
       (unseen_probe st \<or> st = StatusOK \<and> (\<exists>x\<in>set xs. snd (row x)))"
  by (cases st) (simp_all add: scan_rule_def scan_eq)

lemma scan_rule_findings:
  "Result.Findings (scan_rule row st xs) = (if st = StatusOK then concat (map (fst \<circ> row) xs) else [])"
  by (cases st) (simp_all add: scan_rule_def scan_eq)

lemma scan_rule_filter:
  "(\<And>x. fst (row x) = (if P x then [f x] else [])) \<Longrightarrow>
   Result.Findings (scan_rule row st xs) = (if st = StatusOK then map f (filter P xs) else [])"
  by (simp add: scan_rule_findings comp_def concat_map_if)

section \<open>Sessions idle in a transaction\<close>

record Thresholds =
  IdleInTxnWarnS :: flt
  LockWaitWarnS :: flt
  XactWarnS :: flt
  PreparedWarnS :: flt

definition Defaults :: Thresholds where
  "Defaults = \<lparr>IdleInTxnWarnS = Fin 300, LockWaitWarnS = Fin 10, XactWarnS = Fin 300, PreparedWarnS = Fin 900\<rparr>"

definition fmt_i :: "('w :: len) word \<Rightarrow> string" where
  "fmt_i w = fmt_d (sint w)"

definition fmt_u :: "('w :: len) word \<Rightarrow> string" where
  "fmt_u w = fmt_d (uint w)"

definition verify :: "string \<Rightarrow> string \<Rightarrow> Next" where
  "verify command note =
     \<lparr>Next.Kind = ''verify'', Next.Command = command, Next.SQL = [], Next.Note = note\<rparr>"

definition fix_sql :: "string \<Rightarrow> string \<Rightarrow> Next" where
  "fix_sql sql note = \<lparr>Next.Kind = ''fix'', Next.Command = [], Next.SQL = sql, Next.Note = note\<rparr>"

text \<open>A finding with one piece of evidence and no cause, as every rule reports it.\<close>

definition finding :: "string \<Rightarrow> level \<Rightarrow> string \<Rightarrow> string \<Rightarrow> (string \<times> val) list \<Rightarrow> Next list \<Rightarrow> Finding" where
  "finding i l symptom probe ev next =
     \<lparr>Finding.ID = i, Finding.Level = l, Finding.Symptom = symptom,
      Finding.Evidence = [\<lparr>Evidence.ProbeID = probe, Evidence.Fields = ev\<rparr>],
      Finding.Cause = None, Finding.Next = next\<rparr>"

lemma finding_simps [simp]:
  "Finding.ID (finding i l symptom probe ev next) = i"
  "Finding.Level (finding i l symptom probe ev next) = l"
  "Finding.Symptom (finding i l symptom probe ev next) = symptom"
  "Finding.Next (finding i l symptom probe ev next) = next"
  by (simp_all add: finding_def)

definition idle_states :: "string list" where
  "idle_states = [''idle in transaction'', ''idle in transaction (aborted)'']"

definition idle_finding :: "Session \<Rightarrow> string \<Rightarrow> flt \<Rightarrow> Finding" where
  "idle_finding s state age = finding ''session.idle_in_txn'' LevelWARN
     (''session '' @ fmt_i (Session.PID s) @ '' has been '' @ state @ '' for '' @ fmt_f0 age @ ''s'')
     SessionActivityID
     [(''pid'', v_int (Session.PID s)), (''state'', VStr state), (''state_age_s'', VFlt age),
      (''backend_xid'', v_opt v_uint (Session.BackendXID s))]
     [verify (''kbdiag session '' @ fmt_i (Session.PID s)) ''which locks it holds, whether it blocks anyone'']"

definition sessions_row :: "Thresholds \<Rightarrow> Session \<Rightarrow> Finding list \<times> bool" where
  "sessions_row th s =
     (if Session_Masked s \<or> Session_Untracked s then ([], True)
      else case (Session.State s, Session.StateAgeS s) of
        (Some state, Some age) \<Rightarrow>
          (if state \<notin> set idle_states then ([], False)
           else if f_less age (IdleInTxnWarnS th) then ([], False)
           else ([idle_finding s state age], False))
      | _ \<Rightarrow> ([], False))"

definition Sessions :: "SessionActivity \<Rightarrow> Thresholds \<Rightarrow> Result" where
  "Sessions a th =
     (case coll.Status a of
        StatusNotApplicable \<Rightarrow> \<lparr>Result.Verdict = VerdictOK, Result.Findings = []\<rparr>
      | StatusOK \<Rightarrow> (let (fs, masked) = scan (sessions_row th) False (coll.Rows a) in judged fs masked)
      | _ \<Rightarrow> \<lparr>Result.Verdict = VerdictUNKNOWN, Result.Findings = []\<rparr>)"

lemma Sessions_scan: "Sessions a th = scan_rule (sessions_row th) (coll.Status a) (coll.Rows a)"
  by (cases "coll.Status a")
    (simp_all add: Sessions_def scan_rule_def judged_def verdictOf_Nil)

end
