(* ===== verification/ReportCore.thy ===== *)
theory ReportCore
  imports FactsInst FactsSpace FactsRepl RuleCore "HOL-Library.AList"
begin

text \<open>
  Package \<open>report\<close>, the output contract (\<open>internal/report/report.go\<close>): one report per command,
  the tables it carries and the exit code its verdict maps to. Go keeps \<open>Data\<close> in a map; here it is
  an association list updated in place, so that a report can be printed. The text layout a
  report is printed with is a pointer or a closure in the code and a value of \<open>view\<close> here, which
  holds what the closure captured.
\<close>

section \<open>The report\<close>

text \<open>Package \<open>report\<close>'s own \<open>Probe\<close> and \<open>Context\<close>, the latter with its time printed.\<close>

record Probe =
  Status :: status
  Reason :: "string option"
  Columns :: "string list"
  Rows :: "val list list"
  Truncated :: int

record report_context =
  Version :: string
  Role :: string
  Location :: string
  User :: string
  Database :: string
  CollectedAt :: string

datatype view =
    DefaultView
  | SessionsView "Session list" bool int
  | LocksView "Lock list" int
  | SessionView int32 SessionActivity LockList bool
  | TxnView SessionActivity TxnPrepared int
  | WaitsView WaitSummary
  | SlotsView SlotList
  | SpaceView SpaceDisk
  | FreezeView
  | VacuumView VacuumTables VacuumSetting int
  | TableView TableInfos TableSizes TableStats TableIndexes FreezeLimits VacuumSettings bool
  | ArchiveView ArchiveStatus
  | CheckpointView CheckpointStats CheckpointLast CheckpointSettings
  | ClusterView ClusterNodes ClusterEvents InstDownstreams ClusterSyncs
  | ParamsView ParamsChanged
  | ProgressView ProgressList ProgressList
  | ReplView ReplDownstreams
  | SeqView SeqList int
  | TopView SQLTop string int
  | TopObjectsView
  | WALView WALPosition SpaceWAL SlotList ArchiveReady

record Report =
  Command :: string
  Verdict :: verdict
  Context :: report_context
  Data :: "(string \<times> Probe) list"
  Findings :: "Finding list"
  Redacted :: "Redaction list"
  View :: view

definition shown_context :: "Context \<Rightarrow> report_context" where
  "shown_context c =
     \<lparr>report_context.Version = Context.Version c, report_context.Role = Context.Role c,
      report_context.Location = Context.Location c, report_context.User = Context.User c,
      report_context.Database = Context.Database c,
      report_context.CollectedAt = format_rfc3339 (trunc_second (Context.CollectedAt c))\<rparr>"

definition New :: "string \<Rightarrow> Context \<Rightarrow> Result \<Rightarrow> Report" where
  "New command c r =
     \<lparr>Report.Command = command, Report.Verdict = Result.Verdict r, Report.Context = shown_context c,
      Report.Data = [], Report.Findings = Result.Findings r, Report.Redacted = [],
      Report.View = DefaultView\<rparr>"

text \<open>Rows beyond the limit are counted, not shown, and a probe that is not ok carries none.\<close>

definition new_probe :: "status \<Rightarrow> string \<Rightarrow> string list \<Rightarrow> val list list \<Rightarrow> int \<Rightarrow> Probe" where
  "new_probe st reason cols rows limit =
     (let cut = 0 < limit \<and> limit < int (length rows);
          kept = (if cut then take (nat limit) rows else rows)
      in \<lparr>Probe.Status = st, Probe.Reason = (if reason = [] then None else Some reason),
          Probe.Columns = cols,
          Probe.Rows = (if st = StatusOK then kept else []),
          Probe.Truncated = (if st = StatusOK \<and> cut then int (length rows) - limit else 0)\<rparr>)"

definition AddProbe ::
    "string \<Rightarrow> status \<Rightarrow> string \<Rightarrow> string list \<Rightarrow> val list list \<Rightarrow> int \<Rightarrow> Report \<Rightarrow> Report" where
  "AddProbe i st reason cols rows limit r =
     r\<lparr>Report.Data := AList.update i (new_probe st reason cols rows limit) (Report.Data r)\<rparr>"

definition AddRedacted :: "Redaction list \<Rightarrow> Report \<Rightarrow> Report" where
  "AddRedacted rs r = r\<lparr>Report.Redacted := Report.Redacted r @ rs\<rparr>"

text \<open>The \<open>Set...\<close> methods, each with the view it stores.\<close>

definition set_view :: "view \<Rightarrow> Report \<Rightarrow> Report" where
  "set_view v r = r\<lparr>Report.View := v\<rparr>"

definition probe_of :: "Report \<Rightarrow> string \<Rightarrow> Probe option" where
  "probe_of r i = map_of (Report.Data r) i"

section \<open>Exit codes\<close>

definition ExitCode :: "verdict \<Rightarrow> int" where
  "ExitCode v = (case v of VerdictOK \<Rightarrow> 0 | VerdictWARN \<Rightarrow> 1 | VerdictFAIL \<Rightarrow> 2 | _ \<Rightarrow> 3)"

definition ExitUsage :: int where
  "ExitUsage = 64"

definition ExitUnavailable :: int where
  "ExitUnavailable = 69"

section \<open>What building a report keeps\<close>

lemma New_simps [simp]:
  "Report.Command (New command c r) = command" "Report.Verdict (New command c r) = Result.Verdict r"
  "Report.Context (New command c r) = shown_context c" "Report.Data (New command c r) = []"
  "Report.Findings (New command c r) = Result.Findings r" "Report.Redacted (New command c r) = []"
  "Report.View (New command c r) = DefaultView"
  by (simp_all add: New_def)

lemma AddProbe_simps [simp]:
  "Report.Command (AddProbe i st reason cols rows limit r) = Report.Command r"
  "Report.Verdict (AddProbe i st reason cols rows limit r) = Report.Verdict r"
  "Report.Context (AddProbe i st reason cols rows limit r) = Report.Context r"
  "Report.Findings (AddProbe i st reason cols rows limit r) = Report.Findings r"
  "Report.Redacted (AddProbe i st reason cols rows limit r) = Report.Redacted r"
  "Report.View (AddProbe i st reason cols rows limit r) = Report.View r"
  by (simp_all add: AddProbe_def)

lemma AddRedacted_simps [simp]:
  "Report.Command (AddRedacted rs r) = Report.Command r" "Report.Verdict (AddRedacted rs r) = Report.Verdict r"
  "Report.Context (AddRedacted rs r) = Report.Context r" "Report.Data (AddRedacted rs r) = Report.Data r"
  "Report.Findings (AddRedacted rs r) = Report.Findings r"
  "Report.Redacted (AddRedacted rs r) = Report.Redacted r @ rs"
  "Report.View (AddRedacted rs r) = Report.View r"
  by (simp_all add: AddRedacted_def)

lemma set_view_simps [simp]:
  "Report.Command (set_view v r) = Report.Command r" "Report.Verdict (set_view v r) = Report.Verdict r"
  "Report.Context (set_view v r) = Report.Context r" "Report.Data (set_view v r) = Report.Data r"
  "Report.Findings (set_view v r) = Report.Findings r" "Report.Redacted (set_view v r) = Report.Redacted r"
  "Report.View (set_view v r) = v"
  by (simp_all add: set_view_def)

lemma probe_of_simps [simp]:
  "probe_of (New command c res) i = None"
  "probe_of (AddProbe j st reason cols rows limit r) i =
     (if i = j then Some (new_probe st reason cols rows limit) else probe_of r i)"
  "probe_of (AddRedacted rs r) i = probe_of r i" "probe_of (set_view v r) i = probe_of r i"
  by (simp_all add: probe_of_def AddProbe_def update_conv')

lemma new_probe_simps [simp]:
  "Probe.Status (new_probe st reason cols rows limit) = st"
  "Probe.Reason (new_probe st reason cols rows limit) = (if reason = [] then None else Some reason)"
  "Probe.Columns (new_probe st reason cols rows limit) = cols"
  "Probe.Rows (new_probe st reason cols rows limit) = (if st = StatusOK then cut_limit limit rows else [])"
  by (simp_all add: new_probe_def Let_def cut_limit_def)

lemma new_probe_truncated:
  "Probe.Truncated (new_probe st reason cols rows limit) =
     (if st = StatusOK then int (length rows) - int (length (cut_limit limit rows)) else 0)"
  by (auto simp: new_probe_def Let_def cut_limit_def min_def)

section \<open>The contract of the tables\<close>

text \<open>
  Every row has one cell per column, a probe that was not collected carries no row, and what was
  cut is counted.
\<close>

definition wf_probe :: "Probe \<Rightarrow> bool" where
  "wf_probe p \<longleftrightarrow>
     (\<forall>row\<in>set (Probe.Rows p). length row = length (Probe.Columns p)) \<and>
     (Probe.Status p \<noteq> StatusOK \<longrightarrow> Probe.Rows p = []) \<and> 0 \<le> Probe.Truncated p \<and>
     (0 < Probe.Truncated p \<longrightarrow> Probe.Rows p \<noteq> [])"

definition wf_report :: "Report \<Rightarrow> bool" where
  "wf_report r \<longleftrightarrow> distinct (map fst (Report.Data r)) \<and> (\<forall>p\<in>snd ` set (Report.Data r). wf_probe p)"

lemma wf_new_probe:
  "(\<And>row. row \<in> set rows \<Longrightarrow> length row = length cols) \<Longrightarrow> wf_probe (new_probe st reason cols rows limit)"
  by (auto simp: wf_probe_def new_probe_truncated cut_limit_def dest: in_set_takeD split: if_splits)

lemma wf_New [simp]: "wf_report (New command c r)"
  by (simp add: wf_report_def)

lemma wf_AddRedacted [simp]: "wf_report (AddRedacted rs r) \<longleftrightarrow> wf_report r"
  by (simp add: wf_report_def)

lemma wf_set_view [simp]: "wf_report (set_view v r) \<longleftrightarrow> wf_report r"
  by (simp add: wf_report_def)

lemma snd_update: "snd ` set (AList.update i p al) \<subseteq> insert p (snd ` set al)"
  by (induction al) auto

lemma wf_AddProbe:
  assumes wf: "wf_report r" and rows: "\<And>row. row \<in> set rows \<Longrightarrow> length row = length cols"
  shows "wf_report (AddProbe i st reason cols rows limit r)"
proof -
  let ?p = "new_probe st reason cols rows limit"
  have "snd ` set (AList.update i ?p (Report.Data r)) \<subseteq> insert ?p (snd ` set (Report.Data r))"
    by (rule snd_update)
  moreover have "\<forall>p\<in>insert ?p (snd ` set (Report.Data r)). wf_probe p"
    using wf wf_new_probe [of rows cols st reason limit] rows by (simp add: wf_report_def)
  ultimately have "\<forall>p\<in>snd ` set (AList.update i ?p (Report.Data r)). wf_probe p" by blast
  moreover have "distinct (map fst (AList.update i ?p (Report.Data r)))"
    using wf by (simp add: wf_report_def distinct_update)
  ultimately show ?thesis by (simp add: wf_report_def AddProbe_def)
qed

end
