(* ===== verification/ScenarioBase.thy ===== *)
theory ScenarioBase
  imports ReportCore
begin

text \<open>
  What the scenarios share (\<open>internal/scenario/lock.go\<close>): a probe's rows rendered in the order of
  its columns. Every row type of package \<open>facts\<close> meets the column contract of its probe; the
  reports rest on that to be well formed.
\<close>

text \<open>
  \<open>rep.AddProbe(id, x.Status, x.Reason, columns, rows(x.Rows), limit)\<close>, with \<open>rows\<close> the generic
  function that calls \<open>Row\<close> on every value.
\<close>

definition rows :: "('a \<Rightarrow> val list) \<Rightarrow> 'a list \<Rightarrow> val list list" where
  "rows row xs = map row xs"

definition add_probe ::
    "string \<Rightarrow> string list \<Rightarrow> ('a \<Rightarrow> val list) \<Rightarrow> ('a, 'z) coll_scheme \<Rightarrow> int \<Rightarrow> Report \<Rightarrow> Report" where
  "add_probe i cols row c limit rep =
     AddProbe i (coll.Status c) (coll.Reason c) cols (rows row (coll.Rows c)) limit rep"

lemma add_probe_simps [simp]:
  "Report.Command (add_probe i cols row c limit rep) = Report.Command rep"
  "Report.Verdict (add_probe i cols row c limit rep) = Report.Verdict rep"
  "Report.Context (add_probe i cols row c limit rep) = Report.Context rep"
  "Report.Findings (add_probe i cols row c limit rep) = Report.Findings rep"
  "Report.Redacted (add_probe i cols row c limit rep) = Report.Redacted rep"
  "Report.View (add_probe i cols row c limit rep) = Report.View rep"
  "probe_of (add_probe i cols row c limit rep) j =
     (if j = i then Some (new_probe (coll.Status c) (coll.Reason c) cols (map row (coll.Rows c)) limit)
      else probe_of rep j)"
  by (simp_all add: add_probe_def rows_def)

lemma max_OK [simp]: "max VerdictOK v = v" "max v VerdictOK = v"
  by (simp_all add: max_def verdict_order split: verdict.splits)

text \<open>The rows a report shows of a probe, and two reports that judge alike.\<close>

definition shown_rows :: "Report \<Rightarrow> string \<Rightarrow> val list list" where
  "shown_rows rep i = (case probe_of rep i of None \<Rightarrow> [] | Some p \<Rightarrow> Probe.Rows p)"

definition same_judgement :: "Report \<Rightarrow> Report \<Rightarrow> bool" where
  "same_judgement r r' \<longleftrightarrow>
     Report.Command r = Report.Command r' \<and> Report.Verdict r = Report.Verdict r' \<and>
     Report.Context r = Report.Context r' \<and> Report.Findings r = Report.Findings r' \<and>
     Report.Redacted r = Report.Redacted r' \<and> map fst (Report.Data r) = map fst (Report.Data r')"

lemma data_ids [simp]:
  "map fst (Report.Data (AddProbe i st reason cols xs limit rep)) =
     map fst (Report.Data rep) @ (if i \<in> fst ` set (Report.Data rep) then [] else [i])"
proof -
  have "map fst (AList.update i p al) = map fst al @ (if i \<in> fst ` set al then [] else [i])" for p :: Probe and al
    by (induction al) auto
  then show ?thesis by (simp add: AddProbe_def)
qed

lemma data_id_set [simp]:
  "fst ` set (Report.Data (AddProbe i st reason cols xs limit rep)) = insert i (fst ` set (Report.Data rep))"
proof -
  have "fst ` set (AList.update i p al) = insert i (fst ` set al)" for p :: Probe and al
    by (induction al) auto
  then show ?thesis by (simp add: AddProbe_def)
qed

text \<open>The same judgement, and in every table the rows of the other cut at the limit, or all of them.\<close>

definition narrows :: "int \<Rightarrow> Report \<Rightarrow> Report \<Rightarrow> bool" where
  "narrows limit r full \<longleftrightarrow> same_judgement r full \<and>
     (\<forall>i. shown_rows r i = shown_rows full i \<or> shown_rows r i = cut_limit limit (shown_rows full i))"

text \<open>The interface between a fact and the reports: as many cells as columns.\<close>

locale probe_rows =
  fixes row :: "'a \<Rightarrow> val list" and cols :: "string list"
  assumes width: "length (row x) = length cols"
begin

lemma wf_rows: "wf_report rep \<Longrightarrow> wf_report (AddProbe i st reason cols (rows row xs) limit rep)"
  by (rule wf_AddProbe) (auto simp: rows_def width)

lemma wf_add: "wf_report rep \<Longrightarrow> wf_report (add_probe i cols row c limit rep)"
  by (simp add: add_probe_def wf_rows)

lemma shown_row:
  "row' \<in> set (Probe.Rows (new_probe st reason cols (map row xs) limit)) \<Longrightarrow> length row' = length cols"
  by (auto simp: width dest!: set_cut_limit split: if_splits)

end

interpretation session_rows: probe_rows Session_Row SessionColumns
  by unfold_locales (simp add: Session_Row_def SessionColumns_def)

interpretation lock_rows: probe_rows Lock_Row LockColumns
  by unfold_locales (simp add: Lock_Row_def LockColumns_def)

interpretation prepared_rows: probe_rows Prepared_Row PreparedColumns
  by unfold_locales (simp add: Prepared_Row_def PreparedColumns_def)

interpretation wait_rows: probe_rows Wait_Row WaitColumns
  by unfold_locales (simp add: Wait_Row_def WaitColumns_def)

interpretation info_rows: probe_rows Info_Row InfoColumns
  by unfold_locales (simp add: Info_Row_def InfoColumns_def)

interpretation database_rows: probe_rows Database_Row DatabaseColumns
  by unfold_locales (simp add: Database_Row_def DatabaseColumns_def)

interpretation downstream_rows: probe_rows Downstream_Row DownstreamsColumns
  by unfold_locales (simp add: Downstream_Row_def DownstreamsColumns_def)

interpretation upstream_rows: probe_rows Upstream_Row UpstreamColumns
  by unfold_locales (simp add: Upstream_Row_def UpstreamColumns_def)

interpretation disk_rows: probe_rows Disk_Row DiskColumns
  by unfold_locales (simp add: Disk_Row_def DiskColumns_def)

interpretation slot_rows: probe_rows Slot_Row SlotColumns
  by unfold_locales (simp add: Slot_Row_def SlotColumns_def)

interpretation position_rows: probe_rows Position_Row WALPositionColumns
  by unfold_locales (simp add: Position_Row_def WALPositionColumns_def)

interpretation archiver_rows: probe_rows Archiver_Row ArchiveStatusColumns
  by unfold_locales (simp add: Archiver_Row_def ArchiveStatusColumns_def)

interpretation archiveQueue_rows: probe_rows ArchiveQueue_Row ArchiveReadyColumns
  by unfold_locales (simp add: ArchiveQueue_Row_def ArchiveReadyColumns_def)

interpretation bgwriter_rows: probe_rows BGWriter_Row CheckpointStatsColumns
  by unfold_locales (simp add: BGWriter_Row_def CheckpointStatsColumns_def)

interpretation lastCheckpoint_rows: probe_rows LastCheckpoint_Row CheckpointLastColumns
  by unfold_locales (simp add: LastCheckpoint_Row_def CheckpointLastColumns_def)

interpretation checkpointSetting_rows: probe_rows CheckpointSetting_Row CheckpointSettingsColumns
  by unfold_locales (simp add: CheckpointSetting_Row_def CheckpointSettingsColumns_def)

interpretation param_rows: probe_rows Param_Row ParamColumns
  by unfold_locales (simp add: Param_Row_def ParamColumns_def)

interpretation replica_rows: probe_rows Replica_Row ReplDownstreamColumns
  by unfold_locales (simp add: Replica_Row_def ReplDownstreamColumns_def)

interpretation syncSetting_rows: probe_rows SyncSetting_Row ReplSyncColumns
  by unfold_locales (simp add: SyncSetting_Row_def ReplSyncColumns_def)

interpretation replay_rows: probe_rows Replay_Row ReplReplayColumns
  by unfold_locales (simp add: Replay_Row_def ReplReplayColumns_def)

interpretation clusterNode_rows: probe_rows ClusterNode_Row ClusterNodeColumns
  by unfold_locales (simp add: ClusterNode_Row_def ClusterNodeColumns_def)

interpretation clusterEvent_rows: probe_rows ClusterEvent_Row ClusterEventColumns
  by unfold_locales (simp add: ClusterEvent_Row_def ClusterEventColumns_def)

interpretation clusterSync_rows: probe_rows ClusterSync_Row ClusterSyncColumns
  by unfold_locales (simp add: ClusterSync_Row_def ClusterSyncColumns_def)

interpretation tablespace_rows: probe_rows Tablespace_Row TablespaceColumns
  by unfold_locales (simp add: Tablespace_Row_def TablespaceColumns_def)

interpretation wal_rows: probe_rows WAL_Row WALColumns
  by unfold_locales (simp add: WAL_Row_def WALColumns_def)

interpretation mount_rows: probe_rows Mount_Row SpaceDiskColumns
  by unfold_locales (simp add: Mount_Row_def SpaceDiskColumns_def)

interpretation frozenDatabase_rows: probe_rows FrozenDatabase_Row FreezeDatabaseColumns
  by unfold_locales (simp add: FrozenDatabase_Row_def FreezeDatabaseColumns_def)

interpretation frozenTable_rows: probe_rows FrozenTable_Row FreezeTableColumns
  by unfold_locales (simp add: FrozenTable_Row_def FreezeTableColumns_def)

interpretation freezeLimit_rows: probe_rows FreezeLimit_Row FreezeLimitColumns
  by unfold_locales (simp add: FreezeLimit_Row_def FreezeLimitColumns_def)

interpretation vacuumTable_rows: probe_rows VacuumTable_Row VacuumTableColumns
  by unfold_locales (simp add: VacuumTable_Row_def VacuumTableColumns_def)

interpretation vacuumRun_rows: probe_rows VacuumRun_Row VacuumProgressColumns
  by unfold_locales (simp add: VacuumRun_Row_def VacuumProgressColumns_def)

interpretation vacuumSetting_rows: probe_rows VacuumSetting_Row VacuumSettingColumns
  by unfold_locales (simp add: VacuumSetting_Row_def VacuumSettingColumns_def)

interpretation tableInfo_rows: probe_rows TableInfo_Row TableInfoColumns
  by unfold_locales (simp add: TableInfo_Row_def TableInfoColumns_def)

interpretation tableSize_rows: probe_rows TableSize_Row TableSizeColumns
  by unfold_locales (simp add: TableSize_Row_def TableSizeColumns_def)

interpretation tableStat_rows: probe_rows TableStat_Row TableStatsColumns
  by unfold_locales (simp add: TableStat_Row_def TableStatsColumns_def)

interpretation tableIndex_rows: probe_rows TableIndex_Row TableIndexColumns
  by unfold_locales (simp add: TableIndex_Row_def TableIndexColumns_def)

interpretation objectTable_rows: probe_rows ObjectTable_Row ObjectTableColumns
  by unfold_locales (simp add: ObjectTable_Row_def ObjectTableColumns_def)

interpretation objectIndex_rows: probe_rows ObjectIndex_Row ObjectIndexColumns
  by unfold_locales (simp add: ObjectIndex_Row_def ObjectIndexColumns_def)

interpretation sequence_rows: probe_rows Sequence_Row SeqColumns
  by unfold_locales (simp add: Sequence_Row_def SeqColumns_def)

interpretation statement_rows: probe_rows Statement_Row TopColumns
  by unfold_locales (simp add: Statement_Row_def TopColumns_def)

interpretation operation_rows: probe_rows Operation_Row ProgressColumns
  by unfold_locales (simp add: Operation_Row_def ProgressColumns_def)


lemmas wf_adds =
  session_rows.wf_add lock_rows.wf_add prepared_rows.wf_add wait_rows.wf_add info_rows.wf_add
  database_rows.wf_add downstream_rows.wf_add upstream_rows.wf_add disk_rows.wf_add
  slot_rows.wf_add position_rows.wf_add archiver_rows.wf_add archiveQueue_rows.wf_add
  bgwriter_rows.wf_add lastCheckpoint_rows.wf_add checkpointSetting_rows.wf_add param_rows.wf_add
  replica_rows.wf_add syncSetting_rows.wf_add replay_rows.wf_add clusterNode_rows.wf_add
  clusterEvent_rows.wf_add clusterSync_rows.wf_add tablespace_rows.wf_add wal_rows.wf_add
  mount_rows.wf_add frozenDatabase_rows.wf_add frozenTable_rows.wf_add freezeLimit_rows.wf_add
  vacuumTable_rows.wf_add vacuumRun_rows.wf_add vacuumSetting_rows.wf_add tableInfo_rows.wf_add
  tableSize_rows.wf_add tableStat_rows.wf_add tableIndex_rows.wf_add objectTable_rows.wf_add
  objectIndex_rows.wf_add sequence_rows.wf_add statement_rows.wf_add operation_rows.wf_add

end
