(* ===== verification/RuleNames.thy ===== *)
theory RuleNames
  imports Prelude GoText
begin

text \<open>
  Names in commands and SQL (\<open>internal/rule/names.go\<close>): quoting of identifiers, names the text
  shows escaped, and the server's reading of booleans.
\<close>

text \<open>
  What every quoting promises: the reader on the other side gets the text that was quoted, and
  stops where it ends. \<open>fits\<close> are the texts that can be quoted, \<open>ends\<close> what may follow. The clients are
  the commands and SQL texts that findings suggest.
\<close>

locale quoting =
  fixes fits :: "string \<Rightarrow> bool" and ends :: "string \<Rightarrow> bool"
    and quote :: "string \<Rightarrow> string" and reader :: "string \<Rightarrow> (string \<times> string) option"
  assumes reads_back: "fits s \<Longrightarrow> ends rest \<Longrightarrow> reader (quote s @ rest) = Some (s, rest)"
    and ends_Nil: "ends []"
begin

lemma reads_whole: "fits s \<Longrightarrow> reader (quote s) = Some (s, [])"
  using reads_back [OF _ ends_Nil, of s] by (simp only: append_Nil2)

lemma quote_cut:
  assumes "fits s" and "fits t" and "ends r" and "ends r'" and eq: "quote s @ r = quote t @ r'"
  shows "s = t \<and> r = r'"
proof -
  have "Some (s, r) = Some (t, r')"
    using reads_back [OF assms(1,3)] reads_back [OF assms(2,4)] unfolding eq by (rule trans [OF sym])
  then show ?thesis by blast
qed

lemma quote_inj: "fits s \<Longrightarrow> fits t \<Longrightarrow> quote s = quote t \<Longrightarrow> s = t"
  using quote_cut [OF _ _ ends_Nil ends_Nil, of s t] by blast

end

section \<open>Identifiers\<close>

definition ident_keywords :: "string list" where
  "ident_keywords = [
    ''all'', ''analyse'', ''analyze'', ''and'', ''any'', ''array'', ''as'', ''asc'',
    ''asymmetric'', ''authorization'', ''binary'', ''both'', ''case'', ''cast'', ''check'',
    ''collate'', ''collation'', ''column'', ''concurrently'', ''constraint'', ''create'',
    ''cross'', ''current_catalog'', ''current_date'', ''current_role'', ''current_schema'',
    ''current_time'', ''current_timestamp'', ''current_user'', ''default'', ''deferrable'',
    ''desc'', ''distinct'', ''do'', ''else'', ''end'', ''except'', ''false'', ''fetch'', ''for'',
    ''foreign'', ''freeze'', ''from'', ''full'', ''grant'', ''group'', ''having'', ''ilike'',
    ''in'', ''initially'', ''inner'', ''intersect'', ''into'', ''is'', ''isnull'', ''join'',
    ''lateral'', ''leading'', ''left'', ''like'', ''limit'', ''localtime'', ''localtimestamp'',
    ''natural'', ''not'', ''notnull'', ''null'', ''offset'', ''on'', ''only'', ''or'', ''order'',
    ''outer'', ''overlaps'', ''placing'', ''primary'', ''references'', ''returning'', ''right'',
    ''select'', ''session_user'', ''similar'', ''some'', ''symmetric'', ''table'',
    ''tablesample'', ''then'', ''to'', ''trailing'', ''true'', ''union'', ''unique'', ''user'',
    ''using'', ''variadic'', ''verbose'', ''when'', ''where'', ''window'', ''with'', ''between'',
    ''bigint'', ''bit'', ''boolean'', ''char'', ''character'', ''coalesce'', ''dec'',
    ''decimal'', ''exists'', ''extract'', ''float'', ''greatest'', ''grouping'', ''inout'',
    ''int'', ''integer'', ''interval'', ''least'', ''national'', ''nchar'', ''none'', ''nullif'',
    ''numeric'', ''out'', ''overlay'', ''position'', ''precision'', ''real'', ''row'', ''setof'',
    ''smallint'', ''substring'', ''time'', ''timestamp'', ''treat'', ''trim'', ''values'',
    ''varchar'', ''xmlattributes'', ''xmlconcat'', ''xmlelement'', ''xmlexists'', ''xmlforest'',
    ''xmlnamespaces'', ''xmlparse'', ''xmlpi'', ''xmlroot'', ''xmlserialize'', ''xmltable'']"

definition ident_start :: "nat \<Rightarrow> bool" where
  "ident_start r \<longleftrightarrow> 97 \<le> r \<and> r \<le> 122 \<or> r = 95"

definition ident_more :: "nat \<Rightarrow> bool" where
  "ident_more r \<longleftrightarrow> ident_start r \<or> 48 \<le> r \<and> r \<le> 57 \<or> r = 36"

fun plain_runes :: "nat list \<Rightarrow> bool" where
  "plain_runes [] = True"
| "plain_runes (r # rs) \<longleftrightarrow> ident_start r \<and> list_all ident_more rs"

definition quoteIdent :: "string \<Rightarrow> string" where
  "quoteIdent s =
     (if s \<noteq> [] \<and> s \<notin> set ident_keywords \<and> plain_runes (runes s) then s
      else [CHR 0x22] @ replace_byte (CHR 0x22) [CHR 0x22, CHR 0x22] s @ [CHR 0x22])"

definition qualified_name :: "string \<Rightarrow> string \<Rightarrow> string" where
  "qualified_name schema rel = quoteIdent schema @ ''.'' @ quoteIdent rel"

text \<open>
  The reader of identifiers the quoting is for: the server's lexer. A double quote opens a
  delimited identifier, in which a doubled quote stands for one; otherwise a letter, an
  underscore or a byte above ASCII starts a name that letters, digits, underscores and dollars
  continue, that is folded to lower case, and that is no name when it is a keyword.
\<close>

fun read_delimited :: "string \<Rightarrow> (string \<times> string) option" where
  "read_delimited [] = None"
| "read_delimited (c # cs) =
     (if c \<noteq> CHR 0x22 then map_option (\<lambda>(w, rest). (c # w, rest)) (read_delimited cs)
      else case cs of
        [] \<Rightarrow> Some ([], [])
      | d # ds \<Rightarrow> if d = CHR 0x22 then map_option (\<lambda>(w, rest). (d # w, rest)) (read_delimited ds)
                  else Some ([], cs))"

definition lex_start :: "char \<Rightarrow> bool" where
  "lex_start c \<longleftrightarrow> ident_start (byte (lower_byte c)) \<or> 128 \<le> byte c"

definition lex_more :: "char \<Rightarrow> bool" where
  "lex_more c \<longleftrightarrow> lex_start c \<or> is_digit c \<or> c = CHR ''$''"

definition read_ident :: "string \<Rightarrow> (string \<times> string) option" where
  "read_ident s = (case s of
       [] \<Rightarrow> None
     | c # cs \<Rightarrow>
         if c = CHR 0x22 then
           (case read_delimited cs of
              Some (w, rest) \<Rightarrow> if w = [] then None else Some (w, rest)
            | None \<Rightarrow> None)
         else if lex_start c then
           (let w = to_lower (takeWhile lex_more s)
            in if w \<in> set ident_keywords then None else Some (w, dropWhile lex_more s))
         else None)"

lemma read_delimited_quote:
  "rest = [] \<or> hd rest \<noteq> CHR 0x22 \<Longrightarrow>
   read_delimited (replace_byte (CHR 0x22) [CHR 0x22, CHR 0x22] s @ CHR 0x22 # rest) = Some (s, rest)"
proof (induction s)
  case Nil
  then show ?case by (cases rest) (simp_all add: replace_byte_def)
qed (simp add: replace_byte_def)

lemma ident_more_ascii: "ident_more r \<Longrightarrow> r < 128"
  by (auto simp: ident_more_def ident_start_def)

lemma lower_ident: "ident_more (byte c) \<Longrightarrow> lower_byte c = c"
  by (auto simp: lower_byte_def ident_more_def ident_start_def)

lemma lex_more_ident: "ident_more (byte c) \<Longrightarrow> lex_more c"
proof -
  assume i: "ident_more (byte c)"
  have "byte (CHR ''$'') = 36" by (simp add: byte_def)
  then have "byte c = 36 \<Longrightarrow> c = CHR ''$''" by (metis byte_char_byte)
  then show ?thesis using i lower_ident [OF i]
    by (auto simp: lex_more_def lex_start_def ident_more_def is_digit_def)
qed

lemma plain_runes_bytes:
  assumes "plain_runes (runes s)" and "s \<noteq> []"
  shows "ident_start (byte (hd s)) \<and> list_all (ident_more \<circ> byte) s"
proof -
  have all: "list_all ident_more (runes s)"
    using assms(1) by (cases "runes s") (simp_all add: ident_more_def)
  then have "runes s = map byte s"
    by (intro runes_ascii) (auto simp: list_all_iff dest: ident_more_ascii)
  with assms all show ?thesis by (cases s) (simp_all add: list_all_iff)
qed

lemma read_quoteIdent:
  assumes s: "s \<noteq> []" and rest: "rest = [] \<or> \<not> lex_more (hd rest) \<and> hd rest \<noteq> CHR 0x22"
  shows "read_ident (quoteIdent s @ rest) = Some (s, rest)"
proof (cases "s \<notin> set ident_keywords \<and> plain_runes (runes s)")
  case False
  then have "quoteIdent s = CHR 0x22 # replace_byte (CHR 0x22) [CHR 0x22, CHR 0x22] s @ [CHR 0x22]"
    by (auto simp: quoteIdent_def)
  then show ?thesis using s rest read_delimited_quote [of rest s] by (auto simp: read_ident_def)
next
  case True
  obtain c t where ct: "s = c # t" using s by (cases s) auto
  from plain_runes_bytes [of s] True s
  have start: "ident_start (byte c)" and all: "\<forall>x\<in>set s. ident_more (byte x)"
    by (auto simp: ct list_all_iff)
  have more: "\<forall>x\<in>set s. lex_more x" using all lex_more_ident by blast
  have c: "c \<noteq> CHR 0x22" "lex_start c"
    using start lower_ident [of c] by (auto simp: lex_start_def ident_start_def ident_more_def byte_def)
  have "takeWhile lex_more (s @ rest) = s" "dropWhile lex_more (s @ rest) = rest"
    using more rest by (cases rest; simp add: takeWhile_append2 dropWhile_append2)+
  moreover have "to_lower s = s"
    using all by (auto simp: to_lower_def intro: map_idI lower_ident)
  moreover have "quoteIdent s = s" using True s by (simp add: quoteIdent_def)
  ultimately show ?thesis using True c by (simp add: read_ident_def ct)
qed

definition ident_ends :: "string \<Rightarrow> bool" where
  "ident_ends rest \<longleftrightarrow> rest = [] \<or> \<not> lex_more (hd rest) \<and> hd rest \<noteq> CHR 0x22"

interpretation ident: quoting "\<lambda>s. s \<noteq> []" ident_ends quoteIdent read_ident
  by unfold_locales (auto simp: ident_ends_def intro!: read_quoteIdent)

section \<open>SQL constants\<close>

text \<open>
  \<open>strings.ReplaceAll(s, "'", "''")\<close> between single quotes, and the server's reader of it.
\<close>

definition sql_quote :: "string \<Rightarrow> string" where
  "sql_quote s = replace_byte (CHR 0x27) [CHR 0x27, CHR 0x27] s"

definition sql_text :: "string \<Rightarrow> string" where
  "sql_text s = [CHR 0x27] @ sql_quote s @ [CHR 0x27]"

fun read_literal :: "string \<Rightarrow> (string \<times> string) option" where
  "read_literal [] = None"
| "read_literal (c # cs) =
     (if c \<noteq> CHR 0x27 then map_option (\<lambda>(w, rest). (c # w, rest)) (read_literal cs)
      else case cs of
        [] \<Rightarrow> Some ([], [])
      | e # es \<Rightarrow> if e = CHR 0x27 then map_option (\<lambda>(w, rest). (e # w, rest)) (read_literal es)
                  else Some ([], cs))"

definition read_constant :: "string \<Rightarrow> (string \<times> string) option" where
  "read_constant s = (case s of [] \<Rightarrow> None | c # cs \<Rightarrow> if c = CHR 0x27 then read_literal cs else None)"

definition constant_ends :: "string \<Rightarrow> bool" where
  "constant_ends rest \<longleftrightarrow> rest = [] \<or> hd rest \<noteq> CHR 0x27"

lemma read_sql_quote:
  "constant_ends rest \<Longrightarrow> read_literal (sql_quote s @ CHR 0x27 # rest) = Some (s, rest)"
proof (induction s)
  case Nil
  then show ?case by (cases rest) (simp_all add: sql_quote_def replace_byte_def constant_ends_def)
qed (simp add: sql_quote_def replace_byte_def)

interpretation sql_constant: quoting "\<lambda>s. True" constant_ends sql_text read_constant
  by unfold_locales (simp_all add: sql_text_def read_constant_def read_sql_quote, simp add: constant_ends_def)

section \<open>Names the text escapes\<close>

text \<open>The text shows the same characters escaped, so a name with one of them cannot be pasted.\<close>

definition escaped_rune :: "nat \<Rightarrow> bool" where
  "escaped_rune r \<longleftrightarrow> is_control r \<or> in_ranges format_ranges r \<or> in_ranges separator_ranges r"

definition hasControl :: "string \<Rightarrow> bool" where
  "hasControl s \<longleftrightarrow> \<not> valid_string s \<or> any_rune escaped_rune s"

section \<open>Booleans\<close>

definition bool_words :: "(string \<times> nat \<times> bool) list" where
  "bool_words = [(''true'', 1, True), (''false'', 1, False), (''yes'', 1, True), (''no'', 1, False),
     (''on'', 2, True), (''off'', 2, False), (''1'', 1, True), (''0'', 1, False)]"

fun match_bool :: "string \<Rightarrow> (string \<times> nat \<times> bool) list \<Rightarrow> bool option" where
  "match_bool s [] = None"
| "match_bool s ((word, least, v) # xs) =
     (if least \<le> length s \<and> length s \<le> length word \<and> has_prefix word s then
        (if (word = ''on'' \<or> word = ''off'') \<and> s = ''o'' then None else Some v)
      else match_bool s xs)"

text \<open>\<open>Some v\<close> for \<open>(v, true)\<close>, \<open>None\<close> for a text that is no boolean.\<close>

definition parseBool :: "string \<Rightarrow> bool option" where
  "parseBool s =
     (let w = to_lower (trim_space s) in if w = [] then None else match_bool w bool_words)"

text \<open>What the server accepts: every prefix that one word has alone.\<close>

definition true_words :: "string list" where
  "true_words = [''t'', ''tr'', ''tru'', ''true'', ''y'', ''ye'', ''yes'', ''on'', ''1'']"

definition false_words :: "string list" where
  "false_words = [''f'', ''fa'', ''fal'', ''fals'', ''false'', ''n'', ''no'', ''of'', ''off'', ''0'']"

lemma prefix_between:
  "least \<le> length s \<and> length s \<le> length w \<and> has_prefix w s \<longleftrightarrow>
   s \<in> set (map (\<lambda>n. take n w) [least..<Suc (length w)])"
proof
  assume h: "least \<le> length s \<and> length s \<le> length w \<and> has_prefix w s"
  then have "s = take (length s) w" by (simp add: has_prefix_def)
  moreover have "length s \<in> {least..<Suc (length w)}" using h by simp
  ultimately show "s \<in> set (map (\<lambda>n. take n w) [least..<Suc (length w)])"
    by (simp only: set_map set_upt image_iff) blast
qed (auto simp: has_prefix_def)

lemma match_bool_words:
  "match_bool s bool_words =
     (if s \<in> set true_words then Some True else if s \<in> set false_words then Some False else None)"
proof (cases "s \<in> set (true_words @ false_words)")
  case True
  then show ?thesis
    unfolding true_words_def false_words_def bool_words_def
    by (simp only: append.simps list.set insert_iff empty_iff, elim disjE)
      (simp_all add: has_prefix_def)
next
  case False
  then show ?thesis
    unfolding bool_words_def match_bool.simps prefix_between
    by (simp add: true_words_def false_words_def upt_rec numeral_eq_Suc)
qed

lemma parseBool_words:
  "parseBool s =
     (let w = to_lower (trim_space s)
      in if w \<in> set true_words then Some True else if w \<in> set false_words then Some False else None)"
  unfolding parseBool_def Let_def match_bool_words
  by (simp add: true_words_def false_words_def)

end
