(* ===== verification/RuleSession.thy ===== *)
theory RuleSession
  imports RuleCore RuleNames
begin

text \<open>
  The rules on sessions, locks and transactions (\<open>internal/rule/{rule,lock,txn}.go\<close>): what
  they find, row by row, and what keeps their verdict from reading OK.
\<close>

section \<open>Sessions\<close>

definition hidden_session :: "Session \<Rightarrow> bool" where
  "hidden_session s \<longleftrightarrow> Session_Masked s \<or> Session_Untracked s"

definition idle_too_long :: "Thresholds \<Rightarrow> Session \<Rightarrow> bool" where
  "idle_too_long th s \<longleftrightarrow> \<not> hidden_session s \<and>
     (case (Session.State s, Session.StateAgeS s) of
        (Some state, Some age) \<Rightarrow> state \<in> set idle_states \<and> \<not> f_less age (IdleInTxnWarnS th)
      | _ \<Rightarrow> False)"

lemma sessions_row_eq:
  "sessions_row th s =
     (if idle_too_long th s then [idle_finding s (the (Session.State s)) (the (Session.StateAgeS s))] else [],
      hidden_session s)"
  by (auto simp: sessions_row_def idle_too_long_def hidden_session_def split: option.splits)

interpretation sessions_rule: rule_contract "\<lambda>(a, th). Sessions a th"
  "\<lambda>(a, th). unseen_probe (coll.Status a) \<or>
     coll.Status a = StatusOK \<and> (\<exists>s\<in>set (coll.Rows a). hidden_session s)"
  by unfold_locales (auto simp: Sessions_scan scan_rule_verdict sessions_row_eq)

section \<open>Locks\<close>

definition lock_names :: "int32 \<Rightarrow> string" where
  "lock_names b =
     (if b = PreparedBlocker then ''an uncommitted two-phase transaction'' else fmt_i b)"

definition lock_next :: "int32 \<Rightarrow> Next" where
  "lock_next b =
     (if b = PreparedBlocker then verify ''kbdiag txn''
        ''the blocker is an uncommitted two-phase transaction: its gid and how long it has been pending''
      else verify (''kbdiag session '' @ fmt_i b) ''what the blocking session is doing'')"

definition lock_target :: "Lock \<Rightarrow> string" where
  "lock_target x = (case Lock.Relation x of
       None \<Rightarrow> Lock.Locktype x @ '' lock''
     | Some rel \<Rightarrow> Lock.Mode x @ '' on '' @ rel)"

definition lockWaiting :: "Lock \<Rightarrow> int32 \<Rightarrow> flt \<Rightarrow> Finding" where
  "lockWaiting x pid wait =
     (let bs = Lock_Blockers x;
          symptom = ''session '' @ fmt_i pid @ '' has waited '' @ fmt_f0 wait @ ''s for '' @ lock_target x
      in finding ''lock.waiting'' LevelWARN
           (if bs = [] then symptom
            else symptom @ '', blocked by '' @ join '', '' (map lock_names bs))
           LockListID
           [(''waiter_pid'', v_int pid), (''blocker_pids'', v_ints bs), (''relation'', v_opt VStr (Lock.Relation x)),
            (''lock_mode'', VStr (Lock.Mode x)), (''wait_s'', VFlt wait)]
           (map lock_next bs))"

definition locks_row :: "Thresholds \<Rightarrow> Lock \<Rightarrow> Finding list \<times> bool" where
  "locks_row th x = (case (Lock.Granted x, Lock.PID x) of
       (False, Some pid) \<Rightarrow> (case Lock.WaitS x of
           None \<Rightarrow> ([], True)
         | Some wait \<Rightarrow>
             if f_less wait (LockWaitWarnS th) then ([], False) else ([lockWaiting x pid wait], False))
     | _ \<Rightarrow> ([], False))"

definition Locks :: "LockList \<Rightarrow> Thresholds \<Rightarrow> Result" where
  "Locks l th = scan_rule (locks_row th) (coll.Status l) (coll.Rows l)"

text \<open>A lock request of a session whose waiting time is hidden, and one that waits too long.\<close>

definition unseen_wait :: "Lock \<Rightarrow> bool" where
  "unseen_wait x \<longleftrightarrow> \<not> Lock.Granted x \<and> Lock.PID x \<noteq> None \<and> Lock.WaitS x = None"

definition waits_too_long :: "Thresholds \<Rightarrow> Lock \<Rightarrow> bool" where
  "waits_too_long th x \<longleftrightarrow> \<not> Lock.Granted x \<and> Lock.PID x \<noteq> None \<and>
     (case Lock.WaitS x of None \<Rightarrow> False | Some wait \<Rightarrow> \<not> f_less wait (LockWaitWarnS th))"

lemma locks_row_eq:
  "locks_row th x =
     (if waits_too_long th x then [lockWaiting x (the (Lock.PID x)) (the (Lock.WaitS x))] else [], unseen_wait x)"
  by (auto simp: locks_row_def waits_too_long_def unseen_wait_def split: option.splits bool.splits)

interpretation locks_rule: rule_contract "\<lambda>(l, th). Locks l th"
  "\<lambda>(l, th). unseen_probe (coll.Status l) \<or> coll.Status l = StatusOK \<and> (\<exists>x\<in>set (coll.Rows l). unseen_wait x)"
  by unfold_locales (auto simp: Locks_def scan_rule_verdict locks_row_eq)

lemma session_levels [simp]:
  "Finding.Level (idle_finding s state age) = LevelWARN" "Finding.Level (lockWaiting x pid wait) = LevelWARN"
  by (simp_all add: idle_finding_def lockWaiting_def Let_def)

lemma lockWaiting_next: "length (Finding.Next (lockWaiting x pid wait)) = length (Lock_Blockers x)"
  by (simp add: lockWaiting_def Let_def)

section \<open>Transactions\<close>

definition txn_finding :: "Session \<Rightarrow> flt \<Rightarrow> Finding" where
  "txn_finding s age = finding ''txn.long'' LevelWARN
     (''session '' @ fmt_i (Session.PID s) @ '' has had a transaction open for '' @ fmt_f0 age @ ''s, now '' @
        (case Session.State s of None \<Rightarrow> ''-'' | Some state \<Rightarrow> state))
     SessionActivityID
     [(''pid'', v_int (Session.PID s)), (''state'', v_opt VStr (Session.State s)), (''xact_age_s'', VFlt age),
      (''backend_xid'', v_opt v_uint (Session.BackendXID s)), (''backend_xmin'', v_opt v_uint (Session.BackendXmin s))]
     [verify (''kbdiag session '' @ fmt_i (Session.PID s))
        ''what it is running, which locks it holds, whether it blocks anyone'']"

definition txn_row :: "Thresholds \<Rightarrow> Session \<Rightarrow> Finding list \<times> bool" where
  "txn_row th s =
     (if Session_Masked s \<or> Session_Untracked s then ([], True)
      else case Session.XactAgeS s of
        None \<Rightarrow> ([], False)
      | Some age \<Rightarrow> if f_less age (XactWarnS th) then ([], False) else ([txn_finding s age], False))"

definition longTxn :: "SessionActivity \<Rightarrow> Thresholds \<Rightarrow> Result" where
  "longTxn a th = scan_rule (txn_row th) (coll.Status a) (coll.Rows a)"

definition prepared_fix :: "Prepared \<Rightarrow> Next" where
  "prepared_fix x =
     (if any_rune is_control (Prepared.GID x) then
        verify ''kbdiag txn --json''
          ''the gid has control characters and the text shows it escaped: take the raw gid from the JSON before committing or rolling back''
      else fix_sql (''ROLLBACK PREPARED '' @ sql_text (Prepared.GID x))
          (''check with the application whether to commit (COMMIT PREPARED) or roll back; run it connected to database '' @
             Prepared.Database x @ '', outside a transaction block''))"

definition prepared_finding :: "Prepared \<Rightarrow> Finding" where
  "prepared_finding x = finding ''txn.prepared'' LevelWARN
     (''two-phase transaction '' @ Prepared.GID x @ '' prepared '' @ fmt_f0 (Prepared.AgeS x) @
        ''s ago and not finished, holding back the vacuum horizon'')
     TxnPreparedID
     [(''gid'', VStr (Prepared.GID x)), (''owner'', VStr (Prepared.Owner x)), (''database'', VStr (Prepared.Database x)),
      (''age_s'', VFlt (Prepared.AgeS x)), (''transaction'', v_uint (Prepared.Transaction x))]
     [prepared_fix x]"

lemma txn_levels [simp]:
  "Finding.Level (txn_finding s age) = LevelWARN" "Finding.Level (prepared_finding x) = LevelWARN"
  by (simp_all add: txn_finding_def prepared_finding_def)

definition prepared_row :: "Thresholds \<Rightarrow> Prepared \<Rightarrow> Finding list \<times> bool" where
  "prepared_row th x =
     (if f_less (Prepared.AgeS x) (PreparedWarnS th) then ([], False) else ([prepared_finding x], False))"

definition prepared :: "TxnPrepared \<Rightarrow> Thresholds \<Rightarrow> Result" where
  "prepared p th = scan_rule (prepared_row th) (coll.Status p) (coll.Rows p)"

definition Txn :: "SessionActivity \<Rightarrow> TxnPrepared \<Rightarrow> Thresholds \<Rightarrow> Result" where
  "Txn a p th = Merge [longTxn a th, prepared p th]"

definition txn_too_long :: "Thresholds \<Rightarrow> Session \<Rightarrow> bool" where
  "txn_too_long th s \<longleftrightarrow> \<not> hidden_session s \<and>
     (case Session.XactAgeS s of None \<Rightarrow> False | Some age \<Rightarrow> \<not> f_less age (XactWarnS th))"

lemma txn_row_eq:
  "txn_row th s =
     (if txn_too_long th s then [txn_finding s (the (Session.XactAgeS s))] else [], hidden_session s)"
  by (auto simp: txn_row_def txn_too_long_def hidden_session_def split: option.splits)

lemma prepared_row_eq:
  "prepared_row th x =
     (if f_less (Prepared.AgeS x) (PreparedWarnS th) then [] else [prepared_finding x], False)"
  by (simp add: prepared_row_def)

interpretation longTxn_rule: rule_contract "\<lambda>(a, th). longTxn a th"
  "\<lambda>(a, th). unseen_probe (coll.Status a) \<or> coll.Status a = StatusOK \<and> (\<exists>s\<in>set (coll.Rows a). hidden_session s)"
  by unfold_locales (auto simp: longTxn_def scan_rule_verdict txn_row_eq)

interpretation prepared_rule: rule_contract "\<lambda>(p, th). prepared p th" "\<lambda>(p, th). unseen_probe (coll.Status p)"
  by unfold_locales (auto simp: prepared_def scan_rule_verdict prepared_row_eq)

lemma Txn_findings:
  "Result.Findings (Txn a p th) =
     (if coll.Status a = StatusOK
      then map (\<lambda>s. txn_finding s (the (Session.XactAgeS s))) (filter (txn_too_long th) (coll.Rows a)) else []) @
     (if coll.Status p = StatusOK
      then map prepared_finding (filter (\<lambda>x. \<not> f_less (Prepared.AgeS x) (PreparedWarnS th)) (coll.Rows p)) else [])"
  by (simp add: Txn_def Merge_def longTxn_def prepared_def txn_row_eq prepared_row_eq
      scan_rule_filter [where P = "txn_too_long th"]
      scan_rule_filter [where P = "\<lambda>x. \<not> f_less (Prepared.AgeS x) (PreparedWarnS th)"])

end
