(* ===== verification/RuleInst.thy ===== *)
theory RuleInst
  imports RuleCore FactsInst
begin

text \<open>
  The rules on the instance (\<open>internal/rule/inst.go\<close>): waits, connections, the standby's WAL
  receiver, replication slots; and \<open>Display\<close>, the verdict of a command that only shows
  (\<open>internal/rule/space.go\<close>).
\<close>

section \<open>Waits and display\<close>

definition Waits :: "WaitSummary \<Rightarrow> Result" where
  "Waits w =
     (let (judge, unknown) = collected (coll.Status w)
      in judged [] (unknown \<or> judge \<and> WaitSummary_Redacted w \<noteq> []))"

definition Display :: "bool \<Rightarrow> status list \<Rightarrow> Result" where
  "Display hidden sts = judged [] (foldl (\<lambda>unknown st. unknown \<or> unseen_probe st) hidden sts)"

lemma Display_eq: "Display hidden sts = judged [] (hidden \<or> (\<exists>st\<in>set sts. unseen_probe st))"
proof -
  have "foldl (\<lambda>unknown st. unknown \<or> unseen_probe st) u sts = (u \<or> (\<exists>st\<in>set sts. unseen_probe st))" for u
    by (induction sts arbitrary: u) auto
  then show ?thesis by (simp add: Display_def)
qed

interpretation display_rule: rule_contract "\<lambda>(hidden, sts). Display hidden sts"
  "\<lambda>(hidden, sts). hidden \<or> (\<exists>st\<in>set sts. unseen_probe st)"
  by unfold_locales (auto simp: Display_eq)

interpretation waits_rule: rule_contract Waits
  "\<lambda>w. unseen_probe (coll.Status w) \<or> coll.Status w = StatusOK \<and> WaitSummary_Redacted w \<noteq> []"
  by unfold_locales (simp add: Waits_def split_beta)

section \<open>Connections\<close>

definition connections :: "Info \<Rightarrow> Finding option" where
  "connections x =
     (let usable = Info_Usable x in
      if sint usable \<le> 0 \<or> sint (Info.Connections x) < sint usable then None
      else Some (finding ''inst.connections'' LevelFAIL
        (fmt_i (Info.Connections x) @ '' connections in use, reaching the '' @ fmt_i usable @
         '' ordinary users may open (max_connections '' @ fmt_i (Info.MaxConnections x) @ '' minus '' @
         fmt_i (Info.SuperuserReserved x) @ '' reserved for superusers): ordinary users can no longer connect'')
        InstInfoID
        [(''connections'', v_int (Info.Connections x)), (''max_connections'', v_int (Info.MaxConnections x)),
         (''superuser_reserved_connections'', v_int (Info.SuperuserReserved x))]
        [verify ''kbdiag sessions''
          ''who holds the connections: the summary at the top counts them by user, database, application and client'']))"

text \<open>
  There is a slot an ordinary user may open, and every one of them is taken. With settings the server
  accepts (nothing negative) the subtraction does not overflow, so the test is the one on the numbers.
\<close>

definition full :: "Info \<Rightarrow> bool" where
  "full x \<longleftrightarrow> sint (Info.SuperuserReserved x) < sint (Info.MaxConnections x) \<and>
     sint (Info.MaxConnections x) - sint (Info.SuperuserReserved x) \<le> sint (Info.Connections x)"

lemma usable_no_overflow:
  assumes "0 \<le> sint (Info.SuperuserReserved x)" and "0 \<le> sint (Info.MaxConnections x)"
  shows "sint (Info_Usable x) = sint (Info.MaxConnections x) - sint (Info.SuperuserReserved x)"
proof -
  let ?d = "sint (Info.MaxConnections x) - sint (Info.SuperuserReserved x)"
  have "- (2 ^ 31) \<le> ?d" "?d < 2 ^ 31"
    using assms sint32_bounds [of "Info.MaxConnections x"] sint32_bounds [of "Info.SuperuserReserved x"] by auto
  then have "sint (word_of_int ?d :: int32) = ?d" by (rule sint_word_of_int32)
  moreover have "Info_Usable x = word_of_int ?d" by (simp add: Info_Usable_def)
  ultimately show ?thesis by simp
qed

lemma connections_iff:
  "0 \<le> sint (Info.SuperuserReserved x) \<Longrightarrow> 0 \<le> sint (Info.MaxConnections x) \<Longrightarrow>
   connections x \<noteq> None \<longleftrightarrow> full x"
  by (auto simp: connections_def full_def usable_no_overflow Let_def)

section \<open>The WAL receiver\<close>

definition upstream_next :: "Next list" where
  "upstream_next = [verify ''kbdiag slots'' ''run on the primary: is this standby's slot inactive?'']"

definition upstream_fields :: "Upstream \<Rightarrow> string \<Rightarrow> (string \<times> val) list" where
  "upstream_fields x status =
     [(''status'', VStr status), (''sender_host'', v_opt VStr (Upstream.SenderHost x)),
      (''sender_port'', v_opt v_int (Upstream.SenderPort x)), (''slot_name'', v_opt VStr (Upstream.SlotName x))]"

definition no_receiver :: Finding where
  "no_receiver = finding ''inst.upstream'' LevelWARN
     ''the standby has no WAL receiver and is not receiving WAL from the primary: if the primary fails now, no standby can take over''
     InstUpstreamID [(''status'', VNull)] upstream_next"

definition not_streaming :: "Upstream \<Rightarrow> string \<Rightarrow> Finding" where
  "not_streaming x status = finding ''inst.upstream'' LevelWARN
     (''the standby's WAL receiver is '' @ status @ '', not streaming, so it is not receiving WAL from the primary: if the primary fails now, no standby can take over'')
     InstUpstreamID (upstream_fields x status) upstream_next"

definition stuck_receiver :: "Upstream \<Rightarrow> string \<Rightarrow> flt \<Rightarrow> flt \<Rightarrow> Finding" where
  "stuck_receiver x status age timeout = finding ''inst.upstream'' LevelWARN
     (''the standby's WAL receiver shows streaming, but nothing has come from the primary for '' @ Duration age @
      '', longer than wal_receiver_timeout ('' @ Duration timeout @
      ''), after which a working receiver reconnects: it is stuck (stopped or blocked), so it is not receiving WAL: if the primary fails now, no standby can take over'')
     InstUpstreamID
     (upstream_fields x status @ [(''last_msg_age_s'', VFlt age), (''wal_receiver_timeout_s'', VFlt timeout)])
     upstream_next"

text \<open>What one row says: not to be read, a finding, or nothing, and then the next row is looked at.\<close>

datatype receiver = Unreadable | Failing Finding | Working

definition receiver_row :: "Upstream \<Rightarrow> receiver" where
  "receiver_row x = (case Upstream.Status x of
       None \<Rightarrow> Unreadable
     | Some status \<Rightarrow>
         if status = ''streaming'' then
           (case (Upstream.LastMsgAgeS x, Upstream.WALReceiverTimeoutS x) of
              (Some age, Some timeout) \<Rightarrow>
                if f_le timeout (Fin 0) \<or> f_le age timeout then Working
                else Failing (stuck_receiver x status age timeout)
            | _ \<Rightarrow> Working)
         else Failing (not_streaming x status))"

fun receiver_rows :: "Upstream list \<Rightarrow> Finding option \<times> bool" where
  "receiver_rows [] = (None, False)"
| "receiver_rows (x # xs) = (case receiver_row x of
       Unreadable \<Rightarrow> (None, True)
     | Failing f \<Rightarrow> (Some f, False)
     | Working \<Rightarrow> receiver_rows xs)"

text \<open>The finding, if any, and whether the receiver could not be seen.\<close>

definition upstream :: "InstUpstream \<Rightarrow> Finding option \<times> bool" where
  "upstream u =
     (let (judge, unknown) = collected (coll.Status u)
      in if \<not> judge then (None, unknown)
         else if coll.Rows u = [] then (Some no_receiver, False)
         else receiver_rows (coll.Rows u))"

definition receiving :: "Upstream \<Rightarrow> bool" where
  "receiving x \<longleftrightarrow> receiver_row x = Working"

lemma receiver_rows_working: "receiver_rows xs = (None, False) \<longleftrightarrow> list_all receiving xs"
  by (induction xs) (auto simp: receiving_def split: receiver.splits)

lemma receiver_rows_first:
  "receiver_rows xs = (case dropWhile receiving xs of
       [] \<Rightarrow> (None, False)
     | x # _ \<Rightarrow> (case receiver_row x of Failing f \<Rightarrow> (Some f, False) | _ \<Rightarrow> (None, True)))"
  by (induction xs) (auto simp: receiving_def split: receiver.splits)

lemma upstream_level: "fst (upstream u) = Some f \<Longrightarrow> Finding.Level f = LevelWARN"
proof -
  have rows: "fst (receiver_rows xs) = Some f \<Longrightarrow> Finding.Level f = LevelWARN" for xs
    by (induction xs)
      (auto simp: receiver_row_def stuck_receiver_def not_streaming_def
        split: receiver.splits option.splits if_splits)
  show "fst (upstream u) = Some f \<Longrightarrow> Finding.Level f = LevelWARN"
    by (auto simp: upstream_def split_beta no_receiver_def split: if_splits dest: rows)
qed

section \<open>Status\<close>

definition of_option :: "'a option \<Rightarrow> 'a list" where
  "of_option x = (case x of None \<Rightarrow> [] | Some a \<Rightarrow> [a])"

lemma of_option_simps [simp]: "of_option None = []" "of_option (Some a) = [a]"
  by (simp_all add: of_option_def)

definition Status_rule :: "InstInfo \<Rightarrow> InstDatabases \<Rightarrow> InstDownstreams \<Rightarrow> InstUpstream \<Rightarrow> Result" where
  "Status_rule i d n u =
     (let (judge, unknown0) = collected (coll.Status i);
          unknown = foldl (\<lambda>un st. un \<or> unseen_probe st) unknown0 [coll.Status d, coll.Status n];
          fs = (if judge then concat (map (\<lambda>x. of_option (connections x)) (coll.Rows i)) else []);
          (f, x) = upstream u
      in judged (fs @ of_option f) (unknown \<or> x))"

lemma Status_rule_eq:
  "Status_rule i d n u = judged
     ((if coll.Status i = StatusOK then concat (map (\<lambda>x. of_option (connections x)) (coll.Rows i)) else []) @
      of_option (fst (upstream u)))
     (unseen_probe (coll.Status i) \<or> unseen_probe (coll.Status d) \<or> unseen_probe (coll.Status n) \<or> snd (upstream u))"
  by (simp add: Status_rule_def split_beta Let_def)

interpretation status_rule: rule_contract "\<lambda>(i, d, n, u). Status_rule i d n u"
  "\<lambda>(i, d, n, u). unseen_probe (coll.Status i) \<or> unseen_probe (coll.Status d) \<or>
     unseen_probe (coll.Status n) \<or> snd (upstream u)"
  by unfold_locales (auto simp: Status_rule_eq)

section \<open>Slots\<close>

definition slot_symptom :: "Slot \<Rightarrow> string" where
  "slot_symptom s =
     ''replication slot '' @ Slot.Name s @ '' is inactive, '' @
     (case Slot.RetainedWALBytes s of
        None \<Rightarrow> ''retaining no WAL''
      | Some b \<Rightarrow> ''retaining '' @ Bytes (f_max (Fin 0) (f64_of_int (sint b))) @ '' WAL'') @
     (case Slot.Xmin s of
        None \<Rightarrow> []
      | Some x \<Rightarrow> '', xmin '' @ fmt_u x @ '' holding back the vacuum horizon'') @
     (case Slot.CatalogXmin s of
        None \<Rightarrow> []
      | Some x \<Rightarrow> '', catalog_xmin '' @ fmt_u x @ '' holding back the system catalogs' horizon'')"

definition slot_finding :: "Slot \<Rightarrow> Finding" where
  "slot_finding s = finding ''slot.inactive'' LevelWARN (slot_symptom s) SlotListID
     [(''slot_name'', VStr (Slot.Name s)), (''active'', VBool (Slot.Active s)), (''xmin'', v_opt v_uint (Slot.Xmin s)),
      (''catalog_xmin'', v_opt v_uint (Slot.CatalogXmin s)),
      (''retained_wal_bytes'', v_opt v_int (Slot.RetainedWALBytes s))]
     [verify ''kbdiag status''
        ''run on this slot's downstream node (usually a standby): if it cannot connect, the node is down; inst.upstream warns when it has no receiver, the receiver is not streaming, or nothing has come for longer than wal_receiver_timeout'']"

lemma slot_level [simp]: "Finding.Level (slot_finding s) = LevelWARN"
  by (simp add: slot_finding_def)

definition slots_row :: "Slot \<Rightarrow> Finding list \<times> bool" where
  "slots_row s = (if Slot.Active s then ([], False) else ([slot_finding s], False))"

definition Slots :: "SlotList \<Rightarrow> Result" where
  "Slots l = scan_rule slots_row (coll.Status l) (coll.Rows l)"

lemma slots_row_eq: "slots_row s = (if \<not> Slot.Active s then [slot_finding s] else [], False)"
  by (simp add: slots_row_def)

interpretation slots_rule: rule_contract Slots "\<lambda>l. unseen_probe (coll.Status l)"
  by unfold_locales (simp add: Slots_def scan_rule_verdict slots_row_eq)

lemma Slots_findings:
  "Result.Findings (Slots l) =
     (if coll.Status l = StatusOK then map slot_finding (filter (\<lambda>s. \<not> Slot.Active s) (coll.Rows l)) else [])"
  by (simp add: Slots_def slots_row_eq scan_rule_filter [where P = "\<lambda>s. \<not> Slot.Active s"])

end
