(* ===== verification/RuleSpace.thy ===== *)
theory RuleSpace
  imports RuleInst FactsSpace
begin

text \<open>
  The rule on free space (\<open>internal/rule/space.go\<close>): the file systems holding the data and WAL
  directories against the size of one WAL segment.
\<close>

record filesystem =
  kinds :: "string list"
  paths :: "string list"
  fs_d :: Disk

definition fs_id :: "Mount \<Rightarrow> string" where
  "fs_id m =
     (if Disk.FSID (Mount.Disk m) = [] then ''path:'' @ Mount.Path m else Disk.FSID (Mount.Disk m))"

definition fs_add :: "Mount \<Rightarrow> filesystem option \<Rightarrow> filesystem" where
  "fs_add m old =
     (let f = (case old of None \<Rightarrow> \<lparr>kinds = [], paths = [], fs_d = Mount.Disk m\<rparr> | Some f \<Rightarrow> f)
      in f\<lparr>kinds := kinds f @ [Mount.Kind m], paths := paths f @ [Mount.Path m]\<rparr>)"

definition judged_mount :: "Mount \<Rightarrow> bool" where
  "judged_mount m \<longleftrightarrow> Mount.Kind m = ''data_directory'' \<or> Mount.Kind m = ''wal''"

text \<open>\<open>byID\<close> with \<open>order\<close>: the file systems in the order their first directory came.\<close>

definition filesystems :: "Mount list \<Rightarrow> (string \<times> filesystem) list" where
  "filesystems ms =
     foldl (\<lambda>fss m. if judged_mount m then group_add (fs_id m) (fs_add m) fss else fss) [] ms"

definition harm :: "filesystem \<Rightarrow> string list" where
  "harm f =
     (if ''data_directory'' \<in> set (kinds f) then
        [''tables, transaction status files and temp files are about to fail to grow''] else []) @
     (if ''wal'' \<in> set (kinds f) then
        [''a new WAL segment cannot be created, so the server stops once no old segment is left to reuse''] else [])"

definition disk_full :: "int64 \<Rightarrow> filesystem \<Rightarrow> Finding" where
  "disk_full seg f = finding ''space.disk_full'' LevelFAIL
     (''the filesystem holding '' @ join '' and '' (kinds f) @ '' has '' @
      Units.Bytes (f64_of_int (uint (Disk.AvailBytes (fs_d f)))) @ '' free, less than one WAL segment ('' @
      Units.Bytes (f64_of_int (sint seg)) @ ''): '' @ join ''; '' (harm f))
     SpaceDiskID
     [(''paths'', VStrs (paths f)), (''avail_bytes'', v_uint (Disk.AvailBytes (fs_d f))),
      (''total_bytes'', v_uint (Disk.TotalBytes (fs_d f))), (''wal_segment_bytes'', v_int seg)]
     [verify ''kbdiag wal'' ''what keeps WAL here: slots, wal_keep_segments, archiving'',
      verify ''kbdiag top-objects'' ''the largest tables and indexes in this database'']"

definition short_of_segment :: "int64 \<Rightarrow> filesystem \<Rightarrow> bool" where
  "short_of_segment seg f \<longleftrightarrow> \<not> (sint seg \<le> 0 \<or> uint seg \<le> uint (Disk.AvailBytes (fs_d f)))"

definition wal_segment :: "SpaceWAL \<Rightarrow> int64 option" where
  "wal_segment w =
     (if coll.Status w \<noteq> StatusOK then None
      else case coll.Rows w of [] \<Rightarrow> None | x # _ \<Rightarrow> WAL.WALSegmentBytes x)"

definition Space :: "InstDatabases \<Rightarrow> SpaceTablespaces \<Rightarrow> SpaceWAL \<Rightarrow> SpaceDisk \<Rightarrow> Result" where
  "Space db t w disk =
     (let hidden = (InstDatabases_Redacted db \<noteq> [] \<or> SpaceTablespaces_Redacted t \<noteq> [] \<or>
                    coll.Status disk = StatusNotApplicable);
          r = Display hidden [coll.Status db, coll.Status t, coll.Status w, coll.Status disk]
      in if coll.Rows disk = [] then r
         else case wal_segment w of
           None \<Rightarrow> r
         | Some seg \<Rightarrow>
             (let fs = map (disk_full seg) (filter (short_of_segment seg) (map snd (filesystems (coll.Rows disk))))
              in if fs = [] then r else \<lparr>Result.Verdict = VerdictFAIL, Result.Findings = fs\<rparr>))"

section \<open>Every judged directory is accounted for once\<close>

lemma filesystems_snoc:
  "filesystems (ms @ [m]) =
     (if judged_mount m then group_add (fs_id m) (fs_add m) (filesystems ms) else filesystems ms)"
  by (simp add: filesystems_def)

lemma filesystems_Nil [simp]: "filesystems [] = []"
  by (simp add: filesystems_def)

lemma distinct_filesystems: "distinct (map fst (filesystems ms))"
  by (induction ms rule: rev_induct) (simp_all add: filesystems_snoc distinct_group_add)

lemma filesystems_lookup:
  "map_of (filesystems ms) i =
     (let group = filter (\<lambda>m. judged_mount m \<and> fs_id m = i) ms
      in if group = [] then None
         else Some \<lparr>kinds = map Mount.Kind group, paths = map Mount.Path group, fs_d = Mount.Disk (hd group)\<rparr>)"
proof (induction ms rule: rev_induct)
  case Nil
  then show ?case by simp
next
  case (snoc m ms)
  then show ?case
    by (auto simp: filesystems_snoc map_of_group_add fs_add_def Let_def)
qed

lemma set_filesystems:
  "f \<in> set (map snd (filesystems ms)) \<longleftrightarrow> (\<exists>i. map_of (filesystems ms) i = Some f)"
  using distinct_filesystems [of ms] by (auto simp: map_of_eq_Some_iff) (metis map_of_SomeD snd_conv image_eqI)

text \<open>The file systems the rule looks at, and that they are short.\<close>

definition fs_of :: "Mount list \<Rightarrow> string \<Rightarrow> Mount list" where
  "fs_of ms i = filter (\<lambda>m. judged_mount m \<and> fs_id m = i) ms"

definition short_mount :: "int64 \<Rightarrow> Mount list \<Rightarrow> Mount \<Rightarrow> bool" where
  "short_mount seg ms m \<longleftrightarrow>
     0 < sint seg \<and> uint (Disk.AvailBytes (Mount.Disk (hd (fs_of ms (fs_id m))))) < sint seg"

lemma uint_of_positive: "0 < sint (w :: int64) \<Longrightarrow> uint w = sint w"
  using sint64_bounds(2) [of w] by (simp add: uint_sint take_bit_int_eq_self)

lemma some_fs_short:
  "(\<exists>f\<in>set (map snd (filesystems ms)). short_of_segment seg f) \<longleftrightarrow>
   (\<exists>m\<in>set ms. judged_mount m \<and> short_mount seg ms m)"
proof
  assume "\<exists>f\<in>set (map snd (filesystems ms)). short_of_segment seg f"
  then obtain f i where f: "map_of (filesystems ms) i = Some f" "short_of_segment seg f"
    using set_filesystems by blast
  then have ne: "fs_of ms i \<noteq> []" and fd: "fs_d f = Mount.Disk (hd (fs_of ms i))"
    by (auto simp: filesystems_lookup fs_of_def Let_def split: if_splits)
  then have "hd (fs_of ms i) \<in> set (fs_of ms i)" by simp
  then have "hd (fs_of ms i) \<in> set ms" "judged_mount (hd (fs_of ms i))" "fs_id (hd (fs_of ms i)) = i"
    by (auto simp: fs_of_def)
  with f fd show "\<exists>m\<in>set ms. judged_mount m \<and> short_mount seg ms m"
    by (auto simp: short_of_segment_def short_mount_def uint_of_positive)
next
  assume "\<exists>m\<in>set ms. judged_mount m \<and> short_mount seg ms m"
  then obtain m where m: "m \<in> set ms" "judged_mount m" "short_mount seg ms m" by blast
  let ?g = "fs_of ms (fs_id m)"
  have "m \<in> set ?g" using m by (simp add: fs_of_def)
  then have "?g \<noteq> []" by (cases ?g) auto
  define f where "f = \<lparr>kinds = map Mount.Kind ?g, paths = map Mount.Path ?g, fs_d = Mount.Disk (hd ?g)\<rparr>"
  from \<open>?g \<noteq> []\<close> have "map_of (filesystems ms) (fs_id m) = Some f"
    by (auto simp: filesystems_lookup fs_of_def Let_def f_def)
  then have "f \<in> set (map snd (filesystems ms))" by (subst set_filesystems) blast
  moreover have "short_of_segment seg f"
    using m by (auto simp: f_def short_of_segment_def short_mount_def uint_of_positive)
  ultimately show "\<exists>f\<in>set (map snd (filesystems ms)). short_of_segment seg f" by blast
qed

lemma Space_verdict:
  "Result.Verdict (Space db t w disk) =
     (if (\<exists>seg. wal_segment w = Some seg \<and>
            (\<exists>m\<in>set (coll.Rows disk). judged_mount m \<and> short_mount seg (coll.Rows disk) m))
      then VerdictFAIL
      else if InstDatabases_Redacted db \<noteq> [] \<or> SpaceTablespaces_Redacted t \<noteq> [] \<or>
              coll.Status disk = StatusNotApplicable \<or>
              (\<exists>st\<in>{coll.Status db, coll.Status t, coll.Status w, coll.Status disk}. unseen_probe st)
      then VerdictUNKNOWN else VerdictOK)"
proof -
  have none: "filter (short_of_segment seg) (map snd (filesystems ms)) = [] \<longleftrightarrow>
      \<not> (\<exists>m\<in>set ms. judged_mount m \<and> short_mount seg ms m)" for seg ms
    unfolding some_fs_short [symmetric] by (auto simp: filter_empty_conv)
  show ?thesis
    by (cases "wal_segment w"; cases "coll.Rows disk = []")
      (auto simp: Space_def Let_def Display_eq verdictOf_Nil none simp del: set_map map_is_Nil_conv)
qed

end
