(* ===== verification/RuleFreeze.thy ===== *)
theory RuleFreeze
  imports RuleCore RuleNames FactsSpace
begin

text \<open>
  The rule on transaction ID ages (\<open>internal/rule/freeze.go\<close>) and the quoting of shell words.
  \<open>uni\<close> stands for the letters and digits of the Unicode tables beyond ASCII.
\<close>

section \<open>Ages\<close>

definition freezeLimit :: "FreezeLimits \<Rightarrow> FreezeLimit option" where
  "freezeLimit l =
     (if coll.Status l \<noteq> StatusOK then None else case coll.Rows l of [] \<Rightarrow> None | x # _ \<Rightarrow> Some x)"

definition xid_fail :: "int32 \<Rightarrow> string list" where
  "xid_fail age =
     (if XIDStopAge \<le> sint age then
        [fmt_i age @ '' xids old, at or past the stop limit '' @ fmt_d XIDStopAge] else [])"

definition xid_warn :: "int32 \<Rightarrow> FreezeLimit option \<Rightarrow> string list" where
  "xid_warn age lm = (case lm of None \<Rightarrow> [] | Some l \<Rightarrow>
     if \<not> XIDStopAge \<le> sint age \<and> sint (FreezeLimit.FreezeMaxAge l) \<le> sint age then
       [fmt_i age @ '' xids old, past autovacuum_freeze_max_age '' @ fmt_i (FreezeLimit.FreezeMaxAge l) @
        '' ('' @ fmt_d (XIDStopAge - sint age) @ '' xids left before new transaction IDs are refused)'']
     else [])"

definition mxid_fail :: "int32 \<Rightarrow> string list" where
  "mxid_fail age =
     (if MXIDStopAge \<le> sint age then
        [fmt_i age @ '' multixacts old, at or past the stop limit '' @ fmt_d MXIDStopAge] else [])"

definition mxid_warn :: "int32 \<Rightarrow> FreezeLimit option \<Rightarrow> string list" where
  "mxid_warn age lm = (case lm of None \<Rightarrow> [] | Some l \<Rightarrow>
     if \<not> MXIDStopAge \<le> sint age \<and> sint (FreezeLimit.MultiFreezeMaxAge l) \<le> sint age then
       [fmt_i age @ '' multixacts old, past autovacuum_multixact_freeze_max_age '' @
        fmt_i (FreezeLimit.MultiFreezeMaxAge l)]
     else [])"

text \<open>A finding without evidence and next steps, which the caller fills in.\<close>

definition bare_finding :: "string \<Rightarrow> level \<Rightarrow> string \<Rightarrow> Finding" where
  "bare_finding i l symptom =
     \<lparr>Finding.ID = i, Finding.Level = l, Finding.Symptom = symptom, Finding.Evidence = [],
      Finding.Cause = None, Finding.Next = []\<rparr>"

lemma bare_finding_simps [simp]:
  "Finding.ID (bare_finding i l symptom) = i" "Finding.Level (bare_finding i l symptom) = l"
  by (simp_all add: bare_finding_def)

definition ageFinding ::
  "string \<Rightarrow> string \<Rightarrow> int32 \<Rightarrow> int32 \<Rightarrow> FreezeLimit option \<Rightarrow> Finding option \<times> bool" where
  "ageFinding i what xidAge mxidAge lm =
     (let fail = xid_fail xidAge @ mxid_fail mxidAge;
          warn = xid_warn xidAge lm @ mxid_warn mxidAge lm
      in if fail \<noteq> [] then
           (Some (bare_finding i LevelFAIL (what @ '' is '' @ join '' and '' (fail @ warn) @
              '': the server refuses new transaction IDs or multixacts, so writes fail'')), False)
         else if warn \<noteq> [] then
           (Some (bare_finding i LevelWARN (what @ '' is '' @ join '' and '' warn @
              '': the anti-wraparound autovacuum is due or cannot finish'')), False)
         else (None, lm = None))"

text \<open>The two lines an age is judged by, and the level they give.\<close>

definition past_stop :: "int32 \<Rightarrow> int32 \<Rightarrow> bool" where
  "past_stop xid mxid \<longleftrightarrow> XIDStopAge \<le> sint xid \<or> MXIDStopAge \<le> sint mxid"

definition past_limit :: "int32 \<Rightarrow> int32 \<Rightarrow> FreezeLimit option \<Rightarrow> bool" where
  "past_limit xid mxid lm \<longleftrightarrow> (case lm of None \<Rightarrow> False | Some l \<Rightarrow>
     sint (FreezeLimit.FreezeMaxAge l) \<le> sint xid \<or> sint (FreezeLimit.MultiFreezeMaxAge l) \<le> sint mxid)"

definition age_level :: "int32 \<Rightarrow> int32 \<Rightarrow> FreezeLimit option \<Rightarrow> level option" where
  "age_level xid mxid lm =
     (if past_stop xid mxid then Some LevelFAIL else if past_limit xid mxid lm then Some LevelWARN else None)"

lemma ageFinding_level: "map_option Finding.Level (fst (ageFinding i what xid mxid lm)) = age_level xid mxid lm"
  by (auto simp: ageFinding_def Let_def age_level_def past_stop_def past_limit_def
      xid_fail_def mxid_fail_def xid_warn_def mxid_warn_def split: option.splits)

lemma ageFinding_ID: "fst (ageFinding i what xid mxid lm) = Some f \<Longrightarrow> Finding.ID f = i"
  by (auto simp: ageFinding_def Let_def split: if_splits)

lemma ageFinding_unknown: "snd (ageFinding i what xid mxid lm) \<longleftrightarrow> lm = None \<and> \<not> past_stop xid mxid"
  by (auto simp: ageFinding_def Let_def past_stop_def
      xid_fail_def mxid_fail_def xid_warn_def mxid_warn_def split: option.splits)

section \<open>Shell words\<close>

definition word_rune :: "(nat \<Rightarrow> bool) \<Rightarrow> nat \<Rightarrow> bool" where
  "word_rune uni r \<longleftrightarrow>
     (if r < 128 then 65 \<le> r \<and> r \<le> 90 \<or> 97 \<le> r \<and> r \<le> 122 \<or> 48 \<le> r \<and> r \<le> 57 else uni r) \<or>
     r = 95 \<or> r = 45 \<or> r = 46"

definition shellWord :: "(nat \<Rightarrow> bool) \<Rightarrow> string \<Rightarrow> string" where
  "shellWord uni s =
     (if s \<noteq> [] \<and> \<not> any_rune (\<lambda>r. \<not> word_rune uni r) s then s
      else [CHR 0x27] @ replace_byte (CHR 0x27) [CHR 0x27, CHR 0x5C, CHR 0x27, CHR 0x27] s @ [CHR 0x27])"

text \<open>
  The reader the quoting is for: a shell splitting its command line. Single quotes keep what is
  between them, a backslash keeps the next byte, blanks and operators end the word; a byte that
  would start an expansion or a pattern is refused, since the word would then not be literal.
\<close>

definition sh_end :: "char \<Rightarrow> bool" where
  "sh_end c \<longleftrightarrow> byte c \<in> {9, 10, 32, 38, 40, 41, 59, 60, 62, 124}"

definition sh_special :: "char \<Rightarrow> bool" where
  "sh_special c \<longleftrightarrow> byte c \<in> {33, 34, 35, 36, 42, 61, 63, 91, 93, 94, 96, 123, 125, 126, 37}"

fun sh_word :: "bool \<Rightarrow> string \<Rightarrow> (string \<times> string) option" where
  "sh_word True [] = None"
| "sh_word True (c # cs) =
     (if c = CHR 0x27 then sh_word False cs
      else map_option (\<lambda>(w, rest). (c # w, rest)) (sh_word True cs))"
| "sh_word False [] = Some ([], [])"
| "sh_word False (c # cs) =
     (if c = CHR 0x27 then sh_word True cs
      else if c = CHR 0x5C then
        (case cs of [] \<Rightarrow> None | d # ds \<Rightarrow> map_option (\<lambda>(w, rest). (d # w, rest)) (sh_word False ds))
      else if sh_end c then Some ([], c # cs)
      else if sh_special c then None
      else map_option (\<lambda>(w, rest). (c # w, rest)) (sh_word False cs))"

lemma sh_word_quoted:
  "sh_word True (replace_byte (CHR 0x27) [CHR 0x27, CHR 0x5C, CHR 0x27, CHR 0x27] s @ CHR 0x27 # rest) =
   map_option (\<lambda>(w, r). (s @ w, r)) (sh_word False rest)"
proof (induction s)
  case Nil
  then show ?case by (simp add: replace_byte_def option.map_id option.map_ident)
next
  case (Cons c s)
  then show ?case
    by (auto simp: replace_byte_def option.map_comp comp_def split_beta intro!: option.map_cong)
qed

definition plain_byte :: "char \<Rightarrow> bool" where
  "plain_byte c \<longleftrightarrow> c \<noteq> CHR 0x27 \<and> c \<noteq> CHR 0x5C \<and> \<not> sh_end c \<and> \<not> sh_special c"

lemma sh_word_plain:
  "list_all plain_byte s \<Longrightarrow> sh_word False (s @ rest) = map_option (\<lambda>(w, r). (s @ w, r)) (sh_word False rest)"
  by (induction s) (auto simp: plain_byte_def option.map_comp comp_def split_beta option.map_id option.map_ident intro!: option.map_cong)

lemma word_byte_plain:
  assumes "word_rune uni (fst p)"
    and "fst p < 128 \<and> snd p = [byte_char (fst p)] \<or> (\<forall>c\<in>set (snd p). 128 \<le> byte c)"
  shows "list_all plain_byte (snd p)"
proof -
  have high: "plain_byte c" if "128 \<le> byte c" for c
    using that by (auto simp: plain_byte_def sh_end_def sh_special_def byte_def)
  have low: "plain_byte c" if "word_rune uni (byte c)" "byte c < 128" for c
    using that by (auto simp: plain_byte_def sh_end_def sh_special_def word_rune_def byte_def)
  from assms show ?thesis
    using high low [of "byte_char (fst p)"] by (auto simp: list_all_iff)
qed

text \<open>A word ends where the reader is told to stop: at the end of the line, or at a blank or operator.\<close>

lemma read_shellWord:
  assumes rest: "rest = [] \<or> sh_end (hd rest)"
  shows "sh_word False (shellWord uni s @ rest) = Some (s, rest)"
proof -
  have stop: "sh_word False rest = Some ([], rest)"
  proof (cases rest)
    case (Cons c cs)
    with rest have "sh_end c" by simp
    moreover from this have "c \<noteq> CHR 0x27" "c \<noteq> CHR 0x5C" by (auto simp: sh_end_def byte_def)
    ultimately show ?thesis by (simp add: Cons)
  qed simp
  show ?thesis
  proof (cases "s \<noteq> [] \<and> \<not> any_rune (\<lambda>r. \<not> word_rune uni r) s")
    case True
    then have runes: "\<forall>p\<in>set (chunks s). word_rune uni (fst p)"
      by (auto simp: any_rune_def list_ex_iff)
    have "list_all plain_byte (snd p)" if "p \<in> set (chunks s)" for p
      using that runes chunk_bytes [OF that] by (intro word_byte_plain [of uni]) auto
    then have "list_all plain_byte (concat (map snd (chunks s)))"
      by (auto simp: list_all_iff)
    then have "list_all plain_byte s" by (simp add: concat_chunks)
    with True stop show ?thesis by (simp add: shellWord_def sh_word_plain)
  next
    case False
    then have "shellWord uni s = CHR 0x27 #
        replace_byte (CHR 0x27) [CHR 0x27, CHR 0x5C, CHR 0x27, CHR 0x27] s @ [CHR 0x27]"
      by (auto simp: shellWord_def)
    then show ?thesis using stop by (simp add: sh_word_quoted)
  qed
qed

definition word_ends :: "string \<Rightarrow> bool" where
  "word_ends rest \<longleftrightarrow> rest = [] \<or> sh_end (hd rest)"

interpretation shell_word: quoting "\<lambda>s. True" word_ends "shellWord uni" "sh_word False" for uni
  by unfold_locales (simp_all add: word_ends_def read_shellWord)

section \<open>Freeze\<close>

definition freezeNext :: "(nat \<Rightarrow> bool) \<Rightarrow> string \<Rightarrow> bool \<Rightarrow> string \<Rightarrow> bool \<Rightarrow> Next list" where
  "freezeNext uni db allowConn role stopped =
     (let next = [verify ''kbdiag txn'' ''the oldest transaction or 2PC holding back freezing'',
                  verify ''kbdiag slots'' ''a replication slot's xmin holds it back too'']
      in if \<not> allowConn then next
         else let escaped = hasControl db;
                  next = next @ [if escaped then verify ''kbdiag freeze --json''
                      ''the database name has control characters and the text shows it escaped: take the raw name from the JSON, then run kbdiag -d <name> freeze''
                    else verify (''kbdiag -d '' @ shellWord uni db @ '' freeze'') ''its oldest tables''];
                  place = (if escaped then ''connected to that database'' else ''connected to database '' @ db);
                  place = (if role = ''standby'' then ''on the primary, '' @ place else place);
                  note = place @ '', oldest tables first'' @
                    (if stopped then ''; past the stop limit a PG12 kernel only runs it in single-user mode: follow the KES manual on transaction ID wraparound'' else [])
              in next @ [fix_sql ''VACUUM (FREEZE, VERBOSE) <table>'' note])"

definition freeze_evidence :: "FrozenDatabase \<Rightarrow> FreezeLimit option \<Rightarrow> Evidence list" where
  "freeze_evidence x lm =
     [\<lparr>Evidence.ProbeID = FreezeDatabasesID, Evidence.Fields =
        [(''datname'', VStr (FrozenDatabase.Datname x)), (''xid_age'', v_int (FrozenDatabase.XIDAge x)),
         (''mxid_age'', v_int (FrozenDatabase.MXIDAge x)),
         (''autovacuum_freeze_max_age'', v_opt (\<lambda>l. v_int (FreezeLimit.FreezeMaxAge l)) lm),
         (''autovacuum_multixact_freeze_max_age'', v_opt (\<lambda>l. v_int (FreezeLimit.MultiFreezeMaxAge l)) lm)]\<rparr>]"

definition freeze_row :: "(nat \<Rightarrow> bool) \<Rightarrow> FreezeLimit option \<Rightarrow> string \<Rightarrow> FrozenDatabase \<Rightarrow> Finding list \<times> bool" where
  "freeze_row uni lm role x =
     (let (f, blind) = ageFinding ''freeze.database_age'' (''database '' @ FrozenDatabase.Datname x)
            (FrozenDatabase.XIDAge x) (FrozenDatabase.MXIDAge x) lm
      in case f of
           None \<Rightarrow> ([], blind)
         | Some f \<Rightarrow> ([f\<lparr>Finding.Evidence := freeze_evidence x lm,
             Finding.Next := freezeNext uni (FrozenDatabase.Datname x) (FrozenDatabase.AllowConn x) role
               (Finding.Level f = LevelFAIL)\<rparr>], blind))"

definition Freeze :: "(nat \<Rightarrow> bool) \<Rightarrow> FreezeDatabases \<Rightarrow> FreezeLimits \<Rightarrow> string \<Rightarrow> Result" where
  "Freeze uni db l role = scan_rule (freeze_row uni (freezeLimit l) role) (coll.Status db) (coll.Rows db)"

abbreviation database_level :: "FreezeLimits \<Rightarrow> FrozenDatabase \<Rightarrow> level option" where
  "database_level l x \<equiv> age_level (FrozenDatabase.XIDAge x) (FrozenDatabase.MXIDAge x) (freezeLimit l)"

lemma freeze_row_levels:
  "map Finding.Level (fst (freeze_row uni lm role x)) =
     (case age_level (FrozenDatabase.XIDAge x) (FrozenDatabase.MXIDAge x) lm of None \<Rightarrow> [] | Some v \<Rightarrow> [v])"
  unfolding ageFinding_level [of "''freeze.database_age''" "''database '' @ FrozenDatabase.Datname x"
      "FrozenDatabase.XIDAge x" "FrozenDatabase.MXIDAge x" lm, symmetric]
  by (cases "fst (ageFinding ''freeze.database_age'' (''database '' @ FrozenDatabase.Datname x)
      (FrozenDatabase.XIDAge x) (FrozenDatabase.MXIDAge x) lm)")
    (simp_all add: freeze_row_def split_beta)

lemma freeze_row_unknown:
  "snd (freeze_row uni lm role x) \<longleftrightarrow>
     lm = None \<and> \<not> past_stop (FrozenDatabase.XIDAge x) (FrozenDatabase.MXIDAge x)"
  by (simp add: freeze_row_def split_beta ageFinding_unknown split: option.splits)

lemma has_level_Freeze:
  "has_level v (Result.Findings (Freeze uni db l role)) \<longleftrightarrow>
     coll.Status db = StatusOK \<and> (\<exists>x\<in>set (coll.Rows db). database_level l x = Some v)"
proof -
  have row: "has_level v (fst (freeze_row uni lm role x)) \<longleftrightarrow>
      age_level (FrozenDatabase.XIDAge x) (FrozenDatabase.MXIDAge x) lm = Some v" for lm x
    using arg_cong [OF freeze_row_levels [of uni lm role x], of "\<lambda>vs. v \<in> set vs"]
    by (auto simp: has_level_def image_iff split: option.splits)
  show ?thesis
    by (auto simp: Freeze_def scan_rule_findings row [symmetric] has_level_def)
qed

interpretation freeze_rule: rule_contract "\<lambda>(uni, db, l, role). Freeze uni db l role"
  "\<lambda>(uni, db, l, role). unseen_probe (coll.Status db) \<or> coll.Status db = StatusOK \<and>
     (\<exists>x\<in>set (coll.Rows db). freezeLimit l = None \<and>
        \<not> past_stop (FrozenDatabase.XIDAge x) (FrozenDatabase.MXIDAge x))"
  by unfold_locales (auto simp: Freeze_def scan_rule_verdict freeze_row_unknown)

end
