(* ===== verification/GoNumber.thy ===== *)
theory GoNumber
  imports GoFloat
begin

text \<open>
  Package \<open>strconv\<close> on floats: the shortest decimal text that reads back as the same float
  (\<open>FormatFloat(x, 'f', -1, 32)\<close>, \<open>%g\<close>), \<open>%.ng\<close>, and \<open>ParseFloat(s, 32)\<close>.
\<close>

section \<open>Decimal digits of a float\<close>

definition pow10 :: "int \<Rightarrow> rat" where
  "pow10 e = (if 0 \<le> e then 10 ^ nat e else 1 / 10 ^ nat (- e))"

text \<open>The largest \<open>e\<close> with \<open>10\<^sup>e \<le> q\<close>, for a positive number.\<close>

definition ilog10 :: "rat \<Rightarrow> int" where
  "ilog10 q =
     (let (a, b) = quotient_of q; e = int (length (dec_nat (nat a))) - int (length (dec_nat (nat b)))
      in if pow10 e \<le> q then e else e - 1)"

text \<open>
  Digits and their scale: \<open>(m, e)\<close> stands for \<open>m \<cdot> 10\<^sup>e\<close>. With \<open>n\<close> significant digits the
  number lies between two neighbours; of those that read back as it, the nearer one is taken, the
  even one of two.
\<close>

definition nearest_digits :: "(rat \<Rightarrow> flt) \<Rightarrow> rat \<Rightarrow> nat \<Rightarrow> (nat \<times> int) option" where
  "nearest_digits rnd q n =
     (let e = ilog10 q - int (n - 1); f = \<lfloor>q / pow10 e\<rfloor>;
          back = (\<lambda>c. rnd (of_int c * pow10 e) = Fin q);
          m = round_even (q / pow10 e)
      in if back m then Some (nat m, e)
         else if back f then Some (nat f, e)
         else if back (f + 1) then Some (nat (f + 1), e)
         else None)"

fun first_digits :: "(rat \<Rightarrow> flt) \<Rightarrow> rat \<Rightarrow> nat \<Rightarrow> nat list \<Rightarrow> nat \<times> int" where
  "first_digits rnd q n [] =
     (let e = ilog10 q - int (n - 1) in (nat (round_even (q / pow10 e)), e))"
| "first_digits rnd q n (k # ks) =
     (case nearest_digits rnd q k of Some r \<Rightarrow> r | None \<Rightarrow> first_digits rnd q n ks)"

definition shortest :: "(rat \<Rightarrow> flt) \<Rightarrow> rat \<Rightarrow> nat \<times> int" where
  "shortest rnd q = first_digits rnd q 17 [1..<18]"

function strip_zeros :: "nat \<times> int \<Rightarrow> nat \<times> int" where
  "strip_zeros (m, e) = (if m \<noteq> 0 \<and> m mod 10 = 0 then strip_zeros (m div 10, e + 1) else (m, e))"
  by pat_completeness auto
termination
  by (relation "measure (\<lambda>(m, e). m)") auto

declare strip_zeros.simps [simp del]

text \<open>Whatever search the digits come from, they read back as the float when the search found them.\<close>

lemma nearest_digits_back:
  "nearest_digits rnd q n = Some (m, e) \<Longrightarrow> 0 \<le> q \<Longrightarrow> rnd (of_nat m * pow10 e) = Fin q"
proof -
  assume n: "nearest_digits rnd q n = Some (m, e)" and q: "0 \<le> q"
  let ?e = "ilog10 q - int (n - 1)"
  have p: "0 < pow10 ?e" by (simp add: pow10_def)
  then have f: "0 \<le> \<lfloor>q / pow10 ?e\<rfloor>" using q by simp
  then have r: "0 \<le> round_even (q / pow10 ?e)" by (simp add: round_even_def Let_def)
  show ?thesis using n f r by (auto simp: nearest_digits_def Let_def split: if_splits)
qed

section \<open>Printing\<close>

text \<open>The digits without an exponent, and with one.\<close>

definition plain_digits :: "nat \<times> int \<Rightarrow> string" where
  "plain_digits p =
     (let (m, e) = p; ds = dec_nat m
      in if 0 \<le> e then ds @ replicate (nat e) (CHR ''0'')
         else let k = nat (- e); ds = pad_left (CHR ''0'') (k + 1) ds
              in take (length ds - k) ds @ ''.'' @ drop (length ds - k) ds)"

definition exp_digits :: "nat \<times> int \<Rightarrow> string" where
  "exp_digits p =
     (let (m, e) = p; ds = dec_nat m; x = e + int (length ds) - 1
      in take 1 ds @ (if length ds = 1 then [] else ''.'' @ drop 1 ds) @
         (if x < 0 then ''e-'' else ''e+'') @ pad_left (CHR ''0'') 2 (dec_nat (nat \<bar>x\<bar>)))"

definition signed_text :: "(rat \<Rightarrow> string) \<Rightarrow> flt \<Rightarrow> string" where
  "signed_text f x = (case x of
       FNaN \<Rightarrow> ''NaN''
     | FInf s \<Rightarrow> (if s then ''-Inf'' else ''+Inf'')
     | FNegZero \<Rightarrow> ''-'' @ f 0
     | Fin q \<Rightarrow> (if q < 0 then ''-'' else []) @ f \<bar>q\<bar>)"

text \<open>\<open>FormatFloat(x, 'f', -1, bits)\<close>.\<close>

definition fmt_shortest :: "(rat \<Rightarrow> flt) \<Rightarrow> flt \<Rightarrow> string" where
  "fmt_shortest rnd x =
     signed_text (\<lambda>q. if q = 0 then ''0'' else plain_digits (strip_zeros (shortest rnd q))) x"

definition g_text :: "int \<Rightarrow> nat \<times> int \<Rightarrow> string" where
  "g_text limit p =
     (let p = strip_zeros p; x = snd p + int (length (dec_nat (fst p))) - 1
      in if x < -4 \<or> limit \<le> x then exp_digits p else plain_digits p)"

text \<open>
  \<open>%g\<close>, the shortest digits, with an exponent from \<open>1e+06\<close> on; and \<open>%.ng\<close>, \<open>n\<close>
  significant digits, with an exponent from \<open>10\<^sup>n\<close> on; trailing zeros are dropped in both.
\<close>

definition fmt_g :: "flt \<Rightarrow> string" where
  "fmt_g x = signed_text (\<lambda>q. if q = 0 then ''0'' else g_text 6 (shortest rnd64 q)) x"

definition fmt_gn :: "nat \<Rightarrow> flt \<Rightarrow> string" where
  "fmt_gn n x = signed_text (\<lambda>q. if q = 0 then ''0''
     else let e = ilog10 q - int (n - 1) in g_text (int n) (nat (round_even (q / pow10 e)), e)) x"

section \<open>Reading\<close>

definition hex_digit :: "char \<Rightarrow> nat option" where
  "hex_digit c =
     (let b = byte (lower_byte c) in
      if is_digit c then Some (b - 48) else if 97 \<le> b \<and> b \<le> 102 then Some (b - 87) else None)"

definition digit_of :: "nat \<Rightarrow> char \<Rightarrow> nat option" where
  "digit_of base c = (if base = 16 then hex_digit c else if is_digit c then Some (byte c - 48) else None)"

text \<open>
  The mantissa loop: its digits as one number, how many came after the dot, whether there was a
  dot and any digit, and what is left. Underscores are skipped here and checked afterwards.
\<close>

fun mantissa :: "nat \<Rightarrow> nat \<Rightarrow> nat \<Rightarrow> bool \<Rightarrow> bool \<Rightarrow> string \<Rightarrow> nat \<times> nat \<times> bool \<times> string" where
  "mantissa base m nfrac dot seen [] = (m, nfrac, seen, [])"
| "mantissa base m nfrac dot seen (c # cs) =
     (if c = CHR ''_'' then mantissa base m nfrac dot seen cs
      else if c = CHR ''.'' then
        (if dot then (m, nfrac, seen, c # cs) else mantissa base m nfrac True seen cs)
      else case digit_of base c of
        None \<Rightarrow> (m, nfrac, seen, c # cs)
      | Some k \<Rightarrow> mantissa base (m * base + k) (if dot then Suc nfrac else nfrac) dot True cs)"

fun exponent_digits :: "nat \<Rightarrow> string \<Rightarrow> nat \<times> string" where
  "exponent_digits e [] = (e, [])"
| "exponent_digits e (c # cs) =
     (if c = CHR ''_'' then exponent_digits e cs
      else if is_digit c then exponent_digits (if e < 10000 then 10 * e + (byte c - 48) else e) cs
      else (e, c # cs))"

text \<open>The exponent after its letter, with an optional sign; it must start with a digit.\<close>

definition exponent :: "string \<Rightarrow> (int \<times> string) option" where
  "exponent s =
     (let (neg, t) = (case s of
            [] \<Rightarrow> (False, [])
          | c # cs \<Rightarrow> if c = CHR ''+'' then (False, cs) else if c = CHR ''-'' then (True, cs) else (False, s))
      in case t of
           [] \<Rightarrow> None
         | c # _ \<Rightarrow> if \<not> is_digit c then None
             else let (e, rest) = exponent_digits 0 t in Some (if neg then - int e else int e, rest))"

text \<open>\<open>underscoreOK\<close>: underscores separate digits only, or follow a base prefix.\<close>

datatype saw = SawStart | SawDigit | SawUnderscore | SawOther

fun underscores_between :: "bool \<Rightarrow> saw \<Rightarrow> string \<Rightarrow> bool" where
  "underscores_between hex w [] = (w \<noteq> SawUnderscore)"
| "underscores_between hex w (c # cs) =
     (if is_digit c \<or> hex \<and> hex_digit c \<noteq> None then underscores_between hex SawDigit cs
      else if c = CHR ''_'' then (if w = SawDigit then underscores_between hex SawUnderscore cs else False)
      else if w = SawUnderscore then False
      else underscores_between hex SawOther cs)"

definition drop_sign :: "string \<Rightarrow> string" where
  "drop_sign s = (case s of [] \<Rightarrow> [] | c # cs \<Rightarrow> if c = CHR ''+'' \<or> c = CHR ''-'' then cs else s)"

definition underscoreOK :: "string \<Rightarrow> bool" where
  "underscoreOK s =
     (let t = drop_sign s; p = to_lower (take 2 t)
      in if p = ''0b'' \<or> p = ''0o'' \<or> p = ''0x'' then underscores_between (p = ''0x'') SawDigit (drop 2 t)
         else underscores_between False SawStart t)"

text \<open>
  \<open>readFloat\<close> and the conversion: a finite text is read exactly and rounded once; out of range is
  an error, as is anything left over. \<open>None\<close> stands for \<open>err != nil\<close>.
\<close>

definition read_special :: "string \<Rightarrow> flt option" where
  "read_special s =
     (let t = to_lower (drop_sign s)
      in if t = ''inf'' \<or> t = ''infinity'' then Some (FInf (take 1 s = ''-''))
         else if to_lower s = ''nan'' then Some FNaN else None)"

definition read_exact :: "string \<Rightarrow> (bool \<times> rat) option" where
  "read_exact s =
     (let t = drop_sign s; neg = (take 1 s = ''-'');
          hex = (2 < length t \<and> to_lower (take 2 t) = ''0x'');
          base = (if hex then 16 else 10);
          (m, nfrac, seen, rest) = mantissa base 0 0 False False (if hex then drop 2 t else t);
          value = (\<lambda>e. of_nat m / of_nat base ^ nfrac * (if hex then pow2 e else pow10 e));
          letter = (if hex then CHR ''p'' else CHR ''e'')
      in if \<not> seen then None
         else case rest of
           [] \<Rightarrow> if hex then None else Some (neg, value 0)
         | c # cs \<Rightarrow> if lower_byte c \<noteq> letter then None
             else (case exponent cs of
                 Some (e, []) \<Rightarrow> Some (neg, value e)
               | _ \<Rightarrow> None))"

definition parse_float32 :: "string \<Rightarrow> flt option" where
  "parse_float32 s = (case read_special s of
       Some x \<Rightarrow> Some x
     | None \<Rightarrow> (case read_exact s of
           None \<Rightarrow> None
         | Some (neg, q) \<Rightarrow>
             if CHR ''_'' \<in> set s \<and> \<not> underscoreOK s then None
             else if q = 0 then Some (f_zero neg)
             else (case rnd32 (if neg then - q else q) of FInf _ \<Rightarrow> None | x \<Rightarrow> Some x)))"

end
