(* ===== verification/RuleVacuum.thy ===== *)
theory RuleVacuum
  imports RuleFreeze GoNumber
begin

text \<open>
  The rules on dead tuples and on one table (\<open>internal/rule/{vacuum,table}.go\<close>). The server
  decides in float4, and so does the code: the threshold is the rounded product and then the rounded
  sum, as a build for amd64 computes \<open>base + sf*t.Reltuples\<close>. The language lets a compiler fuse the two
  into one operation with one rounding, which a build for arm64 may do: there a threshold can differ
  in its last bit.
\<close>

section \<open>The autovacuum threshold\<close>

text \<open>What the options of a table have set so far: threshold, scale factor, and the switch.\<close>

type_synonym vacuum_opts = "flt \<times> flt \<times> bool"

definition option_step :: "vacuum_opts \<Rightarrow> string \<Rightarrow> vacuum_opts" where
  "option_step st opt = (case st of (base, sf, on) \<Rightarrow> (case cut_at (CHR ''='') opt of
       None \<Rightarrow> (base, sf, on)
     | Some (k, v) \<Rightarrow>
         if k = ''autovacuum_enabled'' then
           (case parseBool v of Some b \<Rightarrow> (base, sf, b) | None \<Rightarrow> (base, sf, on))
         else if k = ''autovacuum_vacuum_threshold'' then
           (case parse_float32 v of Some n \<Rightarrow> (to_f32 n, sf, on) | None \<Rightarrow> (base, sf, on))
         else if k = ''autovacuum_vacuum_scale_factor'' then
           (case parse_float32 v of Some n \<Rightarrow> (base, to_f32 n, on) | None \<Rightarrow> (base, sf, on))
         else (base, sf, on)))"

definition VacuumThreshold :: "VacuumTable \<Rightarrow> VacuumSetting \<Rightarrow> flt \<times> bool" where
  "VacuumThreshold t s =
     (let (base, sf, on) = foldl option_step
            (f32_of_int (sint (VacuumSetting.Threshold s)), to_f32 (VacuumSetting.ScaleFactor s), True)
            (VacuumTable.Reloptions t)
      in (f_add rnd32 base (f_mul rnd32 sf (VacuumTable.Reltuples t)), on))"

text \<open>The last option of a name that parses decides; the others do not matter to it.\<close>

definition last_option :: "(string \<Rightarrow> 'a option) \<Rightarrow> string \<Rightarrow> 'a \<Rightarrow> string list \<Rightarrow> 'a" where
  "last_option parse name dflt opts =
     (case rev (concat (map (\<lambda>opt. case cut_at (CHR ''='') opt of
          Some (k, v) \<Rightarrow> if k = name then (case parse v of Some x \<Rightarrow> [x] | None \<Rightarrow> []) else []
        | None \<Rightarrow> []) opts)) of [] \<Rightarrow> dflt | x # _ \<Rightarrow> x)"

lemma last_option_snoc:
  "last_option parse name dflt (opts @ [opt]) = (case cut_at (CHR ''='') opt of
       None \<Rightarrow> last_option parse name dflt opts
     | Some (k, v) \<Rightarrow> if k = name then (case parse v of
           Some x \<Rightarrow> x
         | None \<Rightarrow> last_option parse name dflt opts)
       else last_option parse name dflt opts)"
  by (simp add: last_option_def split: option.split)

lemma option_step_last:
  "foldl option_step (base, sf, on) opts =
     (last_option (map_option to_f32 \<circ> parse_float32) ''autovacuum_vacuum_threshold'' base opts,
      last_option (map_option to_f32 \<circ> parse_float32) ''autovacuum_vacuum_scale_factor'' sf opts,
      last_option parseBool ''autovacuum_enabled'' on opts)"
proof (induction opts rule: rev_induct)
  case Nil
  then show ?case by (simp add: last_option_def)
next
  case (snoc opt opts)
  then show ?case
    by (auto simp: last_option_snoc option_step_def split: option.splits)
qed

section \<open>Vacuum\<close>

definition vacuumSetting :: "VacuumSettings \<Rightarrow> VacuumSetting option" where
  "vacuumSetting s =
     (if coll.Status s \<noteq> StatusOK then None else case coll.Rows s of [] \<Rightarrow> None | x # _ \<Rightarrow> Some x)"

definition switched_off :: "VacuumSetting \<Rightarrow> bool" where
  "switched_off s \<longleftrightarrow> VacuumSetting.Autovacuum s \<noteq> ''on'' \<or> VacuumSetting.TrackCounts s \<noteq> ''on''"

definition vacuumSwitch :: "VacuumSetting \<Rightarrow> string" where
  "vacuumSwitch s = (if VacuumSetting.Autovacuum s \<noteq> ''on'' then ''autovacuum'' else ''track_counts'')"

definition vacuumDisabled :: "VacuumSetting \<Rightarrow> Finding" where
  "vacuumDisabled s = finding ''vacuum.disabled'' LevelWARN
     (''autovacuum='' @ VacuumSetting.Autovacuum s @ '', track_counts='' @ VacuumSetting.TrackCounts s @
      '': no table is vacuumed automatically any more (only the anti-wraparound vacuum still runs), so dead tuples pile up'')
     VacuumSettingsID
     [(''autovacuum'', VStr (VacuumSetting.Autovacuum s)), (''track_counts'', VStr (VacuumSetting.TrackCounts s))]
     [fix_sql (''ALTER SYSTEM SET '' @ vacuumSwitch s @ '' = on'')
        ''then SELECT sys_reload_conf(); unless it was turned off on purpose'']"

definition table_disabled_symptom :: "string \<Rightarrow> int64 \<Rightarrow> flt \<Rightarrow> string" where
  "table_disabled_symptom rel dead threshold =
     ''table '' @ rel @ '' has '' @ fmt_i dead @ '' dead tuples, past its autovacuum threshold '' @
     fmt_shortest rnd32 threshold @
     '', but autovacuum is off for it (autovacuum_enabled=off): nothing will clean it''"

definition vacuum_fix :: "VacuumTable \<Rightarrow> string \<Rightarrow> Next" where
  "vacuum_fix x db =
     (if hasControl (VacuumTable.Schemaname x @ ''.'' @ VacuumTable.Relname x) then
        verify ''kbdiag vacuum --json''
          ''the table name has control characters and the text shows it escaped: take the raw name from the JSON before running VACUUM''
      else fix_sql (''VACUUM '' @ qualified_name (VacuumTable.Schemaname x) (VacuumTable.Relname x))
        ((if hasControl db then ''connected to this database'' else ''connected to database '' @ db) @
         ''; turn autovacuum back on with ALTER TABLE ... RESET (autovacuum_enabled) unless it was turned off on purpose''))"

definition table_disabled :: "VacuumTable \<Rightarrow> flt \<Rightarrow> string \<Rightarrow> Finding" where
  "table_disabled x threshold db = finding ''vacuum.table_disabled'' LevelWARN
     (table_disabled_symptom (VacuumTable.Schemaname x @ ''.'' @ VacuumTable.Relname x)
        (VacuumTable.NDeadTup x) threshold)
     VacuumTablesID
     [(''schemaname'', VStr (VacuumTable.Schemaname x)), (''relname'', VStr (VacuumTable.Relname x)),
      (''n_dead_tup'', v_int (VacuumTable.NDeadTup x)), (''reltuples'', VFlt32 (VacuumTable.Reltuples x)),
      (''threshold'', VFlt threshold)]
     [vacuum_fix x db,
      verify ''kbdiag txn'' ''if dead tuples remain after VACUUM: the oldest transaction holding back the horizon'',
      verify ''kbdiag slots'' ''or a replication slot's xmin'']"

lemma vacuum_levels [simp]:
  "Finding.Level (vacuumDisabled st) = LevelWARN" "Finding.Level (table_disabled x threshold db) = LevelWARN"
  by (simp_all add: vacuumDisabled_def table_disabled_def)

definition vacuum_row :: "VacuumSetting \<Rightarrow> string \<Rightarrow> VacuumTable \<Rightarrow> Finding list" where
  "vacuum_row st db x =
     (let (threshold, on) = VacuumThreshold x st
      in if on \<or> f_le (f32_of_int (sint (VacuumTable.NDeadTup x))) threshold then []
         else [table_disabled x threshold db])"

definition Vacuum :: "VacuumTables \<Rightarrow> VacuumSettings \<Rightarrow> string \<Rightarrow> string \<Rightarrow> Result" where
  "Vacuum t s role db =
     (if role = ''standby'' then \<lparr>Result.Verdict = VerdictOK, Result.Findings = []\<rparr>
      else let (judge, unknown) = collected (coll.Status t)
           in case vacuumSetting s of
                None \<Rightarrow> judged [] True
              | Some st \<Rightarrow> judged
                  ((if switched_off st then [vacuumDisabled st] else []) @
                   (if judge then concat (map (vacuum_row st db) (coll.Rows t)) else [])) unknown)"

text \<open>A table nothing will clean: past its threshold, with autovacuum off for it.\<close>

definition uncleaned :: "VacuumSetting \<Rightarrow> VacuumTable \<Rightarrow> bool" where
  "uncleaned st x \<longleftrightarrow> \<not> snd (VacuumThreshold x st) \<and>
     \<not> f_le (f32_of_int (sint (VacuumTable.NDeadTup x))) (fst (VacuumThreshold x st))"

lemma vacuum_row_eq:
  "vacuum_row st db x = (if uncleaned st x then [table_disabled x (fst (VacuumThreshold x st)) db] else [])"
  by (auto simp: vacuum_row_def uncleaned_def split_beta Let_def)

lemma vacuum_rows:
  "concat (map (vacuum_row st db) xs) =
   map (\<lambda>x. table_disabled x (fst (VacuumThreshold x st)) db) (filter (uncleaned st) xs)"
  by (induction xs) (simp_all add: vacuum_row_eq)

interpretation vacuum_rule: rule_contract "\<lambda>(t, s, role, db). Vacuum t s role db"
  "\<lambda>(t, s, role, db). role \<noteq> ''standby'' \<and> (vacuumSetting s = None \<or> unseen_probe (coll.Status t))"
  by unfold_locales (auto simp: Vacuum_def judged_def verdictOf_Nil split_beta split: option.splits)

lemma Vacuum_findings:
  "Result.Findings (Vacuum t s role db) = (case vacuumSetting s of
       None \<Rightarrow> []
     | Some st \<Rightarrow>
         if role = ''standby'' then []
         else (if switched_off st then [vacuumDisabled st] else []) @
           (if coll.Status t = StatusOK
            then map (\<lambda>x. table_disabled x (fst (VacuumThreshold x st)) db) (filter (uncleaned st) (coll.Rows t))
            else []))"
  by (auto simp: Vacuum_def split_beta vacuum_rows split: option.splits)

section \<open>One table\<close>

definition tableFix :: "string \<Rightarrow> TableInfo \<Rightarrow> string \<Rightarrow> Next" where
  "tableFix sql t note =
     (if hasControl (TableInfo.Schemaname t @ TableInfo.Relname t) then
        fix_sql (sql @ '' <table>'')
          (''the name has control characters and is shown escaped: use it as you gave it; '' @ note)
      else fix_sql (sql @ '' '' @ qualified_name (TableInfo.Schemaname t) (TableInfo.Relname t)) note)"

definition table_age :: "TableInfo \<Rightarrow> FreezeLimits \<Rightarrow> string \<Rightarrow> Finding list \<times> bool" where
  "table_age t l db = (case TableInfo.XIDAge t of
       None \<Rightarrow> ([], False)
     | Some xid \<Rightarrow>
         (let mxid = (case TableInfo.MXIDAge t of None \<Rightarrow> 0 | Some m \<Rightarrow> m);
              (f, blind) = ageFinding ''freeze.table_age''
                (''table '' @ TableInfo.Schemaname t @ ''.'' @ TableInfo.Relname t) xid mxid (freezeLimit l)
          in case f of
               None \<Rightarrow> ([], blind)
             | Some f \<Rightarrow> ([f\<lparr>Finding.Evidence :=
                   [\<lparr>Evidence.ProbeID = TableInfoID, Evidence.Fields =
                      [(''schemaname'', VStr (TableInfo.Schemaname t)), (''relname'', VStr (TableInfo.Relname t)),
                       (''xid_age'', v_int xid), (''mxid_age'', v_opt v_int (TableInfo.MXIDAge t))]\<rparr>],
                 Finding.Next :=
                   [verify ''kbdiag txn'' ''the oldest transaction or 2PC holding back freezing'',
                    verify ''kbdiag slots'' ''a replication slot's xmin holds it back too'',
                    tableFix ''VACUUM (FREEZE, VERBOSE)'' t (''on the primary, connected to database '' @ db)]\<rparr>],
                 blind)))"

definition stat_vacuum_table :: "TableInfo \<Rightarrow> TableStat \<Rightarrow> VacuumTable" where
  "stat_vacuum_table t s =
     \<lparr>VacuumTable.Schemaname = TableInfo.Schemaname t, VacuumTable.Relname = TableInfo.Relname t,
      VacuumTable.NLiveTup = 0, VacuumTable.NDeadTup = TableStat.NDeadTup s,
      VacuumTable.Reltuples = TableInfo.Reltuples t, VacuumTable.Reloptions = TableInfo.Reloptions t,
      VacuumTable.LastVacuumAgeS = None, VacuumTable.LastAutovacuumAgeS = None,
      VacuumTable.VacuumCount = 0, VacuumTable.AutovacuumCount = 0\<rparr>"

definition table_stat_disabled :: "TableInfo \<Rightarrow> VacuumTable \<Rightarrow> flt \<Rightarrow> string \<Rightarrow> Finding" where
  "table_stat_disabled t x threshold db = finding ''vacuum.table_disabled'' LevelWARN
     (table_disabled_symptom (TableInfo.Schemaname t @ ''.'' @ TableInfo.Relname t)
        (VacuumTable.NDeadTup x) threshold)
     TableStatsID
     [(''schemaname'', VStr (TableInfo.Schemaname t)), (''relname'', VStr (TableInfo.Relname t)),
      (''n_dead_tup'', v_int (VacuumTable.NDeadTup x)), (''reltuples'', VFlt32 (TableInfo.Reltuples t)),
      (''threshold'', VFlt threshold)]
     [tableFix ''VACUUM'' t (''connected to database '' @ db @
        ''; turn autovacuum back on with ALTER TABLE ... RESET (autovacuum_enabled) unless it was turned off on purpose'')]"

definition table_stats :: "TableInfo \<Rightarrow> TableStats \<Rightarrow> VacuumSettings \<Rightarrow> string \<Rightarrow> Finding list" where
  "table_stats t s v db = (case vacuumSetting v of
       None \<Rightarrow> []
     | Some st \<Rightarrow>
         if switched_off st then [vacuumDisabled st]
         else if judgeable (coll.Status s) then
           (case coll.Rows s of
              [] \<Rightarrow> []
            | row # _ \<Rightarrow>
                (let x = stat_vacuum_table t row; (threshold, on) = VacuumThreshold x st
                 in if \<not> on \<and> f_less threshold (f32_of_int (sint (VacuumTable.NDeadTup x)))
                    then [table_stat_disabled t x threshold db] else []))
         else [])"

definition Table :: "TableInfos \<Rightarrow> TableStats \<Rightarrow> FreezeLimits \<Rightarrow> VacuumSettings \<Rightarrow> string \<Rightarrow> string \<Rightarrow> Result" where
  "Table i s l v role db =
     (if \<not> judgeable (coll.Status i) then judged [] True
      else case coll.Rows i of
        [] \<Rightarrow> judged [] True
      | t # _ \<Rightarrow>
          (let (fs, blind) = table_age t l db
           in if role = ''standby'' then judged fs blind
              else judged (fs @ table_stats t s v db)
                (blind \<or> unseen_probe (coll.Status s) \<or> vacuumSetting v = None)))"

lemma table_age_unknown:
  "snd (table_age t l db) \<longleftrightarrow> freezeLimit l = None \<and> (\<exists>xid. TableInfo.XIDAge t = Some xid \<and>
     \<not> past_stop xid (case TableInfo.MXIDAge t of None \<Rightarrow> 0 | Some m \<Rightarrow> m))"
  by (auto simp: table_age_def split_beta Let_def ageFinding_unknown split: option.splits)

text \<open>
  What the rule decides, over the rows: the table found, the level of its age, and whether nothing
  will clean it, from the options of the table, the settings and the first row of the statistics.
\<close>

definition found_table :: "TableInfos \<Rightarrow> TableInfo option" where
  "found_table i =
     (if coll.Status i = StatusOK then (case coll.Rows i of [] \<Rightarrow> None | t # _ \<Rightarrow> Some t) else None)"

definition table_age_level :: "TableInfo \<Rightarrow> FreezeLimit option \<Rightarrow> level option" where
  "table_age_level t lm = (case TableInfo.XIDAge t of
       None \<Rightarrow> None
     | Some xid \<Rightarrow> age_level xid (case TableInfo.MXIDAge t of None \<Rightarrow> 0 | Some m \<Rightarrow> m) lm)"

definition dead_past_threshold :: "TableInfo \<Rightarrow> VacuumSetting \<Rightarrow> TableStat \<Rightarrow> bool" where
  "dead_past_threshold t st row \<longleftrightarrow>
     (let opts = TableInfo.Reloptions t;
          num = map_option to_f32 \<circ> parse_float32;
          base = last_option num ''autovacuum_vacuum_threshold'' (f32_of_int (sint (VacuumSetting.Threshold st))) opts;
          sf = last_option num ''autovacuum_vacuum_scale_factor'' (to_f32 (VacuumSetting.ScaleFactor st)) opts
      in \<not> last_option parseBool ''autovacuum_enabled'' True opts \<and>
         f_less (f_add rnd32 base (f_mul rnd32 sf (TableInfo.Reltuples t)))
           (f32_of_int (sint (TableStat.NDeadTup row))))"

definition table_uncleaned :: "TableInfo \<Rightarrow> VacuumSetting \<Rightarrow> TableStats \<Rightarrow> bool" where
  "table_uncleaned t st s \<longleftrightarrow> coll.Status s = StatusOK \<and>
     (case coll.Rows s of [] \<Rightarrow> False | row # _ \<Rightarrow> dead_past_threshold t st row)"

text \<open>A finding by its id, its level and the probes its evidence is from.\<close>

definition finding_key :: "Finding \<Rightarrow> string \<times> level \<times> string list" where
  "finding_key f = (Finding.ID f, Finding.Level f, map Evidence.ProbeID (Finding.Evidence f))"

lemma dead_past_threshold_eq:
  "dead_past_threshold t st row \<longleftrightarrow>
     \<not> snd (VacuumThreshold (stat_vacuum_table t row) st) \<and>
     f_less (fst (VacuumThreshold (stat_vacuum_table t row) st)) (f32_of_int (sint (TableStat.NDeadTup row)))"
  by (simp add: dead_past_threshold_def VacuumThreshold_def option_step_last stat_vacuum_table_def Let_def)

lemma table_age_keys:
  "map finding_key (fst (table_age t l db)) = (case table_age_level t (freezeLimit l) of
       None \<Rightarrow> []
     | Some k \<Rightarrow> [(''freeze.table_age'', k, [TableInfoID])])"
proof (cases "TableInfo.XIDAge t")
  case (Some xid)
  let ?what = "''table '' @ TableInfo.Schemaname t @ ''.'' @ TableInfo.Relname t"
  let ?a = "ageFinding ''freeze.table_age'' ?what xid
    (case TableInfo.MXIDAge t of None \<Rightarrow> 0 | Some m \<Rightarrow> m) (freezeLimit l)"
  have level: "table_age_level t (freezeLimit l) = map_option Finding.Level (fst ?a)"
    by (simp add: table_age_level_def Some ageFinding_level)
  show ?thesis
    unfolding level
    by (cases "fst ?a") (simp_all add: table_age_def Some Let_def split_beta finding_key_def ageFinding_ID)
qed (simp add: table_age_def table_age_level_def)

lemma table_stats_keys:
  "map finding_key (table_stats t s v db) = (case vacuumSetting v of
       None \<Rightarrow> []
     | Some st \<Rightarrow>
         if switched_off st then [(''vacuum.disabled'', LevelWARN, [VacuumSettingsID])]
         else if table_uncleaned t st s then [(''vacuum.table_disabled'', LevelWARN, [TableStatsID])]
         else [])"
  by (auto simp: table_stats_def table_uncleaned_def dead_past_threshold_eq finding_key_def split_beta Let_def
      vacuumDisabled_def table_stat_disabled_def finding_def stat_vacuum_table_def judgeable_iff
      split: option.splits list.splits)

lemma Table_keys:
  "map finding_key (Result.Findings (Table i s l v role db)) = (case found_table i of
       None \<Rightarrow> []
     | Some t \<Rightarrow>
         (case table_age_level t (freezeLimit l) of
            None \<Rightarrow> []
          | Some k \<Rightarrow> [(''freeze.table_age'', k, [TableInfoID])]) @
         (case vacuumSetting v of
            None \<Rightarrow> []
          | Some st \<Rightarrow>
              if role = ''standby'' then []
              else if switched_off st then [(''vacuum.disabled'', LevelWARN, [VacuumSettingsID])]
              else if table_uncleaned t st s then [(''vacuum.table_disabled'', LevelWARN, [TableStatsID])]
              else []))"
proof (cases "found_table i")
  case None
  then show ?thesis
    by (auto simp: Table_def found_table_def judgeable_iff split: list.splits if_splits)
next
  case (Some t)
  then obtain rest where "judgeable (coll.Status i)" "coll.Rows i = t # rest"
    by (auto simp: found_table_def judgeable_iff split: list.splits if_splits)
  then show ?thesis
    using Some table_age_keys [of t l db] table_stats_keys [of t s v db]
    by (simp add: Table_def split_beta Let_def split: option.split)
qed

lemma has_level_keys: "has_level k fs \<longleftrightarrow> k \<in> (fst \<circ> snd) ` set (map finding_key fs)"
  by (auto simp: has_level_def finding_key_def image_image)

interpretation table_rule: rule_contract "\<lambda>(i, s, l, v, role, db). Table i s l v role db"
  "\<lambda>(i, s, l, v, role, db). coll.Status i \<noteq> StatusOK \<or> coll.Rows i = [] \<or>
     snd (table_age (hd (coll.Rows i)) l db) \<or>
     role \<noteq> ''standby'' \<and> (unseen_probe (coll.Status s) \<or> vacuumSetting v = None)"
  by unfold_locales (auto simp: Table_def split_beta split: list.splits)

lemma Table_levels:
  "has_level k (Result.Findings (Table i s l v role db)) \<longleftrightarrow>
     (\<exists>t. found_table i = Some t \<and>
        (table_age_level t (freezeLimit l) = Some k \<or>
         k = LevelWARN \<and> role \<noteq> ''standby'' \<and>
           (\<exists>st. vacuumSetting v = Some st \<and> (switched_off st \<or> table_uncleaned t st s))))"
proof (cases "found_table i")
  case (Some t)
  then show ?thesis
    unfolding has_level_keys Table_keys
    by (cases "table_age_level t (freezeLimit l)"; cases "vacuumSetting v") auto
qed (simp add: has_level_keys Table_keys)

lemma Table_FAIL:
  "Result.Verdict (Table i s l v role db) = VerdictFAIL \<longleftrightarrow>
     (\<exists>t xid. found_table i = Some t \<and> TableInfo.XIDAge t = Some xid \<and>
        past_stop xid (case TableInfo.MXIDAge t of None \<Rightarrow> 0 | Some m \<Rightarrow> m))"
proof -
  have "table_age_level t lm = Some LevelFAIL \<longleftrightarrow> (\<exists>xid. TableInfo.XIDAge t = Some xid \<and>
      past_stop xid (case TableInfo.MXIDAge t of None \<Rightarrow> 0 | Some m \<Rightarrow> m))" for t lm
    by (simp add: table_age_level_def age_level_def split: option.split)
  then show ?thesis
    using table_rule.FAIL_iff [of "(i, s, l, v, role, db)"] by (simp add: Table_levels)
qed

lemma vacuumSetting_read:
  "vacuumSetting v = Some st \<longleftrightarrow> coll.Status v = StatusOK \<and> (\<exists>rest. coll.Rows v = st # rest)"
  by (auto simp: vacuumSetting_def split: list.splits)

lemma freezeLimit_read: "(\<exists>lm. freezeLimit l = Some lm) \<longleftrightarrow> coll.Status l = StatusOK \<and> coll.Rows l \<noteq> []"
  by (auto simp: freezeLimit_def split: list.splits)

lemma Table_OK:
  "Result.Verdict (Table i s l v role db) = VerdictOK \<longleftrightarrow>
     (\<exists>t. found_table i = Some t \<and>
        (TableInfo.XIDAge t = None \<or> coll.Status l = StatusOK \<and> coll.Rows l \<noteq> [] \<and> table_age_level t (freezeLimit l) = None) \<and>
        (role = ''standby'' \<or>
         \<not> unseen_probe (coll.Status s) \<and>
         (\<exists>st rest. coll.Status v = StatusOK \<and> coll.Rows v = st # rest \<and> \<not> switched_off st \<and> \<not> table_uncleaned t st s)))"
proof (cases "found_table i")
  case None
  then show ?thesis
    by (auto simp: Table_def found_table_def verdictOf_Nil split: list.splits if_splits)
next
  case (Some t)
  then obtain rest where i: "coll.Status i = StatusOK" "coll.Rows i = t # rest"
    by (auto simp: found_table_def split: list.splits if_splits)
  have none: "table_age_level t lm \<noteq> Some LevelFAIL \<and> table_age_level t lm \<noteq> Some LevelWARN \<longleftrightarrow>
      table_age_level t lm = None" for lm
    by (simp add: table_age_level_def age_level_def split: option.split)
  have age: "\<not> snd (table_age t l db) \<and> table_age_level t (freezeLimit l) = None \<longleftrightarrow>
      TableInfo.XIDAge t = None \<or> freezeLimit l \<noteq> None \<and> table_age_level t (freezeLimit l) = None"
    unfolding table_age_unknown by (auto simp: table_age_level_def age_level_def split: option.splits if_splits)
  have ok: "Result.Verdict (Table i s l v role db) = VerdictOK \<longleftrightarrow>
      (\<not> snd (table_age t l db) \<and> table_age_level t (freezeLimit l) = None) \<and>
      (role = ''standby'' \<or> \<not> unseen_probe (coll.Status s) \<and> vacuumSetting v \<noteq> None \<and>
        \<not> (\<exists>st. vacuumSetting v = Some st \<and> (switched_off st \<or> table_uncleaned t st s)))"
    using table_rule.OK_iff [of "(i, s, l, v, role, db)"] none [of "freezeLimit l"]
    by (simp add: i Some Table_levels) blast
  show ?thesis unfolding ok age
    by (cases "coll.Rows v") (auto simp: Some freezeLimit_read vacuumSetting_read)
qed

end
