(* ===== verification/RuleSeq.thy ===== *)
theory RuleSeq
  imports RuleInst RuleNames FactsSpace
begin

text \<open>
  The rule on sequences (\<open>internal/rule/seq.go\<close>): how many values are left, against a model of
  the server's \<open>nextval\<close>.
\<close>

section \<open>Values left\<close>

text \<open>
  \<open>big.Float\<close> division: both operands have at most 64 bits, so the quotient is rounded to 64 bits
  first and to a \<open>float64\<close> after that.
\<close>

definition big_quo :: "int \<Rightarrow> int \<Rightarrow> flt" where
  "big_quo a b = (case round_fmt 64 (-100000) 100000 (of_int a / of_int b) of
       Fin q \<Rightarrow> rnd64 q
     | x \<Rightarrow> x)"

definition SeqLeft :: "Sequence \<Rightarrow> (int \<times> flt) option" where
  "SeqLeft s = (case Sequence.LastValue s of
       None \<Rightarrow> None
     | Some l \<Rightarrow>
         (let cur = sint l; inc = sint (Sequence.IncrementBy s);
              hi = sint (Sequence.MaxValue s); lo = sint (Sequence.MinValue s);
              start = sint (Sequence.StartValue s);
              room = max 0 (if 0 < inc then hi - cur else cur - lo);
              span = (if 0 < inc then hi - start else start - lo);
              left = room div \<bar>inc\<bar>
          in if inc = 0 then None
             else if span \<le> 0 then Some (left, Fin 1)
             else Some (left, f_min (Fin 1) (f_max (Fin 0) (big_quo (span - room) span)))))"

text \<open>
  What the numbers are about: the server's \<open>nextval\<close> after a stored last value, as \<open>CREATE SEQUENCE\<close>
  documents it, and a row of calls to it. Past its limit a sequence refuses, and one that cycles
  starts over at the other end.
\<close>

definition nextval :: "Sequence \<Rightarrow> int \<Rightarrow> int option" where
  "nextval s cur =
     (let v = cur + sint (Sequence.IncrementBy s)
      in if 0 < sint (Sequence.IncrementBy s) then
           (if v \<le> sint (Sequence.MaxValue s) then Some v
            else if Sequence.Cycle s then Some (sint (Sequence.MinValue s)) else None)
         else
           (if sint (Sequence.MinValue s) \<le> v then Some v
            else if Sequence.Cycle s then Some (sint (Sequence.MaxValue s)) else None))"

fun draw :: "Sequence \<Rightarrow> nat \<Rightarrow> int \<Rightarrow> int option" where
  "draw s 0 cur = Some cur"
| "draw s (Suc n) cur = (case nextval s cur of None \<Rightarrow> None | Some v \<Rightarrow> draw s n v)"

lemma draw_cycle: "Sequence.Cycle s \<Longrightarrow> draw s n cur \<noteq> None"
  by (induction n arbitrary: cur) (simp_all add: nextval_def Let_def)

lemma draw_straight:
  "\<not> Sequence.Cycle s \<Longrightarrow> draw s n cur = Some v \<Longrightarrow> v = cur + int n * sint (Sequence.IncrementBy s)"
  by (induction n arbitrary: cur) (fastforce simp: nextval_def Let_def algebra_simps split: if_splits)+

lemma draw_le:
  "0 < sint (Sequence.IncrementBy s) \<Longrightarrow> sint (Sequence.MinValue s) \<le> sint (Sequence.MaxValue s) \<Longrightarrow>
   cur \<le> sint (Sequence.MaxValue s) \<Longrightarrow> draw s n cur = Some v \<Longrightarrow> v \<le> sint (Sequence.MaxValue s)"
  by (induction n arbitrary: cur) (auto simp: nextval_def Let_def split: if_splits)

lemma draw_ge:
  "sint (Sequence.IncrementBy s) < 0 \<Longrightarrow> sint (Sequence.MinValue s) \<le> sint (Sequence.MaxValue s) \<Longrightarrow>
   sint (Sequence.MinValue s) \<le> cur \<Longrightarrow> draw s n cur = Some v \<Longrightarrow> sint (Sequence.MinValue s) \<le> v"
  by (induction n arbitrary: cur) (auto simp: nextval_def Let_def split: if_splits)

text \<open>The calls go straight on, without a refusal or a wrap, as long as the limit is not passed.\<close>

lemma draw_up:
  assumes "0 < sint (Sequence.IncrementBy s)"
    and "sint (Sequence.MinValue s) \<le> sint (Sequence.MaxValue s) \<or> \<not> Sequence.Cycle s"
  shows "draw s n cur = Some (cur + int n * sint (Sequence.IncrementBy s)) \<longleftrightarrow>
     n = 0 \<or> cur + int n * sint (Sequence.IncrementBy s) \<le> sint (Sequence.MaxValue s)"
proof (induction n arbitrary: cur)
  case (Suc n)
  let ?i = "sint (Sequence.IncrementBy s)" and ?m = "sint (Sequence.MaxValue s)"
  have pos: "0 \<le> int n * ?i" using assms(1) by simp
  have split: "cur + int (Suc n) * ?i = cur + ?i + int n * ?i" by (simp add: algebra_simps)
  show ?case
  proof (cases "cur + ?i \<le> ?m")
    case True
    then have "draw s (Suc n) cur = draw s n (cur + ?i)"
      using assms(1) by (simp add: nextval_def)
    then show ?thesis using Suc.IH [of "cur + ?i"] True unfolding split by auto
  next
    case False
    then have past: "\<not> cur + ?i + int n * ?i \<le> ?m" using pos by linarith
    have "draw s (Suc n) cur \<noteq> Some (cur + ?i + int n * ?i)"
    proof (cases "Sequence.Cycle s")
      case True
      then show ?thesis
        using False assms past draw_le [of s "sint (Sequence.MinValue s)" n] by (auto simp: nextval_def)
    qed (use False assms(1) in \<open>simp add: nextval_def\<close>)
    with past show ?thesis unfolding split by simp
  qed
qed simp

lemma draw_down:
  assumes "sint (Sequence.IncrementBy s) < 0"
    and "sint (Sequence.MinValue s) \<le> sint (Sequence.MaxValue s) \<or> \<not> Sequence.Cycle s"
  shows "draw s n cur = Some (cur + int n * sint (Sequence.IncrementBy s)) \<longleftrightarrow>
     n = 0 \<or> sint (Sequence.MinValue s) \<le> cur + int n * sint (Sequence.IncrementBy s)"
proof (induction n arbitrary: cur)
  case (Suc n)
  let ?i = "sint (Sequence.IncrementBy s)" and ?m = "sint (Sequence.MinValue s)"
  have neg: "int n * ?i \<le> 0" using assms(1) by (simp add: mult_le_0_iff)
  have split: "cur + int (Suc n) * ?i = cur + ?i + int n * ?i" by (simp add: algebra_simps)
  show ?case
  proof (cases "?m \<le> cur + ?i")
    case True
    then have "draw s (Suc n) cur = draw s n (cur + ?i)"
      using assms(1) by (simp add: nextval_def)
    then show ?thesis using Suc.IH [of "cur + ?i"] True unfolding split by auto
  next
    case False
    then have past: "\<not> ?m \<le> cur + ?i + int n * ?i" using neg by linarith
    have "draw s (Suc n) cur \<noteq> Some (cur + ?i + int n * ?i)"
    proof (cases "Sequence.Cycle s")
      case True
      then show ?thesis
        using False assms past draw_ge [of s "sint (Sequence.MaxValue s)" n] by (auto simp: nextval_def)
    qed (use False assms(1) in \<open>simp add: nextval_def\<close>)
    with past show ?thesis unfolding split by simp
  qed
qed simp

lemma draw_refused:
  "draw s n cur = None \<longleftrightarrow>
   \<not> Sequence.Cycle s \<and> draw s n cur \<noteq> Some (cur + int n * sint (Sequence.IncrementBy s))"
  using draw_cycle [of s n cur] draw_straight [of s n cur] by (cases "draw s n cur") auto

lemma le_div_pos:
  assumes d: "0 < (d :: int)"
  shows "k \<le> r div d \<longleftrightarrow> k * d \<le> r"
proof
  assume "k \<le> r div d"
  then have "k * d \<le> r div d * d" using d by simp
  also have "\<dots> \<le> r" using d by (simp add: minus_mod_eq_div_mult [symmetric])
  finally show "k * d \<le> r" .
next
  assume "k * d \<le> r"
  then have "k * d div d \<le> r div d" using d by (rule zdiv_mono1)
  with d show "k \<le> r div d" by simp
qed

lemma SeqLeft_draw:
  assumes "SeqLeft s = Some (left, used)" and "Sequence.LastValue s = Some l"
    and range: "sint (Sequence.MinValue s) \<le> sint (Sequence.MaxValue s) \<or> \<not> Sequence.Cycle s"
  shows "draw s n (sint l) = Some (sint l + int n * sint (Sequence.IncrementBy s)) \<longleftrightarrow> int n \<le> left"
proof -
  let ?i = "sint (Sequence.IncrementBy s)"
  have i: "?i \<noteq> 0" and left: "left = max 0 (if 0 < ?i then sint (Sequence.MaxValue s) - sint l
      else sint l - sint (Sequence.MinValue s)) div \<bar>?i\<bar>"
    using assms(1,2) by (auto simp: SeqLeft_def Let_def split: if_splits)
  have pos: "0 < \<bar>?i\<bar>" using i by simp
  consider "0 < ?i" | "?i < 0" using i by linarith
  then show ?thesis
  proof cases
    case 1
    show ?thesis
    proof (cases "n = 0")
      case False
      define k where "k = int n * ?i"
      have k: "0 < k" and abs: "int n * \<bar>?i\<bar> = k" using 1 False by (simp_all add: k_def)
      show ?thesis
        unfolding draw_up [OF 1 range] unfolding left le_div_pos [OF pos] abs k_def [symmetric] using k 1 False by auto
    qed (simp add: left pos_imp_zdiv_nonneg_iff [OF pos])
  next
    case 2
    show ?thesis
    proof (cases "n = 0")
      case False
      define k where "k = int n * ?i"
      have k: "k < 0" and abs: "int n * \<bar>?i\<bar> = - k"
        using 2 False by (simp_all add: k_def mult_less_0_iff)
      show ?thesis
        unfolding draw_down [OF 2 range] unfolding left le_div_pos [OF pos] abs k_def [symmetric] using k 2 False by auto
    qed (simp add: left pos_imp_zdiv_nonneg_iff [OF pos])
  qed
qed

section \<open>Exhausted sequences\<close>

definition typeBounds :: "string \<Rightarrow> int \<times> int" where
  "typeBounds t =
     (if t = ''smallint'' then (- (2 ^ 15), 2 ^ 15 - 1)
      else if t = ''integer'' then (- (2 ^ 31), 2 ^ 31 - 1)
      else (- (2 ^ 63), 2 ^ 63 - 1))"

definition own_limit :: "Sequence \<Rightarrow> bool" where
  "own_limit s \<longleftrightarrow>
     0 < sint (Sequence.IncrementBy s) \<and> sint (Sequence.MaxValue s) < snd (typeBounds (Sequence.DataType s)) \<or>
     sint (Sequence.IncrementBy s) < 0 \<and> fst (typeBounds (Sequence.DataType s)) < sint (Sequence.MinValue s)"

definition seqFix :: "Sequence \<Rightarrow> Next" where
  "seqFix s =
     (let escaped = hasControl (Sequence.Schemaname s @ Sequence.Sequencename s);
          name = (if escaped then ''<sequence>''
                  else qualified_name (Sequence.Schemaname s) (Sequence.Sequencename s));
          note = (if escaped then ''the name has control characters and is shown escaped: take it from kbdiag seq --json; '' else []);
          down = (sint (Sequence.IncrementBy s) < 0);
          clause = (if down then ''MINVALUE <lower>'' else ''MAXVALUE <higher>'');
          what = (if down then ''its MINVALUE'' else ''its MAXVALUE'')
      in if \<not> own_limit s \<and> Sequence.DataType s \<noteq> ''bigint'' then
           fix_sql (''ALTER SEQUENCE '' @ name @ '' AS bigint'')
             (note @ ''the column it feeds must become bigint first (ALTER TABLE ... ALTER COLUMN ... TYPE bigint rewrites the table)'')
         else if \<not> own_limit s then
           fix_sql (''ALTER SEQUENCE '' @ name @ '' '' @ clause) (note @ ''a bigint sequence at the type's bound: plan a new key'')
         else fix_sql (''ALTER SEQUENCE '' @ name @ '' '' @ clause)
           (note @ ''it stops at '' @ what @ '', short of what its type allows''))"

definition seq_finding :: "Sequence \<Rightarrow> int64 \<Rightarrow> Finding" where
  "seq_finding s cur = finding ''seq.exhausted'' LevelFAIL
     (''sequence '' @ Sequence.Schemaname s @ ''.'' @ Sequence.Sequencename s @ '' ('' @ Sequence.DataType s @
      '') is at '' @ fmt_i cur @ '', its limit is '' @
      fmt_i (if sint (Sequence.IncrementBy s) < 0 then Sequence.MinValue s else Sequence.MaxValue s) @
      '': nextval fails, so inserts that use it fail'')
     SeqListID
     [(''schemaname'', VStr (Sequence.Schemaname s)), (''sequencename'', VStr (Sequence.Sequencename s)),
      (''data_type'', VStr (Sequence.DataType s)), (''last_value'', v_int cur),
      (''min_value'', v_int (Sequence.MinValue s)), (''max_value'', v_int (Sequence.MaxValue s)),
      (''increment_by'', v_int (Sequence.IncrementBy s))]
     [seqFix s]"

lemma seq_level [simp]: "Finding.Level (seq_finding s cur) = LevelFAIL"
  by (simp add: seq_finding_def)

definition seq_row :: "Sequence \<Rightarrow> Finding list \<times> bool" where
  "seq_row s = (case (SeqLeft s, Sequence.LastValue s) of
       (Some (left, _), Some cur) \<Rightarrow>
         if Sequence.Cycle s \<or> 0 < left then ([], False) else ([seq_finding s cur], False)
     | _ \<Rightarrow> ([], False))"

definition Seq :: "SeqList \<Rightarrow> string \<Rightarrow> Result" where
  "Seq l role =
     (let (judge, unknown) = collected (coll.Status l)
      in if \<not> judge then judged [] unknown
         else let unknown = (SeqList_Redacted l \<noteq> [])
              in if role = ''standby'' then judged [] unknown
                 else let (fs, u) = scan seq_row unknown (coll.Rows l) in judged fs u)"

text \<open>A sequence whose next \<open>nextval\<close> fails.\<close>

definition exhausted :: "Sequence \<Rightarrow> bool" where
  "exhausted s \<longleftrightarrow> sint (Sequence.IncrementBy s) \<noteq> 0 \<and> \<not> Sequence.Cycle s \<and>
     (case Sequence.LastValue s of None \<Rightarrow> False | Some l \<Rightarrow> nextval s (sint l) = None)"

lemma SeqLeft_None_iff:
  "SeqLeft s = None \<longleftrightarrow> Sequence.LastValue s = None \<or> sint (Sequence.IncrementBy s) = 0"
  by (auto simp: SeqLeft_def Let_def split: option.splits)

lemma SeqLeft_nonneg: "SeqLeft s = Some (left, used) \<Longrightarrow> 0 \<le> left"
  by (auto simp: SeqLeft_def Let_def pos_imp_zdiv_nonneg_iff split: option.splits if_splits)

lemma seq_row_eq:
  "seq_row s = (if exhausted s then [seq_finding s (the (Sequence.LastValue s))] else [], False)"
proof (cases "SeqLeft s")
  case None
  then show ?thesis using SeqLeft_None_iff [of s] by (auto simp: seq_row_def exhausted_def split: option.splits)
next
  case (Some p)
  obtain left used where p: "p = (left, used)" by (cases p)
  obtain l where l: "Sequence.LastValue s = Some l" "sint (Sequence.IncrementBy s) \<noteq> 0"
    using SeqLeft_None_iff [of s] Some by (cases "Sequence.LastValue s") auto
  have "nextval s (sint l) = None \<longleftrightarrow> left < 1" if "\<not> Sequence.Cycle s"
    using SeqLeft_draw [of s left used l 1] draw_refused [of s 1 "sint l"] that Some p l
    by (cases "nextval s (sint l)") auto
  then show ?thesis
    using Some p l by (auto simp: seq_row_def exhausted_def)
qed

interpretation seq_rule: rule_contract "\<lambda>(l, role). Seq l role"
  "\<lambda>(l, role). unseen_probe (coll.Status l) \<or> coll.Status l = StatusOK \<and> SeqList_Redacted l \<noteq> []"
  by unfold_locales (auto simp: Seq_def split_beta scan_eq seq_row_eq Let_def)

lemma Seq_findings:
  "Result.Findings (Seq l role) =
     (if coll.Status l = StatusOK \<and> role \<noteq> ''standby''
      then map (\<lambda>s. seq_finding s (the (Sequence.LastValue s))) (filter exhausted (coll.Rows l)) else [])"
  by (auto simp: Seq_def split_beta scan_eq seq_row_eq comp_def concat_map_if)

end
