(* ===== verification/RuleParams.thy ===== *)
theory RuleParams
  imports RuleInst RuleNames FactsInst
begin

text \<open>
  The rules on archiving and on parameters that wait for a restart
  (\<open>internal/rule/{archive,params}.go\<close>).
\<close>

section \<open>Archiving\<close>

definition agoOf :: "flt option \<Rightarrow> string" where
  "agoOf s = (case s of None \<Rightarrow> ''at an unknown time'' | Some x \<Rightarrow> Units.Duration x @ '' ago'')"

definition orDash :: "string option \<Rightarrow> string" where
  "orDash s = (case s of None \<Rightarrow> ''-'' | Some x \<Rightarrow> x)"

text \<open>\<open>t.After(u)\<close>: instants are compared, whatever their zones.\<close>

definition time_after :: "gotime \<Rightarrow> gotime \<Rightarrow> bool" where
  "time_after t u \<longleftrightarrow> gotime.Unix u < gotime.Unix t \<or>
     gotime.Unix u = gotime.Unix t \<and> gotime.Nanos u < gotime.Nanos t"

definition archive_failing :: "Archiver \<Rightarrow> bool" where
  "archive_failing a \<longleftrightarrow> (case Archiver.LastFailedTime a of
       None \<Rightarrow> False
     | Some f \<Rightarrow> (case Archiver.LastArchivedTime a of None \<Rightarrow> True | Some s \<Rightarrow> time_after f s))"

definition archive_finding :: "Archiver \<Rightarrow> Finding" where
  "archive_finding a = finding ''archive.failing'' LevelWARN
     (''archiving is failing: the last attempt failed ('' @ orDash (Archiver.LastFailedWAL a) @ '', '' @
      agoOf (Archiver.LastFailedAgeS a) @ '') and '' @
      (case Archiver.LastArchivedTime a of
         None \<Rightarrow> ''it never succeeded''
       | Some _ \<Rightarrow> ''the last success was '' @ agoOf (Archiver.LastArchivedAgeS a) @ '' ('' @
           orDash (Archiver.LastArchivedWAL a) @ '')'') @
      ''; '' @ fmt_i (Archiver.FailedCount a) @
      '' failures since the statistics reset. WAL that is not archived stays in sys_wal and is missing from the backups'')
     ArchiveStatusID
     [(''archive_mode'', VStr (Archiver.Mode a)), (''failed_count'', v_int (Archiver.FailedCount a)),
      (''last_failed_wal'', v_opt VStr (Archiver.LastFailedWAL a)),
      (''last_failed_time'', v_opt v_time (Archiver.LastFailedTime a)),
      (''archived_count'', v_int (Archiver.ArchivedCount a)),
      (''last_archived_wal'', v_opt VStr (Archiver.LastArchivedWAL a)),
      (''last_archived_time'', v_opt v_time (Archiver.LastArchivedTime a))]
     [verify ''kbdiag space''
        ''how big sys_wal has grown; why archive_command fails is in the server log (log_directory)'']"

definition ok_result :: Result where
  "ok_result = \<lparr>Result.Verdict = VerdictOK, Result.Findings = []\<rparr>"

definition Archive :: "ArchiveStatus \<Rightarrow> string \<Rightarrow> Result" where
  "Archive s role =
     (let (judge, unknown) = collected (coll.Status s)
      in if \<not> judge then judged [] unknown
         else case coll.Rows s of
           [] \<Rightarrow> judged [] unknown
         | a # _ \<Rightarrow>
             if Archiver.Mode a = ''off'' \<or> role = ''standby'' \<and> Archiver.Mode a \<noteq> ''always'' then ok_result
             else if Archiver.Command a = None \<or> Archiver.Command a = Some [] then ok_result
             else if \<not> archive_failing a then ok_result
             else \<lparr>Result.Verdict = VerdictWARN, Result.Findings = [archive_finding a]\<rparr>)"

text \<open>Archiving is on for this node, has a command to run, and its last attempt failed.\<close>

definition archiving_broken :: "string \<Rightarrow> Archiver \<Rightarrow> bool" where
  "archiving_broken role a \<longleftrightarrow>
     Archiver.Mode a \<noteq> ''off'' \<and> (role = ''standby'' \<longrightarrow> Archiver.Mode a = ''always'') \<and>
     (\<exists>c. Archiver.Command a = Some c \<and> c \<noteq> []) \<and> archive_failing a"

lemma Archive_row:
  "coll.Status s = StatusOK \<Longrightarrow> coll.Rows s = a # rest \<Longrightarrow>
   Archive s role = (if archiving_broken role a
     then \<lparr>Result.Verdict = VerdictWARN, Result.Findings = [archive_finding a]\<rparr> else ok_result)"
  by (auto simp: Archive_def archiving_broken_def)

interpretation archive_rule: rule_contract "\<lambda>(s, role). Archive s role" "\<lambda>(s, role). unseen_probe (coll.Status s)"
proof
  fix i :: "ArchiveStatus \<times> string"
  obtain s role where i: "i = (s, role)" by (cases i)
  have "Finding.Level (archive_finding a) = LevelWARN" for a by (simp add: archive_finding_def)
  then show "Result.Verdict (case i of (s, role) \<Rightarrow> Archive s role) =
      verdictOf (Result.Findings (case i of (s, role) \<Rightarrow> Archive s role))
        (case i of (s, role) \<Rightarrow> unseen_probe (coll.Status s))"
    by (cases "coll.Rows s")
      (simp_all add: i Archive_def ok_result_def split_beta verdictOf_cases)
qed

section \<open>Parameters\<close>

text \<open>
  \<open>filepath.Base\<close>: the last element without trailing slashes; a dot for the empty path, a slash
  for one of slashes only.
\<close>

definition path_base :: "string \<Rightarrow> string" where
  "path_base p =
     (if p = [] then ''.''
      else let t = trim_right (CHR ''/'') p
           in if t = [] then ''/'' else rev (takeWhile (\<lambda>c. c \<noteq> CHR ''/'') (rev t)))"

definition param_where :: "Param \<Rightarrow> string" where
  "param_where x = (case Param.Sourcefile x of
       Some f \<Rightarrow> '' ('' @ path_base f @
         (case Param.Sourceline x of None \<Rightarrow> [] | Some n \<Rightarrow> '':'' @ fmt_i n) @ '')''
     | None \<Rightarrow> if Param.Source x \<noteq> ''default'' then '' ('' @ Param.Source x @ '')'' else [])"

definition param_running :: "Param \<Rightarrow> string" where
  "param_running x = orDash (Param.Setting x) @
     (case Param.Unit x of None \<Rightarrow> [] | Some u \<Rightarrow> if u \<noteq> [] then '' ('' @ u @ '')'' else [])"

definition param_back :: "Param \<Rightarrow> string" where
  "param_back x = (case Param.Setting x of
       None \<Rightarrow> []
     | Some v \<Rightarrow> ''ALTER SYSTEM SET '' @ Param.Name x @ '' = '' @ sql_text v)"

definition param_finding :: "Param \<Rightarrow> Finding" where
  "param_finding x = finding ''params.pending_restart'' LevelWARN
     (''parameter '' @ Param.Name x @ '' was changed'' @ param_where x @ '' but the instance still runs with '' @
      param_running x @ '': the new value takes effect only after a restart, the next one included'')
     ParamsChangedID
     [(''name'', VStr (Param.Name x)), (''setting'', v_opt VStr (Param.Setting x)),
      (''sourcefile'', v_opt VStr (Param.Sourcefile x)), (''sourceline'', v_opt v_int (Param.Sourceline x)),
      (''context'', VStr (Param.Context x))]
     [\<lparr>Next.Kind = ''verify'', Next.Command = [],
       Next.SQL = ''select sourcefile, sourceline, setting, applied, error from sys_file_settings where name = '' @
         sql_text (Param.Name x),
       Next.Note = ''the value waiting in the file (needs a superuser)''\<rparr>,
      fix_sql (param_back x)
        ''if the change was not meant: writes the running value back; after SELECT sys_reload_conf() the flag clears (a reload clears it only when the file's value equals the running one, so ALTER SYSTEM RESET alone leaves it until a restart). Otherwise plan the restart'']"

lemma param_level [simp]: "Finding.Level (param_finding x) = LevelWARN"
  by (simp add: param_finding_def)

definition params_row :: "Param \<Rightarrow> Finding list \<times> bool" where
  "params_row x = (if \<not> Param.PendingRestart x then ([], False) else ([param_finding x], False))"

definition Params :: "ParamsChanged \<Rightarrow> Result" where
  "Params p =
     (let (judge, unknown) = collected (coll.Status p)
      in if \<not> judge then judged [] unknown
         else let (fs, u) = scan params_row (ParamsChanged_Redacted p \<noteq> []) (coll.Rows p) in judged fs u)"

lemma params_row_eq: "params_row x = (if Param.PendingRestart x then [param_finding x] else [], False)"
  by (simp add: params_row_def)

interpretation params_rule: rule_contract Params
  "\<lambda>p. unseen_probe (coll.Status p) \<or> coll.Status p = StatusOK \<and> ParamsChanged_Redacted p \<noteq> []"
  by unfold_locales (auto simp: Params_def split_beta scan_eq params_row_eq)

lemma Params_findings:
  "Result.Findings (Params p) =
     (if coll.Status p = StatusOK then map param_finding (filter Param.PendingRestart (coll.Rows p)) else [])"
  by (auto simp: Params_def split_beta scan_eq params_row_eq comp_def concat_map_if)

end
