(* ===== verification/RuleRepl.thy ===== *)
theory RuleRepl
  imports RuleInst FactsRepl
begin

text \<open>
  The rules on replication (\<open>internal/rule/repl.go\<close>): paused replay, and synchronous standbys
  against \<open>synchronous_standby_names\<close>, with the parser of that setting. \<open>orbit\<close> stands for the
  simple case folding of runes beyond ASCII.
\<close>

section \<open>The setting\<close>

record syncToken =
  tok_s :: string
  quoted :: bool

definition text_of_runes :: "nat list \<Rightarrow> string" where
  "text_of_runes rs = concat (map encode_rune rs)"

text \<open>A quoted name after its opening quote: its runes, and what follows the closing one.\<close>

fun quoted_name :: "nat list \<Rightarrow> (nat list \<times> nat list) option" where
  "quoted_name [] = None"
| "quoted_name (r # rs) =
     (if r \<noteq> 34 then map_option (\<lambda>(w, rest). (r # w, rest)) (quoted_name rs)
      else case rs of
        [] \<Rightarrow> Some ([], [])
      | q # qs \<Rightarrow> if q = 34 then map_option (\<lambda>(w, rest). (34 # w, rest)) (quoted_name qs) else Some ([], rs))"

definition token_blank :: "nat \<Rightarrow> bool" where
  "token_blank r \<longleftrightarrow> r = 32 \<or> r = 9 \<or> r = 10"

definition token_punct :: "nat \<Rightarrow> bool" where
  "token_punct r \<longleftrightarrow> r = 44 \<or> r = 40 \<or> r = 41"

definition word_more :: "nat \<Rightarrow> bool" where
  "word_more r \<longleftrightarrow> \<not> token_blank r \<and> \<not> token_punct r \<and> r \<noteq> 34"

lemma quoted_name_length: "quoted_name rs = Some (w, rest) \<Longrightarrow> length rest < length rs"
  by (induction rs arbitrary: w rest rule: quoted_name.induct)
    (fastforce split: if_splits list.splits)+

function syncTokens :: "nat list \<Rightarrow> syncToken list option" where
  "syncTokens rs = (case rs of
       [] \<Rightarrow> Some []
     | r # rest \<Rightarrow>
         if token_blank r then syncTokens rest
         else if token_punct r then
           map_option (\<lambda>ts. \<lparr>tok_s = text_of_runes [r], quoted = False\<rparr> # ts) (syncTokens rest)
         else if r = 34 then
           (case quoted_name rest of
              None \<Rightarrow> None
            | Some (w, rest') \<Rightarrow>
                map_option (\<lambda>ts. \<lparr>tok_s = text_of_runes w, quoted = True\<rparr> # ts) (syncTokens rest'))
         else map_option (\<lambda>ts. \<lparr>tok_s = text_of_runes (takeWhile word_more rs), quoted = False\<rparr> # ts)
                (syncTokens (dropWhile word_more rs)))"
  by pat_completeness auto
termination
proof (relation "measure length", goal_cases)
  case (4 rs r rest p w rest')
  then show ?case by (auto dest: quoted_name_length)
next
  case (5 rs r rest)
  then have "word_more r" by (simp add: word_more_def)
  then have "length (dropWhile word_more rs) \<le> length rest"
    using 5 by (simp add: length_dropWhile_le)
  then show ?case using 5 by simp
qed simp_all

declare syncTokens.simps [simp del]

definition unquoted :: "string \<Rightarrow> syncToken \<Rightarrow> bool" where
  "unquoted w t \<longleftrightarrow> tok_s t = w \<and> \<not> quoted t"

text \<open>\<open>name {, name}\<close>: names in the even places, commas in the odd ones.\<close>

fun sync_list :: "bool \<Rightarrow> syncToken list \<Rightarrow> string list option" where
  "sync_list even_place [] = Some []"
| "sync_list True (t # ts) =
     (if quoted t \<or> tok_s t \<notin> {'','', ''('', '')''}
      then map_option (\<lambda>names. tok_s t # names) (sync_list False ts) else None)"
| "sync_list False (t # ts) = (if unquoted '','' t then sync_list True ts else None)"

text \<open>\<open>need, names, ok\<close>, with \<open>None\<close> when \<open>ok\<close> is false.\<close>

definition parse_names :: "int \<Rightarrow> syncToken list \<Rightarrow> (int \<times> string list) option" where
  "parse_names need toks = (case sync_list True toks of
       None \<Rightarrow> None
     | Some names \<Rightarrow> if names = [] \<or> even (length toks) then None else Some (need, names))"

definition sync_mode :: "(nat \<Rightarrow> nat) \<Rightarrow> syncToken list \<Rightarrow> bool" where
  "sync_mode orbit toks \<longleftrightarrow> 1 < length toks \<and> \<not> quoted (hd toks) \<and>
     (equal_fold orbit (tok_s (hd toks)) ''first'' \<or> equal_fold orbit (tok_s (hd toks)) ''any'')"

definition parse_tokens :: "(nat \<Rightarrow> nat) \<Rightarrow> syncToken list \<Rightarrow> (int \<times> string list) option" where
  "parse_tokens orbit toks =
     (if toks = [] then Some (0, [])
      else let i = (if sync_mode orbit toks then 1 else 0); t = toks ! i
           in case atoi (tok_s t) of
                Some n \<Rightarrow>
                  if \<not> quoted t \<and> i + 1 < length toks \<and> unquoted ''('' (toks ! (i + 1)) then
                    (if n < 0 \<or> \<not> unquoted '')'' (List.last toks) then None
                     else parse_names n (drop (i + 2) (butlast toks)))
                  else if i = 1 then None else parse_names 1 toks
              | None \<Rightarrow> if i = 1 then None else parse_names 1 toks)"

definition parseSyncNames :: "(nat \<Rightarrow> nat) \<Rightarrow> string \<Rightarrow> (int \<times> string list) option" where
  "parseSyncNames orbit str = (case syncTokens (runes str) of
       None \<Rightarrow> None
     | Some toks \<Rightarrow> parse_tokens orbit toks)"

definition SyncNames :: "(nat \<Rightarrow> nat) \<Rightarrow> string \<Rightarrow> (int \<times> string list \<times> string) option" where
  "SyncNames orbit str = (case parseSyncNames orbit str of
       None \<Rightarrow> None
     | Some (need, names) \<Rightarrow>
         if need = 0 then Some (need, names, [])
         else let toks = the (syncTokens (runes str))
              in if 2 < length toks \<and> \<not> quoted (hd toks) \<and> equal_fold orbit (tok_s (hd toks)) ''any''
                 then Some (need, names, ''any '' @ fmt_d need @ '' of '' @ join '', '' names @ '' must confirm'')
                 else Some (need, names, ''the first '' @ fmt_d need @ '' of '' @ join '', '' names @
                   '' by priority must confirm''))"

section \<open>The rule\<close>

definition SyncStreaming :: "ReplDownstreams \<Rightarrow> string list" where
  "SyncStreaming d =
     map (\<lambda>r. case Replica.ApplicationName r of None \<Rightarrow> ''-'' | Some n \<Rightarrow> n)
       (filter (\<lambda>r. Replica.SyncState r = Some ''sync'' \<or> Replica.SyncState r = Some ''quorum'') (coll.Rows d))"

definition short_finding :: "string \<Rightarrow> string \<Rightarrow> int \<Rightarrow> string list \<Rightarrow> Finding" where
  "short_finding names commit need streaming = finding ''repl.sync_short'' LevelWARN
     (''synchronous_standby_names '' @ [CHR 0x27] @ names @ [CHR 0x27] @ '' needs '' @ fmt_d need @ '' synchronous '' @
      (if need = 1 then ''standby'' else ''standbys'') @ '', but the server counts '' @
      fmt_d (int (length streaming)) @
      '' as synchronous candidates: commits either wait or the server no longer waits for a standby, so the synchronous copy is not guaranteed'')
     ReplSyncID
     [(''synchronous_standby_names'', VStr names), (''synchronous_commit'', VStr commit), (''required'', VInt need),
      (''candidates'', VStrs streaming)]
     [verify ''kbdiag slots'' ''whether the missing standby's slot is inactive'',
      verify ''kbdiag status'' ''run on the missing standby: is it receiving WAL'']"

definition standby_names :: "SyncSetting \<Rightarrow> string" where
  "standby_names x = (case SyncSetting.StandbyNames x of None \<Rightarrow> [] | Some n \<Rightarrow> n)"

definition waiting_commits :: "string list" where
  "waiting_commits = [''on'', ''remote_write'', ''remote_apply'']"

definition syncShort :: "(nat \<Rightarrow> nat) \<Rightarrow> ReplDownstreams \<Rightarrow> ReplSync \<Rightarrow> Finding option \<times> bool" where
  "syncShort orbit d sy =
     (let (judge, unknown) = collected (coll.Status sy)
      in if \<not> judge then (None, unknown)
         else case coll.Rows sy of
           [] \<Rightarrow> (None, unknown)
         | x # _ \<Rightarrow>
             if SyncSetting.Commit x \<notin> set waiting_commits then (None, False)
             else case parseSyncNames orbit (standby_names x) of
               None \<Rightarrow> (None, True)
             | Some (need, list) \<Rightarrow>
                 if need = 0 then (None, False)
                 else if \<not> judgeable (coll.Status d) then (None, unseen_probe (coll.Status d))
                 else if need \<le> int (length (SyncStreaming d)) then (None, False)
                 else (Some (short_finding (standby_names x) (SyncSetting.Commit x) need (SyncStreaming d)), False))"

definition paused_finding :: "Replay \<Rightarrow> Finding" where
  "paused_finding p = finding ''repl.replay_paused'' LevelWARN
     ''WAL replay is paused on this standby (sys_wal_replay_pause()): queries still run, but it falls further behind, and a failover would first have to replay everything received''
     ReplReplayID
     [(''replay_paused'', VBool True), (''receive_lsn'', v_opt VStr (Replay.ReceiveLSN p)),
      (''replay_lsn'', v_opt VStr (Replay.ReplayLSN p)), (''replay_gap_bytes'', v_opt v_int (Replay.ReplayGapBytes p))]
     [fix_sql ''SELECT sys_wal_replay_resume()'' ''unless replay was paused on purpose'']"

lemma repl_levels [simp]:
  "Finding.Level (paused_finding p) = LevelWARN" "Finding.Level (short_finding names commit need streaming) = LevelWARN"
  by (simp_all add: paused_finding_def short_finding_def)

definition Repl :: "(nat \<Rightarrow> nat) \<Rightarrow> ReplDownstreams \<Rightarrow> ReplSync \<Rightarrow> InstUpstream \<Rightarrow> ReplReplay \<Rightarrow> Result" where
  "Repl orbit d sy u r =
     (let (f1, x1) = upstream u;
          unknown1 = (if f1 = None then x1 else False);
          (judge, x2) = collected (coll.Status r);
          paused = (if judge then map paused_finding (filter Replay.ReplayPaused (coll.Rows r)) else []);
          (f3, x3) = syncShort orbit d sy
      in judged (of_option f1 @ paused @ of_option f3) (unknown1 \<or> x2 \<or> x3))"

lemma upstream_found: "fst (upstream u) \<noteq> None \<Longrightarrow> \<not> snd (upstream u)"
proof -
  have "fst (receiver_rows xs) \<noteq> None \<Longrightarrow> \<not> snd (receiver_rows xs)" for xs
    by (induction xs) (auto split: receiver.splits)
  then show "fst (upstream u) \<noteq> None \<Longrightarrow> \<not> snd (upstream u)"
    by (auto simp: upstream_def split_beta split: if_splits)
qed

lemma Repl_eq:
  "Repl orbit d sy u r = judged
     (of_option (fst (upstream u)) @
      (if coll.Status r = StatusOK then map paused_finding (filter Replay.ReplayPaused (coll.Rows r)) else []) @
      of_option (fst (syncShort orbit d sy)))
     (snd (upstream u) \<or> unseen_probe (coll.Status r) \<or> snd (syncShort orbit d sy))"
  using upstream_found [of u] by (auto simp: Repl_def split_beta Let_def)

interpretation repl_rule: rule_contract "\<lambda>(orbit, d, sy, u, r). Repl orbit d sy u r"
  "\<lambda>(orbit, d, sy, u, r). snd (upstream u) \<or> unseen_probe (coll.Status r) \<or> snd (syncShort orbit d sy)"
  by unfold_locales (auto simp: Repl_eq)

section \<open>Reading back what a setting says\<close>

text \<open>
  The settings the server's grammar writes: an optional \<open>FIRST\<close> or \<open>ANY\<close>, a number, and a list of
  names in double quotes, each quote inside doubled.
\<close>

definition quote_name :: "string \<Rightarrow> string" where
  "quote_name n = [CHR 0x22] @ replace_byte (CHR 0x22) [CHR 0x22, CHR 0x22] n @ [CHR 0x22]"

definition sync_setting :: "string \<Rightarrow> nat \<Rightarrow> string list \<Rightarrow> string" where
  "sync_setting mode need names = mode @ dec_nat need @ '' ('' @ join '', '' (map quote_name names) @ '')''"

definition double_quotes :: "nat list \<Rightarrow> nat list" where
  "double_quotes rs = concat (map (\<lambda>r. if r = 34 then [34, 34] else [r]) rs)"

lemma quoted_name_back:
  "rest = [] \<or> hd rest \<noteq> 34 \<Longrightarrow> quoted_name (double_quotes w @ 34 # rest) = Some (w, rest)"
proof (induction w)
  case Nil
  then show ?case by (cases rest) (simp_all add: double_quotes_def)
qed (simp add: double_quotes_def)

lemma syncTokens_Nil [simp]: "syncTokens [] = Some []"
  by (simp add: syncTokens.simps)

lemma syncTokens_blank [simp]: "syncTokens (32 # rest) = syncTokens rest"
  by (subst syncTokens.simps) (simp add: token_blank_def)

lemma syncTokens_punct:
  "token_punct r \<Longrightarrow> syncTokens (r # rest) =
     map_option (\<lambda>ts. \<lparr>tok_s = text_of_runes [r], quoted = False\<rparr> # ts) (syncTokens rest)"
  by (subst syncTokens.simps) (auto simp: token_blank_def token_punct_def)

lemma syncTokens_quoted:
  "rest = [] \<or> hd rest \<noteq> 34 \<Longrightarrow> syncTokens (34 # double_quotes w @ 34 # rest) =
     map_option (\<lambda>ts. \<lparr>tok_s = text_of_runes w, quoted = True\<rparr> # ts) (syncTokens rest)"
  by (subst syncTokens.simps) (simp add: token_blank_def token_punct_def quoted_name_back)

lemma syncTokens_word:
  assumes "list_all word_more w" and "w \<noteq> []" and "rest = [] \<or> \<not> word_more (hd rest)"
  shows "syncTokens (w @ rest) =
     map_option (\<lambda>ts. \<lparr>tok_s = text_of_runes w, quoted = False\<rparr> # ts) (syncTokens rest)"
proof -
  obtain r w' where w: "w = r # w'" using assms(2) by (cases w) auto
  have "takeWhile word_more (w @ rest) = w" "dropWhile word_more (w @ rest) = rest"
    using assms by (cases rest; simp add: list_all_iff takeWhile_append2 dropWhile_append2)+
  moreover have "\<not> token_blank r" "\<not> token_punct r" "r \<noteq> 34"
    using assms(1) by (simp_all add: w word_more_def)
  ultimately show ?thesis unfolding w by (subst syncTokens.simps) simp
qed

text \<open>The tokens of a list of names.\<close>

fun name_tokens :: "string list \<Rightarrow> syncToken list" where
  "name_tokens [] = []"
| "name_tokens [n] = [\<lparr>tok_s = n, quoted = True\<rparr>]"
| "name_tokens (n # m # ns) = \<lparr>tok_s = n, quoted = True\<rparr> # \<lparr>tok_s = '','', quoted = False\<rparr> # name_tokens (m # ns)"

lemma runes_quote_name:
  "valid_string n \<Longrightarrow> runes (quote_name n @ t) = 34 # double_quotes (runes n) @ 34 # runes t"
proof -
  assume v: "valid_string n"
  let ?r = "replace_byte (CHR 0x22) [CHR 0x22, CHR 0x22] n"
  have q: "byte (CHR 0x22) = 34" by (simp add: byte_def)
  have r: "runes ?r = double_quotes (runes n)"
    using v by (subst runes_replace_byte) (simp_all add: q double_quotes_def cong: if_cong)
  have "valid_string ?r"
    using v by (rule valid_replace_byte) (simp_all add: q)
  then have "runes (?r @ CHR 0x22 # t) = runes ?r @ runes (CHR 0x22 # t)" by (rule runes_append)
  then show ?thesis by (simp add: quote_name_def runes_def q) (simp add: r [unfolded runes_def])
qed

lemma text_of_valid [simp]: "valid_string n \<Longrightarrow> text_of_runes (runes n) = n"
  by (simp add: text_of_runes_def encode_runes)

lemma punct_chars: "byte_char 44 = CHR '',''" "byte_char 40 = CHR ''(''" "byte_char 41 = CHR '')''"
proof -
  have "byte (CHR '','') = 44" "byte (CHR ''('') = 40" "byte (CHR '')'') = 41" by (simp_all add: byte_def)
  then show "byte_char 44 = CHR '',''" "byte_char 40 = CHR ''(''" "byte_char 41 = CHR '')''"
    by (metis byte_char_byte)+
qed

lemma punct_tokens:
  "syncTokens (44 # rest) = map_option (\<lambda>ts. \<lparr>tok_s = '','', quoted = False\<rparr> # ts) (syncTokens rest)"
  "syncTokens (40 # rest) = map_option (\<lambda>ts. \<lparr>tok_s = ''('', quoted = False\<rparr> # ts) (syncTokens rest)"
  "syncTokens (41 # rest) = map_option (\<lambda>ts. \<lparr>tok_s = '')'', quoted = False\<rparr> # ts) (syncTokens rest)"
  by (simp_all add: syncTokens_punct token_punct_def text_of_runes_def encode_rune_def encode_scalar_def
      scalar_def punct_chars)

lemma syncTokens_names:
  "list_all valid_string names \<Longrightarrow>
   syncTokens (runes (join '', '' (map quote_name names) @ '')'')) =
     Some (name_tokens names @ [\<lparr>tok_s = '')'', quoted = False\<rparr>])"
proof (induction names rule: name_tokens.induct)
  case 1
  then show ?case by (simp add: runes_def byte_def punct_tokens)
next
  case (2 n)
  moreover have "runes '')'' = [41]" by (simp add: runes_def byte_def)
  ultimately show ?case by (simp add: runes_quote_name syncTokens_quoted punct_tokens)
next
  case (3 n m ns)
  have "runes (CHR '','' # CHR '' '' # t) = 44 # 32 # runes t" for t
    by (simp add: runes_def byte_def)
  with 3 show ?case
    by (simp add: runes_quote_name syncTokens_quoted punct_tokens)
qed

lemma sync_list_names: "sync_list True (name_tokens names) = Some names"
  by (induction names rule: name_tokens.induct) (simp_all add: unquoted_def)

lemma odd_name_tokens: "names \<noteq> [] \<Longrightarrow> odd (length (name_tokens names))"
  by (induction names rule: name_tokens.induct) auto

lemma runes_ascii_append: "\<forall>c\<in>set w. byte c < 128 \<Longrightarrow> runes (w @ t) = map byte w @ runes t"
  by (simp add: runes_append valid_ascii runes_of_ascii)

lemma text_of_ascii: "\<forall>c\<in>set w. byte c < 128 \<Longrightarrow> text_of_runes (map byte w) = w"
  using text_of_valid [OF valid_ascii, of w] by (simp add: runes_of_ascii)

lemma word_token:
  assumes "\<forall>c\<in>set w. word_more (byte c) \<and> byte c < 128" and "w \<noteq> []"
  shows "syncTokens (runes (w @ CHR '' '' # t)) =
    map_option (\<lambda>ts. \<lparr>tok_s = w, quoted = False\<rparr> # ts) (syncTokens (runes t))"
proof -
  have sp: "runes (CHR '' '' # t) = 32 # runes t" by (simp add: runes_def byte_def)
  have "syncTokens (map byte w @ 32 # runes t) =
      map_option (\<lambda>ts. \<lparr>tok_s = text_of_runes (map byte w), quoted = False\<rparr> # ts) (syncTokens (32 # runes t))"
    using assms by (intro syncTokens_word) (auto simp: list_all_iff word_more_def token_blank_def)
  moreover have "text_of_runes (map byte w) = w" using assms by (intro text_of_ascii) simp
  moreover have "runes (w @ CHR '' '' # t) = map byte w @ 32 # runes t"
    unfolding sp [symmetric] using assms by (intro runes_ascii_append) simp
  ultimately show ?thesis by simp
qed

lemma digits_word: "\<forall>c\<in>set (dec_nat n). word_more (byte c) \<and> byte c < 128"
  using digits_dec_nat [of n]
  by (auto simp: list_all_iff is_digit_def word_more_def token_blank_def token_punct_def)

lemma setting_tokens:
  assumes "list_all valid_string names"
  shows "syncTokens (runes (dec_nat need @ '' ('' @ join '', '' (map quote_name names) @ '')'')) =
    Some (\<lparr>tok_s = dec_nat need, quoted = False\<rparr> # \<lparr>tok_s = ''('', quoted = False\<rparr> #
          name_tokens names @ [\<lparr>tok_s = '')'', quoted = False\<rparr>])"
proof -
  have "runes (CHR ''('' # t) = 40 # runes t" for t by (simp add: runes_def byte_def)
  then show ?thesis
    using word_token [OF digits_word, of need "CHR ''('' # join '', '' (map quote_name names) @ '')''"]
      syncTokens_names [OF assms] by (simp add: punct_tokens)
qed

lemma number_not_mode:
  "equal_fold orbit (dec_nat need) ''first'' = False" "equal_fold orbit (dec_nat need) ''any'' = False"
proof -
  obtain c cs where d: "dec_nat need = c # cs" by (cases "dec_nat need") auto
  have ascii: "\<forall>x\<in>set (c # cs). byte x < 128" using digits_word [of need] by (simp add: d)
  have "48 \<le> byte c" "byte c \<le> 57" using digits_dec_nat [of need] by (simp_all add: d is_digit_def)
  then have "fold_rune orbit (byte c) \<noteq> 102" "fold_rune orbit (byte c) \<noteq> 97" by (auto simp: fold_rune_def)
  moreover have "fold_rune orbit 102 = 102" "fold_rune orbit 97 = 97" by (simp_all add: fold_rune_def)
  ultimately show "equal_fold orbit (dec_nat need) ''first'' = False" "equal_fold orbit (dec_nat need) ''any'' = False"
    unfolding equal_fold_def d runes_of_ascii [OF ascii] by (simp_all add: runes_def byte_def)
qed

lemma modes_fold:
  "equal_fold orbit ''FIRST'' ''first''" "equal_fold orbit ''ANY'' ''any''"
  by (simp_all add: equal_fold_def runes_def byte_def fold_rune_def)

lemma parse_setting:
  assumes names: "list_all valid_string names" "names \<noteq> []" and need: "need < 2 ^ 63"
    and mode: "mode = [] \<or> mode = ''FIRST '' \<or> mode = ''ANY ''"
  shows "parseSyncNames orbit (sync_setting mode need names) = Some (int need, names)"
proof -
  let ?n = "\<lparr>tok_s = dec_nat need, quoted = False\<rparr>" and ?o = "\<lparr>tok_s = ''('', quoted = False\<rparr>"
    and ?c = "\<lparr>tok_s = '')'', quoted = False\<rparr>"
  let ?toks = "?n # ?o # name_tokens names @ [?c]"
  let ?body = "dec_nat need @ '' ('' @ join '', '' (map quote_name names) @ '')''"
  have list: "parse_names (int need) (name_tokens names) = Some (int need, names)"
    using names(2) odd_name_tokens [of names] by (simp add: parse_names_def sync_list_names)
  have but: "butlast ?toks = ?n # ?o # name_tokens names" "List.last ?toks = ?c"
    by (simp_all add: butlast_append)
  have w: "\<forall>c\<in>set ''FIRST''. word_more (byte c) \<and> byte c < 128" "\<forall>c\<in>set ''ANY''. word_more (byte c) \<and> byte c < 128"
    by (simp_all add: word_more_def token_blank_def token_punct_def byte_def)
  from mode consider "mode = []" | "mode = ''FIRST ''" | "mode = ''ANY ''" by blast
  then show ?thesis
  proof cases
    case 1
    then have "syncTokens (runes (sync_setting mode need names)) = Some ?toks"
      using setting_tokens [OF names(1), of need] by (simp add: sync_setting_def)
    moreover have "parse_tokens orbit ?toks = Some (int need, names)"
      using but by (simp add: parse_tokens_def sync_mode_def number_not_mode atoi_dec_nat [OF need] unquoted_def list)
    ultimately show ?thesis by (simp add: parseSyncNames_def)
  next
    case 2
    let ?m = "\<lparr>tok_s = ''FIRST'', quoted = False\<rparr>"
    from 2 have "syncTokens (runes (sync_setting mode need names)) = Some (?m # ?toks)"
      using word_token [OF w(1), of ?body] setting_tokens [OF names(1), of need] by (simp add: sync_setting_def)
    moreover have "parse_tokens orbit (?m # ?toks) = Some (int need, names)"
      using but by (simp add: parse_tokens_def sync_mode_def modes_fold atoi_dec_nat [OF need] unquoted_def list)
    ultimately show ?thesis by (simp add: parseSyncNames_def)
  next
    case 3
    let ?m = "\<lparr>tok_s = ''ANY'', quoted = False\<rparr>"
    from 3 have "syncTokens (runes (sync_setting mode need names)) = Some (?m # ?toks)"
      using word_token [OF w(2), of ?body] setting_tokens [OF names(1), of need] by (simp add: sync_setting_def)
    moreover have "parse_tokens orbit (?m # ?toks) = Some (int need, names)"
      using but by (simp add: parse_tokens_def sync_mode_def modes_fold atoi_dec_nat [OF need] unquoted_def list)
    ultimately show ?thesis by (simp add: parseSyncNames_def)
  qed
qed

text \<open>What counts as enough: at least as many candidates as the setting asks for.\<close>

lemma syncShort_found:
  "fst (syncShort orbit d sy) \<noteq> None \<longleftrightarrow>
     (\<exists>x rest need names. coll.Status sy = StatusOK \<and> coll.Rows sy = x # rest \<and>
        SyncSetting.Commit x \<in> set waiting_commits \<and>
        parseSyncNames orbit (standby_names x) = Some (need, names) \<and> need \<noteq> 0 \<and>
        coll.Status d = StatusOK \<and> int (length (SyncStreaming d)) < need)"
  by (cases "coll.Status sy"; cases "coll.Rows sy")
    (auto simp: syncShort_def Let_def split_beta split: option.splits)

lemma syncShort_level: "fst (syncShort orbit d sy) = Some f \<Longrightarrow> Finding.Level f = LevelWARN"
  by (auto simp: syncShort_def Let_def split_beta split: option.splits list.splits if_splits)

end
