(* ===== verification/RuleCluster.thy ===== *)
theory RuleCluster
  imports RuleInst FactsRepl
begin

text \<open>
  The rule on the repmgr cluster (\<open>internal/rule/cluster.go\<close>): repmgr's tables against what the
  database says. \<open>orbit\<close> stands for the simple case folding of runes beyond ASCII.
\<close>

section \<open>Nodes\<close>

definition Followers :: "ClusterNodes \<Rightarrow> int32 \<Rightarrow> ClusterNode list" where
  "Followers n i = filter (\<lambda>x. ClusterNode.Active x \<and> ClusterNode.Type x = ''standby'' \<and>
     ClusterNode.UpstreamNodeID x = Some i) (coll.Rows n)"

definition Attached :: "(nat \<Rightarrow> nat) \<Rightarrow> InstDownstreams \<Rightarrow> string \<Rightarrow> bool" where
  "Attached orbit d name \<longleftrightarrow> list_ex (\<lambda>r. case Downstream.ApplicationName r of
       None \<Rightarrow> False
     | Some a \<Rightarrow> equal_fold orbit a name) (coll.Rows d)"

definition SyncModes :: "string list" where
  "SyncModes = [''sync'', ''quorum'', ''all'']"

definition active_primaries :: "ClusterNodes \<Rightarrow> string list" where
  "active_primaries n = map ClusterNode.NodeName
     (filter (\<lambda>x. ClusterNode.Active x \<and> ClusterNode.Type x = ''primary'') (coll.Rows n))"

text \<open>The row of this node: the last one marked so.\<close>

definition local_node :: "ClusterNodes \<Rightarrow> ClusterNode option" where
  "local_node n = find ClusterNode.IsLocal (rev (coll.Rows n))"

section \<open>Findings\<close>

definition primaries_finding :: "string list \<Rightarrow> Finding" where
  "primaries_finding ps = finding ''cluster.primaries'' LevelWARN
     (''repmgr lists '' @ fmt_d (int (length ps)) @ '' active primaries ('' @ join '', '' ps @
      ''): its metadata says split brain; whether both accept writes shows only on each node'')
     ClusterNodesID [(''primaries'', VStrs ps)]
     [verify ''kbdiag status'' ''run on each of them: which one is out of recovery'']"

definition inactive_finding :: "ClusterNode \<Rightarrow> Finding" where
  "inactive_finding x = finding ''cluster.inactive'' LevelWARN
     (''repmgr marks '' @ ClusterNode.Type x @ '' node '' @ ClusterNode.NodeName x @
      '' inactive: it counts it as failed or removed, so the cluster has one node less to fail over to'')
     ClusterNodesID
     [(''node_id'', v_int (ClusterNode.NodeID x)), (''node_name'', VStr (ClusterNode.NodeName x)),
      (''type'', VStr (ClusterNode.Type x)), (''active'', VBool False)]
     [verify ''kbdiag status'' (''run on '' @ ClusterNode.NodeName x @ '': is it up, and in which role'')]"

definition role_finding :: "ClusterNode \<Rightarrow> string \<Rightarrow> Finding" where
  "role_finding x role = finding ''cluster.role_mismatch'' LevelWARN
     (''repmgr says this node ('' @ ClusterNode.NodeName x @ '') is a '' @ ClusterNode.Type x @
      '', but the database is a '' @ role @ '': repmgr acts on the wrong role until its metadata is corrected'')
     ClusterNodesID
     [(''node_id'', v_int (ClusterNode.NodeID x)), (''node_name'', VStr (ClusterNode.NodeName x)),
      (''type'', VStr (ClusterNode.Type x)), (''role'', VStr role)]
     [verify ''kbdiag repl'' ''what this node streams to or from'']"

definition detached_finding :: "ClusterNode \<Rightarrow> ClusterNode \<Rightarrow> Finding" where
  "detached_finding me x = finding ''cluster.detached'' LevelWARN
     (''repmgr lists '' @ ClusterNode.NodeName x @ '' as an active standby of this node ('' @ ClusterNode.NodeName me @
      ''), but no walsender here has that application_name: it is not attached (repmgr cluster show would report it so), unless its conninfo sets another application_name'')
     ClusterNodesID
     [(''node_id'', v_int (ClusterNode.NodeID x)), (''node_name'', VStr (ClusterNode.NodeName x)),
      (''upstream_node_id'', v_int (ClusterNode.NodeID me))]
     [verify ''kbdiag status'' (''run on '' @ ClusterNode.NodeName x @ '': is it up, is it receiving WAL''),
      verify ''kbdiag slots'' ''whether its slot here is inactive'']"

definition detached :: "(nat \<Rightarrow> nat) \<Rightarrow> ClusterNodes \<Rightarrow> InstDownstreams \<Rightarrow> ClusterNode \<Rightarrow> ClusterNode list" where
  "detached orbit n d me =
     filter (\<lambda>x. \<not> Attached orbit d (ClusterNode.NodeName x)) (Followers n (ClusterNode.NodeID me))"

text \<open>Asked to be synchronous by its configuration file, and not asked to be by the server.\<close>

definition degraded :: "ClusterSync \<Rightarrow> bool" where
  "degraded sy \<longleftrightarrow> (case ClusterSync.Synchronous sy of
       None \<Rightarrow> False
     | Some m \<Rightarrow> to_lower m \<in> set SyncModes) \<and>
     (case ClusterSync.StandbyNames sy of None \<Rightarrow> True | Some names \<Rightarrow> trim_space names = [])"

definition degraded_why :: "bool \<Rightarrow> string list \<Rightarrow> string" where
  "degraded_why dj gone =
     (if \<not> dj then ''while a synchronous standby is away repmgrd switches to asynchronous; it switches back when the standby returns''
      else if gone \<noteq> [] then ''repmgrd switched to asynchronous because '' @ join '', '' gone @
        '' is not attached; it switches back when it returns''
      else ''yet every standby repmgr lists for this node is attached: repmgrd has not switched back yet; it normally does within seconds of the standby returning, so if a second run still shows this, check repmgrd on this node'')"

definition syncDegraded ::
  "(nat \<Rightarrow> nat) \<Rightarrow> ClusterSync \<Rightarrow> ClusterNodes \<Rightarrow> InstDownstreams \<Rightarrow> bool \<Rightarrow> ClusterNode \<Rightarrow> Finding option" where
  "syncDegraded orbit sy n d dj me =
     (if \<not> degraded sy then None
      else let gone = map ClusterNode.NodeName (detached orbit n d me);
               m = the (ClusterSync.Synchronous sy)
           in Some (finding ''cluster.sync_degraded'' LevelWARN
             (''repmgr is configured for '' @ m @ '' replication ('' @ ClusterSync.ConfPath sy @
              ''), but synchronous_standby_names is empty: commits do not wait for any standby, so a failover now can lose committed transactions; '' @
              degraded_why dj gone)
             ClusterSyncID
             [(''synchronous'', VStr m), (''synchronous_standby_names'', VStr []), (''conf_path'', VStr (ClusterSync.ConfPath sy))]
             ([verify ''kbdiag repl'' ''which standbys stream and what synchronous_standby_names says''] @
              (if dj \<and> gone = [] then [verify ''ps -C repmgrd -o pid,args''
                 ''repmgrd restores synchronous_standby_names; without it the list stays empty''] else []))))"

lemma cluster_levels [simp]:
  "Finding.Level (primaries_finding ps) = LevelWARN" "Finding.Level (inactive_finding x) = LevelWARN"
  "Finding.Level (role_finding x role) = LevelWARN" "Finding.Level (detached_finding me x) = LevelWARN"
  by (simp_all add: primaries_finding_def inactive_finding_def role_finding_def detached_finding_def)

definition role_mismatch :: "ClusterNode \<Rightarrow> string \<Rightarrow> bool" where
  "role_mismatch x role \<longleftrightarrow>
     (ClusterNode.Type x = ''primary'' \<or> ClusterNode.Type x = ''standby'') \<and> ClusterNode.Type x \<noteq> role"

section \<open>The rule\<close>

definition Cluster :: "(nat \<Rightarrow> nat) \<Rightarrow> ClusterNodes \<Rightarrow> InstDownstreams \<Rightarrow> ClusterSyncs \<Rightarrow> string \<Rightarrow> Result" where
  "Cluster orbit n d sy role =
     (let (judge, unknown) = collected (coll.Status n)
      in if \<not> judge then judged [] unknown
         else let ps = active_primaries n;
                  fs = (if 1 < length ps then [primaries_finding ps] else []) @
                       map inactive_finding (filter (\<lambda>x. \<not> ClusterNode.Active x) (coll.Rows n))
              in case local_node n of
                   None \<Rightarrow> judged fs True
                 | Some me \<Rightarrow>
                     let fs = fs @ (if role_mismatch me role then [role_finding me role] else [])
                     in if role \<noteq> ''primary'' \<or> ClusterNode.Type me \<noteq> ''primary'' then judged fs unknown
                        else let (dj, du) = collected (coll.Status d);
                                 (sj, su) = collected (coll.Status sy);
                                 unknown = (unknown \<or> su);
                                 degraded = (if sj then (case coll.Rows sy of
                                     [x] \<Rightarrow> of_option (syncDegraded orbit x n d dj me)
                                   | _ \<Rightarrow> []) else [])
                             in if \<not> dj then judged (fs @ degraded) (unknown \<or> du)
                                else judged (fs @ map (detached_finding me) (detached orbit n d me) @ degraded) unknown)"

text \<open>What the rule could not see: repmgr's nodes, which of them is this one, and on a primary the rest.\<close>

definition cluster_unseen :: "ClusterNodes \<Rightarrow> InstDownstreams \<Rightarrow> ClusterSyncs \<Rightarrow> string \<Rightarrow> bool" where
  "cluster_unseen n d sy role \<longleftrightarrow> unseen_probe (coll.Status n) \<or> coll.Status n = StatusOK \<and>
     (case local_node n of
        None \<Rightarrow> True
      | Some me \<Rightarrow> role = ''primary'' \<and> ClusterNode.Type me = ''primary'' \<and>
          (unseen_probe (coll.Status d) \<or> unseen_probe (coll.Status sy)))"

interpretation cluster_rule: rule_contract "\<lambda>(orbit, n, d, sy, role). Cluster orbit n d sy role"
  "\<lambda>(orbit, n, d, sy, role). cluster_unseen n d sy role"
proof
  fix i :: "(nat \<Rightarrow> nat) \<times> ClusterNodes \<times> InstDownstreams \<times> ClusterSyncs \<times> string"
  obtain orbit n d sy role where i: "i = (orbit, n, d, sy, role)" by (cases i)
  have "collected (coll.Status d) = (coll.Status d = StatusOK, unseen_probe (coll.Status d))"
    by (cases "coll.Status d") simp_all
  then show "Result.Verdict (case i of (orbit, n, d, sy, role) \<Rightarrow> Cluster orbit n d sy role) =
      verdictOf (Result.Findings (case i of (orbit, n, d, sy, role) \<Rightarrow> Cluster orbit n d sy role))
        (case i of (orbit, n, d, sy, role) \<Rightarrow> cluster_unseen n d sy role)"
    by (cases "local_node n"; cases "coll.Status n"; cases "coll.Status d")
      (auto simp: i Cluster_def cluster_unseen_def Let_def split_beta)
qed

lemma Cluster_primary:
  assumes "coll.Status n = StatusOK" and "local_node n = Some me" and "ClusterNode.Type me = ''primary''"
    and "coll.Status d = StatusOK"
  shows "Result.Findings (Cluster orbit n d sy ''primary'') =
     (if 1 < length (active_primaries n) then [primaries_finding (active_primaries n)] else []) @
     map inactive_finding (filter (\<lambda>x. \<not> ClusterNode.Active x) (coll.Rows n)) @
     map (detached_finding me) (detached orbit n d me) @
     (case coll.Rows sy of
        [x] \<Rightarrow> if coll.Status sy = StatusOK then of_option (syncDegraded orbit x n d True me) else []
      | _ \<Rightarrow> [])"
  using assms by (simp add: Cluster_def Let_def split_beta role_mismatch_def split: list.splits)

end
