(* ===== verification/Scenario.thy ===== *)
theory Scenario
  imports ScenarioBase RuleSession RuleInst RuleSpace RuleFreeze RuleVacuum RuleSeq RuleParams RuleRepl RuleCluster
begin

text \<open>
  Package \<open>scenario\<close>, all but the two commands that sort (\<open>ScenarioOrder\<close>): per command, which rule
  judges, which probes the report carries and in what width, which redactions, which text layout.
  Go's \<open>Sessions\<close> of this package is \<open>Sessions_report\<close> here, since the rule has the same name, and so
  on for the other commands. A limit cuts the rows shown; the rules see every row.
\<close>

section \<open>Sessions, locks and transactions\<close>

record SessionsOptions =
  All :: bool
  Limit :: int
  Thresholds :: Thresholds

definition Sessions_report :: "Context \<Rightarrow> SessionActivity \<Rightarrow> SessionsOptions \<Rightarrow> Report" where
  "Sessions_report c a opt =
     (let rep = New ''sessions'' c (Sessions a (SessionsOptions.Thresholds opt));
          rep = add_probe SessionActivityID SessionColumns Session_Row a (SessionsOptions.Limit opt) rep;
          rep = AddRedacted (SessionActivity_Redacted a) rep
      in set_view (SessionsView (coll.Rows a) (SessionsOptions.All opt) (SessionsOptions.Limit opt)) rep)"

text \<open>The locks a session holds or waits for, and the waits it blocks.\<close>

definition involves :: "int32 \<Rightarrow> Lock \<Rightarrow> bool" where
  "involves pid x \<longleftrightarrow> Lock.PID x = Some pid \<or> pid \<in> set (Lock.BlockedBy x)"

definition drop_self :: "string \<Rightarrow> Finding \<Rightarrow> Finding" where
  "drop_self self f = f\<lparr>Finding.Next := filter (\<lambda>n. Next.Command n \<noteq> self) (Finding.Next f)\<rparr>"

definition activity_of :: "int32 \<Rightarrow> SessionActivity \<Rightarrow> SessionActivity" where
  "activity_of pid a = a\<lparr>coll.Rows := filter (\<lambda>s. Session.PID s = pid) (coll.Rows a)\<rparr>"

definition locks_of :: "int32 \<Rightarrow> LockList \<Rightarrow> LockList" where
  "locks_of pid l = l\<lparr>coll.Rows := filter (involves pid) (coll.Rows l)\<rparr>"

definition Session_report ::
    "Context \<Rightarrow> SessionActivity \<Rightarrow> LockList \<Rightarrow> int32 \<Rightarrow> Thresholds \<Rightarrow> Report \<times> bool" where
  "Session_report c a l pid th =
     (let act = activity_of pid a;
          locks = locks_of pid l;
          found = coll.Status a \<noteq> StatusOK \<or> coll.Rows act \<noteq> [];
          r = Merge [Sessions act th, Locks locks th];
          r = (if found then r else Merge [r, \<lparr>Result.Verdict = VerdictUNKNOWN, Result.Findings = []\<rparr>]);
          self = ''kbdiag session '' @ fmt_i pid;
          r = r\<lparr>Result.Findings := map (drop_self self) (Result.Findings r)\<rparr>;
          rep = New ''session'' c r;
          rep = add_probe SessionActivityID SessionColumns Session_Row act 0 rep;
          rep = add_probe LockListID LockColumns Lock_Row locks 0 rep;
          rep = AddRedacted (SessionActivity_Redacted act) rep;
          rep = AddRedacted (LockList_Redacted locks) rep
      in (set_view (SessionView pid act locks found) rep, found))"

definition deref :: "string option \<Rightarrow> string" where
  "deref s = (case s of None \<Rightarrow> [] | Some t \<Rightarrow> t)"

text \<open>What someone waits for: a blocker, and the object it is asked for.\<close>

definition contested :: "Lock list \<Rightarrow> (int32 \<times> string \<times> string) set" where
  "contested xs =
     set (concat (map (\<lambda>x. map (\<lambda>b. (b, Lock.Locktype x, deref (Lock.Relation x))) (Lock.BlockedBy x))
       (filter (\<lambda>x. \<not> Lock.Granted x) xs)))"

lemma contested_iff:
  "(b, t, r) \<in> contested xs \<longleftrightarrow>
   (\<exists>w. w \<in> set xs \<and> \<not> Lock.Granted w \<and> b \<in> set (Lock.BlockedBy w) \<and>
      Lock.Locktype w = t \<and> deref (Lock.Relation w) = r)"
  by (auto simp: contested_def)

definition lock_pid :: "Lock \<Rightarrow> int32" where
  "lock_pid x = (case Lock.PID x of None \<Rightarrow> PreparedBlocker | Some pid \<Rightarrow> pid)"

definition shown_locks :: "Lock list \<Rightarrow> Lock list" where
  "shown_locks xs =
     (let cs = contested xs
      in filter (\<lambda>x. \<not> Lock.Granted x \<or> (lock_pid x, Lock.Locktype x, deref (Lock.Relation x)) \<in> cs) xs)"

definition Locks_report :: "Context \<Rightarrow> LockList \<Rightarrow> int \<Rightarrow> Thresholds \<Rightarrow> Report" where
  "Locks_report c l limit th =
     (let rep = New ''locks'' c (Locks l th);
          rep = AddProbe LockListID (coll.Status l) (coll.Reason l) LockColumns
                  (rows Lock_Row (shown_locks (coll.Rows l))) limit rep;
          rep = AddRedacted (LockList_Redacted l) rep
      in set_view (LocksView (coll.Rows l) limit) rep)"

definition shown_txn :: "Session \<Rightarrow> bool" where
  "shown_txn s \<longleftrightarrow> Session_Masked s \<or> Session_Untracked s \<or> Session.XactAgeS s \<noteq> None \<or>
     Session.BackendXID s \<noteq> None \<or> Session.BackendXmin s \<noteq> None"

definition Txn_report :: "Context \<Rightarrow> SessionActivity \<Rightarrow> TxnPrepared \<Rightarrow> int \<Rightarrow> Thresholds \<Rightarrow> Report" where
  "Txn_report c a p limit th =
     (let rep = New ''txn'' c (Txn a p th);
          rep = AddProbe SessionActivityID (coll.Status a) (coll.Reason a) SessionColumns
                  (rows Session_Row (filter shown_txn (coll.Rows a))) limit rep;
          rep = add_probe TxnPreparedID PreparedColumns Prepared_Row p 0 rep;
          rep = AddRedacted (SessionActivity_Redacted a) rep
      in set_view (TxnView a p limit) rep)"

section \<open>The instance\<close>

definition Waits_report :: "Context \<Rightarrow> WaitSummary \<Rightarrow> Report" where
  "Waits_report c w =
     (let rep = New ''waits'' c (Waits w);
          rep = add_probe WaitSummaryID WaitColumns Wait_Row w 0 rep;
          rep = AddRedacted (WaitSummary_Redacted w) rep
      in set_view (WaitsView w) rep)"

definition Status_report ::
    "Context \<Rightarrow> InstInfo \<Rightarrow> InstDatabases \<Rightarrow> InstDownstreams \<Rightarrow> InstUpstream \<Rightarrow> InstDisk \<Rightarrow> Report" where
  "Status_report c i d n u disk =
     (let rep = New ''status'' c (Status_rule i d n u);
          rep = add_probe InstInfoID InfoColumns Info_Row i 0 rep;
          rep = add_probe InstDatabasesID DatabaseColumns Database_Row d 0 rep;
          rep = add_probe InstDownstreamsID DownstreamsColumns Downstream_Row n 0 rep;
          rep = add_probe InstUpstreamID UpstreamColumns Upstream_Row u 0 rep;
          rep = add_probe InstDiskID DiskColumns Disk_Row disk 0 rep;
          rep = AddRedacted (InstDatabases_Redacted d) rep;
          rep = AddRedacted (InstDownstreams_Redacted n) rep
      in AddRedacted (InstUpstream_Redacted u) rep)"

definition Slots_report :: "Context \<Rightarrow> SlotList \<Rightarrow> Report" where
  "Slots_report c l =
     (let rep = New ''slots'' c (Slots l);
          rep = add_probe SlotListID SlotColumns Slot_Row l 0 rep
      in set_view (SlotsView l) rep)"

definition Space_report ::
    "Context \<Rightarrow> InstDatabases \<Rightarrow> SpaceTablespaces \<Rightarrow> SpaceWAL \<Rightarrow> SpaceDisk \<Rightarrow> Report" where
  "Space_report c d t w disk =
     (let rep = New ''space'' c (Space d t w disk);
          rep = add_probe SpaceDiskID SpaceDiskColumns Mount_Row disk 0 rep;
          rep = add_probe SpaceWALID WALColumns WAL_Row w 0 rep;
          rep = add_probe InstDatabasesID DatabaseColumns Database_Row d 0 rep;
          rep = add_probe SpaceTablespacesID TablespaceColumns Tablespace_Row t 0 rep;
          rep = AddRedacted (InstDatabases_Redacted d) rep;
          rep = AddRedacted (SpaceTablespaces_Redacted t) rep
      in set_view (SpaceView disk) rep)"

definition Archive_report :: "Context \<Rightarrow> ArchiveStatus \<Rightarrow> ArchiveReady \<Rightarrow> Report" where
  "Archive_report c s r =
     (let rep = New ''archive'' c (Archive s (Context.Role c));
          rep = add_probe ArchiveStatusID ArchiveStatusColumns Archiver_Row s 0 rep;
          rep = add_probe ArchiveReadyID ArchiveReadyColumns ArchiveQueue_Row r 0 rep
      in set_view (ArchiveView s) rep)"

definition Checkpoint_report ::
    "Context \<Rightarrow> CheckpointStats \<Rightarrow> CheckpointLast \<Rightarrow> CheckpointSettings \<Rightarrow> Report" where
  "Checkpoint_report c s l cs =
     (let rep = New ''checkpoint'' c (Display False [coll.Status s, coll.Status l, coll.Status cs]);
          rep = add_probe CheckpointLastID CheckpointLastColumns LastCheckpoint_Row l 0 rep;
          rep = add_probe CheckpointStatsID CheckpointStatsColumns BGWriter_Row s 0 rep;
          rep = add_probe CheckpointSettingsID CheckpointSettingsColumns CheckpointSetting_Row cs 0 rep
      in set_view (CheckpointView s l cs) rep)"

definition Params_report :: "Context \<Rightarrow> ParamsChanged \<Rightarrow> Report" where
  "Params_report c p =
     (let rep = New ''params'' c (Params p);
          rep = add_probe ParamsChangedID ParamColumns Param_Row p 0 rep;
          rep = AddRedacted (ParamsChanged_Redacted p) rep
      in set_view (ParamsView p) rep)"

definition WAL_report :: "Context \<Rightarrow> WALPosition \<Rightarrow> SpaceWAL \<Rightarrow> SlotList \<Rightarrow> ArchiveReady \<Rightarrow> Report" where
  "WAL_report c p w s a =
     (let rep = New ''wal'' c (Display False [coll.Status p, coll.Status w, coll.Status s, coll.Status a]);
          rep = add_probe WALPositionID WALPositionColumns Position_Row p 0 rep;
          rep = add_probe SpaceWALID WALColumns WAL_Row w 0 rep;
          rep = add_probe SlotListID SlotColumns Slot_Row s 0 rep;
          rep = add_probe ArchiveReadyID ArchiveReadyColumns ArchiveQueue_Row a 0 rep
      in set_view (WALView p w s a) rep)"

section \<open>Replication\<close>

definition Repl_report ::
    "(nat \<Rightarrow> nat) \<Rightarrow> Context \<Rightarrow> ReplDownstreams \<Rightarrow> ReplSync \<Rightarrow> InstUpstream \<Rightarrow> ReplReplay \<Rightarrow> Report" where
  "Repl_report orbit c d s u r =
     (let rep = New ''repl'' c (Repl orbit d s u r);
          rep = add_probe ReplSyncID ReplSyncColumns SyncSetting_Row s 0 rep;
          rep = add_probe InstUpstreamID UpstreamColumns Upstream_Row u 0 rep;
          rep = add_probe ReplReplayID ReplReplayColumns Replay_Row r 0 rep;
          rep = add_probe ReplDownstreamsID ReplDownstreamColumns Replica_Row d 0 rep;
          rep = AddRedacted (InstUpstream_Redacted u) rep
      in set_view (ReplView d) rep)"

definition Cluster_report ::
    "(nat \<Rightarrow> nat) \<Rightarrow> Context \<Rightarrow> ClusterNodes \<Rightarrow> ClusterEvents \<Rightarrow> InstDownstreams \<Rightarrow> ClusterSyncs \<Rightarrow> Report" where
  "Cluster_report orbit c n e d s =
     (let rep = New ''cluster'' c (Cluster orbit n d s (Context.Role c));
          rep = add_probe ClusterNodesID ClusterNodeColumns ClusterNode_Row n 0 rep;
          rep = add_probe ClusterEventsID ClusterEventColumns ClusterEvent_Row e 0 rep;
          rep = add_probe InstDownstreamsID DownstreamsColumns Downstream_Row d 0 rep;
          rep = add_probe ClusterSyncID ClusterSyncColumns ClusterSync_Row s 0 rep
      in set_view (ClusterView n e d s) rep)"

section \<open>Tables\<close>

definition Freeze_report ::
    "(nat \<Rightarrow> bool) \<Rightarrow> Context \<Rightarrow> FreezeDatabases \<Rightarrow> FreezeTables \<Rightarrow> FreezeLimits \<Rightarrow> int \<Rightarrow> Report" where
  "Freeze_report uni c d t l limit =
     (let rep = New ''freeze'' c (Freeze uni d l (Context.Role c));
          rep = add_probe FreezeLimitsID FreezeLimitColumns FreezeLimit_Row l 0 rep;
          rep = add_probe FreezeDatabasesID FreezeDatabaseColumns FrozenDatabase_Row d 0 rep;
          rep = add_probe FreezeTablesID FreezeTableColumns FrozenTable_Row t limit rep
      in set_view FreezeView rep)"

text \<open>The zero value \<open>var set facts.VacuumSetting\<close>, kept when the settings were not read.\<close>

definition zero_setting :: VacuumSetting where
  "zero_setting = \<lparr>VacuumSetting.Autovacuum = [], VacuumSetting.TrackCounts = [],
     VacuumSetting.Threshold = 0, VacuumSetting.ScaleFactor = Fin 0, VacuumSetting.NaptimeS = 0,
     VacuumSetting.MaxWorkers = 0\<rparr>"

definition shown_setting :: "VacuumSettings \<Rightarrow> VacuumSetting" where
  "shown_setting s =
     (case coll.Rows s of x # _ \<Rightarrow> if coll.Status s = StatusOK then x else zero_setting | [] \<Rightarrow> zero_setting)"

definition Vacuum_report ::
    "Context \<Rightarrow> VacuumTables \<Rightarrow> VacuumProgress \<Rightarrow> VacuumSettings \<Rightarrow> int \<Rightarrow> Report" where
  "Vacuum_report c t p s limit =
     (let rep = New ''vacuum'' c (Vacuum t s (Context.Role c) (Context.Database c));
          rep = add_probe VacuumSettingsID VacuumSettingColumns VacuumSetting_Row s 0 rep;
          rep = add_probe VacuumProgressID VacuumProgressColumns VacuumRun_Row p 0 rep;
          rep = add_probe VacuumTablesID VacuumTableColumns VacuumTable_Row t limit rep;
          rep = AddRedacted (VacuumProgress_Redacted p) rep
      in set_view (VacuumView t (shown_setting s) limit) rep)"

definition TableKinds :: "string list" where
  "TableKinds = [''r'', ''p'', ''m'', ''t'']"

definition TableAfter :: "TableInfos \<Rightarrow> status \<times> string" where
  "TableAfter i =
     (if coll.Status i \<noteq> StatusOK then (StatusSkipped, ''table.info was not collected'')
      else (StatusNotApplicable, ''no such table''))"

definition table_found :: "TableInfos \<Rightarrow> bool" where
  "table_found i \<longleftrightarrow> coll.Status i \<noteq> StatusOK \<or>
     (case coll.Rows i of [x] \<Rightarrow> TableInfo.Relkind x \<in> set TableKinds | _ \<Rightarrow> False)"

definition Table_report ::
    "Context \<Rightarrow> TableInfos \<Rightarrow> TableSizes \<Rightarrow> TableStats \<Rightarrow> TableIndexes \<Rightarrow> FreezeLimits \<Rightarrow> VacuumSettings \<Rightarrow>
     Report \<times> bool" where
  "Table_report c i z s x l v =
     (let found = table_found i;
          r = (if found then Table i s l v (Context.Role c) (Context.Database c)
               else \<lparr>Result.Verdict = VerdictUNKNOWN, Result.Findings = []\<rparr>);
          rep = New ''table'' c r;
          rep = add_probe TableInfoID TableInfoColumns TableInfo_Row i 0 rep;
          rep = add_probe TableSizeID TableSizeColumns TableSize_Row z 0 rep;
          rep = add_probe TableStatsID TableStatsColumns TableStat_Row s 0 rep;
          rep = add_probe TableIndexesID TableIndexColumns TableIndex_Row x 0 rep;
          rep = add_probe FreezeLimitsID FreezeLimitColumns FreezeLimit_Row l 0 rep;
          rep = add_probe VacuumSettingsID VacuumSettingColumns VacuumSetting_Row v 0 rep
      in (set_view (TableView i z s x l v found) rep, found))"

definition TopObjects_report :: "Context \<Rightarrow> ObjectTables \<Rightarrow> ObjectIndexes \<Rightarrow> int \<Rightarrow> Report" where
  "TopObjects_report c t i limit =
     (let rep = New ''top-objects'' c (Display False [coll.Status t, coll.Status i]);
          rep = add_probe ObjectTablesID ObjectTableColumns ObjectTable_Row t limit rep;
          rep = add_probe ObjectIndexesID ObjectIndexColumns ObjectIndex_Row i limit rep
      in set_view TopObjectsView rep)"

definition Progress_report :: "Context \<Rightarrow> ProgressList \<Rightarrow> ProgressList \<Rightarrow> Report" where
  "Progress_report c p cp =
     (let hidden = ProgressList_Redacted ProgressListID p @ ProgressList_Redacted ProgressCheckpointID cp \<noteq> [];
          rep = New ''progress'' c (Display hidden [coll.Status p, coll.Status cp]);
          rep = add_probe ProgressListID ProgressColumns Operation_Row p 0 rep;
          rep = add_probe ProgressCheckpointID ProgressColumns Operation_Row cp 0 rep;
          rep = AddRedacted (ProgressList_Redacted ProgressListID p) rep;
          rep = AddRedacted (ProgressList_Redacted ProgressCheckpointID cp) rep
      in set_view (ProgressView p cp) rep)"

section \<open>The contract of the reports\<close>

text \<open>
  Every report is well formed: the builder starts from a well-formed report, and each step keeps
  it so because every row type has the width of its columns.
\<close>

lemmas report_defs =
  Sessions_report_def Session_report_def Locks_report_def Txn_report_def Waits_report_def Status_report_def
  Slots_report_def Space_report_def Archive_report_def Checkpoint_report_def Params_report_def WAL_report_def
  Repl_report_def Cluster_report_def Freeze_report_def Vacuum_report_def Table_report_def TopObjects_report_def
  Progress_report_def

lemmas wf_steps = wf_adds session_rows.wf_rows lock_rows.wf_rows

lemma wf_sessions:
  "wf_report (Sessions_report c a opt)" "wf_report (fst (Session_report c a l pid th))"
  "wf_report (Locks_report c l limit th)" "wf_report (Txn_report c a p limit th)"
  by (simp_all add: report_defs Let_def wf_steps)

lemma wf_instance:
  "wf_report (Waits_report c w)" "wf_report (Status_report c i d n u disk)" "wf_report (Slots_report c sl)"
  "wf_report (Space_report c d t wal mounts)" "wf_report (Archive_report c ar aq)"
  "wf_report (Checkpoint_report c cs cl cst)" "wf_report (Params_report c p)"
  "wf_report (WAL_report c pos wal sl aq)"
  by (simp_all add: report_defs Let_def wf_steps)

lemma wf_replication:
  "wf_report (Repl_report orbit c rd rs u rr)" "wf_report (Cluster_report orbit c n e d s)"
  by (simp_all add: report_defs Let_def wf_steps)

lemma wf_tables:
  "wf_report (Freeze_report uni c d t l limit)" "wf_report (Vacuum_report c vt p s limit)"
  "wf_report (fst (Table_report c i z ts x l s))" "wf_report (TopObjects_report c ot oi limit)"
  "wf_report (Progress_report c pl cp)"
  by (simp_all add: report_defs Let_def wf_steps)

end
