(* ===== verification/ScenarioOrder.thy ===== *)
theory ScenarioOrder
  imports Scenario "HOL-Library.List_Lexorder" "HOL-Library.Char_ord"
begin

text \<open>
  The two scenarios that sort before they cut (\<open>internal/scenario/{top,seq}.go\<close>). Go compares
  strings byte by byte, which is the lexicographic order of the library here. The comparators are
  strict weak orders (\<open>top_order\<close>, \<open>seq_order\<close>), so what \<open>sort.SliceStable\<close> returns is determined.
\<close>

section \<open>Statements\<close>

definition TopOrders :: "(string \<times> string) list" where
  "TopOrders = [
    (''time'', ''total execution time''), (''mean'', ''mean execution time''), (''calls'', ''calls''),
    (''io'', ''blocks read from outside shared buffers''), (''temp'', ''temporary blocks written'')]"

definition orEmpty :: "string option \<Rightarrow> string" where
  "orEmpty s = (case s of None \<Rightarrow> [] | Some t \<Rightarrow> t)"

definition top_key :: "string \<Rightarrow> Statement \<Rightarrow> flt" where
  "top_key by s =
     (if by = ''mean'' then Statement.MeanExecS s
      else if by = ''calls'' then f64_of_int (sint (Statement.Calls s))
      else if by = ''io'' then f64_of_int (sint (Statement.SharedBlksRead s))
      else if by = ''temp'' then f64_of_int (sint (Statement.TempBlksWritten s))
      else Statement.TotalExecS s)"

definition top_less :: "string \<Rightarrow> Statement \<Rightarrow> Statement \<Rightarrow> bool" where
  "top_less by a b =
     (if \<not> f_eq (top_key by a) (top_key by b) then f_less (top_key by b) (top_key by a)
      else if \<not> f_eq (Statement.TotalExecS a) (Statement.TotalExecS b)
        then f_less (Statement.TotalExecS b) (Statement.TotalExecS a)
      else if Statement.Calls a \<noteq> Statement.Calls b then sint (Statement.Calls b) < sint (Statement.Calls a)
      else if (Statement.QueryID a = None) \<noteq> (Statement.QueryID b = None) then Statement.QueryID a \<noteq> None
      else if Statement.QueryID a \<noteq> None \<and> Statement.QueryID a \<noteq> Statement.QueryID b
        then sint (the (Statement.QueryID a)) < sint (the (Statement.QueryID b))
      else orEmpty (Statement.Query a) < orEmpty (Statement.Query b))"

definition Top_report :: "Context \<Rightarrow> SQLTop \<Rightarrow> int \<Rightarrow> string \<Rightarrow> Report" where
  "Top_report c t limit by =
     (let t = t\<lparr>coll.Rows := slice_stable (top_less by) (coll.Rows t)\<rparr>;
          rep = New ''top'' c (Display (SQLTop_Redacted t \<noteq> []) [coll.Status t]);
          rep = add_probe SQLTopID TopColumns Statement_Row t limit rep;
          rep = AddRedacted (SQLTop_Redacted t) rep
      in set_view (TopView t (orEmpty (map_of TopOrders by)) limit) rep)"

text \<open>The comparator as a cascade of simple orders, on statements whose times are numbers.\<close>

definition timed :: "string \<Rightarrow> Statement \<Rightarrow> bool" where
  "timed by s \<longleftrightarrow> top_key by s \<noteq> FNaN \<and> Statement.TotalExecS s \<noteq> FNaN"

definition id_rank :: "Statement \<Rightarrow> int" where
  "id_rank s = (case Statement.QueryID s of None \<Rightarrow> 2 ^ 63 | Some i \<Rightarrow> sint i)"

definition top_cascade :: "string \<Rightarrow> Statement \<Rightarrow> Statement \<Rightarrow> bool" where
  "top_cascade by = then_less (\<lambda>x y. f_less (top_key by y) (top_key by x))
     (then_less (\<lambda>x y. f_less (Statement.TotalExecS y) (Statement.TotalExecS x))
     (then_less (\<lambda>x y. sint (Statement.Calls y) < sint (Statement.Calls x))
     (then_less (\<lambda>x y. id_rank x < id_rank y)
       (\<lambda>x y. orEmpty (Statement.Query x) < orEmpty (Statement.Query y)))))"

lemma top_cascade_order: "slice_order (timed by) (top_cascade by)"
proof -
  have key: "slice_order (timed by) (\<lambda>x y. f_less (top_key by y) (top_key by x))"
    by (rule slice_order_mono [OF slice_order_f_greater]) (simp add: timed_def)
  have total: "slice_order (timed by) (\<lambda>x y. f_less (Statement.TotalExecS y) (Statement.TotalExecS x))"
    by (rule slice_order_mono [OF slice_order_f_greater]) (simp add: timed_def)
  show ?thesis
    unfolding top_cascade_def
    by (rule slice_order_then [OF key slice_order_then [OF total slice_order_then [OF slice_order_down
          slice_order_then [OF slice_order_up slice_order_up]]]])
qed

lemma id_rank_less:
  "(if (Statement.QueryID a = None) \<noteq> (Statement.QueryID b = None) then Statement.QueryID a \<noteq> None
    else if Statement.QueryID a \<noteq> None \<and> Statement.QueryID a \<noteq> Statement.QueryID b
      then sint (the (Statement.QueryID a)) < sint (the (Statement.QueryID b))
    else r) \<longleftrightarrow> id_rank a < id_rank b \<or> (\<not> id_rank b < id_rank a \<and> r)"
proof -
  have bound: "sint w < 2 ^ 63" for w :: int64 by (rule sint64_bounds)
  have le: "sint v \<le> sint w \<longleftrightarrow> v = w \<or> sint v < sint w" for v w :: int64
    using sint_neq [of v w] by fastforce
  show ?thesis
    using bound
    by (cases "Statement.QueryID a"; cases "Statement.QueryID b") (auto simp: id_rank_def not_less less_imp_le le)
qed

lemma top_less_cascade: "timed by x \<Longrightarrow> timed by y \<Longrightarrow> top_less by x y = top_cascade by x y"
  using sint_neq [of "Statement.Calls x" "Statement.Calls y"]
  unfolding top_less_def id_rank_less
  by (auto simp: top_cascade_def then_less_def timed_def f_eq_iff_level)

interpretation top_order: slice_order "timed by" "top_less by"
  by (rule slice_order_cong [OF top_cascade_order]) (rule top_less_cascade)

section \<open>Sequences\<close>

text \<open>The share of its range a sequence has used, 0 when there is none to speak of.\<close>

definition seq_used :: "Sequence \<Rightarrow> flt \<times> bool" where
  "seq_used s = (case SeqLeft s of None \<Rightarrow> (Fin 0, False) | Some (left, u) \<Rightarrow> (u, True))"

definition seq_name :: "Sequence \<Rightarrow> string" where
  "seq_name s = Sequence.Schemaname s @ ''.'' @ Sequence.Sequencename s"

definition seq_less :: "Sequence \<Rightarrow> Sequence \<Rightarrow> bool" where
  "seq_less x y =
     (let (a, aok) = seq_used x; (b, bok) = seq_used y
      in if aok \<noteq> bok then aok
         else if \<not> f_eq a b then f_less b a
         else seq_name x < seq_name y)"

definition Seq_report :: "Context \<Rightarrow> SeqList \<Rightarrow> int \<Rightarrow> Report" where
  "Seq_report c l limit =
     (let l = l\<lparr>coll.Rows := slice_stable seq_less (coll.Rows l)\<rparr>;
          rep = New ''seq'' c (Seq l (Context.Role c));
          rep = add_probe SeqListID SeqColumns Sequence_Row l limit rep;
          rep = AddRedacted (SeqList_Redacted l) rep
      in set_view (SeqView l limit) rep)"

text \<open>The used share is always a number, so the order needs no condition.\<close>

lemma big_quo_number: "big_quo a b \<noteq> FNaN"
  using round_fmt_number by (auto simp: big_quo_def rnd64_def split: flt.splits)

lemma SeqLeft_number: "SeqLeft s = Some (left, u) \<Longrightarrow> u \<noteq> FNaN"
  using f_clamp_number [OF big_quo_number]
  by (auto simp: SeqLeft_def Let_def simp del: max.bounded_iff split: option.splits if_splits)

lemma seq_used_number: "fst (seq_used s) \<noteq> FNaN"
  by (auto simp: seq_used_def dest: SeqLeft_number split: option.splits)

lemma seq_less_cascade:
  "seq_less = then_less (\<lambda>x y. (if snd (seq_used x) then 0 else 1 :: nat) < (if snd (seq_used y) then 0 else 1))
     (then_less (\<lambda>x y. f_less (fst (seq_used y)) (fst (seq_used x))) (\<lambda>x y. seq_name x < seq_name y))"
  using seq_used_number
  by (auto simp: fun_eq_iff seq_less_def then_less_def f_eq_iff_level split_beta)

interpretation seq_order: slice_order "\<lambda>_. True" seq_less
proof -
  have used: "slice_order (\<lambda>_. True) (\<lambda>x y. f_less (fst (seq_used y)) (fst (seq_used x)))"
    by (rule slice_order_mono [OF slice_order_f_greater]) (rule seq_used_number)
  show "slice_order (\<lambda>_. True) seq_less"
    unfolding seq_less_cascade
    by (rule slice_order_then [OF slice_order_up slice_order_then [OF used slice_order_up]])
qed

end
