(* ===== verification/ScenarioSpec.thy ===== *)
theory ScenarioSpec
  imports ScenarioOrder
begin

text \<open>
  What the reports of package \<open>scenario\<close> promise: well-formed tables, a limit that only narrows what
  is shown, the rows \<open>locks\<close>, \<open>txn\<close> and \<open>session\<close> choose, and the orders of \<open>top\<close> and \<open>seq\<close>.
\<close>

section \<open>Tables\<close>

text \<open>
  \<open>AddProbe\<close> on a table of \<open>n\<close> rows: under its id the report then holds the given status and
  columns, and the reason unless it is empty; the rows are the first \<open>limit\<close> of them, all when the
  limit is not positive, none when the status is not ok; what is shown and what \<open>Truncated\<close> counts
  add up to \<open>n\<close> when it is ok. No other probe of the report changes.
\<close>

theorem AddProbe_spec:
  "\<exists>p. probe_of (AddProbe i st reason cols xs limit rep) i = Some p \<and>
     Probe.Status p = st \<and> Probe.Columns p = cols \<and>
     Probe.Reason p = (if reason = '''' then None else Some reason) \<and>
     Probe.Rows p = (if st \<noteq> StatusOK then [] else if limit \<le> 0 then xs else take (nat limit) xs) \<and>
     int (length (Probe.Rows p)) + Probe.Truncated p = (if st = StatusOK then int (length xs) else 0) \<and>
     (\<forall>j. j = i \<or> probe_of (AddProbe i st reason cols xs limit rep) j = probe_of rep j)"
  by (rule exI [of _ "new_probe st reason cols xs limit"])
    (auto simp: new_probe_truncated cut_limit_def)

section \<open>Well-formed reports\<close>

lemma wf_top: "wf_report (Top_report c t limit by)"
  by (simp add: Top_report_def Let_def wf_steps)

lemma wf_seq: "wf_report (Seq_report c l limit)"
  by (simp add: Seq_report_def Let_def wf_steps)

text \<open>
  C28. Every command's report keeps the column contract: no probe id twice, in every table as many
  cells as columns, no rows under a probe that was not collected, and a count of cut rows only where
  rows are shown.
\<close>

theorem reports_well_formed:
  "wf_report (Sessions_report c a opt) \<and> wf_report (fst (Session_report c a l pid th)) \<and>
   wf_report (Locks_report c l limit th) \<and> wf_report (Txn_report c a prep limit th) \<and>
   wf_report (Waits_report c w) \<and> wf_report (Status_report c i d n u disk) \<and>
   wf_report (Slots_report c sl) \<and> wf_report (Space_report c d t wal mounts) \<and>
   wf_report (Archive_report c ar aq) \<and> wf_report (Checkpoint_report c cs cl cst) \<and>
   wf_report (Params_report c par) \<and> wf_report (WAL_report c pos wal sl aq) \<and>
   wf_report (Repl_report orbit c rd rs u rr) \<and> wf_report (Cluster_report orbit c nodes ev n sync) \<and>
   wf_report (Freeze_report uni c fd ft fl limit) \<and> wf_report (Vacuum_report c vt vp vs limit) \<and>
   wf_report (fst (Table_report c ti tz ts tx fl vs)) \<and> wf_report (TopObjects_report c ot oi limit) \<and>
   wf_report (Progress_report c pl cp) \<and> wf_report (Top_report c st limit by) \<and>
   wf_report (Seq_report c seqs limit)"
  by (simp only: wf_sessions wf_instance wf_replication wf_tables wf_top wf_seq simp_thms)

section \<open>Limits\<close>

lemmas limit_reports =
  Sessions_report_def Locks_report_def Txn_report_def Freeze_report_def Vacuum_report_def TopObjects_report_def
  Top_report_def Seq_report_def

text \<open>
  C29. The limit a user gives never changes what is judged: against the same command without one, the
  report has the same verdict, findings, redactions and probes, and each table it shows is whole or
  cut at that limit. For \<open>sessions\<close> the same holds whatever \<open>--all\<close> says.
\<close>

theorem limit_only_narrows:
  "narrows m (Sessions_report c a (opt\<lparr>SessionsOptions.All := all, SessionsOptions.Limit := m\<rparr>))
     (Sessions_report c a (opt\<lparr>SessionsOptions.Limit := 0\<rparr>)) \<and>
   narrows m (Locks_report c l m th) (Locks_report c l 0 th) \<and>
   narrows m (Txn_report c a p m th) (Txn_report c a p 0 th) \<and>
   narrows m (Freeze_report uni c fd ft fl m) (Freeze_report uni c fd ft fl 0) \<and>
   narrows m (Vacuum_report c vt vp vs m) (Vacuum_report c vt vp vs 0) \<and>
   narrows m (TopObjects_report c ot oi m) (TopObjects_report c ot oi 0) \<and>
   narrows m (Top_report c st m by) (Top_report c st 0 by) \<and>
   narrows m (Seq_report c seqs m) (Seq_report c seqs 0)"
proof -
  note defs = narrows_def same_judgement_def shown_rows_def limit_reports Let_def add_probe_def
  show ?thesis
    by (intro conjI) (simp_all add: defs)
qed

section \<open>The rows a command chooses\<close>

text \<open>
  \<open>locks\<close> shows every lock that is waited for, and of the granted ones those its direct blockers
  hold on the same object: same lock type, same relation, a two-phase transaction's locks going by
  the pid 0. The order is the probe's.
\<close>

theorem Locks_shown:
  "shown_rows (Locks_report c l 0 th) LockListID =
     (if coll.Status l \<noteq> StatusOK then [] else
      map Lock_Row (filter (\<lambda>x. if Lock.Granted x
        then \<exists>w. w \<in> set (coll.Rows l) \<and> \<not> Lock.Granted w \<and>
           (case Lock.PID x of None \<Rightarrow> PreparedBlocker | Some pid \<Rightarrow> pid) \<in> set (Lock.BlockedBy w) \<and>
           Lock.Locktype w = Lock.Locktype x \<and> deref (Lock.Relation w) = deref (Lock.Relation x)
        else True) (coll.Rows l)))"
  by (simp add: shown_rows_def Locks_report_def Let_def shown_locks_def rows_def contested_iff lock_pid_def)


text \<open>
  \<open>txn\<close> shows the sessions that are in a transaction or may be: an xid, an xmin, a start time, or
  a row that KES hides or does not track; and every two-phase transaction, whatever the limit.
\<close>

theorem Txn_shown:
  "shown_rows (Txn_report c a p limit th) SessionActivityID =
     (if coll.Status a \<noteq> StatusOK then [] else
      cut_limit limit (map Session_Row (filter (\<lambda>s. Session_Masked s \<or> Session_Untracked s \<or>
        (\<exists>t. Session.XactAgeS s = Some t) \<or> (\<exists>x. Session.BackendXID s = Some x) \<or>
        (\<exists>x. Session.BackendXmin s = Some x)) (coll.Rows a)))) \<and>
   shown_rows (Txn_report c a p limit th) TxnPreparedID =
     (if coll.Status p \<noteq> StatusOK then [] else map Prepared_Row (coll.Rows p))"
  by (simp add: shown_rows_def Txn_report_def Let_def rows_def shown_txn_def [abs_def] TxnPreparedID_def
      SessionActivityID_def)

section \<open>Orders\<close>

lemma top_less_key: "\<not> top_less by y x \<Longrightarrow> \<not> f_less (top_key by x) (top_key by y)"
  using f_eq_not_less [of "top_key by y" "top_key by x"] by (auto simp: top_less_def split: if_splits)

text \<open>
  \<open>top\<close> shows the statements in the order \<open>--by\<close> asks for and cuts afterwards: there is exactly
  one stable sort of the probe's rows by the comparator, the rows shown are the first \<open>limit\<close> of it,
  and in it no statement stands after one with a smaller key. The times the view reports are numbers.
\<close>

theorem Top_order:
  assumes "\<forall>s\<in>set (coll.Rows t). timed by s"
  shows "(\<exists>!ys. stable_sort_of (top_less by) (coll.Rows t) ys) \<and>
    (\<exists>ys. stable_sort_of (top_less by) (coll.Rows t) ys \<and>
       sorted_wrt (\<lambda>x y. \<not> f_less (top_key by x) (top_key by y)) ys \<and>
       shown_rows (Top_report c t limit by) SQLTopID =
         (if coll.Status t = StatusOK then cut_limit limit (map Statement_Row ys) else []))"
proof -
  let ?ys = "slice_stable (top_less by) (coll.Rows t)"
  note sort = top_order.stable_sort_iff [OF assms]
  have "in_order (top_less by) ?ys" by (rule top_order.in_order_slice_stable [OF assms])
  then have "sorted_wrt (\<lambda>x y. \<not> f_less (top_key by x) (top_key by y)) ?ys"
    unfolding in_order_def by (rule sorted_wrt_mono_rel [rotated]) (rule top_less_key)
  then have shown: "stable_sort_of (top_less by) (coll.Rows t) ?ys \<and>
      sorted_wrt (\<lambda>x y. \<not> f_less (top_key by x) (top_key by y)) ?ys \<and>
      shown_rows (Top_report c t limit by) SQLTopID =
        (if coll.Status t = StatusOK then cut_limit limit (map Statement_Row ?ys) else [])"
    by (simp add: sort shown_rows_def Top_report_def Let_def)
  have "\<exists>!ys. stable_sort_of (top_less by) (coll.Rows t) ys" by (simp add: sort)
  then show ?thesis by (rule conjI) (rule exI [of _ ?ys], rule shown)
qed

text \<open>Two statements, the cheaper one first in the view.\<close>

definition demo_statement :: "rat \<Rightarrow> Statement" where
  "demo_statement q = \<lparr>Statement.QueryID = None, Statement.Username = None, Statement.Datname = None,
     Statement.Calls = 1, Statement.TotalExecS = Fin q, Statement.MeanExecS = Fin q, Statement.MaxExecS = Fin q,
     Statement.Rows = 0, Statement.SharedBlksHit = 0, Statement.SharedBlksRead = 0,
     Statement.TempBlksWritten = 0, Statement.Query = None\<rparr>"

definition demo_top :: SQLTop where
  "demo_top = \<lparr>coll.Status = StatusOK, coll.Reason = [], coll.Rows = [demo_statement 1, demo_statement 2],
     SQLTop.Track = ''top''\<rparr>"

definition demo_context :: Context where
  "demo_context = \<lparr>Context.Version = ''V009R001C010'', Context.Role = ''primary'', Context.Location = ''local'',
     Context.User = ''system'', Context.Database = ''test'',
     Context.CollectedAt = \<lparr>gotime.Unix = 0, gotime.Nanos = 0, gotime.Offset = 0\<rparr>\<rparr>"

theorem Top_order_witness:
  "\<exists>ys. stable_sort_of (top_less ''time'') (coll.Rows demo_top) ys \<and>
     shown_rows (Top_report demo_context demo_top 1 ''time'') SQLTopID = cut_limit 1 (map Statement_Row ys)"
proof -
  have "\<forall>s\<in>set (coll.Rows demo_top). timed ''time'' s"
    by (simp add: demo_top_def demo_statement_def timed_def top_key_def)
  from Top_order [OF this, of demo_context 1] show ?thesis
    by (auto simp: demo_top_def)
qed

text \<open>
  \<open>seq\<close> shows the sequences whose use can be told first, the most used ones before the others,
  and cuts afterwards; level ones go by name, so that there is exactly one stable sort.
\<close>

theorem Seq_order:
  "(\<exists>!ys. stable_sort_of seq_less (coll.Rows l) ys) \<and>
   (\<exists>ys. stable_sort_of seq_less (coll.Rows l) ys \<and>
      sorted_wrt (\<lambda>x y. case (SeqLeft x, SeqLeft y) of
         (None, Some q) \<Rightarrow> False | (Some p, Some q) \<Rightarrow> \<not> f_less (snd p) (snd q) | _ \<Rightarrow> True) ys \<and>
      shown_rows (Seq_report c l limit) SeqListID =
        (if coll.Status l = StatusOK then cut_limit limit (map Sequence_Row ys) else []))"
proof -
  let ?ys = "slice_stable seq_less (coll.Rows l)"
  let ?first = "\<lambda>x y. case (SeqLeft x, SeqLeft y) of
      (None, Some q) \<Rightarrow> False | (Some p, Some q) \<Rightarrow> \<not> f_less (snd p) (snd q) | _ \<Rightarrow> True"
  have all: "\<forall>x\<in>set (coll.Rows l). True" by simp
  note sort = seq_order.stable_sort_iff [OF all]
  have "?first x y" if "\<not> seq_less y x" for x y
    using that f_eq_not_less [of "fst (seq_used y)" "fst (seq_used x)"]
    by (auto simp: seq_less_def seq_used_def split_beta split: option.splits if_splits)
  moreover have "in_order seq_less ?ys" by (rule seq_order.in_order_slice_stable [OF all])
  ultimately have "sorted_wrt ?first ?ys"
    unfolding in_order_def by (rule sorted_wrt_mono_rel)
  then have shown: "stable_sort_of seq_less (coll.Rows l) ?ys \<and> sorted_wrt ?first ?ys \<and>
      shown_rows (Seq_report c l limit) SeqListID =
        (if coll.Status l = StatusOK then cut_limit limit (map Sequence_Row ?ys) else [])"
    by (simp add: sort shown_rows_def Seq_report_def Let_def)
  have "\<exists>!ys. stable_sort_of seq_less (coll.Rows l) ys" by (simp add: sort)
  then show ?thesis by (rule conjI) (rule exI [of _ ?ys], rule shown)
qed

end
