(* ===== verification/ProbeCore.thy ===== *)
theory ProbeCore
  imports FactsSession FactsInst FactsSpace FactsRepl "HOL-Library.State_Monad"
begin

text \<open>
  Package \<open>probe\<close>, what every probe does (\<open>internal/probe/probe.go\<close>): run one statement, scan its
  rows, and turn a failure into the status of the probe. The connection is the library \<open>pgx\<close> and the
  server behind it: a record of what each kind of query answers. An answer may depend on everything
  sent before it, so a probe runs in the state monad over the connection, which keeps what was sent.
\<close>

section \<open>Errors\<close>

text \<open>
  Go's \<open>error\<close> as the program uses it: the text \<open>Error()\<close> returns and, when \<open>errors.As\<close> finds a
  \<open>*pgconn.PgError\<close> in its chain, that error's code and message.
\<close>

record goerr =
  Text :: string
  Pg :: "(string \<times> string) option"

text \<open>\<open>fmt.Errorf("...: %w", err)\<close>.\<close>

definition wrap_error :: "string \<Rightarrow> goerr \<Rightarrow> goerr" where
  "wrap_error prefix e = \<lparr>goerr.Text = prefix @ goerr.Text e, goerr.Pg = goerr.Pg e\<rparr>"

definition plain_error :: "string \<Rightarrow> goerr" where
  "plain_error s = \<lparr>goerr.Text = s, goerr.Pg = None\<rparr>"

definition classify :: "goerr \<Rightarrow> status \<times> string" where
  "classify e = (case goerr.Pg e of
       None \<Rightarrow> (StatusError, goerr.Text e)
     | Some (code, message) \<Rightarrow>
         let reason = code @ '': '' @ message
         in if code \<in> {''57014'', ''55P03''} then (StatusSkipped, ''timeout '' @ reason)
            else if code = ''42501'' then (StatusSkipped, ''insufficient_privilege '' @ reason)
            else (StatusError, reason))"

section \<open>Statements\<close>

text \<open>
  The SQL of each probe, named by the constant that holds it; two are completed by \<open>fmt.Sprintf\<close>
  before they are sent. What a statement means is the server's.
\<close>

datatype statement =
    IdentifySQL
  | TrackActivitiesSQL
  | TrackCountsSQL
  | SessionActivitySQL
  | LockListSQL
  | TxnPreparedSQL
  | WaitSummarySQL
  | InstInfoSQL
  | InstDatabasesSQL
  | InstDownstreamsSQL
  | InstUpstreamSQL
  | SlotListSQL
  | WalPositionSQL
  | SpaceTablespacesSQL
  | SpaceWALSQL
  | ArchiveStatusSQL
  | ArchiveReadySQL
  | CheckpointStatsSQL
  | CheckpointLastSQL
  | CheckpointSettingsSQL
  | ParamsChangedSQL
  | ReplDownstreamsSQL
  | ReplSyncSQL
  | ReplReplaySQL
  | ClusterSchemaSQL
  | LocalNodeExistsSQL
  | LocalNodeIDSQL
  | ClusterNodesSQL
  | ClusterEventsSQL
  | ClusterSyncSQL
  | FreezeDatabasesSQL
  | FreezeTablesSQL
  | FreezeLimitsSQL
  | VacuumTablesSQL
  | VacuumProgressSQL
  | VacuumSettingsSQL
  | TableInfoSQL
  | TableSizeSQL
  | TableStatsSQL
  | TableIndexesSQL string
  | ObjectTablesSQL
  | ObjectIndexesSQL
  | SeqListSQL
  | TopCheckSQL
  | SqlTopSQL string
  | ProgressListSQL
  | ProgressCheckpointSQL

datatype arg = ArgInt "int32 option" | ArgOID uint32 | ArgText string

type_synonym request = "statement \<times> arg list"

text \<open>
  A query that returns rows fails when it is sent (\<open>x.Query\<close>), while its rows are collected and
  scanned (\<open>pgx.CollectRows\<close>), or not at all; \<open>QueryRow(...).Scan(...)\<close> fails or gives its one row.
  A statement is answered from the requests sent so far, itself the last of them.
\<close>

datatype 'a reply = QueryErr goerr | CollectErr goerr | Collected "'a list"

type_synonym 'a rows_server = "request list \<Rightarrow> 'a reply"
type_synonym 'a row_server = "request list \<Rightarrow> goerr + 'a"

record Conn =
  Sent :: "request list"
  AskText :: "string row_server"
  AskBool :: "bool row_server"
  AskID :: "int32 option row_server"
  AskTop :: "(string option \<times> string option) row_server"
  AskConf :: "(string option \<times> string option \<times> string option) row_server"
  AskIdentity :: "(string \<times> bool \<times> string \<times> string) row_server"
  AskSessions :: "Session rows_server"
  AskLocks :: "Lock rows_server"
  AskPrepared :: "Prepared rows_server"
  AskWaits :: "Wait rows_server"
  AskInfo :: "Info rows_server"
  AskDatabases :: "Database rows_server"
  AskDownstreams :: "Downstream rows_server"
  AskUpstream :: "Upstream rows_server"
  AskSlots :: "Slot rows_server"
  AskPosition :: "Position rows_server"
  AskTablespaces :: "Tablespace rows_server"
  AskWAL :: "WAL rows_server"
  AskArchiver :: "Archiver rows_server"
  AskQueue :: "ArchiveQueue rows_server"
  AskBGWriter :: "BGWriter rows_server"
  AskLastCheckpoint :: "LastCheckpoint rows_server"
  AskCheckpointSetting :: "CheckpointSetting rows_server"
  AskParams :: "Param rows_server"
  AskReplicas :: "Replica rows_server"
  AskSyncSetting :: "SyncSetting rows_server"
  AskReplay :: "Replay rows_server"
  AskNodes :: "ClusterNode rows_server"
  AskEvents :: "ClusterEvent rows_server"
  AskFrozenDatabases :: "FrozenDatabase rows_server"
  AskFrozenTables :: "FrozenTable rows_server"
  AskFreezeLimit :: "FreezeLimit rows_server"
  AskVacuumTables :: "VacuumTable rows_server"
  AskVacuumRuns :: "VacuumRun rows_server"
  AskVacuumSetting :: "VacuumSetting rows_server"
  AskTableInfo :: "TableInfo rows_server"
  AskTableSize :: "TableSize rows_server"
  AskTableStat :: "TableStat rows_server"
  AskTableIndexes :: "TableIndex rows_server"
  AskObjectTables :: "ObjectTable rows_server"
  AskObjectIndexes :: "ObjectIndex rows_server"
  AskSequences :: "Sequence rows_server"
  AskStatements :: "Statement rows_server"
  AskOperations :: "Operation rows_server"

type_synonym 'a query = "(Conn, 'a) state"

definition ask :: "(Conn \<Rightarrow> request list \<Rightarrow> 'r) \<Rightarrow> statement \<Rightarrow> arg list \<Rightarrow> 'r query" where
  "ask server st args = State (\<lambda>x.
     let sent = Conn.Sent x @ [(st, args)] in (server x sent, x\<lparr>Conn.Sent := sent\<rparr>))"

section \<open>Collecting\<close>

definition collectArgs ::
    "(Conn \<Rightarrow> 'a rows_server) \<Rightarrow> statement \<Rightarrow> arg list \<Rightarrow> (status \<times> string \<times> 'a list) query" where
  "collectArgs server st args = do {
     r \<leftarrow> ask server st args;
     State_Monad.return (case r of
         QueryErr e \<Rightarrow> (case classify e of (status, reason) \<Rightarrow> (status, reason, []))
       | CollectErr e \<Rightarrow> (case classify e of (status, reason) \<Rightarrow> (status, reason, []))
       | Collected out \<Rightarrow> (StatusOK, [], out))
   }"

definition collect :: "(Conn \<Rightarrow> 'a rows_server) \<Rightarrow> statement \<Rightarrow> (status \<times> string \<times> 'a list) query" where
  "collect server st = collectArgs server st []"

text \<open>What a probe returns: the three values in its own struct.\<close>

definition as_coll :: "status \<times> string \<times> 'a list \<Rightarrow> 'a coll" where
  "as_coll = (\<lambda>(st, reason, out). \<lparr>coll.Status = st, coll.Reason = reason, coll.Rows = out\<rparr>)"

definition not_read :: "status \<Rightarrow> string \<Rightarrow> 'a coll" where
  "not_read st reason = \<lparr>coll.Status = st, coll.Reason = reason, coll.Rows = []\<rparr>"

definition trackActivities :: "(status \<times> string) query" where
  "trackActivities = do {
     r \<leftarrow> ask AskText TrackActivitiesSQL [];
     State_Monad.return (case r of
         Inl e \<Rightarrow> classify e
       | Inr track \<Rightarrow>
           if track \<noteq> ''on''
           then (StatusSkipped, ''track_activities='' @ track @ '': session states and SQL are not recorded'')
           else (StatusOK, []))
   }"

text \<open>The same question about \<open>track_counts\<close>, written out in \<open>VacuumTables\<close> and \<open>TableStats\<close>.\<close>

definition trackCounts :: "(status \<times> string) query" where
  "trackCounts = do {
     r \<leftarrow> ask AskText TrackCountsSQL [];
     State_Monad.return (case r of
         Inl e \<Rightarrow> classify e
       | Inr track \<Rightarrow>
           if track \<noteq> ''on''
           then (StatusSkipped, ''track_counts='' @ track @ '': table statistics are not collected'')
           else (StatusOK, []))
   }"

section \<open>What holds of every probe\<close>

text \<open>An error never reads as collected, and never as something that does not apply here.\<close>

lemma classify_status: "fst (classify e) = StatusSkipped \<or> fst (classify e) = StatusError"
  by (auto simp: classify_def Let_def split: option.split)

lemma classify_not_ok [simp]:
  "fst (classify e) \<noteq> StatusOK" "fst (classify e) \<noteq> StatusNotApplicable" "classify e \<noteq> (StatusOK, r)"
  "classify e \<noteq> (StatusNotApplicable, r)"
  using classify_status [of e] by auto

text \<open>\<open>honest\<close>: rows only under the status ok, and ok without a reason.\<close>

definition honest :: "('a, 'm) coll_scheme \<Rightarrow> bool" where
  "honest c \<longleftrightarrow> (if coll.Status c = StatusOK then coll.Reason c = [] else coll.Rows c = [])"

lemma honest_not_read [simp]: "honest (not_read st r) \<longleftrightarrow> (if st = StatusOK then r = [] else True)"
  by (simp add: honest_def not_read_def)

lemma not_read_simps [simp]:
  "coll.Status (not_read st r) = st" "coll.Reason (not_read st r) = r" "coll.Rows (not_read st r) = []"
  by (simp_all add: not_read_def)

lemma as_coll_simps [simp]:
  "coll.Status (as_coll (st, r, xs)) = st" "coll.Reason (as_coll (st, r, xs)) = r"
  "coll.Rows (as_coll (st, r, xs)) = xs" "coll.more (as_coll (st, r, xs)) = ()"
  by (simp_all add: as_coll_def)

text \<open>A query sends one request, at the end.\<close>

definition sent_by :: "Conn \<Rightarrow> Conn \<Rightarrow> request list \<Rightarrow> bool" where
  "sent_by x x' new \<longleftrightarrow> x' = x\<lparr>Conn.Sent := Conn.Sent x @ new\<rparr>"

lemma sent_by_refl: "sent_by x x []"
  by (simp add: sent_by_def)

lemma sent_by_trans: "sent_by x y new \<Longrightarrow> sent_by y z new' \<Longrightarrow> sent_by x z (new @ new')"
  by (simp add: sent_by_def)

lemma run_ask [simp]:
  "run_state (ask server st args) x =
     (server x (Conn.Sent x @ [(st, args)]), x\<lparr>Conn.Sent := Conn.Sent x @ [(st, args)]\<rparr>)"
  by (simp add: ask_def Let_def)

text \<open>What \<open>collectArgs\<close> returns, from the server's reply.\<close>

definition read_reply :: "'a reply \<Rightarrow> status \<times> string \<times> 'a list" where
  "read_reply r = (case r of
       QueryErr e \<Rightarrow> (fst (classify e), snd (classify e), [])
     | CollectErr e \<Rightarrow> (fst (classify e), snd (classify e), [])
     | Collected out \<Rightarrow> (StatusOK, [], out))"

lemma run_collectArgs [simp]:
  "run_state (collectArgs server st args) x =
     (read_reply (server x (Conn.Sent x @ [(st, args)])), x\<lparr>Conn.Sent := Conn.Sent x @ [(st, args)]\<rparr>)"
  by (simp add: collectArgs_def read_reply_def split_beta split: reply.split)

lemma run_collect [simp]:
  "run_state (collect server st) x =
     (read_reply (server x (Conn.Sent x @ [(st, [])])), x\<lparr>Conn.Sent := Conn.Sent x @ [(st, [])]\<rparr>)"
  by (simp add: collect_def)

lemma honest_reply [simp]: "honest (as_coll (read_reply r))"
  by (simp add: read_reply_def honest_def split: reply.split)

lemma status_reply: "coll.Status (as_coll (read_reply r)) = StatusOK \<longleftrightarrow> (\<exists>out. r = Collected out)"
  by (simp add: read_reply_def split: reply.split)

lemma rows_reply: "coll.Rows (as_coll (read_reply r)) = (case r of Collected out \<Rightarrow> out | _ \<Rightarrow> [])"
  by (simp add: read_reply_def split: reply.split)


section \<open>The contract of a probe\<close>

text \<open>
  What the commands rely on: a probe that could not be read carries no rows, one that was read carries
  no reason, and the connection is only asked, never changed in what it would answer.
\<close>

locale probe_contract =
  fixes run :: "('a, 'm) coll_scheme query"
  assumes honest_run: "honest (fst (run_state run x))"
    and asks_only: "\<exists>new. sent_by x (snd (run_state run x)) new"
begin

lemma rows_need_ok: "coll.Rows (fst (run_state run x)) \<noteq> [] \<Longrightarrow> coll.Status (fst (run_state run x)) = StatusOK"
  using honest_run [of x] by (auto simp: honest_def split: if_splits)

lemma sent_grows: "\<exists>new. Conn.Sent (snd (run_state run x)) = Conn.Sent x @ new"
  using asks_only [of x] by (auto simp: sent_by_def)

end

lemma sent_by_one [simp]: "sent_by x (x\<lparr>Conn.Sent := Conn.Sent x @ new\<rparr>) new"
  by (simp add: sent_by_def)

lemma sent_by_two [simp]:
  "sent_by x (x\<lparr>Conn.Sent := Conn.Sent x @ new @ new'\<rparr>) (new @ new')"
  by (simp add: sent_by_def)

text \<open>A probe that sends one statement, and one that first asks whether it makes sense.\<close>

lemma contract_collectArgs:
  "probe_contract (do { r \<leftarrow> collectArgs server st args; State_Monad.return (as_coll r) })"
  by (rule probe_contract.intro) (auto simp: sent_by_def)

lemma contract_collect:
  "probe_contract (do { r \<leftarrow> collect server st; State_Monad.return (as_coll r) })"
  unfolding collect_def by (rule contract_collectArgs)

lemma contract_not_read: "st \<noteq> StatusOK \<Longrightarrow> probe_contract (State_Monad.return (not_read st reason))"
  by (rule probe_contract.intro) (auto intro: exI [of _ "[]"] simp: sent_by_def)

lemma contract_if:
  "(b \<Longrightarrow> probe_contract p) \<Longrightarrow> (\<not> b \<Longrightarrow> probe_contract q) \<Longrightarrow> probe_contract (if b then p else q)"
  by simp

lemma contract_first:
  assumes "\<And>x. \<exists>new. sent_by x (snd (run_state first x)) new" and "\<And>a. probe_contract (next a)"
  shows "probe_contract (State_Monad.bind first next)"
proof (rule probe_contract.intro)
  fix x
  obtain a y where y: "run_state first x = (a, y)" by fastforce
  show "honest (fst (run_state (State_Monad.bind first next) x))"
    using probe_contract.honest_run [OF assms(2)] by (simp add: y)
  from assms(1) [of x] y obtain new where "sent_by x y new" by auto
  moreover obtain new' where "sent_by y (snd (run_state (next a) y)) new'"
    using probe_contract.asks_only [OF assms(2)] by blast
  ultimately show "\<exists>new. sent_by x (snd (run_state (State_Monad.bind first next) x)) new"
    using sent_by_trans [of x y new _ new'] by (auto simp: y)
qed

lemma sent_trackActivities: "\<exists>new. sent_by x (snd (run_state trackActivities x)) new"
  by (auto simp: trackActivities_def sent_by_def)

lemma sent_trackCounts: "\<exists>new. sent_by x (snd (run_state trackCounts x)) new"
  by (auto simp: trackCounts_def sent_by_def)

lemmas contract_intros =
  contract_collect contract_collectArgs contract_if contract_first [OF sent_trackActivities]
  contract_first [OF sent_trackCounts]

end
