(* ===== verification/ProbeDisk.thy ===== *)
theory ProbeDisk
  imports ProbeCore
begin

text \<open>
  The probes that read the database host instead of the server: \<open>inst.disk\<close>, \<open>space.disk\<close>, and the
  reading of a configuration file (\<open>internal/probe/{inst,space,device,statfs,statfs_linux,cluster}.go\<close>).
  The operating system is a record of what its calls answer for a path.
\<close>

section \<open>Paths\<close>

text \<open>
  Package \<open>path/filepath\<close>: \<open>Clean\<close> drops empty and \<open>.\<close> elements and resolves \<open>..\<close> by the text alone;
  \<open>Join\<close> puts the non-empty elements together and cleans.
\<close>

fun clean_parts :: "bool \<Rightarrow> string list \<Rightarrow> string list \<Rightarrow> string list" where
  "clean_parts rooted out [] = rev out"
| "clean_parts rooted out (p # ps) =
     (if p = [] \<or> p = ''.'' then clean_parts rooted out ps
      else if p = ''..'' then
        (case out of
           [] \<Rightarrow> clean_parts rooted (if rooted then [] else [p]) ps
         | q # qs \<Rightarrow> clean_parts rooted (if q = ''..'' then p # out else qs) ps)
      else clean_parts rooted (p # out) ps)"

definition clean_path :: "string \<Rightarrow> string" where
  "clean_path s =
     (let rooted = has_prefix s ''/''; body = join ''/'' (clean_parts rooted [] (split_at (CHR ''/'') s))
      in if rooted then ''/'' @ body else if body = [] then ''.'' else body)"

definition join_path :: "string \<Rightarrow> string \<Rightarrow> string" where
  "join_path dir elem = clean_path (if dir = [] then elem else dir @ ''/'' @ elem)"

section \<open>The operating system\<close>

text \<open>What \<open>syscall.Statfs\<close> fills in, and a file as far as it can be read: its bytes, then an error or the end.\<close>

record Statfs_t =
  Blocks :: uint64
  Bfree :: uint64
  Bavail :: uint64
  Bsize :: int64
  Frsize :: int64

record File =
  Regular :: "goerr + bool"
  Bytes :: string
  ReadErr :: "goerr option"

text \<open>\<open>os.Stat\<close> says whether the file is regular and, where the system has one, the device number.\<close>

record OS =
  Stat :: "string \<Rightarrow> goerr + bool \<times> uint64 option"
  Statfs :: "string \<Rightarrow> goerr + Statfs_t"
  OpenFile :: "string \<Rightarrow> goerr + File"

definition pathError :: "string \<Rightarrow> goerr \<Rightarrow> goerr" where
  "pathError path e = plain_error (''statfs '' @ path @ '': '' @ goerr.Text e)"

text \<open>\<open>statfsOS\<close> of Linux: the block counts are in fragments, or in blocks where those are not given.\<close>

definition statfsOS :: "OS \<Rightarrow> string \<Rightarrow> goerr + Disk" where
  "statfsOS os path = (case OS.Statfs os path of
       Inl e \<Rightarrow> Inl (pathError path e)
     | Inr st \<Rightarrow>
         let unit = (if Statfs_t.Frsize st = 0 then Statfs_t.Bsize st else Statfs_t.Frsize st)
         in Inr \<lparr>Disk.TotalBytes = Statfs_t.Blocks st * unit,
                 Disk.UsedBytes = (Statfs_t.Blocks st - Statfs_t.Bfree st) * unit,
                 Disk.AvailBytes = Statfs_t.Bavail st * unit, Disk.FSID = []\<rparr>)"

text \<open>
  The build variants: \<open>darwin\<close>, where \<open>Bsize\<close> is the unit of the counts, and other systems, which have none.
  The rest of the development is the build for Linux.
\<close>

definition statfsOS_darwin :: "OS \<Rightarrow> string \<Rightarrow> goerr + Disk" where
  "statfsOS_darwin os path = (case OS.Statfs os path of
       Inl e \<Rightarrow> Inl (pathError path e)
     | Inr st \<Rightarrow>
         let unit = Statfs_t.Bsize st
         in Inr \<lparr>Disk.TotalBytes = Statfs_t.Blocks st * unit,
                 Disk.UsedBytes = (Statfs_t.Blocks st - Statfs_t.Bfree st) * unit,
                 Disk.AvailBytes = Statfs_t.Bavail st * unit, Disk.FSID = []\<rparr>)"

definition statfsOS_other :: "string \<Rightarrow> goerr + Disk" where
  "statfsOS_other path = Inl (pathError path (plain_error ''statfs not supported on this platform''))"

lemma statfsOS_without_fragments:
  assumes "OS.Statfs os path = Inr st" "Statfs_t.Frsize st = 0"
  shows "statfsOS os path = statfsOS_darwin os path"
  using assms by (simp add: statfsOS_def statfsOS_darwin_def)

definition deviceOf :: "OS \<Rightarrow> string \<Rightarrow> goerr + string" where
  "deviceOf os path = (case OS.Stat os path of
       Inl e \<Rightarrow> Inl e
     | Inr (_, dev) \<Rightarrow> Inr (case dev of Some d \<Rightarrow> fmt_d (uint d) | None \<Rightarrow> []))"

text \<open>
  \<open>readConf\<close>: a regular file, checked before and after it is opened, of at most 1 MiB. \<open>io.ReadAll\<close> of
  a \<open>LimitReader\<close> meets the file's error only when the limit is not reached first.
\<close>

definition max_conf :: nat where
  "max_conf = 1048576"

definition read_limited :: "nat \<Rightarrow> File \<Rightarrow> string \<times> goerr option" where
  "read_limited n f =
     (take n (File.Bytes f), if length (File.Bytes f) < n then File.ReadErr f else None)"

definition readConf :: "OS \<Rightarrow> string \<Rightarrow> goerr + string" where
  "readConf os path = (case OS.Stat os path of
       Inl e \<Rightarrow> Inl e
     | Inr (regular, _) \<Rightarrow>
         if \<not> regular then Inl (plain_error (path @ '' is not a regular file''))
         else (case OS.OpenFile os path of
             Inl e \<Rightarrow> Inl e
           | Inr f \<Rightarrow> (case File.Regular f of
               Inl e \<Rightarrow> Inl e
             | Inr regular \<Rightarrow>
                 if \<not> regular then Inl (plain_error (path @ '' is not a regular file''))
                 else (case read_limited (max_conf + 1) f of (b, err) \<Rightarrow>
                   if err = None \<and> max_conf < length b
                   then Inl (plain_error (path @ '' is larger than 1 MiB''))
                   else (case err of Some e \<Rightarrow> Inl e | None \<Rightarrow> Inr b)))))"

section \<open>The data directory\<close>

definition InstDisk_probe :: "OS \<Rightarrow> InstInfo \<Rightarrow> bool \<Rightarrow> bool \<Rightarrow> InstDisk" where
  "InstDisk_probe os i socket loopback =
     (if \<not> socket \<and> \<not> loopback then not_read StatusNotApplicable ''remote connection''
      else if coll.Status i \<noteq> StatusOK \<or> coll.Rows i = [] then
        not_read StatusSkipped ''inst.info was not collected, so data_directory is unknown''
      else (case Info.DataDirectory (hd (coll.Rows i)) of
          None \<Rightarrow> not_read StatusSkipped ''insufficient_privilege: data_directory is not visible''
        | Some dir \<Rightarrow> (case statfsOS os dir of
              Inr d \<Rightarrow> \<lparr>coll.Status = StatusOK, coll.Reason = [], coll.Rows = [d]\<rparr>
            | Inl e \<Rightarrow>
                if socket then not_read StatusError (goerr.Text e)
                else not_read StatusNotApplicable
                  (''data_directory is not accessible on this host (the port may be forwarded elsewhere): '' @
                   goerr.Text e))))"

section \<open>Every filesystem\<close>

text \<open>One path of the loop in \<open>SpaceDisk\<close>: its filesystem, then its device.\<close>

definition mount_disk :: "OS \<Rightarrow> string \<Rightarrow> goerr + Disk" where
  "mount_disk os path = (case statfsOS os path of
       Inl e \<Rightarrow> Inl e
     | Inr d \<Rightarrow> (case deviceOf os path of Inl e \<Rightarrow> Inl e | Inr dev \<Rightarrow> Inr (d\<lparr>Disk.FSID := dev\<rparr>)))"

primrec disk_loop :: "OS \<Rightarrow> (string \<times> string) list \<Rightarrow> Mount list \<Rightarrow> string list \<Rightarrow> SpaceDisk" where
  "disk_loop os [] out bad =
     (if bad \<noteq> [] then \<lparr>coll.Status = StatusError, coll.Reason = join ''; '' bad, coll.Rows = out\<rparr>
      else \<lparr>coll.Status = StatusOK, coll.Reason = [], coll.Rows = out\<rparr>)"
| "disk_loop os (p # ps) out bad = (case mount_disk os (snd p) of
       Inl e \<Rightarrow>
         if fst p \<noteq> ''tablespace'' then not_read StatusError (goerr.Text e)
         else disk_loop os ps out (bad @ [goerr.Text e])
     | Inr d \<Rightarrow> disk_loop os ps (out @ [\<lparr>Mount.Kind = fst p, Mount.Path = snd p, Mount.Disk = d\<rparr>]) bad)"

definition tablespace_paths :: "SpaceTablespaces \<Rightarrow> (string \<times> string) list" where
  "tablespace_paths t =
     (if coll.Status t = StatusOK
      then concat (map (\<lambda>x. case Tablespace.Location x of
          None \<Rightarrow> [] | Some l \<Rightarrow> if l \<noteq> [] then [(''tablespace'', l)] else []) (coll.Rows t))
      else [])"

definition SpaceDisk_probe :: "OS \<Rightarrow> InstInfo \<Rightarrow> SpaceTablespaces \<Rightarrow> bool \<Rightarrow> bool \<Rightarrow> SpaceDisk" where
  "SpaceDisk_probe os i t socket loopback =
     (let base = InstDisk_probe os i socket loopback
      in if coll.Status base \<noteq> StatusOK then not_read (coll.Status base) (coll.Reason base)
         else
           let dir = the (Info.DataDirectory (hd (coll.Rows i)))
           in (case deviceOf os dir of
               Inl e \<Rightarrow> not_read StatusError (goerr.Text e)
             | Inr dev \<Rightarrow>
                 disk_loop os ((''wal'', join_path dir ''sys_wal'') # tablespace_paths t)
                   [\<lparr>Mount.Kind = ''data_directory'', Mount.Path = dir,
                     Mount.Disk = (hd (coll.Rows base))\<lparr>Disk.FSID := dev\<rparr>\<rparr>] []))"

section \<open>What is read\<close>

text \<open>The mounts of the paths that could be read, and the errors of the others.\<close>

definition mounts_of :: "OS \<Rightarrow> (string \<times> string) list \<Rightarrow> Mount list" where
  "mounts_of os ps = concat (map (\<lambda>p. case mount_disk os (snd p) of
       Inl e \<Rightarrow> [] | Inr d \<Rightarrow> [\<lparr>Mount.Kind = fst p, Mount.Path = snd p, Mount.Disk = d\<rparr>]) ps)"

definition mount_errors :: "OS \<Rightarrow> (string \<times> string) list \<Rightarrow> string list" where
  "mount_errors os ps = concat (map (\<lambda>p. case mount_disk os (snd p) of
       Inl e \<Rightarrow> [goerr.Text e] | Inr d \<Rightarrow> []) ps)"

lemma mount_errors_Nil:
  "mount_errors os ps = [] \<longleftrightarrow> (\<forall>p\<in>set ps. \<exists>d. mount_disk os (snd p) = Inr d)"
  by (induction ps) (auto simp: mount_errors_def split: sum.split)

lemma disk_loop_tablespaces:
  "\<forall>p\<in>set ps. fst p = ''tablespace'' \<Longrightarrow>
   disk_loop os ps out bad =
     \<lparr>coll.Status = (if bad @ mount_errors os ps = [] then StatusOK else StatusError),
      coll.Reason = join ''; '' (bad @ mount_errors os ps), coll.Rows = out @ mounts_of os ps\<rparr>"
  by (induction ps arbitrary: out bad) (auto simp: mounts_of_def mount_errors_def split: sum.split)

lemma tablespace_paths_kind: "p \<in> set (tablespace_paths t) \<Longrightarrow> fst p = ''tablespace''"
  by (auto simp: tablespace_paths_def split: option.splits if_splits)

lemma InstDisk_ok:
  "coll.Status (InstDisk_probe os i socket loopback) = StatusOK \<longleftrightarrow>
   (socket \<or> loopback) \<and> coll.Status i = StatusOK \<and>
   (\<exists>info rest dir d. coll.Rows i = info # rest \<and> Info.DataDirectory info = Some dir \<and>
      statfsOS os dir = Inr d)"
  by (cases "coll.Rows i") (auto simp: InstDisk_probe_def split: option.splits sum.splits)

end
