(* ===== verification/ProbeCluster.thy ===== *)
theory ProbeCluster
  imports ProbeDisk
begin

text \<open>
  What repmgr knows (\<open>internal/probe/cluster.go\<close>): its nodes and events, read where its schema is, and
  the synchronous mode its configuration file asks for, read on the database host.
\<close>

section \<open>Nodes and events\<close>

text \<open>\<open>withGrantHint\<close>: what to grant when the schema is refused.\<close>

definition withGrantHint :: "status \<Rightarrow> string \<Rightarrow> string" where
  "withGrantHint st reason =
     (if st = StatusSkipped \<and> has_prefix reason ''insufficient_privilege''
      then reason @ '' (grant USAGE on schema repmgr and SELECT on its tables)'' else reason)"

text \<open>\<open>repmgrSchema\<close>: nothing when the schema is there, else the status and reason to return.\<close>

definition no_schema :: "string \<Rightarrow> string" where
  "no_schema db = ''no repmgr schema in database '' @ db @
     '': not a repmgr cluster, or its metadata is in another database (use -d)''"

definition repmgrSchema :: "Context \<Rightarrow> (status \<times> string) option query" where
  "repmgrSchema c = do {
     r \<leftarrow> ask AskBool ClusterSchemaSQL [];
     State_Monad.return (case r of
         Inl e \<Rightarrow> Some (classify e)
       | Inr ok \<Rightarrow> if \<not> ok then Some (StatusNotApplicable, no_schema (Context.Database c)) else None)
   }"

definition localNodeID :: "int32 option query" where
  "localNodeID = do {
     r \<leftarrow> ask AskBool LocalNodeExistsSQL [];
     case r of
       Inl e \<Rightarrow> State_Monad.return None
     | Inr exists \<Rightarrow>
         if \<not> exists then State_Monad.return None
         else do {
           r \<leftarrow> ask AskID LocalNodeIDSQL [];
           State_Monad.return (case r of
               Inr (Some i) \<Rightarrow> if sint i \<le> 0 then None else Some i
             | _ \<Rightarrow> None)
         }
   }"

definition with_hint :: "status \<times> string \<times> 'a list \<Rightarrow> 'a coll" where
  "with_hint = (\<lambda>(st, reason, out). as_coll (st, withGrantHint st reason, out))"

definition ClusterNodes_probe :: "Context \<Rightarrow> ClusterNodes query" where
  "ClusterNodes_probe c = do {
     missing \<leftarrow> repmgrSchema c;
     case missing of
       Some (st, reason) \<Rightarrow> State_Monad.return (not_read st reason)
     | None \<Rightarrow> do {
         i \<leftarrow> localNodeID;
         r \<leftarrow> collectArgs AskNodes ClusterNodesSQL [ArgInt i];
         State_Monad.return (with_hint r)
       }
   }"

definition ClusterEvents_probe :: "Context \<Rightarrow> ClusterEvents query" where
  "ClusterEvents_probe c = do {
     missing \<leftarrow> repmgrSchema c;
     case missing of
       Some (st, reason) \<Rightarrow> State_Monad.return (not_read st reason)
     | None \<Rightarrow> do {
         r \<leftarrow> collect AskEvents ClusterEventsSQL;
         State_Monad.return (with_hint r)
       }
   }"

section \<open>The configuration file\<close>

text \<open>
  \<open>parseRepmgrConf\<close>, line by line. \<open>strings.IndexAny(line, " \t")\<close> and \<open>strings.IndexByte\<close> are the
  length of what comes before, when there is an after. \<open>conf_value\<close> is what is kept of a value: what is between
  its quotes, or what comes before a comment.
\<close>

definition index_where :: "(char \<Rightarrow> bool) \<Rightarrow> string \<Rightarrow> nat option" where
  "index_where P s =
     (let before = takeWhile (\<lambda>c. \<not> P c) s
      in if length before < length s then Some (length before) else None)"

definition is_blank :: "char \<Rightarrow> bool" where
  "is_blank c \<longleftrightarrow> c = CHR '' '' \<or> c = CHR 0x09"

definition is_quote :: "char \<Rightarrow> bool" where
  "is_quote c \<longleftrightarrow> c = CHR 0x27 \<or> c = CHR 0x22"

text \<open>The key and the value of a line, before they are trimmed: at the first \<open>=\<close>, or at the first blank
  when that comes earlier and no \<open>=\<close> follows it directly.\<close>

definition conf_pair :: "string \<Rightarrow> (string \<times> string) option" where
  "conf_pair line =
     (let eq = cut_at (CHR ''='') line; k = (case eq of None \<Rightarrow> line | Some (k, v) \<Rightarrow> k)
      in case index_where is_blank line of
           Some i \<Rightarrow>
             if eq = None \<or> i < length k then
               (let pre = trim_space (drop i line)
                in if \<not> has_prefix pre ''='' then Some (take i line, pre) else eq)
             else eq
         | None \<Rightarrow> eq)"

definition conf_value :: "string \<Rightarrow> string" where
  "conf_value v = (case v of
       [] \<Rightarrow> []
     | q # rest \<Rightarrow>
         if is_quote q then
           (case index_where (\<lambda>c. c = q) rest of Some n \<Rightarrow> take n rest | None \<Rightarrow> v)
         else
           (case index_where (\<lambda>c. c = CHR ''#'') v of Some i \<Rightarrow> trim_space (take i v) | None \<Rightarrow> v))"

definition conf_line :: "string \<Rightarrow> (string \<times> string) option" where
  "conf_line s =
     (let line = trim_space s
      in if line = [] \<or> has_prefix line ''#'' then None
         else (case conf_pair line of
             None \<Rightarrow> None
           | Some (k, v) \<Rightarrow> if trim_space k = [] then None else Some (trim_space k, conf_value (trim_space v))))"

definition conf_add :: "(string \<rightharpoonup> string) \<Rightarrow> string \<Rightarrow> (string \<rightharpoonup> string)" where
  "conf_add out line = (case conf_line line of None \<Rightarrow> out | Some (k, v) \<Rightarrow> out(k \<mapsto> v))"

definition parseRepmgrConf :: "string \<Rightarrow> (string \<rightharpoonup> string)" where
  "parseRepmgrConf s = foldl conf_add Map.empty (split_at (CHR 0x0A) s)"

section \<open>The synchronous mode\<close>

text \<open>\<open>clusterSyncFile\<close>: the file next to repmgr's binaries, used only when it is this node's.\<close>

definition conf_path :: "string \<Rightarrow> string" where
  "conf_path bindir = trim_right (CHR ''/'') bindir @ ''/../etc/repmgr.conf''"

definition clusterSyncRow :: "string \<Rightarrow> (string \<rightharpoonup> string) \<Rightarrow> string option \<Rightarrow> ClusterSyncs" where
  "clusterSyncRow path conf names =
     \<lparr>coll.Status = StatusOK, coll.Reason = [],
      coll.Rows = [\<lparr>ClusterSync.ConfPath = path, ClusterSync.Synchronous = conf ''synchronous'',
        ClusterSync.StandbyNames = names\<rparr>]\<rparr>"

definition clusterSyncDir :: "string \<Rightarrow> (string \<rightharpoonup> string) \<Rightarrow> string option \<Rightarrow> string option \<Rightarrow> ClusterSyncs" where
  "clusterSyncDir path conf datadir names =
     (case (conf ''data_directory'', datadir) of
        (Some d, Some dd) \<Rightarrow>
          if clean_path d \<noteq> clean_path dd
          then not_read StatusSkipped (path @ '' is for data_directory '' @ d @ '', not this instance's'')
          else clusterSyncRow path conf names
      | _ \<Rightarrow> clusterSyncRow path conf names)"

definition clusterSyncFile ::
    "OS \<Rightarrow> string \<Rightarrow> int32 \<Rightarrow> string option \<Rightarrow> string option \<Rightarrow> ClusterSyncs" where
  "clusterSyncFile os bindir nodeID datadir names =
     (let path = conf_path bindir
      in case readConf os path of
           Inl e \<Rightarrow> not_read StatusSkipped (goerr.Text e)
         | Inr b \<Rightarrow>
             (let conf = parseRepmgrConf b; node = fmt_d (sint nodeID)
              in case conf ''node_id'' of
                   Some i \<Rightarrow> if i \<noteq> node
                     then not_read StatusSkipped
                       (path @ '' is for node_id '' @ i @ '', not this node ('' @ node @ '')'')
                     else clusterSyncDir path conf datadir names
                 | None \<Rightarrow> clusterSyncDir path conf datadir names))"

text \<open>
  \<open>ClusterSync\<close>: on a primary whose node is known, over a local connection. Of several rows marked
  local the loop keeps the last.
\<close>

definition last_local :: "ClusterNode list \<Rightarrow> ClusterNode option" where
  "last_local rows = List.find ClusterNode.IsLocal (rev rows)"

definition ClusterSync_probe ::
    "OS \<Rightarrow> Context \<Rightarrow> ClusterNodes \<Rightarrow> bool \<Rightarrow> bool \<Rightarrow> ClusterSyncs query" where
  "ClusterSync_probe os c n socket loopback =
     (if coll.Status n \<noteq> StatusOK
      then State_Monad.return (not_read (coll.Status n) ''cluster.nodes was not collected'')
      else if Context.Role c \<noteq> ''primary''
      then State_Monad.return (not_read StatusNotApplicable
        ''standby: synchronous_standby_names takes effect on the primary'')
      else (case last_local (coll.Rows n) of
          None \<Rightarrow> State_Monad.return (not_read StatusSkipped
            ''this node is not identified in repmgr.nodes, so its repmgr.conf is unknown'')
        | Some node \<Rightarrow>
            if \<not> socket \<and> \<not> loopback
            then State_Monad.return (not_read StatusSkipped
              ''remote connection: repmgr.conf is read on the database host only'')
            else do {
              r \<leftarrow> ask AskConf ClusterSyncSQL [ArgInt (Some (ClusterNode.NodeID node))];
              State_Monad.return (case r of
                  Inl e \<Rightarrow> (case classify e of (st, reason) \<Rightarrow> not_read st (withGrantHint st reason))
                | Inr (bindir, datadir, names) \<Rightarrow> (case bindir of
                    None \<Rightarrow> not_read StatusSkipped
                      (''repmgr.conf table has no sys_bindir for node '' @ fmt_d (sint (ClusterNode.NodeID node)))
                  | Some b \<Rightarrow> clusterSyncFile os b (ClusterNode.NodeID node) datadir names))
            }))"

section \<open>The contract of a probe\<close>

lemma honest_hint [simp]: "honest (with_hint (read_reply r))"
  by (auto simp: with_hint_def honest_def read_reply_def withGrantHint_def split: reply.split)

lemma run_repmgrSchema [simp]:
  "run_state (repmgrSchema c) x =
     ((case AskBool x (Conn.Sent x @ [(ClusterSchemaSQL, [])]) of
         Inl e \<Rightarrow> Some (classify e)
       | Inr ok \<Rightarrow> if \<not> ok then Some (StatusNotApplicable, no_schema (Context.Database c)) else None),
      x\<lparr>Conn.Sent := Conn.Sent x @ [(ClusterSchemaSQL, [])]\<rparr>)"
  by (simp add: repmgrSchema_def)

lemma sent_localNodeID: "\<exists>new. sent_by x (snd (run_state localNodeID x)) new"
  by (auto simp: localNodeID_def sent_by_def split: sum.split)

lemma contract_hint: "probe_contract (do { r \<leftarrow> collectArgs server st args; State_Monad.return (with_hint r) })"
  by (rule probe_contract.intro) (auto simp: sent_by_def)

lemma contract_hint_collect: "probe_contract (do { r \<leftarrow> collect server st; State_Monad.return (with_hint r) })"
  unfolding collect_def by (rule contract_hint)

lemma contract_repmgr:
  assumes "probe_contract p"
  shows "probe_contract (do {
     missing \<leftarrow> repmgrSchema c;
     case missing of Some (st, reason) \<Rightarrow> State_Monad.return (not_read st reason) | None \<Rightarrow> p })"
proof (rule probe_contract.intro)
  fix x :: Conn
  let ?x = "x\<lparr>Conn.Sent := Conn.Sent x @ [(ClusterSchemaSQL, [])]\<rparr>"
  let ?run = "run_state (do {
     missing \<leftarrow> repmgrSchema c;
     case missing of Some (st, reason) \<Rightarrow> State_Monad.return (not_read st reason) | None \<Rightarrow> p })"
  show "honest (fst (?run x))"
    using probe_contract.honest_run [OF assms, of ?x] classify_not_ok
    by (auto split: sum.split prod.split if_splits)
  obtain new where "sent_by ?x (snd (run_state p ?x)) new"
    using probe_contract.asks_only [OF assms] by blast
  then have "sent_by x (snd (run_state p ?x)) ((ClusterSchemaSQL, []) # new)"
    using sent_by_trans [OF sent_by_one] by fastforce
  then show "\<exists>new. sent_by x (snd (?run x)) new"
    by (auto intro: exI [of _ "[(ClusterSchemaSQL, [])]"] simp: sent_by_def split: sum.split prod.split if_splits)
qed

interpretation cluster_nodes: probe_contract "ClusterNodes_probe c"
  unfolding ClusterNodes_probe_def
  by (rule contract_repmgr, rule contract_first, rule sent_localNodeID, rule contract_hint)

interpretation cluster_events: probe_contract "ClusterEvents_probe c"
  unfolding ClusterEvents_probe_def by (rule contract_repmgr, rule contract_hint_collect)

lemma honest_sync_row [simp]: "honest (clusterSyncRow path conf names)"
  by (simp add: honest_def clusterSyncRow_def)

lemma honest_sync_file [simp]: "honest (clusterSyncFile os b node datadir names)"
  by (auto simp: clusterSyncFile_def clusterSyncDir_def Let_def split: sum.split option.split)

interpretation cluster_sync: probe_contract "ClusterSync_probe os c n socket loopback"
  unfolding ClusterSync_probe_def
  by (rule probe_contract.intro)
    (auto simp: split_beta sent_by_def intro: exI [of _ "[]"] split: option.split sum.split)

end
