(* ===== verification/ProbeSpec.thy ===== *)
theory ProbeSpec
  imports ProbeCluster
begin

text \<open>
  What the probes that read files promise: a line of repmgr's configuration is read as it was written,
  and the disks shown are the ones that could be read.
\<close>

section \<open>Trimming ASCII\<close>

definition ascii :: "string \<Rightarrow> bool" where
  "ascii s \<longleftrightarrow> list_all (\<lambda>c. byte c < 128) s"

definition space_char :: "char \<Rightarrow> bool" where
  "space_char c \<longleftrightarrow> is_space (byte c)"

lemma ascii_simps [simp]:
  "ascii []" "ascii (c # s) \<longleftrightarrow> byte c < 128 \<and> ascii s" "ascii (s @ t) \<longleftrightarrow> ascii s \<and> ascii t"
  by (simp_all add: ascii_def)

lemma chunks_of_ascii: "ascii s \<Longrightarrow> chunks s = map (\<lambda>c. (byte c, [c])) s"
  by (induction s) simp_all

lemma concat_singletons: "concat (map (snd \<circ> (\<lambda>c. (byte c, [c]))) s) = s"
  by (induction s) simp_all

lemma trim_ascii: "ascii s \<Longrightarrow> trim_space s = rev (dropWhile space_char (rev (dropWhile space_char s)))"
proof -
  assume "ascii s"
  have "space_chunk \<circ> (\<lambda>c. (byte c, [c])) = space_char"
    by (simp add: fun_eq_iff space_chunk_def space_char_def)
  then show ?thesis
    by (simp add: trim_space_def chunks_of_ascii \<open>ascii s\<close> dropWhile_map rev_map concat_singletons)
qed

text \<open>Text that starts and ends with something other than space.\<close>

definition trimmed :: "string \<Rightarrow> bool" where
  "trimmed s \<longleftrightarrow> ascii s \<and> s \<noteq> [] \<and> \<not> space_char (hd s) \<and> \<not> space_char (last s)"

lemma trim_padded:
  assumes "trimmed s" and "ascii a" "list_all space_char a" and "ascii b" "list_all space_char b"
  shows "trim_space (a @ s @ b) = s"
proof -
  have s: "dropWhile space_char (s @ b) = s @ b" "dropWhile space_char (rev s) = rev s"
    using assms(1) by (auto simp: trimmed_def neq_Nil_conv hd_rev dropWhile_eq_self_iff)
  have ab: "dropWhile space_char (a @ t) = dropWhile space_char t"
    "dropWhile space_char (rev b @ t) = dropWhile space_char t" for t
    using assms(3,5) by (auto simp: list_all_iff intro!: dropWhile_append2)
  show ?thesis using assms(1,2,4) by (simp add: trim_ascii trimmed_def ab s)
qed

lemma trim_trimmed: "trimmed s \<Longrightarrow> trim_space s = s"
  using trim_padded [of s "[]" "[]"] by simp

section \<open>A configuration line\<close>

text \<open>
  The ways to write a setting: a key, \<open>=\<close> with blanks around it or blanks alone, a value bare or in
  quotes, and a comment.
\<close>

datatype conf_sep = Assign string string | Blanks string

datatype conf_style = Bare | Quoted char

record conf_entry =
  Indent :: string
  Key :: string
  Sep :: conf_sep
  Style :: conf_style
  Value :: string
  Comment :: "string option"

fun sep_text :: "conf_sep \<Rightarrow> string" where
  "sep_text (Assign a b) = a @ ''='' @ b"
| "sep_text (Blanks b) = b"

definition comment_text :: "string option \<Rightarrow> string" where
  "comment_text c = (case c of None \<Rightarrow> [] | Some t \<Rightarrow> '' #'' @ t)"

fun style_text :: "conf_style \<Rightarrow> string \<Rightarrow> string" where
  "style_text Bare v = v"
| "style_text (Quoted q) v = q # v @ [q]"

definition entry_text :: "conf_entry \<Rightarrow> string" where
  "entry_text e = conf_entry.Indent e @ conf_entry.Key e @ sep_text (conf_entry.Sep e) @
     style_text (conf_entry.Style e) (conf_entry.Value e) @ comment_text (conf_entry.Comment e)"

text \<open>
  What may be written: blanks are spaces and tabs; keys are visible ASCII without \<open>=\<close>; values are printable ASCII, in
  quotes without the quote, bare not empty, without \<open>#\<close> and with no space or quote at the edges; a comment does not
  end in a space.
\<close>

definition printable :: "char \<Rightarrow> bool" where
  "printable c \<longleftrightarrow> 32 \<le> byte c \<and> byte c < 127"

definition visible :: "char \<Rightarrow> bool" where
  "visible c \<longleftrightarrow> 33 \<le> byte c \<and> byte c < 127"

fun sep_ok :: "conf_sep \<Rightarrow> char \<Rightarrow> bool" where
  "sep_ok (Assign a b) c \<longleftrightarrow> list_all is_blank a \<and> list_all is_blank b"
| "sep_ok (Blanks b) c \<longleftrightarrow> list_all is_blank b \<and> b \<noteq> [] \<and> c \<noteq> CHR ''=''"

fun style_ok :: "conf_style \<Rightarrow> string \<Rightarrow> bool" where
  "style_ok Bare v \<longleftrightarrow> v \<noteq> [] \<and> visible (hd v) \<and> visible (last v) \<and> \<not> is_quote (hd v) \<and>
     list_all (\<lambda>c. c \<noteq> CHR ''#'') v"
| "style_ok (Quoted q) v \<longleftrightarrow> is_quote q \<and> list_all (\<lambda>c. c \<noteq> q) v"

definition entry_ok :: "conf_entry \<Rightarrow> bool" where
  "entry_ok e \<longleftrightarrow> list_all is_blank (conf_entry.Indent e) \<and>
     conf_entry.Key e \<noteq> [] \<and> list_all (\<lambda>c. visible c \<and> c \<noteq> CHR ''='') (conf_entry.Key e) \<and> hd (conf_entry.Key e) \<noteq> CHR ''#'' \<and>
     list_all printable (conf_entry.Value e) \<and> style_ok (conf_entry.Style e) (conf_entry.Value e) \<and>
     sep_ok (conf_entry.Sep e) (hd (style_text (conf_entry.Style e) (conf_entry.Value e))) \<and>
     (case conf_entry.Comment e of None \<Rightarrow> True
      | Some t \<Rightarrow> t = [] \<or> list_all printable t \<and> visible (last t))"

lemma byte_eq_iff: "c = d \<longleftrightarrow> byte c = byte d"
  by (metis byte_char_byte)

lemma byte_marks: "byte (CHR '' '') = 32" "byte (CHR 0x09) = 9" "byte (CHR 0x27) = 39" "byte (CHR 0x22) = 34"
  "byte (CHR ''='') = 61" "byte (CHR 0x0A) = 10" "byte (CHR ''#'') = 35"
  by (simp_all add: byte_def)

lemma space_low: "n < 128 \<Longrightarrow> is_space n \<longleftrightarrow> 9 \<le> n \<and> n \<le> 13 \<or> n = 32"
  by (auto simp: is_space_def in_ranges_def)

lemmas char_classes = is_blank_def is_quote_def space_char_def visible_def printable_def byte_eq_iff byte_marks

lemma blank_space: "is_blank c \<Longrightarrow> space_char c \<and> byte c < 128 \<and> c \<noteq> CHR ''='' \<and> c \<noteq> CHR 0x0A"
  unfolding char_classes by (elim disjE) (simp_all add: space_low)

lemma quote_plain: "is_quote c \<Longrightarrow> \<not> space_char c \<and> visible c"
  unfolding char_classes by (elim disjE) (simp_all add: space_low)

lemma visible_plain: "visible c \<Longrightarrow> \<not> space_char c \<and> \<not> is_blank c \<and> byte c < 128 \<and> c \<noteq> CHR 0x0A"
  unfolding char_classes by (simp add: space_low)

lemma printable_plain: "printable c \<Longrightarrow> byte c < 128 \<and> c \<noteq> CHR 0x0A"
  unfolding char_classes by simp

lemma blanks_trim: "list_all is_blank b \<Longrightarrow> ascii b \<and> list_all space_char b"
  using blank_space by (auto simp: ascii_def list_all_iff)

lemma blanks_no_eq: "list_all is_blank b \<Longrightarrow> list_all (\<lambda>c. c \<noteq> CHR ''='') b"
  by (rule list.pred_mono_strong [of is_blank]) (simp_all add: blank_space)

lemma cut_at_append: "list_all (\<lambda>x. x \<noteq> c) a \<Longrightarrow> cut_at c (a @ c # b) = Some (a, b)"
  by (simp add: cut_at_def list_all_iff takeWhile_append2 dropWhile_append2)

lemma index_where_append: "list_all (\<lambda>x. \<not> P x) a \<Longrightarrow> P c \<Longrightarrow> index_where P (a @ c # b) = Some (length a)"
  by (simp add: index_where_def list_all_iff takeWhile_append2 Let_def)

lemma index_where_ge: "index_where P (a @ b) = Some i \<Longrightarrow> list_all (\<lambda>x. \<not> P x) a \<Longrightarrow> length a \<le> i"
  by (auto simp: index_where_def list_all_iff takeWhile_append2 Let_def split: if_splits)

lemma index_where_None: "list_all (\<lambda>x. \<not> P x) a \<Longrightarrow> index_where P a = None"
  by (simp add: index_where_def list_all_iff takeWhile_eq_all_conv [THEN iffD2] Let_def)

section \<open>A line is read as it was written\<close>

text \<open>The value with its style and comment, as it stands at the end of a line.\<close>

definition tail_text :: "conf_entry \<Rightarrow> string" where
  "tail_text e = style_text (conf_entry.Style e) (conf_entry.Value e) @ comment_text (conf_entry.Comment e)"

lemma ascii_printable: "list_all printable v \<Longrightarrow> ascii v"
  using printable_plain by (auto simp: ascii_def list_all_iff)

lemma visible_trimmed: "v \<noteq> [] \<Longrightarrow> ascii v \<Longrightarrow> visible (hd v) \<Longrightarrow> visible (last v) \<Longrightarrow> trimmed v"
  using visible_plain by (simp add: trimmed_def)

lemma style_text_edges:
  "style_ok st v \<Longrightarrow> style_text st v \<noteq> [] \<and> visible (hd (style_text st v)) \<and> visible (last (style_text st v))"
  using quote_plain by (cases st) auto

lemma style_text_ascii: "style_ok st v \<Longrightarrow> list_all printable v \<Longrightarrow> ascii (style_text st v)"
  using quote_plain visible_plain ascii_printable by (cases st) auto

lemma hash_plain: "visible (CHR ''#'')" "byte (CHR '' '') < 128" "byte (CHR ''#'') < 128" "byte (CHR ''='') < 128"
    "space_char (CHR '' '')" "\<not> space_char (CHR ''='')" "\<not> is_blank (CHR ''='')" "\<not> is_quote (CHR ''#'')"
  unfolding char_classes by (simp_all add: space_low)

lemma trimmed_tail:
  assumes "entry_ok e"
  shows "trimmed (tail_text e)" and "hd (tail_text e) = hd (style_text (conf_entry.Style e) (conf_entry.Value e))"
proof -
  let ?v = "style_text (conf_entry.Style e) (conf_entry.Value e)"
  have st: "style_ok (conf_entry.Style e) (conf_entry.Value e)" "list_all printable (conf_entry.Value e)"
    using assms by (simp_all add: entry_ok_def)
  note v = style_text_edges [OF st(1)] style_text_ascii [OF st]
  show "hd (tail_text e) = hd ?v" using v by (simp add: tail_text_def)
  have "ascii (comment_text (conf_entry.Comment e)) \<and>
      (comment_text (conf_entry.Comment e) = [] \<or> visible (last (comment_text (conf_entry.Comment e))))"
    using assms ascii_printable hash_plain by (auto simp: comment_text_def entry_ok_def split: option.splits)
  then show "trimmed (tail_text e)"
    using v by (intro visible_trimmed) (auto simp: tail_text_def last_append)
qed

lemma conf_value_tail:
  assumes "entry_ok e"
  shows "conf_value (tail_text e) = conf_entry.Value e"
proof (cases "conf_entry.Style e")
  case (Quoted q)
  with assms have "is_quote q" "list_all (\<lambda>c. c \<noteq> q) (conf_entry.Value e)" by (simp_all add: entry_ok_def)
  then show ?thesis
    using index_where_append [of "\<lambda>c. c = q" "conf_entry.Value e" q "comment_text (conf_entry.Comment e)"]
    by (simp add: tail_text_def Quoted conf_value_def)
next
  case Bare
  let ?v = "conf_entry.Value e"
  from assms Bare have v: "?v \<noteq> []" "visible (hd ?v)" "visible (last ?v)" "\<not> is_quote (hd ?v)"
      "list_all (\<lambda>c. c \<noteq> CHR ''#'') ?v" "ascii ?v"
    using ascii_printable by (auto simp: entry_ok_def)
  have t: "trim_space (?v @ '' '') = ?v"
    using trim_padded [of ?v "[]" "'' ''"] visible_trimmed [of ?v] v hash_plain by simp
  show ?thesis
  proof (cases "conf_entry.Comment e")
    case None
    with v Bare index_where_None [of "\<lambda>c. c = CHR ''#''" ?v] show ?thesis
      by (cases ?v) (simp_all add: tail_text_def conf_value_def comment_text_def)
  next
    case (Some c)
    with v Bare index_where_append [of "\<lambda>c. c = CHR ''#''" "?v @ '' ''" "CHR ''#''" c] t show ?thesis
      by (cases ?v) (simp_all add: tail_text_def conf_value_def comment_text_def)
  qed
qed

lemma conf_pair_entry:
  assumes "entry_ok e"
  shows "\<exists>b b'. conf_pair (conf_entry.Key e @ sep_text (conf_entry.Sep e) @ tail_text e) =
       Some (conf_entry.Key e @ b, b' @ tail_text e) \<and> list_all is_blank b \<and> list_all is_blank b'"
proof -
  let ?k = "conf_entry.Key e" and ?t = "tail_text e"
  have k: "list_all (\<lambda>c. \<not> is_blank c) ?k" "list_all (\<lambda>c. c \<noteq> CHR ''='') ?k"
    using assms visible_plain by (auto simp: entry_ok_def list_all_iff)
  have t: "trimmed ?t" by (rule trimmed_tail [OF assms])
  show ?thesis
  proof (cases "conf_entry.Sep e")
    case (Assign a b)
    with assms have ab: "list_all is_blank a" "list_all is_blank b" by (simp_all add: entry_ok_def)
    then have "list_all (\<lambda>c. c \<noteq> CHR ''='') (?k @ a)" using k blanks_no_eq by simp
    then have cut: "cut_at (CHR ''='') (?k @ a @ CHR ''='' # b @ ?t) = Some (?k @ a, b @ ?t)"
      using cut_at_append [of "CHR ''=''" "?k @ a"] by simp
    have "conf_pair (?k @ a @ CHR ''='' # b @ ?t) = Some (?k @ a, b @ ?t)"
    proof (cases a)
      case Nil
      have "length ?k \<le> i" if "index_where is_blank (?k @ CHR ''='' # b @ ?t) = Some i" for i
        using index_where_ge [OF that k(1)] .
      with Nil cut show ?thesis by (fastforce simp: conf_pair_def Let_def split: option.split)
    next
      case (Cons x a')
      with ab have x: "is_blank x" by simp
      have "trimmed (CHR ''='' # b @ ?t)"
        using t blanks_trim [OF ab(2)] hash_plain by (auto simp: trimmed_def)
      then have "trim_space (a @ CHR ''='' # b @ ?t) = CHR ''='' # b @ ?t"
        using trim_padded [of "CHR ''='' # b @ ?t" a "[]"] blanks_trim [OF ab(1)] by simp
      moreover have "index_where is_blank (?k @ a @ CHR ''='' # b @ ?t) = Some (length ?k)"
        using index_where_append [of is_blank ?k x] k x Cons by simp
      ultimately show ?thesis using cut by (simp add: conf_pair_def has_prefix_def Let_def)
    qed
    with ab Assign show ?thesis by auto
  next
    case (Blanks b)
    with assms have b: "list_all is_blank b" "b \<noteq> []" "hd ?t \<noteq> CHR ''=''"
      using trimmed_tail(2) [OF assms] by (simp_all add: entry_ok_def)
    then obtain x b' where x: "b = x # b'" "is_blank x" by (cases b) auto
    have at: "index_where is_blank (?k @ b @ ?t) = Some (length ?k)"
      using index_where_append [of is_blank ?k x] k x by simp
    have later: "length ?k < length k'" if "cut_at (CHR ''='') (?k @ b @ ?t) = Some (k', v)" for k' v
    proof -
      have "k' = takeWhile (\<lambda>c. c \<noteq> CHR ''='') (?k @ b @ ?t)"
        using that by (simp add: cut_at_def split: list.splits)
      moreover have "list_all (\<lambda>c. c \<noteq> CHR ''='') (?k @ [x])" using k(2) blank_space [OF x(2)] by simp
      ultimately have "k' = (?k @ [x]) @ takeWhile (\<lambda>c. c \<noteq> CHR ''='') (b' @ ?t)"
        using takeWhile_append2 [of "?k @ [x]" "\<lambda>c. c \<noteq> CHR ''=''" "b' @ ?t"] x by (simp add: list_all_iff)
      then show ?thesis by simp
    qed
    have pre: "trim_space (b @ ?t) = ?t"
      using trim_padded [OF t, of b "[]"] blanks_trim [OF b(1)] by simp
    have "\<not> has_prefix ?t ''=''" using b(3) t by (cases ?t) (auto simp: has_prefix_def trimmed_def)
    then have "conf_pair (?k @ b @ ?t) = Some (?k, ?t)"
      using later pre by (auto simp: conf_pair_def at Let_def split: option.split)
    with Blanks show ?thesis by (intro exI [of _ "[]"]) simp
  qed
qed

text \<open>Every line that is written by the rules is read as its key and its value.\<close>

lemma conf_line_entry:
  assumes "entry_ok e"
  shows "conf_line (entry_text e) = Some (conf_entry.Key e, conf_entry.Value e)"
proof -
  let ?k = "conf_entry.Key e" and ?t = "tail_text e" and ?s = "sep_text (conf_entry.Sep e)"
  have k: "?k \<noteq> []" "visible (hd ?k)" "visible (last ?k)" "ascii ?k" "hd ?k \<noteq> CHR ''#''"
    using assms visible_plain by (auto simp: entry_ok_def list_all_iff ascii_def)
  have t: "trimmed ?t" by (rule trimmed_tail [OF assms])
  have "ascii ?s"
    using assms blanks_trim hash_plain by (cases "conf_entry.Sep e") (auto simp: entry_ok_def)
  then have "trimmed (?k @ ?s @ ?t)"
    using k t visible_plain by (auto simp: trimmed_def)
  moreover have ind: "list_all is_blank (conf_entry.Indent e)" using assms by (simp add: entry_ok_def)
  ultimately have line: "trim_space (entry_text e) = ?k @ ?s @ ?t"
    using trim_padded [of "?k @ ?s @ ?t" "conf_entry.Indent e" "[]"] blanks_trim [OF ind]
    by (simp add: entry_text_def tail_text_def)
  obtain b b' where pair: "conf_pair (?k @ ?s @ ?t) = Some (?k @ b, b' @ ?t)" "list_all is_blank b" "list_all is_blank b'"
    using conf_pair_entry [OF assms] by blast
  have "trim_space (?k @ b) = ?k"
    using trim_padded [of ?k "[]" b] visible_trimmed [of ?k] k blanks_trim [OF pair(2)] by simp
  moreover have "trim_space (b' @ ?t) = ?t"
    using trim_padded [OF t, of b' "[]"] blanks_trim [OF pair(3)] by simp
  moreover have "\<not> has_prefix (?k @ ?s @ ?t) ''#''" using k by (cases ?k) (simp_all add: has_prefix_def)
  ultimately show ?thesis using k by (simp add: conf_line_def line pair conf_value_tail [OF assms])
qed

lemma split_at_not_Nil [simp]: "split_at c s \<noteq> []"
  by (induction s) (auto split: list.split)

lemma split_at_join:
  "lines \<noteq> [] \<Longrightarrow> list_all (list_all (\<lambda>c. c \<noteq> x)) lines \<Longrightarrow> split_at x (join [x] lines) = lines"
proof (induction lines rule: induct_list012)
  have one: "list_all (\<lambda>c. c \<noteq> x) l \<Longrightarrow> split_at x (l @ s) = (l @ hd (split_at x s)) # tl (split_at x s)" for l s
    by (induction l) (auto split: list.split)
  {
    case (2 l)
    then show ?case using one [of l "[]"] by simp
  next
    case (3 l m lines)
    then show ?case using one [of l "x # join [x] (m # lines)"] by simp
  }
qed simp

text \<open>A line has no newline, so a file is cut into the lines it was made of.\<close>

definition one_line :: "string \<Rightarrow> bool" where
  "one_line s \<longleftrightarrow> list_all (\<lambda>c. c \<noteq> CHR 0x0A) s"

lemma one_line_simps [simp]:
  "one_line []" "one_line (c # s) \<longleftrightarrow> c \<noteq> CHR 0x0A \<and> one_line s" "one_line (s @ t) \<longleftrightarrow> one_line s \<and> one_line t"
  by (simp_all add: one_line_def)

lemma one_line_classes:
  "list_all is_blank s \<Longrightarrow> one_line s" "list_all printable s \<Longrightarrow> one_line s"
  "list_all (\<lambda>c. visible c \<and> c \<noteq> CHR ''='') s \<Longrightarrow> one_line s"
  unfolding one_line_def
  by (rule list.pred_mono_strong, assumption, simp add: blank_space printable_plain visible_plain)+

lemma entry_one_line: "entry_ok e \<Longrightarrow> one_line (entry_text e)"
proof -
  assume ok: "entry_ok e"
  then have "one_line (conf_entry.Indent e)" "one_line (conf_entry.Key e)" "one_line (conf_entry.Value e)"
    by (simp_all only: entry_ok_def one_line_classes)
  moreover from this ok have "one_line (style_text (conf_entry.Style e) (conf_entry.Value e))"
    using quote_plain visible_plain by (cases "conf_entry.Style e") (auto simp: entry_ok_def)
  moreover from ok have "one_line (sep_text (conf_entry.Sep e))"
    by (cases "conf_entry.Sep e") (simp_all add: entry_ok_def one_line_classes)
  moreover from ok have "one_line (comment_text (conf_entry.Comment e))"
    by (auto simp: comment_text_def entry_ok_def one_line_classes split: option.splits)
  ultimately show ?thesis by (simp add: entry_text_def)
qed

lemma foldl_conf_add:
  "list_all entry_ok es \<Longrightarrow>
   foldl conf_add m (map entry_text es) = m ++ map_of (rev (map (\<lambda>e. (conf_entry.Key e, conf_entry.Value e)) es))"
  by (induction es arbitrary: m) (simp_all add: conf_add_def conf_line_entry map_add_upd_left)

text \<open>
  C31. \<open>parseRepmgrConf\<close> reads a repmgr.conf the way it was written: of a file of such lines, in any mix of
  \<open>key=value\<close>, \<open>key = value\<close> and \<open>key value\<close>, bare or in either quotes, indented or followed by a
  comment, every key has the value of its last line, and no other key has any.
\<close>

theorem parseRepmgrConf_roundtrip:
  assumes "list_all entry_ok es"
  shows "parseRepmgrConf (join [CHR 0x0A] (map entry_text es)) =
    map_of (rev (map (\<lambda>e. (conf_entry.Key e, conf_entry.Value e)) es))"
proof (cases "es = []")
  case True
  then show ?thesis by (simp add: parseRepmgrConf_def conf_add_def conf_line_def trim_space_def)
next
  case False
  have "list_all (list_all (\<lambda>c. c \<noteq> CHR 0x0A)) (map entry_text es)"
    using assms entry_one_line by (auto simp: list_all_iff one_line_def)
  then have "split_at (CHR 0x0A) (join [CHR 0x0A] (map entry_text es)) = map entry_text es"
    using False by (intro split_at_join) simp_all
  then show ?thesis using foldl_conf_add [OF assms, of Map.empty] by (simp add: parseRepmgrConf_def)
qed

text \<open>Three lines: indented with a comment, quoted with a comment sign in the quotes, and without \<open>=\<close>.\<close>

definition demo_conf :: "conf_entry list" where
  "demo_conf =
     [\<lparr>conf_entry.Indent = ''  '', conf_entry.Key = ''node_id'', conf_entry.Sep = Assign '' '' '' '',
        conf_entry.Style = Bare, conf_entry.Value = ''1'', conf_entry.Comment = Some ''this node''\<rparr>,
      \<lparr>conf_entry.Indent = [], conf_entry.Key = ''data_directory'', conf_entry.Sep = Assign [] [],
        conf_entry.Style = Quoted (CHR 0x27), conf_entry.Value = ''/data #1'', conf_entry.Comment = None\<rparr>,
      \<lparr>conf_entry.Indent = [], conf_entry.Key = ''synchronous'', conf_entry.Sep = Blanks '' '',
        conf_entry.Style = Bare, conf_entry.Value = ''quorum'', conf_entry.Comment = None\<rparr>]"

theorem parseRepmgrConf_roundtrip_witness:
  "parseRepmgrConf (join [CHR 0x0A] (map entry_text demo_conf)) =
     [''node_id'' \<mapsto> ''1'', ''data_directory'' \<mapsto> ''/data #1'', ''synchronous'' \<mapsto> ''quorum'']"
proof -
  have "list_all entry_ok demo_conf"
    by (simp add: demo_conf_def entry_ok_def visible_def printable_def is_blank_def is_quote_def byte_def)
  from parseRepmgrConf_roundtrip [OF this] show ?thesis by (simp add: demo_conf_def)
qed

section \<open>Disks\<close>

text \<open>
  \<open>SpaceDisk\<close>: where \<open>inst.disk\<close> cannot be read neither can the others; an unreadable data directory or
  WAL directory is an error without rows; a tablespace that cannot be read is an error that keeps the
  rows of the others.
\<close>

lemma SpaceDisk_cases:
  "let base = InstDisk_probe os i socket loopback; dir = the (Info.DataDirectory (hd (coll.Rows i)));
       r = SpaceDisk_probe os i t socket loopback; wal = join_path dir ''sys_wal''; ts = tablespace_paths t
   in if coll.Status base \<noteq> StatusOK then r = not_read (coll.Status base) (coll.Reason base)
      else case (deviceOf os dir, mount_disk os wal) of
        (Inr dev, Inr w) \<Rightarrow>
          coll.Rows r = \<lparr>Mount.Kind = ''data_directory'', Mount.Path = dir,
              Mount.Disk = (hd (coll.Rows base))\<lparr>Disk.FSID := dev\<rparr>\<rparr> #
            \<lparr>Mount.Kind = ''wal'', Mount.Path = wal, Mount.Disk = w\<rparr> # mounts_of os ts \<and>
          coll.Status r = (if mount_errors os ts = [] then StatusOK else StatusError) \<and>
          coll.Reason r = join ''; '' (mount_errors os ts)
      | (Inl e, _) \<Rightarrow> r = not_read StatusError (goerr.Text e)
      | (Inr _, Inl e) \<Rightarrow> r = not_read StatusError (goerr.Text e)"
  using disk_loop_tablespaces [of "tablespace_paths t"] tablespace_paths_kind
  by (auto simp: SpaceDisk_probe_def Let_def split: sum.split)

end
