(* ===== verification/TextBase.thy ===== *)
theory TextBase
  imports ReportCore GoNumber
begin

text \<open>
  What the text layouts share (\<open>internal/report/{render,format,table,redacted,status}.go\<close>): cells and
  their escaping, tables aligned by terminal columns, key-value blocks, redactions in one line. A
  layout writes to an \<open>io.Writer\<close>; here it is the text it writes, so a failing writer is not modelled.
  \<open>wide\<close> stands for the tables of \<open>golang.org/x/text/width\<close>: whether a rune is East Asian wide or
  fullwidth.
\<close>

section \<open>Escaping\<close>

definition nl :: string where
  "nl = [CHR 0x0A]"

definition hostile :: "nat \<Rightarrow> bool" where
  "hostile r \<longleftrightarrow> is_control r \<or> in_ranges format_ranges r \<or> in_ranges separator_ranges r"

definition escape_chunk :: "nat \<times> string \<Rightarrow> string" where
  "escape_chunk p =
     (if bad_chunk p then CHR 0x5C # ''x'' @ fmt_hex 2 (byte (hd (snd p)))
      else if \<not> hostile (fst p) then encode_rune (fst p)
      else if fst p < 128 then CHR 0x5C # ''x'' @ fmt_hex 2 (fst p)
      else CHR 0x5C # ''u'' @ fmt_hex 4 (fst p))"

definition escapeControl :: "string \<Rightarrow> string" where
  "escapeControl s =
     (if valid_string s \<and> \<not> any_rune hostile s then s else concat (map escape_chunk (chunks s)))"

section \<open>Cells\<close>

definition fmt_g32 :: "flt \<Rightarrow> string" where
  "fmt_g32 x = signed_text (\<lambda>q. if q = 0 then ''0'' else g_text 6 (shortest rnd32 q)) x"

text \<open>\<open>fmt.Sprint\<close> of a cell.\<close>

fun sprint :: "val \<Rightarrow> string" where
  "sprint VNull = ''<nil>''"
| "sprint (VStr s) = s"
| "sprint (VInt i) = fmt_d i"
| "sprint (VFlt x) = fmt_g x"
| "sprint (VFlt32 x) = fmt_g32 x"
| "sprint (VBool b) = (if b then ''true'' else ''false'')"
| "sprint (VStrs xs) = ''['' @ join '' '' xs @ '']''"
| "sprint (VInts is) = ''['' @ join '' '' (map fmt_d is) @ '']''"

definition maxCell :: nat where
  "maxCell = 60"

definition first_runes :: "nat \<Rightarrow> string \<Rightarrow> string" where
  "first_runes n s = concat (map encode_rune (take n (runes s)))"

definition cell :: "val \<Rightarrow> string" where
  "cell v = (if v = VNull then ''-'' else
     (let s = escapeControl (join '' '' (split_fields (sprint v)))
      in if maxCell < length (runes s) then first_runes (maxCell - 3) s @ ''...'' else s))"

definition cell_str :: "string option \<Rightarrow> string" where
  "cell_str s = cell (v_opt VStr s)"

section \<open>Terminal columns\<close>

definition rune_width :: "(nat \<Rightarrow> bool) \<Rightarrow> nat \<Rightarrow> nat" where
  "rune_width wide r = (if wide r then 2 else 1)"

definition displayWidth :: "(nat \<Rightarrow> bool) \<Rightarrow> string \<Rightarrow> nat" where
  "displayWidth wide s = sum_list (map (rune_width wide) (runes s))"

text \<open>The loop of \<open>fitWidth\<close> with the columns that are left.\<close>

fun fit_runes :: "(nat \<Rightarrow> bool) \<Rightarrow> nat \<Rightarrow> nat list \<Rightarrow> nat list" where
  "fit_runes wide room [] = []"
| "fit_runes wide room (r # rs) =
     (if room < rune_width wide r then [] else r # fit_runes wide (room - rune_width wide r) rs)"

definition fitWidth :: "(nat \<Rightarrow> bool) \<Rightarrow> string \<Rightarrow> nat \<Rightarrow> string" where
  "fitWidth wide s w =
     (if displayWidth wide s \<le> w then s
      else concat (map encode_rune (fit_runes wide (w - 3) (runes s))) @ ''...'')"

definition maxName :: nat where
  "maxName = 30"

definition name :: "(nat \<Rightarrow> bool) \<Rightarrow> val \<Rightarrow> string" where
  "name wide v = fitWidth wide (cell v) maxName"

definition name_str :: "(nat \<Rightarrow> bool) \<Rightarrow> string option \<Rightarrow> string" where
  "name_str wide s = name wide (v_opt VStr s)"

section \<open>Tables\<close>

fun widen :: "nat list \<Rightarrow> nat list \<Rightarrow> nat list" where
  "widen (w # ws) (d # ds) = max w d # widen ws ds"
| "widen ws _ = ws"

definition table_widths :: "(nat \<Rightarrow> bool) \<Rightarrow> string list list \<Rightarrow> nat list" where
  "table_widths wide lines =
     foldl (\<lambda>ws r. widen ws (map (displayWidth wide) r)) (replicate (foldl max 0 (map length lines)) 0) lines"

fun table_cells :: "(nat \<Rightarrow> bool) \<Rightarrow> nat list \<Rightarrow> string list \<Rightarrow> string" where
  "table_cells wide ws [] = []"
| "table_cells wide ws [c] = c"
| "table_cells wide ws (c # d # cs) =
     c @ replicate (hd ws - displayWidth wide c + 2) (CHR '' '') @ table_cells wide (tl ws) (d # cs)"

definition table_line :: "(nat \<Rightarrow> bool) \<Rightarrow> string \<Rightarrow> nat list \<Rightarrow> string list \<Rightarrow> string" where
  "table_line wide indent ws r = trim_right (CHR '' '') (indent @ table_cells wide ws r)"

definition writeTable :: "(nat \<Rightarrow> bool) \<Rightarrow> string \<Rightarrow> string list option \<Rightarrow> string list list \<Rightarrow> string" where
  "writeTable wide indent header body =
     (let lines = (case header of None \<Rightarrow> body | Some h \<Rightarrow> h # body);
          ws = table_widths wide lines
      in concat (map (\<lambda>r. table_line wide indent ws r @ nl) lines))"

section \<open>Blocks\<close>

text \<open>\<open>%-*s\<close> and \<open>%*s\<close>: padded to a number of runes, on the right or on the left.\<close>

definition pad_right :: "nat \<Rightarrow> string \<Rightarrow> string" where
  "pad_right w s = s @ replicate (w - length (runes s)) (CHR '' '')"

definition pad_start :: "nat \<Rightarrow> string \<Rightarrow> string" where
  "pad_start w s = replicate (w - length (runes s)) (CHR '' '') @ s"

definition writeKV :: "nat \<Rightarrow> (string \<times> string) list \<Rightarrow> string" where
  "writeKV width kv =
     (let width = foldl (\<lambda>w x. max w (length (fst x))) width kv
      in concat (map (\<lambda>x. ''  '' @ pad_right width (fst x) @ ''  '' @ snd x @ nl) kv))"

definition status_text :: "status \<Rightarrow> string" where
  "status_text st = (case st of StatusOK \<Rightarrow> ''ok'' | StatusSkipped \<Rightarrow> ''skipped'' | StatusError \<Rightarrow> ''error''
     | StatusNotApplicable \<Rightarrow> ''not_applicable'')"

definition writeNotOKAs :: "string \<Rightarrow> status \<Rightarrow> string \<Rightarrow> string" where
  "writeNotOKAs title st reason =
     nl @ title @ '': '' @ status_text st @
     (if reason \<noteq> [] then ''  ('' @ escapeControl reason @ '')'' else []) @ nl"

definition reasonOf :: "Probe \<Rightarrow> string" where
  "reasonOf p = (case Probe.Reason p of None \<Rightarrow> [] | Some r \<Rightarrow> r)"

definition writeNotOK :: "string \<Rightarrow> Probe \<Rightarrow> string" where
  "writeNotOK i p = writeNotOKAs i (Probe.Status p) (reasonOf p)"

text \<open>
  \<open>p := r.Data[id]\<close> when the report has no such probe: the zero \<open>Probe\<close>, whose status is the empty
  string and so none of the four.
\<close>

definition writeNotOKAt :: "string \<Rightarrow> Probe option \<Rightarrow> string" where
  "writeNotOKAt title p = (case p of None \<Rightarrow> nl @ title @ '': '' @ nl
     | Some p \<Rightarrow> writeNotOKAs title (Probe.Status p) (reasonOf p))"

text \<open>A section over \<open>r.Data[id]\<close>: why it was not collected, or what \<open>body\<close> makes of its rows.\<close>

definition section_at :: "Report \<Rightarrow> string \<Rightarrow> string \<Rightarrow> (Probe \<Rightarrow> string) \<Rightarrow> string" where
  "section_at r i title body = (case probe_of r i of
       Some p \<Rightarrow> if Probe.Status p = StatusOK then body p else writeNotOKAt title (Some p)
     | None \<Rightarrow> writeNotOKAt title None)"

definition writeTruncated :: "int \<Rightarrow> string" where
  "writeTruncated n = (if 0 < n then ''  ... '' @ fmt_d n @ '' more not shown (--limit 0 shows all)'' @ nl else [])"

definition more_rows :: "int \<Rightarrow> string" where
  "more_rows n = (if 0 < n then ''... '' @ fmt_d n @ '' more rows not shown (use --limit 0 to show all)'' @ nl else [])"

definition plural :: "int \<Rightarrow> string \<Rightarrow> string \<Rightarrow> string" where
  "plural n one many = (if n = 1 then ''1 '' @ one else fmt_d n @ '' '' @ many)"

text \<open>\<open>strings.Contains\<close>.\<close>

definition contains :: "string \<Rightarrow> string \<Rightarrow> bool" where
  "contains s sub \<longleftrightarrow> list_ex (\<lambda>i. has_prefix (drop i s) sub) [0..<Suc (length s)]"

section \<open>Rows by column\<close>

text \<open>
  A row as a column-to-value map: a column it does not have reads as Go's \<open>nil\<close>, here \<^const>\<open>VNull\<close>.
\<close>

definition get :: "string list \<Rightarrow> val list \<Rightarrow> string \<Rightarrow> val" where
  "get cols row c = (case map_of (rev (zip cols row)) c of None \<Rightarrow> VNull | Some v \<Rightarrow> v)"

definition probe_rows_of :: "Probe \<Rightarrow> (string \<Rightarrow> val) list" where
  "probe_rows_of p = map (get (Probe.Columns p)) (Probe.Rows p)"

definition number :: "val \<Rightarrow> flt option" where
  "number v = (case v of VInt i \<Rightarrow> Some (f64_of_int i) | VFlt x \<Rightarrow> Some x | VFlt32 x \<Rightarrow> Some x | _ \<Rightarrow> None)"

definition number0 :: "val \<Rightarrow> flt" where
  "number0 v = (case number v of None \<Rightarrow> Fin 0 | Some x \<Rightarrow> x)"

section \<open>Numbers for a reader\<close>

abbreviation size_text :: "flt \<Rightarrow> string" where
  "size_text b \<equiv> Units.Bytes b"

abbreviation duration :: "flt \<Rightarrow> string" where
  "duration s \<equiv> Units.Duration s"

definition sizeOf :: "int64 option \<Rightarrow> string" where
  "sizeOf b = (case b of None \<Rightarrow> ''-'' | Some n \<Rightarrow> size_text (f64_of_int (sint n)))"

definition pct :: "int64 \<Rightarrow> int64 \<Rightarrow> string" where
  "pct n tot =
     (if sint tot \<le> 0 then ''-''
      else fmt_f0 (f_round (f_div rnd64 (f_mul rnd64 (f64_of_int (sint n)) (Fin 100)) (f64_of_int (sint tot)))) @ ''%'')"

definition behind :: "int64 option \<Rightarrow> string" where
  "behind b = (case b of None \<Rightarrow> ''-'' | Some n \<Rightarrow> size_text (f_max (Fin 0) (f64_of_int (sint n))))"

definition count_text :: "int \<Rightarrow> string" where
  "count_text n = (if - (2 ^ 63) \<le> n \<and> n < 1000000 then fmt_d n else fmt_gn 3 (rnd64 (of_int n)))"

text \<open>To 0.01 ms, and to 0.01 s.\<close>

definition centi_ms :: "flt \<Rightarrow> flt" where
  "centi_ms s = f_div rnd64 (f_round (f_mul rnd64 s (Fin 100000))) (Fin 100)"

definition centi_s :: "flt \<Rightarrow> flt" where
  "centi_s s = f_div rnd64 (f_round (f_mul rnd64 s (Fin 100))) (Fin 100)"

definition execTime :: "flt \<Rightarrow> string" where
  "execTime s =
     (let ms = centi_ms s
      in if f_le (Fin 60) (centi_s s) then duration s
         else if f_le (Fin 1000) (f_round ms) then fmt_fixed 2 (centi_s s) @ '' s''
         else if f_le (Fin 10) ms then fmt_f0 (f_round ms) @ '' ms''
         else fmt_fixed 2 ms @ '' ms'')"

definition bytesCell :: "val \<Rightarrow> string" where
  "bytesCell v = (case number v of None \<Rightarrow> ''-'' | Some b \<Rightarrow> size_text b)"

definition ago :: "flt option \<Rightarrow> string" where
  "ago s = (case s of None \<Rightarrow> ''never'' | Some x \<Rightarrow> duration x @ '' ago'')"

definition running :: "val \<Rightarrow> string" where
  "running v = (case number v of None \<Rightarrow> ''?'' | Some s \<Rightarrow> duration s)"

definition relkinds :: "(string \<times> string) list" where
  "relkinds = [(''r'', ''table''), (''p'', ''partitioned''), (''m'', ''matview''), (''t'', ''toast''), (''i'', ''index''),
     (''I'', ''partitioned index''), (''v'', ''view''), (''S'', ''sequence''), (''f'', ''foreign'')]"

definition relkind :: "string \<Rightarrow> string" where
  "relkind k = (case map_of relkinds k of None \<Rightarrow> k | Some n \<Rightarrow> n)"

section \<open>Redactions\<close>

definition redactedLabels :: "string \<Rightarrow> (string \<times> string list) list" where
  "redactedLabels probe =
     (if probe = SessionActivityID then
        [(''state'', [''state'']), (''backend_type'', [''backend_type'']), (''client_addr'', [''client_addr'']),
         (''ages'', [''xact_age_s'', ''query_age_s'', ''state_age_s'']),
         (''wait'', [''wait_event_type'', ''wait_event'']), (''query'', [''query''])]
      else if probe = LockListID then [(''wait'', [''wait_s''])]
      else if probe = WaitSummaryID then
        [(''wait'', [''wait_event_type'', ''wait_event'']), (''state'', [''state''])]
      else [])"

text \<open>The labels with a redacted column, then the columns without a label, each once.\<close>

fun label_loop :: "string list \<Rightarrow> (string \<times> string list) list \<Rightarrow> string list \<times> string list" where
  "label_loop has [] = ([], has)"
| "label_loop has (l # ls) =
     (let (out, rest) = label_loop (filter (\<lambda>f. f \<notin> set (snd l)) has) ls
      in (if list_ex (\<lambda>f. f \<in> set has) (snd l) then fst l # out else out, rest))"

definition labels :: "string \<Rightarrow> string list \<Rightarrow> string list" where
  "labels probe fs = (let (out, rest) = label_loop fs (redactedLabels probe) in out @ firsts rest)"

definition grantHint :: "string \<Rightarrow> string \<Rightarrow> string" where
  "grantHint probe reason =
     (if reason \<noteq> ReasonInsufficientPrivilege then []
      else if probe = SeqListID then ''; grant SELECT on the sequences (sys_monitor does not cover them)''
      else ''; grant sys_monitor'')"

definition redacted_groups :: "Redaction list \<Rightarrow> ((string \<times> string) \<times> int \<times> string list) list" where
  "redacted_groups rs =
     foldl (\<lambda>gs x. group_add (Redaction.ProbeID x, Redaction.Reason x)
       (\<lambda>g. case g of None \<Rightarrow> (max 0 (Redaction.RowsAffected x), [Redaction.Field x])
          | Some (n, fs) \<Rightarrow> (max n (Redaction.RowsAffected x), fs @ [Redaction.Field x])) gs) [] rs"

definition redacted_line :: "(string \<times> string) \<times> int \<times> string list \<Rightarrow> string" where
  "redacted_line g =
     (let ((probe, reason), n, fs) = g
      in ''redacted: '' @ plural n ''row'' ''rows'' @ '' of '' @ probe @ (if n = 1 then '' hides '' else '' hide '') @
         join '', '' (labels probe fs) @ '' ('' @ reason @ grantHint probe reason @ '')'' @ nl)"

definition writeRedacted :: "Redaction list \<Rightarrow> string" where
  "writeRedacted rs = concat (map redacted_line (redacted_groups rs))"

end
