(* ===== verification/TextSession.thy ===== *)
theory TextSession
  imports TextBase "HOL-Library.List_Lexorder" "HOL-Library.Char_ord"
begin

text \<open>
  The text layouts of \<open>sessions\<close>, \<open>session\<close>, \<open>locks\<close>, \<open>txn\<close> and \<open>waits\<close>
  (\<open>internal/report/{sessions,session,locks,txn,waits}.go\<close>). A layout is the text it writes. Where
  the code sorts the keys of a Go map the keys are distinct and the comparator is total, so the order
  the map is walked in does not matter.
\<close>

section \<open>Sessions\<close>

datatype sessionKind = kindClient | kindWalsender | kindBackground | kindHidden

definition kindOf :: "Session \<Rightarrow> sessionKind" where
  "kindOf s =
     (if Session_Masked s then kindHidden
      else case Session.BackendType s of
        None \<Rightarrow> kindHidden
      | Some t \<Rightarrow> if t = ''client backend'' then kindClient
                 else if t = ''walsender'' then kindWalsender else kindBackground)"

definition client :: "Session \<Rightarrow> string" where
  "client s =
     (if Session_Masked s then ''?''
      else if Session.ClientAddr s = None then
        (if kindOf s = kindClient \<or> kindOf s = kindWalsender then ''local'' else ''-'')
      else cell_str (Session.ClientAddr s))"

text \<open>How many sessions of a kind, and the groups of the visible clients and the hidden ones.\<close>

definition kind_count :: "Session list \<Rightarrow> sessionKind \<Rightarrow> int" where
  "kind_count xs k = int (length (filter (\<lambda>s. kindOf s = k) xs))"

definition session_key :: "(nat \<Rightarrow> bool) \<Rightarrow> Session \<Rightarrow> string list" where
  "session_key wide s =
     [name_str wide (Session.Usename s), name_str wide (Session.Datname s),
      name_str wide (Session.ApplicationName s), client s]"

definition session_groups :: "(nat \<Rightarrow> bool) \<Rightarrow> Session list \<Rightarrow> (string list \<times> int) list" where
  "session_groups wide xs =
     foldl (\<lambda>gs s. group_add (session_key wide s) (\<lambda>n. case n of None \<Rightarrow> 1 | Some m \<Rightarrow> m + 1) gs) []
       (filter (\<lambda>s. kindOf s = kindClient \<or> kindOf s = kindHidden) xs)"

definition group_less :: "string list \<times> int \<Rightarrow> string list \<times> int \<Rightarrow> bool" where
  "group_less a b = (if snd a \<noteq> snd b then snd b < snd a else fst a < fst b)"

definition connected_parts :: "Session list \<Rightarrow> string list" where
  "connected_parts xs =
     (if 0 < kind_count xs kindClient \<or> kind_count xs kindHidden = 0
      then [plural (kind_count xs kindClient) ''client session'' ''client sessions'' @ '' (not counting kbdiag)''] else []) @
     (if 0 < kind_count xs kindWalsender then [plural (kind_count xs kindWalsender) ''walsender'' ''walsenders''] else []) @
     (if 0 < kind_count xs kindBackground then [fmt_d (kind_count xs kindBackground) @ '' background''] else []) @
     (if 0 < kind_count xs kindHidden then [fmt_d (kind_count xs kindHidden) @ '' hidden''] else [])"

definition writeSummary :: "(nat \<Rightarrow> bool) \<Rightarrow> Session list \<Rightarrow> string" where
  "writeSummary wide xs =
     (let gs = slice_stable group_less (session_groups wide xs)
      in nl @ ''connected: '' @ join '', '' (connected_parts xs) @ nl @
         (if gs = [] then []
          else writeTable wide ''  '' (Some [''count'', ''user'', ''database'', ''application'', ''client''])
                 (map (\<lambda>(k, n). fmt_d n # k) gs)))"

definition masked_cell :: "Session \<Rightarrow> string option \<Rightarrow> string" where
  "masked_cell s v = (if Session_Masked s then ''?'' else cell_str v)"

definition age_cell :: "Session \<Rightarrow> flt option \<Rightarrow> string" where
  "age_cell s v =
     (if Session_Masked s \<or> Session_Untracked s then ''?''
      else case v of None \<Rightarrow> ''-'' | Some x \<Rightarrow> duration x)"

definition wait_cell :: "Session \<Rightarrow> string" where
  "wait_cell s =
     (if Session_Masked s then ''?''
      else if Session.State s = Some ''active'' \<and> Session.WaitEventType s \<noteq> None
        then cell_str (Session.WaitEventType s) @ '':'' @ cell_str (Session.WaitEvent s)
      else ''-'')"

definition session_line :: "(nat \<Rightarrow> bool) \<Rightarrow> bool \<Rightarrow> Session \<Rightarrow> string list" where
  "session_line wide all s =
     (let sql = masked_cell s (Session.Query s); sql = (if sql = [] then ''-'' else sql)
      in [fmt_i (Session.PID s), name_str wide (Session.Usename s), name_str wide (Session.Datname s),
          name_str wide (Session.ApplicationName s), client s] @
         (if all then [masked_cell s (Session.BackendType s)] else []) @
         [masked_cell s (Session.State s), age_cell s (Session.XactAgeS s), age_cell s (Session.QueryAgeS s),
          wait_cell s, sql])"

definition listed_session :: "bool \<Rightarrow> Session \<Rightarrow> bool" where
  "listed_session all s \<longleftrightarrow> all \<or> kindOf s = kindClient \<and> Session.State s \<noteq> Some ''idle''"

definition list_header :: "bool \<Rightarrow> string list" where
  "list_header all =
     [''pid'', ''user'', ''database'', ''application'', ''client''] @ (if all then [''type''] else []) @
     [''state'', ''xact'', ''query'', ''wait'', ''sql'']"

definition writeList :: "(nat \<Rightarrow> bool) \<Rightarrow> Session list \<Rightarrow> bool \<Rightarrow> int \<Rightarrow> string" where
  "writeList wide xs all limit =
     (let shown = filter (listed_session all) xs;
          hidden = (if all then 0 else kind_count xs kindHidden);
          cut = cut_limit limit shown
      in nl @ (if all then ''all'' else ''not idle'') @ '': '' @ fmt_d (int (length shown)) @
         (if 0 < hidden then '' visible, '' @ fmt_d hidden @ '' hidden'' else []) @ nl @
         (if shown = [] then []
          else writeTable wide ''  '' (Some (list_header all)) (map (session_line wide all) cut) @
               more_rows (int (length shown) - int (length cut))))"

definition sessions_write :: "(nat \<Rightarrow> bool) \<Rightarrow> Session list \<Rightarrow> bool \<Rightarrow> int \<Rightarrow> Probe \<Rightarrow> string" where
  "sessions_write wide xs all limit p =
     (if Probe.Status p \<noteq> StatusOK then writeNotOK SessionActivityID p
      else writeSummary wide xs @ writeList wide xs all limit)"

section \<open>Locks\<close>

text \<open>The object a lock is on: its type and its relation.\<close>

type_synonym lockObject = "string \<times> string"

definition objectOf :: "Lock \<Rightarrow> lockObject" where
  "objectOf x = (Lock.Locktype x, case Lock.Relation x of None \<Rightarrow> [] | Some r \<Rightarrow> r)"

definition label :: "lockObject \<Rightarrow> string" where
  "label x =
     (if snd x = [] then fst x
      else if fst x \<noteq> ''relation'' then snd x @ '' ('' @ fst x @ '')''
      else snd x)"

definition blockerName :: "int32 \<Rightarrow> string" where
  "blockerName pid = (if pid = PreparedBlocker then ''2PC'' else fmt_i pid)"

definition objectName :: "(nat \<Rightarrow> bool) \<Rightarrow> Lock \<Rightarrow> string" where
  "objectName wide x = fitWidth wide (escapeControl (label (objectOf x))) maxName"

definition waited :: "Lock \<Rightarrow> string" where
  "waited x = (case Lock.WaitS x of None \<Rightarrow> ''?'' | Some s \<Rightarrow> duration s)"

definition blocked_by :: "Lock \<Rightarrow> string" where
  "blocked_by x =
     (if Lock_Blockers x = [] then ''-'' else join '', '' (map blockerName (Lock_Blockers x)))"

definition waiting_locks :: "Lock list \<Rightarrow> Lock list" where
  "waiting_locks xs = filter (\<lambda>x. \<not> Lock.Granted x \<and> Lock.PID x \<noteq> None) xs"

text \<open>Per direct blocker, how many sessions it blocks and the objects they want.\<close>

definition blocker_groups :: "Lock list \<Rightarrow> (int32 \<times> int \<times> lockObject list) list" where
  "blocker_groups waiting =
     foldl (\<lambda>gs (b, x). group_add b
         (\<lambda>g. case g of None \<Rightarrow> (1, [objectOf x]) | Some (n, os) \<Rightarrow> (n + 1, os @ [objectOf x])) gs) []
       (concat (map (\<lambda>x. map (\<lambda>b. (b, x)) (Lock_Blockers x)) waiting))"

definition blocker_less :: "int32 \<times> int \<times> lockObject list \<Rightarrow> int32 \<times> int \<times> lockObject list \<Rightarrow> bool" where
  "blocker_less a b =
     (if fst (snd a) \<noteq> fst (snd b) then fst (snd b) < fst (snd a) else sint (fst a) < sint (fst b))"

definition holds :: "(nat \<Rightarrow> bool) \<Rightarrow> Lock list \<Rightarrow> int32 \<Rightarrow> lockObject list \<Rightarrow> string" where
  "holds wide xs b wanted =
     (let mine = filter (\<lambda>x. (b = PreparedBlocker \<and> Lock.PID x = None \<or> Lock.PID x = Some b) \<and>
                   objectOf x \<in> set wanted) xs;
          named = foldl (\<lambda>out x. let s = objectName wide x @ '' '' @ Lock.Mode x
                    in if s \<in> fst ` set out then out else out @ [(s, Lock.Granted x)]) [] mine;
          held = map fst (filter snd named);
          queued = map fst (filter (\<lambda>p. \<not> snd p) named)
      in if held \<noteq> [] then join '', '' held
         else if queued \<noteq> [] then ''(queued ahead for '' @ join '', '' queued @ '')''
         else ''-'')"

definition writeBlockers :: "(nat \<Rightarrow> bool) \<Rightarrow> Lock list \<Rightarrow> Lock list \<Rightarrow> string" where
  "writeBlockers wide xs waiting =
     (let gs = slice_stable blocker_less (blocker_groups waiting)
      in nl @ ''blockers: '' @ fmt_d (int (length gs)) @ nl @
         writeTable wide ''  '' (Some [''pid'', ''blocks'', ''holds''])
           (map (\<lambda>(b, n, wanted). [blockerName b, fmt_d n, holds wide xs b wanted]) gs))"

text \<open>Longest wait first, unseen ones last, then by pid.\<close>

definition wait_less :: "Lock \<Rightarrow> Lock \<Rightarrow> bool" where
  "wait_less x y =
     (case (Lock.WaitS x, Lock.WaitS y) of
        (Some a, None) \<Rightarrow> True
      | (None, Some b) \<Rightarrow> False
      | (Some a, Some b) \<Rightarrow> if \<not> f_eq a b then f_less b a else sint (the (Lock.PID x)) < sint (the (Lock.PID y))
      | (None, None) \<Rightarrow> sint (the (Lock.PID x)) < sint (the (Lock.PID y)))"

definition writeWaiting :: "(nat \<Rightarrow> bool) \<Rightarrow> Lock list \<Rightarrow> int \<Rightarrow> string" where
  "writeWaiting wide waiting limit =
     (let shown = slice_stable wait_less waiting; cut = cut_limit limit shown
      in nl @ ''waiting: '' @ fmt_d (int (length waiting)) @ nl @
         (if waiting = [] then []
          else writeTable wide ''  '' (Some [''pid'', ''object'', ''wants'', ''waited'', ''blocked by''])
                 (map (\<lambda>x. [fmt_i (the (Lock.PID x)), objectName wide x, Lock.Mode x, waited x, blocked_by x]) cut) @
               more_rows (int (length shown) - int (length cut))))"

definition locks_write :: "(nat \<Rightarrow> bool) \<Rightarrow> Lock list \<Rightarrow> int \<Rightarrow> Probe \<Rightarrow> string" where
  "locks_write wide xs limit p =
     (if Probe.Status p \<noteq> StatusOK then writeNotOK LockListID p
      else let waiting = waiting_locks xs
           in (if waiting \<noteq> [] then writeBlockers wide xs waiting else []) @ writeWaiting wide waiting limit)"

section \<open>One session\<close>

text \<open>The statement with its own line breaks, tabs expanded, every other control escaped.\<close>

definition sqlLines :: "string \<Rightarrow> string list" where
  "sqlLines q =
     (let q = replace_all [CHR 0x09] ''    '' (replace_all [CHR 0x0D, CHR 0x0A] [CHR 0x0A] q)
      in map (\<lambda>l. escapeControl (trim_right (CHR '' '') l)) (split_at (CHR 0x0A) (trim_right (CHR 0x0A) q)))"

definition activity_kv :: "(nat \<Rightarrow> bool) \<Rightarrow> Session \<Rightarrow> (string \<times> string) list" where
  "activity_kv wide s =
     [(''user'', name_str wide (Session.Usename s)), (''database'', name_str wide (Session.Datname s)),
      (''application'', name_str wide (Session.ApplicationName s)), (''client'', client s),
      (''type'', masked_cell s (Session.BackendType s)),
      (''state'', masked_cell s (Session.State s) @
         (case (Session.State s, Session.StateAgeS s) of
            (Some _, Some age) \<Rightarrow> if Session_Masked s then [] else ''  (for '' @ duration age @ '')''
          | _ \<Rightarrow> [])),
      (''xact'', age_cell s (Session.XactAgeS s)), (''query'', age_cell s (Session.QueryAgeS s)),
      (''wait'', wait_cell s),
      (''xid / xmin'', cell (v_opt v_uint (Session.BackendXID s)) @ '' / '' @ cell (v_opt v_uint (Session.BackendXmin s)))]"

definition sql_title :: "Session \<Rightarrow> string" where
  "sql_title s =
     (if \<not> Session_Masked s \<and> \<not> Session_Untracked s \<and> Session.State s \<noteq> None \<and> Session.State s \<noteq> Some ''active''
      then ''last sql'' else ''sql'')"

definition sql_block :: "Session \<Rightarrow> string" where
  "sql_block s =
     (if Session_Masked s then ''  ?'' @ nl
      else case Session.Query s of
        None \<Rightarrow> ''  -'' @ nl
      | Some q \<Rightarrow> if trim_space q = [] then ''  -'' @ nl
                 else concat (map (\<lambda>l. ''  '' @ l @ nl) (sqlLines q)))"

definition writeActivity :: "(nat \<Rightarrow> bool) \<Rightarrow> Session \<Rightarrow> string" where
  "writeActivity wide s =
     nl @ ''session '' @ fmt_i (Session.PID s) @ nl @ writeKV 0 (activity_kv wide s) @
     nl @ sql_title s @ nl @ sql_block s"

definition mine :: "int32 \<Rightarrow> Lock \<Rightarrow> bool" where
  "mine pid x \<longleftrightarrow> Lock.PID x = Some pid"

definition counted_table :: "(nat \<Rightarrow> bool) \<Rightarrow> string \<Rightarrow> string list \<Rightarrow> string list list \<Rightarrow> string" where
  "counted_table wide title header body =
     nl @ title @ '': '' @ fmt_d (int (length body)) @ nl @
     (if body = [] then [] else writeTable wide ''  '' (Some header) body)"

definition writeWaitingFor :: "(nat \<Rightarrow> bool) \<Rightarrow> int32 \<Rightarrow> Lock list \<Rightarrow> string" where
  "writeWaitingFor wide pid xs =
     counted_table wide ''waiting for'' [''object'', ''wants'', ''waited'', ''blocked by'']
       (map (\<lambda>x. [objectName wide x, Lock.Mode x, waited x, blocked_by x])
         (filter (\<lambda>x. mine pid x \<and> \<not> Lock.Granted x) xs))"

definition writeBlocking :: "(nat \<Rightarrow> bool) \<Rightarrow> int32 \<Rightarrow> Lock list \<Rightarrow> string" where
  "writeBlocking wide pid xs =
     counted_table wide ''blocking'' [''pid'', ''object'', ''wants'', ''waited'']
       (map (\<lambda>x. [fmt_i (the (Lock.PID x)), objectName wide x, Lock.Mode x, waited x])
         (filter (\<lambda>x. \<not> Lock.Granted x \<and> Lock.PID x \<noteq> None \<and> \<not> mine pid x \<and> pid \<in> set (Lock_Blockers x)) xs))"

definition held_row :: "int32 \<Rightarrow> Lock list \<Rightarrow> Lock \<Rightarrow> bool" where
  "held_row pid xs x \<longleftrightarrow> mine pid x \<and> Lock.Granted x \<and>
     \<not> ((Lock.Locktype x = ''virtualxid'' \<or> Lock.Locktype x = ''transactionid'') \<and>
        objectOf x \<notin> objectOf ` set (filter (\<lambda>y. \<not> Lock.Granted y \<and> \<not> mine pid y) xs))"

definition writeHolds :: "(nat \<Rightarrow> bool) \<Rightarrow> int32 \<Rightarrow> Lock list \<Rightarrow> string" where
  "writeHolds wide pid xs =
     counted_table wide ''holds'' [''object'', ''mode'']
       (firsts (map (\<lambda>x. [objectName wide x, Lock.Mode x]) (filter (held_row pid xs) xs)))"

definition session_write :: "(nat \<Rightarrow> bool) \<Rightarrow> int32 \<Rightarrow> SessionActivity \<Rightarrow> LockList \<Rightarrow> bool \<Rightarrow> string" where
  "session_write wide pid a l found =
     (if \<not> found then nl @ ''session '' @ fmt_i pid @ '': not found (it may have ended)'' @ nl
      else (if coll.Status a \<noteq> StatusOK
            then nl @ ''session '' @ fmt_i pid @ nl @ writeNotOKAs SessionActivityID (coll.Status a) (coll.Reason a)
            else concat (map (writeActivity wide) (coll.Rows a))) @
           (if coll.Status l \<noteq> StatusOK then writeNotOKAs LockListID (coll.Status l) (coll.Reason l)
            else writeWaitingFor wide pid (coll.Rows l) @ writeBlocking wide pid (coll.Rows l) @
                 writeHolds wide pid (coll.Rows l)))"

end
