(* ===== verification/TextTxn.thy ===== *)
theory TextTxn
  imports TextSession
begin

text \<open>
  The text layouts of \<open>txn\<close>, \<open>waits\<close> and \<open>slots\<close> (\<open>internal/report/{txn,waits,slots}.go\<close>), with the
  comparison of transaction ids modulo \<open>2\<^sup>3\<^sup>2\<close> that finds the oldest one.
\<close>

section \<open>Transactions\<close>

text \<open>\<open>int32(a-b) < 0\<close>: the subtraction wraps, and its bits are read as a signed number.\<close>

definition olderXID :: "uint32 \<Rightarrow> uint32 \<Rightarrow> bool" where
  "olderXID a b \<longleftrightarrow> sint (a - b) < 0"

definition oldest_xid :: "uint32 list \<Rightarrow> uint32" where
  "oldest_xid xs = foldl (\<lambda>old x. if olderXID x old then x else old) (hd xs) (tl xs)"

definition pid_less :: "Session \<Rightarrow> Session \<Rightarrow> bool" where
  "pid_less x y \<longleftrightarrow> sint (Session.PID x) < sint (Session.PID y)"

definition session_holders :: "Session \<Rightarrow> (uint32 \<times> string) list" where
  "session_holders s =
     (case Session.BackendXID s of None \<Rightarrow> [] | Some x \<Rightarrow> [(x, fmt_i (Session.PID s) @ '' xid'')]) @
     (case Session.BackendXmin s of None \<Rightarrow> [] | Some x \<Rightarrow> [(x, fmt_i (Session.PID s) @ '' xmin'')])"

definition holders :: "(nat \<Rightarrow> bool) \<Rightarrow> SessionActivity \<Rightarrow> TxnPrepared \<Rightarrow> (uint32 \<times> string) list" where
  "holders wide a p =
     (if coll.Status p = StatusOK
      then map (\<lambda>x. (Prepared.Transaction x, ''2PC '' @ fitWidth wide (escapeControl (Prepared.GID x)) maxName)) (coll.Rows p)
      else []) @
     (if coll.Status a = StatusOK then concat (map session_holders (slice_stable pid_less (coll.Rows a))) else [])"

definition missing_sources :: "SessionActivity \<Rightarrow> TxnPrepared \<Rightarrow> string list" where
  "missing_sources a p =
     (if coll.Status a \<noteq> StatusOK then [SessionActivityID] else []) @
     (if coll.Status p \<noteq> StatusOK \<and> coll.Status p \<noteq> StatusNotApplicable then [TxnPreparedID] else [])"

definition writeOldest :: "(nat \<Rightarrow> bool) \<Rightarrow> SessionActivity \<Rightarrow> TxnPrepared \<Rightarrow> string" where
  "writeOldest wide a p =
     (let hs = holders wide a p; missing = missing_sources a p;
          caveat = (if missing = [] then []
                    else ''; '' @ join '', '' missing @ '' not collected, an older one may exist'');
          oldest = oldest_xid (map fst hs)
      in if hs = [] then
           (if missing = [] then []
            else nl @ ''oldest xid: unknown  ('' @ join '', '' missing @ '' not collected)'' @ nl)
         else nl @ ''oldest xid: '' @ fmt_u oldest @ ''  ('' @
              join '', '' (map snd (filter (\<lambda>h. fst h = oldest) hs)) @ caveat @ '')'' @ nl)"

definition has_ids :: "Session \<Rightarrow> bool" where
  "has_ids s \<longleftrightarrow> Session.BackendXID s \<noteq> None \<or> Session.BackendXmin s \<noteq> None"

definition open_txn :: "Session \<Rightarrow> bool" where
  "open_txn s \<longleftrightarrow> has_ids s \<or> \<not> (Session_Masked s \<or> Session_Untracked s) \<and> Session.XactAgeS s \<noteq> None"

definition hidden_txn :: "Session \<Rightarrow> bool" where
  "hidden_txn s \<longleftrightarrow> (Session_Masked s \<or> Session_Untracked s) \<and> \<not> has_ids s"

definition txn_line :: "(nat \<Rightarrow> bool) \<Rightarrow> Session \<Rightarrow> string list" where
  "txn_line wide s =
     (let (state, xact, sql) =
        (if Session_Masked s then (''?'', ''?'', ''?'')
         else if Session_Untracked s then (cell_str (Session.State s), ''?'', ''?'')
         else (cell_str (Session.State s),
               (case Session.XactAgeS s of None \<Rightarrow> ''-'' | Some x \<Rightarrow> duration x),
               (let q = cell_str (Session.Query s) in if q = [] then ''-'' else q)))
      in [fmt_i (Session.PID s), name_str wide (Session.Usename s), name_str wide (Session.Datname s),
          name_str wide (Session.ApplicationName s), state, xact, cell (v_opt v_uint (Session.BackendXID s)),
          cell (v_opt v_uint (Session.BackendXmin s)), sql])"

definition writeOpen :: "(nat \<Rightarrow> bool) \<Rightarrow> SessionActivity \<Rightarrow> int \<Rightarrow> string" where
  "writeOpen wide a limit =
     (if coll.Status a \<noteq> StatusOK then writeNotOKAs SessionActivityID (coll.Status a) (coll.Reason a)
      else let shown = filter open_txn (coll.Rows a);
               hidden = int (length (filter hidden_txn (coll.Rows a)));
               cut = cut_limit limit shown
           in nl @ ''open transactions: '' @ fmt_d (int (length shown)) @
              (if 0 < hidden then '', '' @ plural hidden ''session'' ''sessions'' @ '' hidden'' else []) @ nl @
              (if shown = [] then []
               else writeTable wide ''  '' (Some [''pid'', ''user'', ''database'', ''application'', ''state'', ''xact'',
                      ''xid'', ''xmin'', ''sql'']) (map (txn_line wide) cut) @
                    more_rows (int (length shown) - int (length cut))))"

definition writePrepared :: "(nat \<Rightarrow> bool) \<Rightarrow> TxnPrepared \<Rightarrow> string" where
  "writePrepared wide p =
     (if coll.Status p \<noteq> StatusOK then writeNotOKAs TxnPreparedID (coll.Status p) (coll.Reason p)
      else counted_table wide ''prepared'' [''gid'', ''owner'', ''database'', ''age'', ''xid'']
        (map (\<lambda>x. [fitWidth wide (escapeControl (Prepared.GID x)) maxName, name wide (VStr (Prepared.Owner x)),
                   name wide (VStr (Prepared.Database x)), duration (Prepared.AgeS x), fmt_u (Prepared.Transaction x)])
          (coll.Rows p)))"

definition txn_write :: "(nat \<Rightarrow> bool) \<Rightarrow> SessionActivity \<Rightarrow> TxnPrepared \<Rightarrow> int \<Rightarrow> string" where
  "txn_write wide a p limit = writeOldest wide a p @ writeOpen wide a limit @ writePrepared wide p"

section \<open>Waits\<close>

definition maxPIDs :: nat where
  "maxPIDs = 10"

definition isActive :: "Wait \<Rightarrow> bool" where
  "isActive g \<longleftrightarrow> Wait.State g = Some ''active''"

definition waitLabel :: "Wait \<Rightarrow> string" where
  "waitLabel g =
     (if Wait.WaitEventType g \<noteq> None then cell_str (Wait.WaitEventType g) @ '':'' @ cell_str (Wait.WaitEvent g)
      else if isActive g \<or> Wait.State g = Some ''fastpath function call'' then ''(running)''
      else ''-'')"

definition pidList :: "int32 list \<Rightarrow> string" where
  "pidList pids =
     join '' '' (map fmt_i (take maxPIDs pids) @
       (if maxPIDs < length pids then [''... (+'' @ fmt_d (int (length pids) - int maxPIDs) @ '')''] else []))"

text \<open>The counters of the loop, and the groups it shows.\<close>

record wait_counts =
  busy :: int
  idle :: int
  background :: int
  hidden :: int
  untracked :: int
  shown :: "Wait list"

definition without_background :: "Wait \<Rightarrow> Wait" where
  "without_background g =
     g\<lparr>Wait.Sessions := Wait.Sessions g - int (length (Wait.Background g)),
       Wait.PIDs := filter (\<lambda>p. p \<notin> set (Wait.Background g)) (Wait.PIDs g)\<rparr>"

definition count_wait :: "wait_counts \<Rightarrow> Wait \<Rightarrow> wait_counts" where
  "count_wait n g =
     (let n = n\<lparr>hidden := hidden n + Wait.Masked g\<rparr>;
          rest = Wait.Sessions g - Wait.Masked g;
          split_off = Wait.WaitEventType g = None \<and> Wait.Background g \<noteq> [];
          others = (if split_off then rest - int (length (Wait.Background g)) else rest)
      in if rest = 0 then n
         else if Wait.WaitEventType g = Some ''Activity'' then n\<lparr>background := background n + rest\<rparr>
         else if Wait.State g = Some ''idle'' then n\<lparr>idle := idle n + rest\<rparr>
         else if Wait.State g = None \<and> Wait.WaitEventType g = None then n\<lparr>background := background n + rest\<rparr>
         else if Wait.State g = Some ''disabled'' then n\<lparr>untracked := untracked n + rest\<rparr>
         else let n = (if split_off then n\<lparr>background := background n + int (length (Wait.Background g))\<rparr> else n);
                  h = (if split_off then without_background g else g)
              in if split_off \<and> others = 0 then n
                 else n\<lparr>busy := busy n + others, shown := shown n @ [h]\<rparr>)"

definition count_waits :: "Wait list \<Rightarrow> wait_counts" where
  "count_waits gs = foldl count_wait
     \<lparr>busy = 0, idle = 0, background = 0, hidden = 0, untracked = 0, shown = []\<rparr> gs"

definition wait_group_less :: "Wait \<Rightarrow> Wait \<Rightarrow> bool" where
  "wait_group_less a b =
     (if Wait.Sessions a \<noteq> Wait.Sessions b then Wait.Sessions b < Wait.Sessions a
      else if isActive a \<noteq> isActive b then isActive a
      else if waitLabel a \<noteq> waitLabel b then waitLabel a < waitLabel b
      else cell_str (Wait.State a) < cell_str (Wait.State b))"

definition wait_line :: "Wait \<Rightarrow> string list" where
  "wait_line g =
     [waitLabel g, (if Wait.State g = None then ''(background)'' else cell_str (Wait.State g)),
      fmt_d (Wait.Sessions g - Wait.Masked g), pidList (Wait.PIDs g)]"

definition not_shown :: "wait_counts \<Rightarrow> string list" where
  "not_shown n =
     (if 0 < idle n then [fmt_d (idle n) @ '' idle''] else []) @
     (if 0 < background n then [fmt_d (background n) @ '' background''] else []) @
     (if 0 < hidden n then [fmt_d (hidden n) @ '' hidden (state unknown)''] else []) @
     (if 0 < untracked n then [fmt_d (untracked n) @ '' untracked (state unknown)''] else [])"

definition waits_write :: "(nat \<Rightarrow> bool) \<Rightarrow> WaitSummary \<Rightarrow> string" where
  "waits_write wide w =
     (if coll.Status w \<noteq> StatusOK then writeNotOKAs WaitSummaryID (coll.Status w) (coll.Reason w)
      else let n = count_waits (coll.Rows w); gs = slice_stable wait_group_less (shown n)
           in nl @ ''not idle: '' @ fmt_d (busy n) @ nl @
              (if gs = [] then []
               else writeTable wide ''  '' (Some [''wait'', ''state'', ''sessions'', ''pids'']) (map wait_line gs)) @
              (if not_shown n = [] then [] else nl @ ''not shown: '' @ join '', '' (not_shown n) @ nl))"

section \<open>Slots\<close>

definition retained :: "Slot \<Rightarrow> int option" where
  "retained s = map_option sint (Slot.RetainedWALBytes s)"

definition slot_less :: "Slot \<Rightarrow> Slot \<Rightarrow> bool" where
  "slot_less a b =
     (if Slot.Active a \<noteq> Slot.Active b then \<not> Slot.Active a
      else if (retained a = None) \<noteq> (retained b = None) then retained a \<noteq> None
      else if retained a \<noteq> None \<and> max 0 (the (retained a)) \<noteq> max 0 (the (retained b))
        then the (retained b) < the (retained a)
      else Slot.Name a < Slot.Name b)"

definition slot_active :: "Slot \<Rightarrow> string" where
  "slot_active s =
     (if \<not> Slot.Active s then ''no''
      else case Slot.ActivePID s of None \<Rightarrow> ''yes'' | Some pid \<Rightarrow> ''yes (pid '' @ fmt_i pid @ '')'')"

definition slot_line :: "(nat \<Rightarrow> bool) \<Rightarrow> bool \<Rightarrow> Slot \<Rightarrow> string list" where
  "slot_line wide catalog s =
     [fitWidth wide (escapeControl (Slot.Name s)) maxName, cell (VStr (Slot.Type s)), slot_active s,
      behind (Slot.RetainedWALBytes s), cell (v_opt v_uint (Slot.Xmin s))] @
     (if catalog then [cell (v_opt v_uint (Slot.CatalogXmin s))] else []) @
     [cell (v_opt v_int (Slot.XminAge s)), cell_str (Slot.RestartLSN s)]"

definition slots_write :: "(nat \<Rightarrow> bool) \<Rightarrow> SlotList \<Rightarrow> string" where
  "slots_write wide l =
     (if coll.Status l \<noteq> StatusOK then writeNotOKAs SlotListID (coll.Status l) (coll.Reason l)
      else let rs = slice_stable slot_less (coll.Rows l); catalog = (\<exists>s\<in>set rs. Slot.CatalogXmin s \<noteq> None)
           in counted_table wide ''slots''
                ([''name'', ''type'', ''active'', ''retained'', ''xmin''] @
                 (if catalog then [''catalog xmin''] else []) @ [''xmin age'', ''restart_lsn''])
                (map (slot_line wide catalog) rs))"

end
