(* ===== verification/TextInst.thy ===== *)
theory TextInst
  imports TextSession
begin

text \<open>
  The text layouts on the instance: \<open>status\<close>, \<open>space\<close>, \<open>archive\<close>, \<open>checkpoint\<close>, \<open>params\<close> and \<open>wal\<close>
  (\<open>internal/report/{status,space,archive,checkpoint,params,wal}.go\<close>).
\<close>

section \<open>Status\<close>

text \<open>
  A start time is read back with \<open>time.Parse\<close> and printed as a date and a time of day in the same
  zone, which are two pieces of the text itself. What reaches it was printed as RFC 3339; only a
  year that does not have four digits does not read back.
\<close>

definition rfc_shape :: "string \<Rightarrow> bool" where
  "rfc_shape s \<longleftrightarrow>
     list_all2 (\<lambda>p c. if p = CHR ''d'' then is_digit c else c = p) ''dddd-dd-ddTdd:dd:dd'' (take 19 s)"

definition datetime_of :: "string \<Rightarrow> string option" where
  "datetime_of s =
     (if 20 \<le> length s \<and> rfc_shape s then Some (take 10 s @ '' '' @ take 8 (drop 11 s)) else None)"

definition start_text :: "(string \<Rightarrow> val) \<Rightarrow> string" where
  "start_text row =
     (let start = cell (row ''start_time'')
      in (case datetime_of start of None \<Rightarrow> start | Some t \<Rightarrow> t) @
         (case number (row ''uptime_s'') of None \<Rightarrow> [] | Some up \<Rightarrow> ''  (up '' @ duration up @ '')''))"

definition info_kv :: "(string \<Rightarrow> val) \<Rightarrow> (string \<times> string) list" where
  "info_kv row =
     [(''version'', cell (row ''version'')), (''data_directory'', cell (row ''data_directory'')),
      (''port'', cell (row ''port'')), (''start_time'', start_text row),
      (''connections'', cell (row ''connections'') @ '' / '' @ cell (row ''usable_connections'') @
         ''  (max_connections '' @ cell (row ''max_connections'') @ '' - superuser_reserved '' @
         cell (row ''superuser_reserved_connections'') @ '')'')]"

definition writeInfo :: "Probe \<Rightarrow> string" where
  "writeInfo p = nl @ ''inst.info'' @ nl @ concat (map (\<lambda>row. writeKV 0 (info_kv row)) (probe_rows_of p))"

definition writeDownstreams :: "(nat \<Rightarrow> bool) \<Rightarrow> Probe \<Rightarrow> string" where
  "writeDownstreams wide p =
     counted_table wide ''inst.downstreams'' [''name'', ''address'', ''state'', ''sync'']
       (map (\<lambda>row. [cell (row ''application_name''), cell (row ''client_addr''), cell (row ''state''),
          cell (row ''sync_state'')]) (probe_rows_of p))"

definition upstream_kv :: "(string \<Rightarrow> val) \<Rightarrow> (string \<times> string) list" where
  "upstream_kv row =
     [(''status'', cell (row ''status'')),
      (''upstream'', if row ''sender_host'' = VNull then ''-''
                     else cell (row ''sender_host'') @ '':'' @ cell (row ''sender_port'')),
      (''slot'', cell (row ''slot_name'')),
      (''last_msg'', case number (row ''last_msg_age_s'') of None \<Rightarrow> ''-'' | Some s \<Rightarrow> duration s @ '' ago'')]"

definition writeUpstreamAs :: "Probe \<Rightarrow> string \<Rightarrow> string" where
  "writeUpstreamAs p title =
     nl @ title @ nl @
     (if Probe.Rows p = [] then writeKV (length ''last_msg'') [(''status'', ''(no walreceiver process)'')]
      else concat (map (\<lambda>row. writeKV 0 (upstream_kv row)) (probe_rows_of p)))"

text \<open>The databases, largest first; a size that may not be read goes last.\<close>

record db =
  db_name :: string
  db_bytes :: flt
  db_seen :: bool

definition db_of :: "(string \<Rightarrow> val) \<Rightarrow> db" where
  "db_of row = \<lparr>db_name = cell (row ''datname''), db_bytes = number0 (row ''size_bytes''),
     db_seen = (number (row ''size_bytes'') \<noteq> None)\<rparr>"

definition db_less :: "db \<Rightarrow> db \<Rightarrow> bool" where
  "db_less a b =
     (if db_seen a \<noteq> db_seen b then db_seen a
      else if \<not> f_eq (db_bytes a) (db_bytes b) then f_less (db_bytes b) (db_bytes a)
      else db_name a < db_name b)"

definition db_size :: "db \<Rightarrow> string" where
  "db_size d = (if db_seen d then size_text (db_bytes d) else ''-'')"

definition writeDatabases :: "Probe \<Rightarrow> string \<Rightarrow> string" where
  "writeDatabases p title =
     (let found = map db_of (probe_rows_of p);
          tot = foldl (\<lambda>t d. if db_seen d then f_add rnd64 t (db_bytes d) else t) (Fin 0) found;
          hidden = length (filter (\<lambda>d. \<not> db_seen d) found);
          dbs = slice_stable db_less found;
          nameW = foldl (\<lambda>w d. max w (length (runes (db_name d)))) 0 dbs;
          sizeW = foldl (\<lambda>w d. max w (length (db_size d))) 0 dbs
      in nl @ title @ '': '' @ fmt_d (int (length dbs)) @
         (if hidden < length dbs then '', total '' @ size_text tot else []) @
         (if 0 < hidden then ''  (size of '' @ fmt_d (int hidden) @ '' not visible)'' else []) @ nl @
         concat (map (\<lambda>d. ''  '' @ db_name d @ replicate (nameW - length (runes (db_name d)) + 2) (CHR '' '') @
           pad_start sizeW (db_size d) @ nl) dbs))"

text \<open>The share of what non-root users can fill, as \<open>df\<close> gives it.\<close>

definition writeDisk :: "Probe \<Rightarrow> string" where
  "writeDisk p =
     nl @ ''inst.disk  (filesystem of data_directory)'' @ nl @
     concat (map (\<lambda>row.
       let tot = number0 (row ''total_bytes''); used = number0 (row ''used_bytes'');
           avail = number0 (row ''avail_bytes''); fill = f_add rnd64 used avail;
           u = size_text used; f = size_text avail; w = max (length u) (length f)
       in ''  used  '' @ pad_start w u @ '' / '' @ size_text tot @
          (if f_less (Fin 0) fill
           then ''  ('' @ fmt_f0 (f_round (f_div rnd64 (f_mul rnd64 used (Fin 100)) fill)) @ ''%)'' else []) @ nl @
          ''  free  '' @ pad_start w f @ nl) (probe_rows_of p))"

definition status_order :: "string \<Rightarrow> string list" where
  "status_order role =
     (if role = ''standby'' then [''inst.info'', ''inst.upstream'', ''inst.downstreams'', ''inst.databases'', ''inst.disk'']
      else [''inst.info'', ''inst.downstreams'', ''inst.upstream'', ''inst.databases'', ''inst.disk''])"

definition status_section :: "(nat \<Rightarrow> bool) \<Rightarrow> string \<Rightarrow> Probe \<Rightarrow> string" where
  "status_section wide i p =
     (if Probe.Status p \<noteq> StatusOK then writeNotOK i p
      else if i = ''inst.info'' then writeInfo p
      else if i = ''inst.downstreams'' then writeDownstreams wide p
      else if i = ''inst.upstream'' then writeUpstreamAs p ''inst.upstream''
      else if i = ''inst.databases'' then writeDatabases p ''inst.databases''
      else if i = ''inst.disk'' then writeDisk p else [])"

definition writeStatus :: "(nat \<Rightarrow> bool) \<Rightarrow> Report \<Rightarrow> string" where
  "writeStatus wide r =
     concat (map (\<lambda>i. case probe_of r i of None \<Rightarrow> [] | Some p \<Rightarrow> status_section wide i p)
       (status_order (report_context.Role (Report.Context r))))"

section \<open>Space\<close>

definition mount_id :: "Mount \<Rightarrow> string" where
  "mount_id m = (if Disk.FSID (Mount.Disk m) = [] then ''path:'' @ Mount.Path m else Disk.FSID (Mount.Disk m))"

definition mount_what :: "Mount \<Rightarrow> string" where
  "mount_what m = (if Mount.Kind m = ''tablespace'' then ''tablespace '' @ escapeControl (Mount.Path m) else Mount.Kind m)"

definition disk_groups :: "Mount list \<Rightarrow> (string \<times> string list \<times> Disk) list" where
  "disk_groups ms = foldl (\<lambda>gs m. group_add (mount_id m)
     (\<lambda>g. case g of None \<Rightarrow> ([mount_what m], Mount.Disk m) | Some (hs, d) \<Rightarrow> (hs @ [mount_what m], d)) gs) [] ms"

text \<open>The unsigned sum of used and available bytes may wrap, as in the code.\<close>

definition disk_use :: "Disk \<Rightarrow> string" where
  "disk_use d =
     (let fill = Disk.UsedBytes d + Disk.AvailBytes d
      in if 0 < uint fill
         then fmt_f0 (f_round (f_div rnd64 (f_mul rnd64 (f64_of_int (uint (Disk.UsedBytes d))) (Fin 100))
                (f64_of_int (uint fill)))) @ ''%''
         else ''-'')"

definition disk_line :: "string list \<times> Disk \<Rightarrow> string list" where
  "disk_line g = (let (hs, d) = g in [join '', '' hs, size_text (f64_of_int (uint (Disk.UsedBytes d))),
     size_text (f64_of_int (uint (Disk.TotalBytes d))), size_text (f64_of_int (uint (Disk.AvailBytes d))), disk_use d])"

definition space_disk :: "(nat \<Rightarrow> bool) \<Rightarrow> SpaceDisk \<Rightarrow> string" where
  "space_disk wide d =
     (if coll.Status d \<noteq> StatusOK then writeNotOKAs ''disk'' (coll.Status d) (coll.Reason d)
      else let gs = disk_groups (coll.Rows d)
           in nl @ ''disk: '' @ plural (int (length gs)) ''filesystem'' ''filesystems'' @ nl @
              writeTable wide ''  '' (Some [''holds'', ''used'', ''size'', ''free'', ''use'']) (map (disk_line \<circ> snd) gs))"

definition wal_keep :: "(string \<Rightarrow> val) \<Rightarrow> flt \<Rightarrow> string" where
  "wal_keep row v = size_text v @
     (case number (row ''wal_segment_bytes'') of
        Some seg \<Rightarrow> if f_less (Fin 0) seg
                    then ''  ('' @ fmt_f0 (f_div rnd64 v seg) @ '' x '' @ size_text seg @ '')'' else []
      | None \<Rightarrow> [])"

definition wal_block :: "(string \<Rightarrow> val) \<Rightarrow> string" where
  "wal_block row =
     (let files = number0 (row ''files''); bytes = number0 (row ''bytes'');
          max_size = number (row ''max_wal_size_bytes''); keep = number (row ''wal_keep_bytes'');
          bound = (case max_size of None \<Rightarrow> Fin 0 | Some v \<Rightarrow> v);
          bound = (case keep of None \<Rightarrow> bound | Some v \<Rightarrow> f_add rnd64 bound v);
          kv = (case max_size of None \<Rightarrow> [] | Some v \<Rightarrow> [(''max_wal_size'', size_text v)]) @
               (case keep of None \<Rightarrow> [] | Some v \<Rightarrow> [(''wal_keep_segments'', wal_keep row v)])
      in nl @ ''wal: '' @ plural (sint (int64_of_flt files)) ''file'' ''files'' @ '', '' @ size_text bytes @ nl @
         writeKV 0 kv @
         (if kv \<noteq> [] \<and> f_less bound bytes
          then ''  more than max_wal_size plus wal_keep_segments: see kbdiag slots (replication slots), kbdiag archive (failed archiving)'' @ nl
          else []))"

definition writeWAL :: "Probe \<Rightarrow> string" where
  "writeWAL p = concat (map wal_block (probe_rows_of p))"

text \<open>A location is a path and never cut; an empty one is inside the data directory.\<close>

definition tablespace_line :: "(nat \<Rightarrow> bool) \<Rightarrow> (string \<Rightarrow> val) \<Rightarrow> string list" where
  "tablespace_line wide row =
     [name wide (row ''spcname''),
      (case row ''location'' of
         VStr s \<Rightarrow> if cell (VStr s) = [] then ''(in data_directory)'' else escapeControl s
       | _ \<Rightarrow> ''(in data_directory)''),
      (case number (row ''size_bytes'') of None \<Rightarrow> ''?'' | Some v \<Rightarrow> size_text v)]"

definition writeTablespaces :: "(nat \<Rightarrow> bool) \<Rightarrow> Probe \<Rightarrow> string" where
  "writeTablespaces wide p =
     counted_table wide ''tablespaces'' [''name'', ''location'', ''size''] (map (tablespace_line wide) (probe_rows_of p))"

definition space_write :: "(nat \<Rightarrow> bool) \<Rightarrow> SpaceDisk \<Rightarrow> Report \<Rightarrow> string" where
  "space_write wide d r =
     space_disk wide d @ section_at r SpaceWALID ''wal'' writeWAL @
     section_at r InstDatabasesID ''databases'' (\<lambda>p. writeDatabases p ''databases'') @
     section_at r SpaceTablespacesID ''tablespaces'' (writeTablespaces wide)"

end
