(* ===== verification/TextServer.thy ===== *)
theory TextServer
  imports TextSession "HOL-Library.Signed_Division"
begin

text \<open>
  The text layouts of \<open>archive\<close>, \<open>checkpoint\<close>, \<open>params\<close> and \<open>wal\<close>
  (\<open>internal/report/{archive,checkpoint,params,wal}.go\<close>).
\<close>

section \<open>Archiving\<close>

definition archive_mode_text :: "string \<Rightarrow> Archiver \<Rightarrow> string" where
  "archive_mode_text role a =
     escapeControl (Archiver.Mode a) @
     (if Archiver.Mode a = ''off'' then ''  (archiving is off)''
      else if role = ''standby'' \<and> Archiver.Mode a \<noteq> ''always'' then ''  (a standby archives only with always)''
      else [])"

definition archive_kv :: "string \<Rightarrow> Archiver \<Rightarrow> (string \<times> string) list" where
  "archive_kv role a =
     (let cmd = (case Archiver.Command a of None \<Rightarrow> ''(empty)''
                 | Some c \<Rightarrow> if c = [] then ''(empty)'' else escapeControl c);
          timeout = (if Archiver.TimeoutS a = 0 then ''0 (off)'' else fmt_i (Archiver.TimeoutS a) @ ''s'')
      in [(''archive_mode'', archive_mode_text role a)] @
         (if Archiver.Mode a \<noteq> ''off'' then [(''archive_command'', cmd)] else []) @
         [(''archive_timeout'', timeout)])"

definition archiverRow :: "string \<Rightarrow> int64 \<Rightarrow> string option \<Rightarrow> flt option \<Rightarrow> string list" where
  "archiverRow what n wal age =
     [what, fmt_i n] @ (case wal of None \<Rightarrow> [] | Some w \<Rightarrow> [''last '' @ escapeControl w, ago age])"

definition archiver_block :: "(nat \<Rightarrow> bool) \<Rightarrow> string \<Rightarrow> Archiver \<Rightarrow> string" where
  "archiver_block wide role a =
     nl @ ''settings'' @ nl @ writeKV 0 (archive_kv role a) @
     nl @ ''archiver'' @
     (case Archiver.StatsReset a of None \<Rightarrow> [] | Some t \<Rightarrow> ''  (counting since '' @ format_datetime t @ '')'') @ nl @
     writeTable wide ''  '' None
       [archiverRow ''archived'' (Archiver.ArchivedCount a) (Archiver.LastArchivedWAL a) (Archiver.LastArchivedAgeS a),
        archiverRow ''failed'' (Archiver.FailedCount a) (Archiver.LastFailedWAL a) (Archiver.LastFailedAgeS a)]"

definition archive_queue :: "Probe \<Rightarrow> string" where
  "archive_queue p = concat (map (\<lambda>row.
     nl @ ''waiting: '' @ cell (row ''ready'') @ '' .ready, '' @ cell (row ''done'') @ '' .done'' @
     (case number (row ''oldest_ready_age_s'') of None \<Rightarrow> []
      | Some s \<Rightarrow> ''  (oldest .ready '' @ duration s @ '')'') @ nl) (probe_rows_of p))"

definition archive_write :: "(nat \<Rightarrow> bool) \<Rightarrow> ArchiveStatus \<Rightarrow> Report \<Rightarrow> string" where
  "archive_write wide s r =
     (if coll.Status s \<noteq> StatusOK \<or> coll.Rows s = [] then writeNotOKAs ''archiver'' (coll.Status s) (coll.Reason s)
      else archiver_block wide (report_context.Role (Report.Context r)) (hd (coll.Rows s))) @
     section_at r ArchiveReadyID ''waiting'' archive_queue"

section \<open>Checkpoints\<close>

definition checkpoint_title :: "bool \<Rightarrow> string" where
  "checkpoint_title standby =
     (if standby then ''checkpoint record the last restartpoint started from (written by the primary)''
      else ''last checkpoint'')"

definition last_checkpoint :: "LastCheckpoint \<Rightarrow> (string \<times> string) list" where
  "last_checkpoint l =
     [(''time'', case LastCheckpoint.Time l of None \<Rightarrow> ''-''
        | Some t \<Rightarrow> format_datetime t @
            (case LastCheckpoint.AgeS l of None \<Rightarrow> [] | Some age \<Rightarrow> ''  ('' @ duration age @ '' ago)'')),
      (''redo'', cell_str (LastCheckpoint.RedoLSN l) @
        (case LastCheckpoint.RedoWALFile l of None \<Rightarrow> [] | Some f \<Rightarrow> ''  ('' @ escapeControl f @ '')''))]"

definition stats_since :: "BGWriter \<Rightarrow> string" where
  "stats_since b = ''since the statistics reset'' @
     (case BGWriter.StatsReset b of None \<Rightarrow> []
      | Some t \<Rightarrow> '' '' @ format_datetime t @
          (case BGWriter.StatsResetAgeS b of None \<Rightarrow> [] | Some age \<Rightarrow> '' ('' @ duration age @ '' ago)''))"

definition checkpoints_text :: "bool \<Rightarrow> BGWriter \<Rightarrow> string" where
  "checkpoints_text standby b =
     (let timed = BGWriter.CheckpointsTimed b; req = BGWriter.CheckpointsReq b; tot = timed + req
      in if standby
         then fmt_i timed @ '' timed, '' @ fmt_i req @ '' requested restartpoint attempts (a standby counts every try, one every 15s while no new checkpoint record has arrived)''
         else fmt_i tot @ '': '' @ fmt_i timed @ '' timed, '' @ fmt_i req @ '' requested ('' @ pct req tot @
              ''; requested covers WAL volume, CHECKPOINT, base backups, promotion)'')"

definition buffers_text :: "BGWriter \<Rightarrow> string" where
  "buffers_text b =
     (let written = BGWriter.BuffersCheckpoint b + BGWriter.BuffersClean b + BGWriter.BuffersBackend b;
          share = (\<lambda>n. fmt_i n @ '' ('' @ pct n written @ '')'')
      in fmt_i written @ '': checkpointer '' @ share (BGWriter.BuffersCheckpoint b) @ '', bgwriter '' @
         share (BGWriter.BuffersClean b) @ '', backends and others '' @ share (BGWriter.BuffersBackend b))"

definition bgwriter_kv :: "bool \<Rightarrow> BGWriter \<Rightarrow> (string \<times> string) list" where
  "bgwriter_kv standby b =
     [(''checkpoints'', checkpoints_text standby b),
      (''write, sync time'', execTime (BGWriter.CheckpointWriteS b) @ '', '' @ execTime (BGWriter.CheckpointSyncS b)),
      (''buffers written'', buffers_text b), (''buffers allocated'', fmt_i (BGWriter.BuffersAlloc b)),
      (''backend fsyncs'', fmt_i (BGWriter.BuffersBackendFsync b)),
      (''bgwriter stopped'', fmt_i (BGWriter.MaxwrittenClean b) @ '' times at bgwriter_lru_maxpages'')]"

definition checkpoint_settings :: "CheckpointSetting \<Rightarrow> (string \<times> string) list" where
  "checkpoint_settings s =
     [(''checkpoint_timeout'', duration (f64_of_int (sint (CheckpointSetting.TimeoutS s)))),
      (''max_wal_size'', size_text (f64_of_int (sint (CheckpointSetting.MaxWALSizeBytes s)))),
      (''checkpoint_completion_target'', fmt_g (CheckpointSetting.CompletionTarget s)),
      (''checkpoint_warning'', duration (f64_of_int (sint (CheckpointSetting.WarningS s)))),
      (''log_checkpoints'', escapeControl (CheckpointSetting.LogCheckpoints s))]"

text \<open>A block headed by a title over the first row of a probe, or why there is none.\<close>

definition first_block :: "string \<Rightarrow> ('a \<Rightarrow> string) \<Rightarrow> ('a \<Rightarrow> (string \<times> string) list) \<Rightarrow> 'a coll \<Rightarrow> string" where
  "first_block title head kv c =
     (if coll.Status c \<noteq> StatusOK \<or> coll.Rows c = [] then writeNotOKAs title (coll.Status c) (coll.Reason c)
      else nl @ head (hd (coll.Rows c)) @ nl @ writeKV 0 (kv (hd (coll.Rows c))))"

definition checkpoint_write :: "CheckpointStats \<Rightarrow> CheckpointLast \<Rightarrow> CheckpointSettings \<Rightarrow> Report \<Rightarrow> string" where
  "checkpoint_write s l cs r =
     (let standby = report_context.Role (Report.Context r) = ''standby''
      in first_block (checkpoint_title standby) (\<lambda>_. checkpoint_title standby) last_checkpoint l @
         first_block ''statistics'' stats_since (bgwriter_kv standby) s @
         first_block ''settings'' (\<lambda>_. ''settings'') checkpoint_settings cs)"

section \<open>Parameters\<close>

text \<open>\<open>filepath.Base\<close> on a slash-separated path.\<close>

definition file_base :: "string \<Rightarrow> string" where
  "file_base path =
     (if path = [] then ''.''
      else let p = trim_right (CHR ''/'') path
           in if p = [] then ''/'' else rev (takeWhile (\<lambda>c. c \<noteq> CHR ''/'') (rev p)))"

definition paramFile :: "Param \<Rightarrow> string" where
  "paramFile x =
     (case Param.Sourcefile x of
        Some f \<Rightarrow> escapeControl (file_base f) @
          (case Param.Sourceline x of None \<Rightarrow> [] | Some n \<Rightarrow> '':'' @ fmt_i n)
      | None \<Rightarrow> if Param.Source x = ''configuration file'' then ''?'' else ''-'')"

definition paramValue :: "string option \<Rightarrow> string" where
  "paramValue s = (if s = Some [] then [CHR 0x27, CHR 0x27] else cell_str s)"

definition params_note :: string where
  "params_note = ''  this connection sets application_name, default_transaction_read_only, lock_timeout and statement_timeout itself, so their configured values are not shown; per-role and per-database settings show only for this role and database''"

definition params_write :: "(nat \<Rightarrow> bool) \<Rightarrow> ParamsChanged \<Rightarrow> string" where
  "params_write wide p =
     (if coll.Status p \<noteq> StatusOK then writeNotOKAs ''changed'' (coll.Status p) (coll.Reason p)
      else counted_table wide ''pending restart'' [''name'', ''running'', ''file'']
             (map (\<lambda>x. [escapeControl (Param.Name x), paramValue (Param.Setting x), paramFile x])
               (filter Param.PendingRestart (coll.Rows p))) @
           nl @ ''changed: '' @ fmt_d (int (length (coll.Rows p))) @
           '' parameters not at their default (sources other than default, override and this connection)'' @ nl @
           params_note @ nl @
           (if coll.Rows p = [] then []
            else writeTable wide ''  '' (Some [''name'', ''setting'', ''unit'', ''source'', ''file''])
                   (map (\<lambda>x. [escapeControl (Param.Name x), paramValue (Param.Setting x), cell_str (Param.Unit x),
                      escapeControl (Param.Source x), paramFile x]) (coll.Rows p)) @
                 (if ParamsChanged_Redacted p \<noteq> []
                  then ''  only the parameters this account may read: superuser-only ones are not listed'' @ nl else [])))"

section \<open>WAL\<close>

definition position_kv :: "Position \<Rightarrow> (string \<times> string) list" where
  "position_kv p =
     [(if Position.InRecovery p then ''replayed'' else ''lsn'', cell_str (Position.LSN p))] @
     (case Position.WALFile p of None \<Rightarrow> [] | Some f \<Rightarrow> [(''file'', escapeControl f)])"

text \<open>Go's integer division truncates towards zero.\<close>

definition keep_text :: "WAL \<Rightarrow> int64 \<Rightarrow> string" where
  "keep_text x keep = size_text (f64_of_int (sint keep)) @
     (case WAL.WALSegmentBytes x of
        Some seg \<Rightarrow> if 0 < sint seg
          then ''  ('' @ fmt_d (sint keep sdiv sint seg) @ '' x '' @ size_text (f64_of_int (sint seg)) @ '')'' else []
      | None \<Rightarrow> [])"

definition wal_settings :: "SpaceWAL \<Rightarrow> (string \<times> string) list" where
  "wal_settings w =
     (case coll.Rows w of
        x # _ \<Rightarrow> if coll.Status w \<noteq> StatusOK then [] else
          (case WAL.MaxWALSizeBytes x of None \<Rightarrow> [] | Some n \<Rightarrow> [(''max_wal_size'', size_text (f64_of_int (sint n)))]) @
          (case WAL.WALKeepBytes x of None \<Rightarrow> [] | Some n \<Rightarrow> [(''wal_keep_segments'', keep_text x n)])
      | [] \<Rightarrow> [])"

definition slot_keeps :: "SlotList \<Rightarrow> (string \<times> string) list" where
  "slot_keeps s =
     (if coll.Status s \<noteq> StatusOK then [(''slots'', ''? ('' @ status_text (coll.Status s) @ '')'')]
      else if coll.Rows s = [] then [(''slots'', ''none'')]
      else map (\<lambda>x. (''slot '' @ escapeControl (Slot.Name x),
        behind (Slot.RetainedWALBytes x) @ ''  ('' @ (if Slot.Active x then ''active'' else ''inactive: kbdiag slots'') @ '')''))
        (coll.Rows s))"

definition archive_keeps :: "ArchiveReady \<Rightarrow> string \<times> string" where
  "archive_keeps a =
     (''archiving'',
      case coll.Rows a of
        q # _ \<Rightarrow> if coll.Status a \<noteq> StatusOK then ''? ('' @ status_text (coll.Status a) @ '')''
          else fmt_i (ArchiveQueue.Ready q) @ '' .ready '' @ (if ArchiveQueue.Ready q = 1 then ''file'' else ''files'') @
               '' waiting'' @ (if 0 < sint (ArchiveQueue.Ready q) then ''  (kbdiag archive)'' else [])
      | [] \<Rightarrow> ''? ('' @ status_text (coll.Status a) @ '')'')"

definition wal_write :: "WALPosition \<Rightarrow> SpaceWAL \<Rightarrow> SlotList \<Rightarrow> ArchiveReady \<Rightarrow> string" where
  "wal_write p w s a =
     first_block ''position'' (\<lambda>_. ''position'') position_kv p @
     (if coll.Status w \<noteq> StatusOK \<or> coll.Rows w = [] then writeNotOKAs ''sys_wal'' (coll.Status w) (coll.Reason w)
      else nl @ ''sys_wal: '' @ plural (sint (WAL.Files (hd (coll.Rows w)))) ''file'' ''files'' @ '', '' @
           size_text (f64_of_int (sint (WAL.Bytes (hd (coll.Rows w))))) @ nl) @
     nl @ ''what keeps WAL here'' @ nl @
     writeKV 0 (wal_settings w @ slot_keeps s @ [archive_keeps a])"

end
