(* ===== verification/TextTables.thy ===== *)
theory TextTables
  imports TextSession RuleVacuum RuleSeq
begin

text \<open>
  The text layouts on tables and what runs over them: \<open>freeze\<close>, \<open>vacuum\<close>, \<open>table\<close>, \<open>seq\<close>, \<open>top\<close>,
  \<open>top-objects\<close> and \<open>progress\<close>
  (\<open>internal/report/{freeze,vacuum,table_cmd,seq,top,topobjects,progress}.go\<close>).
\<close>

section \<open>Freezing\<close>

text \<open>\<open>tables in <database>\<close>, the title several layouts share.\<close>

definition in_database :: "string \<Rightarrow> Report \<Rightarrow> string" where
  "in_database what r =
     (let d = report_context.Database (Report.Context r)
      in if d = [] then what else what @ '' in '' @ escapeControl d)"

definition limits_block :: "(string \<Rightarrow> val) \<Rightarrow> string" where
  "limits_block row = nl @ ''limits'' @ nl @ writeKV 0
     [(''autovacuum_freeze_max_age'', cell (row ''autovacuum_freeze_max_age'')),
      (''autovacuum_multixact_freeze_max_age'', cell (row ''autovacuum_multixact_freeze_max_age'')),
      (''xid stop limit'', fmt_d XIDStopAge @ ''  (new transaction IDs are refused)'')]"

definition freeze_max :: "Report \<Rightarrow> flt" where
  "freeze_max r = (case probe_of r FreezeLimitsID of
       Some p \<Rightarrow> if Probe.Status p \<noteq> StatusOK then Fin 0
         else foldl (\<lambda>_ row. number0 (row ''autovacuum_freeze_max_age'')) (Fin 0) (probe_rows_of p)
     | None \<Rightarrow> Fin 0)"

definition frozen_less :: "(string \<Rightarrow> val) \<Rightarrow> (string \<Rightarrow> val) \<Rightarrow> bool" where
  "frozen_less x y =
     (let a = number0 (x ''xid_age''); b = number0 (y ''xid_age'')
      in if \<not> f_eq a b then f_less b a else cell (x ''datname'') < cell (y ''datname''))"

definition frozen_line :: "(nat \<Rightarrow> bool) \<Rightarrow> flt \<Rightarrow> (string \<Rightarrow> val) \<Rightarrow> string list" where
  "frozen_line wide maxAge row =
     (let age = number0 (row ''xid_age'')
      in [name wide (row ''datname''), cell (row ''xid_age''),
          (if f_less (Fin 0) maxAge
           then fmt_f0 (f_floor (f_div rnd64 (f_mul rnd64 age (Fin 100)) maxAge)) @ ''%'' else ''-''),
          cell (row ''mxid_age''), fmt_d (max 0 (XIDStopAge - sint (int64_of_flt age)))])"

definition freeze_databases :: "(nat \<Rightarrow> bool) \<Rightarrow> flt \<Rightarrow> Probe \<Rightarrow> string" where
  "freeze_databases wide maxAge p =
     counted_table wide ''databases'' [''name'', ''xid age'', ''of freeze max'', ''mxid age'', ''xids left'']
       (map (frozen_line wide maxAge) (slice_stable frozen_less (probe_rows_of p)))"

definition freeze_tables :: "(nat \<Rightarrow> bool) \<Rightarrow> string \<Rightarrow> Probe \<Rightarrow> string" where
  "freeze_tables wide title p =
     nl @ title @ '': '' @ fmt_d (int (length (Probe.Rows p)) + Probe.Truncated p) @ '', oldest first'' @ nl @
     (if Probe.Rows p = [] then []
      else writeTable wide ''  '' (Some [''relation'', ''kind'', ''xid age'', ''mxid age'', ''heap (est.)''])
        (map (\<lambda>row. [fitWidth wide (cell (row ''relation'')) (2 * maxName), relkind (cell (row ''relkind'')),
           cell (row ''xid_age''), cell (row ''mxid_age''), size_text (number0 (row ''heap_bytes_est''))])
          (probe_rows_of p))) @
     writeTruncated (Probe.Truncated p)"

definition writeFreeze :: "(nat \<Rightarrow> bool) \<Rightarrow> Report \<Rightarrow> string" where
  "writeFreeze wide r =
     section_at r FreezeLimitsID ''limits'' (\<lambda>p. concat (map limits_block (probe_rows_of p))) @
     section_at r FreezeDatabasesID ''databases'' (freeze_databases wide (freeze_max r)) @
     section_at r FreezeTablesID (in_database ''tables'' r) (freeze_tables wide (in_database ''tables'' r))"

section \<open>Vacuum\<close>

definition vacuum_settings_text :: "VacuumSetting \<Rightarrow> string" where
  "vacuum_settings_text s = nl @ ''settings'' @ nl @ writeKV 0
     [(''autovacuum'', escapeControl (VacuumSetting.Autovacuum s) @ ''  ('' @ fmt_i (VacuumSetting.MaxWorkers s) @
         '' workers, naptime '' @ duration (f64_of_int (sint (VacuumSetting.NaptimeS s))) @ '')''),
      (''track_counts'', escapeControl (VacuumSetting.TrackCounts s)),
      (''threshold'', fmt_i (VacuumSetting.Threshold s) @ '' + '' @ fmt_g (VacuumSetting.ScaleFactor s) @ '' x reltuples'')]"

definition run_scanned :: "(string \<Rightarrow> val) \<Rightarrow> string" where
  "run_scanned row = (case number (row ''heap_blks_scanned'') of
       None \<Rightarrow> ''?''
     | Some n \<Rightarrow> fmt_f0 n @ (case number (row ''heap_blks_total'') of
           None \<Rightarrow> []
         | Some tot \<Rightarrow> if f_less (Fin 0) tot
             then '' / '' @ fmt_f0 tot @ '' blocks ('' @ fmt_f0 (f_div rnd64 (f_mul rnd64 n (Fin 100)) tot) @ ''%)''
             else []))"

definition run_line :: "(nat \<Rightarrow> bool) \<Rightarrow> (string \<Rightarrow> val) \<Rightarrow> string list" where
  "run_line wide row =
     [cell (row ''pid''),
      (case row ''is_autovacuum'' of VBool b \<Rightarrow> if b then ''autovacuum'' else ''manual'' | _ \<Rightarrow> ''?''),
      name wide (row ''datname''), fitWidth wide (cell (row ''relation'')) (2 * maxName),
      (if row ''phase'' = VNull then ''?'' else cell (row ''phase'')), run_scanned row, running (row ''xact_age_s'')]"

definition writeVacuumRuns :: "(nat \<Rightarrow> bool) \<Rightarrow> Probe \<Rightarrow> string" where
  "writeVacuumRuns wide p =
     counted_table wide ''running'' [''pid'', ''kind'', ''database'', ''relation'', ''phase'', ''scanned'', ''running'']
       (map (run_line wide) (probe_rows_of p))"

definition vacuum_cells :: "bool \<Rightarrow> VacuumSetting \<Rightarrow> VacuumTable \<Rightarrow> string list" where
  "vacuum_cells setOK s x =
     (if \<not> setOK then [''?'', ''?'', ''?'']
      else let (th, on) = VacuumThreshold x s
           in [fmt_shortest rnd32 th,
               (if f_less th (f32_of_int (sint (VacuumTable.NDeadTup x))) then ''yes'' else ''-''),
               (if \<not> on \<or> VacuumSetting.Autovacuum s \<noteq> ''on'' \<or> VacuumSetting.TrackCounts s \<noteq> ''on''
                then ''off'' else ''on'')])"

definition vacuum_line :: "(nat \<Rightarrow> bool) \<Rightarrow> bool \<Rightarrow> VacuumSetting \<Rightarrow> VacuumTable \<Rightarrow> string list" where
  "vacuum_line wide setOK s x =
     [fitWidth wide (escapeControl (VacuumTable.Schemaname x @ ''.'' @ VacuumTable.Relname x)) (2 * maxName),
      fmt_i (VacuumTable.NDeadTup x), fmt_i (VacuumTable.NLiveTup x)] @ vacuum_cells setOK s x @
     [ago (VacuumTable.LastAutovacuumAgeS x), ago (VacuumTable.LastVacuumAgeS x)]"

definition vacuum_tables :: "(nat \<Rightarrow> bool) \<Rightarrow> string \<Rightarrow> bool \<Rightarrow> VacuumSetting \<Rightarrow> VacuumTables \<Rightarrow> int \<Rightarrow> string" where
  "vacuum_tables wide title setOK s t limit =
     (if coll.Status t \<noteq> StatusOK then writeNotOKAs title (coll.Status t) (coll.Reason t)
      else let cut = cut_limit limit (coll.Rows t)
           in nl @ title @ '': '' @ fmt_d (int (length (coll.Rows t))) @ '', most dead tuples first'' @ nl @
              (if cut = [] then []
               else writeTable wide ''  '' (Some [''table'', ''dead'', ''live'', ''threshold'', ''due'', ''autovacuum'',
                      ''last autovacuum'', ''last vacuum'']) (map (vacuum_line wide setOK s) cut) @
                    writeTruncated (int (length (coll.Rows t)) - int (length cut))))"

definition vacuum_write :: "(nat \<Rightarrow> bool) \<Rightarrow> VacuumTables \<Rightarrow> VacuumSetting \<Rightarrow> int \<Rightarrow> Report \<Rightarrow> string" where
  "vacuum_write wide t s limit r =
     (let setOK = (case probe_of r VacuumSettingsID of None \<Rightarrow> False | Some p \<Rightarrow> Probe.Status p = StatusOK)
      in section_at r VacuumSettingsID ''settings'' (\<lambda>_. vacuum_settings_text s) @
         section_at r VacuumProgressID ''running'' (writeVacuumRuns wide) @
         vacuum_tables wide (in_database ''tables'' r) setOK s t limit)"

section \<open>One table\<close>

definition not_a_table :: "TableInfo \<Rightarrow> string" where
  "not_a_table x =
     (let k = relkind (TableInfo.Relkind x);
          article = (case k of c # _ \<Rightarrow> if c \<in> set ''aeiou'' then ''an'' else ''a'' | [] \<Rightarrow> ''a'')
      in nl @ ''table: '' @ escapeControl (TableInfo.Schemaname x @ ''.'' @ TableInfo.Relname x) @ '' is '' @
         article @ '' '' @ k @ '', not a table'' @ nl)"

definition table_kind :: "TableInfo \<Rightarrow> string" where
  "table_kind x = relkind (TableInfo.Relkind x) @
     (if TableInfo.Relpersistence x = ''u'' then '', unlogged''
      else if TableInfo.Relpersistence x = ''t'' then '', temporary'' else [])"

definition table_size :: "TableInfo \<Rightarrow> TableSizes \<Rightarrow> string" where
  "table_size x z = (case coll.Rows z of
       s # _ \<Rightarrow> if coll.Status z \<noteq> StatusOK then ''?  (table.size: '' @ status_text (coll.Status z) @ '')''
         else size_text (f64_of_int (sint (TableSize.TotalBytes s))) @ ''  (heap '' @
              size_text (f64_of_int (sint (TableSize.TableBytes s))) @ '', indexes '' @
              size_text (f64_of_int (sint (TableSize.IndexBytes s))) @ '', '' @
              (case TableSize.ToastBytes s of None \<Rightarrow> ''no TOAST''
               | Some n \<Rightarrow> ''TOAST '' @ size_text (f64_of_int (sint n))) @ '')'' @
              (if TableInfo.Relkind x = ''p''
               then ''; a partitioned table holds nothing itself: its partitions are tables of their own'' else [])
     | [] \<Rightarrow> ''?  (table.size: '' @ status_text (coll.Status z) @ '')'')"

definition table_stat :: "TableStats \<Rightarrow> TableStat option" where
  "table_stat s = (case coll.Rows s of x # _ \<Rightarrow> if coll.Status s = StatusOK then Some x else None | [] \<Rightarrow> None)"

definition table_kv :: "TableInfo \<Rightarrow> TableSizes \<Rightarrow> TableStats \<Rightarrow> FreezeLimits \<Rightarrow> (string \<times> string) list" where
  "table_kv x z s l =
     [(''size'', table_size x z),
      (''rows'', fmt_shortest rnd32 (TableInfo.Reltuples x) @ '' estimated'' @
         (case table_stat s of None \<Rightarrow> []
          | Some st \<Rightarrow> ''; '' @ fmt_i (TableStat.NLiveTup st) @ '' live, '' @ fmt_i (TableStat.NDeadTup st) @ '' dead'')),
      (''xid age'', case TableInfo.XIDAge x of None \<Rightarrow> ''-''
         | Some age \<Rightarrow> fmt_i age @ (case coll.Rows l of
               m # _ \<Rightarrow> if coll.Status l = StatusOK
                 then ''  (autovacuum_freeze_max_age '' @ fmt_i (FreezeLimit.FreezeMaxAge m) @ '')'' else []
             | [] \<Rightarrow> [])),
      (''mxid age'', case TableInfo.MXIDAge x of None \<Rightarrow> ''-'' | Some age \<Rightarrow> fmt_i age),
      (''reloptions'', if TableInfo.Reloptions x = [] then ''-'' else escapeControl (join '', '' (TableInfo.Reloptions x)))]"

definition dead_text :: "TableInfo \<Rightarrow> TableStat \<Rightarrow> VacuumSettings \<Rightarrow> string" where
  "dead_text x s v = fmt_i (TableStat.NDeadTup s) @ (case coll.Rows v of
       set' # _ \<Rightarrow> if coll.Status v \<noteq> StatusOK then [] else
         (let (th, on) = VacuumThreshold (stat_vacuum_table x s) set'
          in '', autovacuum threshold '' @ fmt_shortest rnd32 th @
             (if f_less th (f32_of_int (sint (TableStat.NDeadTup s))) then '': due'' else []) @
             (if VacuumSetting.Autovacuum set' \<noteq> ''on'' \<or> VacuumSetting.TrackCounts set' \<noteq> ''on''
              then '' (autovacuum is off for the whole server)''
              else if \<not> on then '' (autovacuum is off for this table)'' else []))
     | [] \<Rightarrow> [])"

definition times_text :: "int64 \<Rightarrow> string" where
  "times_text n = (if n = 1 then ''1 time'' else fmt_i n @ '' times'')"

text \<open>The hit ratio keeps one decimal, rounded down, so a few reads never show as 100%.\<close>

definition blocks_text :: "int64 option \<Rightarrow> int64 option \<Rightarrow> string" where
  "blocks_text rd hit = (case (rd, hit) of
       (Some r, Some h) \<Rightarrow> fmt_i r @ '' read, '' @ fmt_i h @ '' hit'' @
         (if 0 < sint (r + h)
          then '' ('' @ fmt_fixed 1 (f_div rnd64 (f_floor (f_div rnd64 (f_mul rnd64 (f64_of_int (sint h)) (Fin 1000))
                 (f64_of_int (sint (r + h))))) (Fin 10)) @ ''% hit)'' else [])
     | _ \<Rightarrow> ''-'')"

definition writeStats :: "TableInfo \<Rightarrow> TableStat \<Rightarrow> VacuumSettings \<Rightarrow> string" where
  "writeStats x s v =
     nl @ ''vacuum and analyze'' @ nl @ writeKV 0
       [(''dead tuples'', dead_text x s v),
        (''last vacuum'', ago (TableStat.LastVacuumAgeS s) @ ''  ('' @ times_text (TableStat.VacuumCount s) @ '')''),
        (''last autovacuum'', ago (TableStat.LastAutovacuumAgeS s) @ ''  ('' @ times_text (TableStat.AutovacuumCount s) @ '')''),
        (''last analyze'', ago (TableStat.LastAnalyzeAgeS s) @ ''  ('' @ times_text (TableStat.AnalyzeCount s) @ '')''),
        (''last autoanalyze'', ago (TableStat.LastAutoanalyzeAgeS s) @ ''  ('' @ times_text (TableStat.AutoanalyzeN s) @ '')''),
        (''modified since analyze'', fmt_i (TableStat.NModSinceAnalyze s))] @
     nl @ ''access since the statistics reset'' @ nl @ writeKV 0
       [(''seq scans'', fmt_i (TableStat.SeqScan s) @ ''  ('' @ fmt_i (TableStat.SeqTupRead s) @ '' rows read)''),
        (''index scans'', case TableStat.IdxScan s of None \<Rightarrow> ''-''
           | Some n \<Rightarrow> fmt_i n @ ''  ('' @ cell (v_opt v_int (TableStat.IdxTupFetch s)) @ '' rows fetched)''),
        (''rows written'', fmt_i (TableStat.NTupIns s) @ '' inserted, '' @ fmt_i (TableStat.NTupUpd s) @ '' updated ('' @
           fmt_i (TableStat.NTupHotUpd s) @ '' HOT), '' @ fmt_i (TableStat.NTupDel s) @ '' deleted''),
        (''heap blocks'', blocks_text (TableStat.HeapBlksRead s) (TableStat.HeapBlksHit s)),
        (''index blocks'', blocks_text (TableStat.IdxBlksRead s) (TableStat.IdxBlksHit s))]"

definition index_kind :: "TableIndex \<Rightarrow> string" where
  "index_kind i =
     (let kinds = (if TableIndex.IsPrimary i then [''primary key''] else if TableIndex.IsUnique i then [''unique''] else []) @
                  (if TableIndex.IsValid i then [] else [''INVALID''])
      in if kinds = [] then ''-'' else join '', '' kinds)"

definition writeIndexes :: "(nat \<Rightarrow> bool) \<Rightarrow> TableIndexes \<Rightarrow> string" where
  "writeIndexes wide x =
     (if coll.Status x \<noteq> StatusOK then writeNotOKAs ''indexes'' (coll.Status x) (coll.Reason x)
      else counted_table wide ''indexes'' [''name'', ''size'', ''scans'', ''kind'', ''definition'']
        (map (\<lambda>i. [escapeControl (TableIndex.Name i), sizeOf (TableIndex.Bytes i), cell (v_opt v_int (TableIndex.IdxScan i)),
           index_kind i, fitWidth wide (escapeControl (TableIndex.Definition i)) 120]) (coll.Rows x)))"

definition locked_text :: "string \<Rightarrow> string" where
  "locked_text what = ''  '' @ what @ '' is locked exclusively (VACUUM FULL, TRUNCATE, ALTER TABLE ...): kbdiag locks shows who holds it'' @ nl"

definition table_write ::
    "(nat \<Rightarrow> bool) \<Rightarrow> TableInfos \<Rightarrow> TableSizes \<Rightarrow> TableStats \<Rightarrow> TableIndexes \<Rightarrow> FreezeLimits \<Rightarrow> VacuumSettings \<Rightarrow> bool \<Rightarrow> string" where
  "table_write wide i z s x l v found =
     (if coll.Status i \<noteq> StatusOK then writeNotOKAs ''table'' (coll.Status i) (coll.Reason i)
      else if \<not> found then (case coll.Rows i of [t] \<Rightarrow> not_a_table t | _ \<Rightarrow> nl @ ''table: not found'' @ nl)
      else let t = hd (coll.Rows i)
           in nl @ escapeControl (TableInfo.Schemaname t @ ''.'' @ TableInfo.Relname t) @ ''  ('' @ table_kind t @ '')'' @ nl @
              writeKV 0 (table_kv t z s l) @
              (if coll.Status z \<noteq> StatusOK \<and> contains (coll.Reason z) ''55P03'' then locked_text ''the table'' else []) @
              (case table_stat s of
                 Some st \<Rightarrow> writeStats t st v
               | None \<Rightarrow> if coll.Status s = StatusOK
                   then nl @ ''statistics: none  (sys_stat_user_tables has no row for system catalogs, partitioned tables and TOAST tables)'' @ nl
                   else writeNotOKAs ''statistics'' (coll.Status s) (coll.Reason s)) @
              writeIndexes wide x)"

section \<open>Sequences\<close>

definition seq_cells :: "Sequence \<Rightarrow> string \<times> string \<times> string" where
  "seq_cells s =
     (if \<not> Sequence.Readable s then (''?'', ''?'', ''?'')
      else case SeqLeft s of
        None \<Rightarrow> (''-'', ''-'', ''no value yet'')
      | Some (l, u) \<Rightarrow>
          (fmt_i (the (Sequence.LastValue s)),
           fmt_fixed 2 (f_div rnd64 (f_floor (f_mul rnd64 u (Fin 10000))) (Fin 100)) @ ''%'',
           count_text l @ (if Sequence.Cycle s then '' (cycles)'' else [])))"

definition seq_line :: "(nat \<Rightarrow> bool) \<Rightarrow> Sequence \<Rightarrow> string list" where
  "seq_line wide s =
     (let (last_value, used, left) = seq_cells s
      in [fitWidth wide (escapeControl (Sequence.Schemaname s @ ''.'' @ Sequence.Sequencename s)) (2 * maxName),
          escapeControl (Sequence.DataType s), last_value,
          fmt_i (if sint (Sequence.IncrementBy s) < 0 then Sequence.MinValue s else Sequence.MaxValue s), used, left])"

definition seq_write :: "(nat \<Rightarrow> bool) \<Rightarrow> SeqList \<Rightarrow> int \<Rightarrow> Report \<Rightarrow> string" where
  "seq_write wide l limit r =
     (if coll.Status l \<noteq> StatusOK then writeNotOKAs (in_database ''sequences'' r) (coll.Status l) (coll.Reason l)
      else let cut = cut_limit limit (coll.Rows l)
           in nl @ in_database ''sequences'' r @ '': '' @ fmt_d (int (length (coll.Rows l))) @ '', most used first'' @ nl @
              (if report_context.Role (Report.Context r) = ''standby''
               then ''  on a standby a sequence reads up to 32 values ahead of the primary (and is not judged): run on the primary'' @ nl
               else []) @
              (if cut = [] then []
               else writeTable wide ''  '' (Some [''sequence'', ''type'', ''last'', ''limit'', ''used'', ''left''])
                      (map (seq_line wide) cut) @
                    writeTruncated (int (length (coll.Rows l)) - int (length cut))))"

section \<open>Statements\<close>

definition all_exec :: "Statement list \<Rightarrow> flt" where
  "all_exec xs = foldl (\<lambda>a s. f_add rnd64 a (Statement.TotalExecS s)) (Fin 0) xs"

definition top_line :: "(nat \<Rightarrow> bool) \<Rightarrow> flt \<Rightarrow> Statement \<Rightarrow> string list" where
  "top_line wide all s =
     [execTime (Statement.TotalExecS s),
      (if f_less (Fin 0) all
       then fmt_fixed 1 (f_div rnd64 (f_mul rnd64 (Statement.TotalExecS s) (Fin 100)) all) @ ''%'' else ''-''),
      fmt_i (Statement.Calls s), execTime (Statement.MeanExecS s), fmt_i (Statement.Rows s),
      fmt_i (Statement.SharedBlksRead s), fmt_i (Statement.TempBlksWritten s), name_str wide (Statement.Username s),
      name_str wide (Statement.Datname s), (if Statement_Masked s then ''?'' else cell_str (Statement.Query s))]"

definition track_note :: "string \<Rightarrow> string" where
  "track_note track =
     (if track = ''all'' then ''  track=all: statements run inside functions count again inside their callers, so shares add up to more than 100%'' @ nl
      else if track = ''none'' then ''  track=none for this connection: these were collected earlier, or for roles and databases that set track themselves'' @ nl
      else [])"

definition top_write :: "(nat \<Rightarrow> bool) \<Rightarrow> SQLTop \<Rightarrow> string \<Rightarrow> int \<Rightarrow> string" where
  "top_write wide t by limit =
     (if coll.Status t \<noteq> StatusOK then writeNotOKAs ''statements'' (coll.Status t) (coll.Reason t)
      else let cut = cut_limit limit (coll.Rows t)
           in nl @ ''statements: '' @ fmt_d (int (length (coll.Rows t))) @ '', by '' @ by @
              ''  (cumulative since the last reset, whose time is not recorded; read and temp are blocks)'' @ nl @
              track_note (SQLTop.Track t) @
              (if cut = [] then []
               else writeTable wide ''  '' (Some [''total'', ''share'', ''calls'', ''mean'', ''rows'', ''read'', ''temp'',
                      ''user'', ''database'', ''query'']) (map (top_line wide (all_exec (coll.Rows t))) cut) @
                    writeTruncated (int (length (coll.Rows t)) - int (length cut))))"

section \<open>Large objects\<close>

definition lockHint :: "Probe option \<Rightarrow> string" where
  "lockHint p = (if contains (case p of None \<Rightarrow> [] | Some q \<Rightarrow> reasonOf q) ''55P03'' then locked_text ''a relation'' else [])"

text \<open>A list of objects: why it was not collected, with the lock hint, or the list.\<close>

definition object_section :: "Report \<Rightarrow> string \<Rightarrow> string \<Rightarrow> (Probe \<Rightarrow> string) \<Rightarrow> string" where
  "object_section r i title body = (case probe_of r i of
       Some p \<Rightarrow> if Probe.Status p = StatusOK then body p else writeNotOKAt title (Some p) @ lockHint (Some p)
     | None \<Rightarrow> writeNotOKAt title None)"

definition object_name :: "(nat \<Rightarrow> bool) \<Rightarrow> (string \<Rightarrow> val) \<Rightarrow> string" where
  "object_name wide row = fitWidth wide (escapeControl (cell (row ''schemaname'') @ ''.'' @ cell (row ''relname''))) (2 * maxName)"

definition object_tables :: "(nat \<Rightarrow> bool) \<Rightarrow> string \<Rightarrow> Probe \<Rightarrow> string" where
  "object_tables wide title p =
     nl @ title @ '': '' @ fmt_d (int (length (Probe.Rows p)) + Probe.Truncated p) @
     '', largest first  (total = heap + indexes + TOAST)'' @ nl @
     (if Probe.Rows p = [] then []
      else writeTable wide ''  '' (Some [''table'', ''kind'', ''total'', ''heap'', ''indexes'', ''toast'', ''rows (est.)''])
        (map (\<lambda>row. [object_name wide row, relkind (cell (row ''relkind'')), bytesCell (row ''total_bytes''),
           bytesCell (row ''table_bytes''), bytesCell (row ''index_bytes''), bytesCell (row ''toast_bytes''),
           cell (row ''reltuples'')]) (probe_rows_of p))) @
     writeTruncated (Probe.Truncated p) @
     (if \<exists>row\<in>set (probe_rows_of p). cell (row ''relkind'') = ''p''
      then ''  a partitioned table holds nothing itself: its partitions are listed on their own'' @ nl else [])"

definition object_indexes :: "(nat \<Rightarrow> bool) \<Rightarrow> string \<Rightarrow> Probe \<Rightarrow> string" where
  "object_indexes wide title p =
     nl @ title @ '': '' @ fmt_d (int (length (Probe.Rows p)) + Probe.Truncated p) @ '', largest first'' @ nl @
     (if Probe.Rows p = [] then []
      else writeTable wide ''  '' (Some [''index'', ''table'', ''size''])
        (map (\<lambda>row. [object_name wide row, name wide (row ''table_name''), bytesCell (row ''bytes'')]) (probe_rows_of p))) @
     writeTruncated (Probe.Truncated p)"

definition writeTopObjects :: "(nat \<Rightarrow> bool) \<Rightarrow> Report \<Rightarrow> string" where
  "writeTopObjects wide r =
     object_section r ObjectTablesID (in_database ''tables'' r) (object_tables wide (in_database ''tables'' r)) @
     object_section r ObjectIndexesID (in_database ''indexes'' r) (object_indexes wide (in_database ''indexes'' r))"

section \<open>Running operations\<close>

definition op_phase :: "Operation \<Rightarrow> string" where
  "op_phase x = (case Operation.Phase x of None \<Rightarrow> ''?''
     | Some ph \<Rightarrow> escapeControl ph @ (case Operation.WaitingLockers x of
           Some n \<Rightarrow> if 0 < sint n then '' ('' @ fmt_i n @ '' transactions left: kbdiag locks)'' else []
         | None \<Rightarrow> []))"

definition op_progress :: "Operation \<Rightarrow> string" where
  "op_progress x =
     (if Operation.Phase x = None then ''?''
      else case (Operation.Done x, Operation.Total x) of
        (Some n, Some m) \<Rightarrow> fmt_i n @ '' / '' @ fmt_i m @ '' '' @ escapeControl (Operation.Unit x) @
          (if 0 < sint m then '' ('' @ fmt_f0 (f_floor (f_div rnd64 (f_mul rnd64 (f64_of_int (sint n)) (Fin 100))
             (f64_of_int (sint m)))) @ ''%)'' else [])
      | (Some n, None) \<Rightarrow> fmt_i n @ '' '' @ escapeControl (Operation.Unit x)
      | _ \<Rightarrow> ''-'')"

definition op_line :: "(nat \<Rightarrow> bool) \<Rightarrow> Operation \<Rightarrow> string list" where
  "op_line wide x =
     [fmt_i (Operation.PID x), escapeControl (Operation.Command x), name_str wide (Operation.Datname x),
      fitWidth wide (cell_str (Operation.Relation x)) (2 * maxName), op_phase x, op_progress x,
      running (v_opt VFlt (Operation.RunningS x))]"

definition progress_write :: "(nat \<Rightarrow> bool) \<Rightarrow> ProgressList \<Rightarrow> ProgressList \<Rightarrow> string" where
  "progress_write wide p cp =
     (let bad = (\<lambda>(title, l). if coll.Status l = StatusOK then [] else writeNotOKAs title (coll.Status l) (coll.Reason l));
          ops = concat (map (\<lambda>l. if coll.Status l = StatusOK then coll.Rows l else []) [p, cp])
      in bad (''running'', p) @ bad (''checkpoint'', cp) @
         (if ops = []
          then nl @ ''running: 0  (VACUUM, CREATE INDEX, CLUSTER and VACUUM FULL, CHECKPOINT; ANALYZE and base backups have no progress view in this version)'' @ nl
          else counted_table wide ''running'' [''pid'', ''command'', ''database'', ''relation'', ''phase'', ''progress'', ''running'']
            (map (op_line wide) ops)))"

end
