(* ===== verification/TextRepl.thy ===== *)
theory TextRepl
  imports TextInst RuleRepl RuleCluster
begin

text \<open>
  The text layouts of \<open>repl\<close> and \<open>cluster\<close> (\<open>internal/report/{repl,cluster}.go\<close>), which show the
  names and the attached standbys the rules judge by.
\<close>

section \<open>Replication\<close>

definition sync_names_text :: "(nat \<Rightarrow> nat) \<Rightarrow> string \<Rightarrow> string" where
  "sync_names_text orbit names = escapeControl names @
     (case SyncNames orbit names of
        None \<Rightarrow> ''  (not understood)''
      | Some (need, _, desc) \<Rightarrow> if 0 < need then ''  ('' @ escapeControl desc @ '')'' else [])"

definition sync_now :: "(nat \<Rightarrow> nat) \<Rightarrow> string \<Rightarrow> ReplDownstreams \<Rightarrow> (string \<times> string) list" where
  "sync_now orbit names d = (case SyncNames orbit names of
       Some (need, _, _) \<Rightarrow>
         if 0 < need \<and> coll.Status d = StatusOK
         then [(''synchronous now'', fmt_d (int (length (SyncStreaming d))) @
           (if SyncStreaming d = [] then [] else '' ('' @ escapeControl (join '', '' (SyncStreaming d)) @ '')''))]
         else []
     | None \<Rightarrow> [])"

definition sync_block :: "(nat \<Rightarrow> nat) \<Rightarrow> ReplDownstreams \<Rightarrow> (string \<Rightarrow> val) \<Rightarrow> string" where
  "sync_block orbit d row =
     (let names = (case row ''synchronous_standby_names'' of VStr s \<Rightarrow> s | _ \<Rightarrow> []);
          commit = (''synchronous_commit'', cell (row ''synchronous_commit''))
      in nl @ ''sync'' @ nl @
         writeKV 0 (if names = []
           then [(''synchronous_standby_names'', ''(none: asynchronous only)''), commit]
           else [(''synchronous_standby_names'', sync_names_text orbit names), commit] @ sync_now orbit names d))"

definition replay_kv :: "(string \<Rightarrow> val) \<Rightarrow> (string \<times> string) list" where
  "replay_kv row =
     [(''received'', cell (row ''receive_lsn'')),
      (''replayed'', cell (row ''replay_lsn'') @ (case number (row ''replay_gap_bytes'') of
           None \<Rightarrow> []
         | Some gap \<Rightarrow> if f_le gap (Fin 0) then ''  (caught up with what was received)''
             else ''  ('' @ size_text gap @ '' received, not replayed yet)'')),
      (''last replayed transaction'', case number (row ''last_replay_age_s'') of None \<Rightarrow> ''-'' | Some s \<Rightarrow> duration s @ '' ago''),
      (''paused'', if row ''replay_paused'' = VBool True then ''yes'' else ''no'')]"

definition replica_line :: "(nat \<Rightarrow> bool) \<Rightarrow> Replica \<Rightarrow> string list" where
  "replica_line wide x =
     [name_str wide (Replica.ApplicationName x), cell_str (Replica.ClientAddr x), cell_str (Replica.State x),
      cell_str (Replica.SyncState x), behind (Replica.SentLagBytes x), behind (Replica.FlushLagBytes x),
      behind (Replica.ReplayLagBytes x),
      (case Replica.ReplayLagS x of None \<Rightarrow> ''-'' | Some s \<Rightarrow> duration s),
      (case Replica.ReplyAgeS x of None \<Rightarrow> ''-'' | Some s \<Rightarrow> duration s @ '' ago'')]"

definition repl_downstreams :: "(nat \<Rightarrow> bool) \<Rightarrow> ReplDownstreams \<Rightarrow> string" where
  "repl_downstreams wide d =
     (if coll.Status d \<noteq> StatusOK then writeNotOKAs ''downstreams'' (coll.Status d) (coll.Reason d)
      else nl @ ''downstreams: '' @ fmt_d (int (length (coll.Rows d))) @
           (if coll.Rows d = [] then nl
            else ''  (bytes behind this node's current WAL position)'' @ nl @
                 writeTable wide ''  '' (Some [''name'', ''address'', ''state'', ''sync'', ''sent'', ''flushed'', ''replayed'',
                   ''replay lag'', ''last reply'']) (map (replica_line wide) (coll.Rows d))))"

definition repl_write :: "(nat \<Rightarrow> bool) \<Rightarrow> (nat \<Rightarrow> nat) \<Rightarrow> ReplDownstreams \<Rightarrow> Report \<Rightarrow> string" where
  "repl_write wide orbit d r =
     (if report_context.Role (Report.Context r) = ''standby''
      then section_at r InstUpstreamID ''upstream'' (\<lambda>p. writeUpstreamAs p ''upstream'') @
           section_at r ReplReplayID ''replay'' (\<lambda>p. concat (map (\<lambda>row. nl @ ''replay'' @ nl @ writeKV 0 (replay_kv row)) (probe_rows_of p)))
      else section_at r ReplSyncID ''sync'' (\<lambda>p. concat (map (sync_block orbit d) (probe_rows_of p)))) @
     repl_downstreams wide d"

section \<open>The cluster\<close>

text \<open>Node names by id; a later row of the same id replaces an earlier one.\<close>

definition node_name :: "ClusterNodes \<Rightarrow> int32 \<Rightarrow> string option" where
  "node_name n i = map_of (rev (map (\<lambda>x. (ClusterNode.NodeID x, ClusterNode.NodeName x)) (coll.Rows n))) i"

definition yes_no :: "bool \<Rightarrow> string" where
  "yes_no b = (if b then ''yes'' else ''no'')"

definition node_line :: "ClusterNodes \<Rightarrow> ClusterNode \<Rightarrow> string list" where
  "node_line n x =
     [fmt_i (ClusterNode.NodeID x), escapeControl (ClusterNode.NodeName x), escapeControl (ClusterNode.Type x),
      (case ClusterNode.UpstreamNodeID x of None \<Rightarrow> ''-''
       | Some u \<Rightarrow> (case node_name n u of None \<Rightarrow> fmt_i u | Some m \<Rightarrow> escapeControl m)),
      yes_no (ClusterNode.Active x), cell (v_opt v_int (ClusterNode.Priority x)), cell_str (ClusterNode.Location x),
      cell_str (ClusterNode.SlotName x)]"

definition attached_lines :: "(nat \<Rightarrow> nat) \<Rightarrow> ClusterNodes \<Rightarrow> InstDownstreams \<Rightarrow> int32 \<Rightarrow> string" where
  "attached_lines orbit n d i =
     (let fs = Followers n i;
          here = map (escapeControl \<circ> ClusterNode.NodeName) (filter (\<lambda>x. Attached orbit d (ClusterNode.NodeName x)) fs);
          gone = map (escapeControl \<circ> ClusterNode.NodeName) (filter (\<lambda>x. \<not> Attached orbit d (ClusterNode.NodeName x)) fs)
      in (if here = [] then [] else ''  attached here: '' @ join '', '' here @ nl) @
         (if gone = [] then [] else ''  not attached here: '' @ join '', '' gone @ nl))"

definition local_lines :: "(nat \<Rightarrow> nat) \<Rightarrow> ClusterNodes \<Rightarrow> InstDownstreams \<Rightarrow> string \<Rightarrow> string" where
  "local_lines orbit n d role =
     (case rev (filter ClusterNode.IsLocal (coll.Rows n)) of
        [] \<Rightarrow> ''  this node: not identified (no repmgr node's slot is this instance's primary_slot_name)'' @ nl
      | x # _ \<Rightarrow> ''  this node is '' @ escapeControl (ClusterNode.NodeName x) @ '': repmgr says '' @
          escapeControl (ClusterNode.Type x) @ '', the database is a '' @ role @ nl @
          (if role \<noteq> ''primary'' \<or> ClusterNode.Type x \<noteq> ''primary'' \<or> coll.Status d \<noteq> StatusOK then []
           else attached_lines orbit n d (ClusterNode.NodeID x)))"

definition writeNodes :: "(nat \<Rightarrow> bool) \<Rightarrow> (nat \<Rightarrow> nat) \<Rightarrow> ClusterNodes \<Rightarrow> InstDownstreams \<Rightarrow> Report \<Rightarrow> string" where
  "writeNodes wide orbit n d r =
     nl @ ''nodes: '' @ fmt_d (int (length (coll.Rows n))) @ ''  (repmgr metadata in database '' @
     escapeControl (report_context.Database (Report.Context r)) @ '')'' @ nl @
     (if coll.Rows n = [] then []
      else writeTable wide ''  '' (Some [''id'', ''name'', ''type'', ''upstream'', ''active'', ''priority'', ''location'', ''slot''])
             (map (node_line n) (coll.Rows n)) @
           local_lines orbit n d (report_context.Role (Report.Context r)))"

definition cluster_sync_text :: "(nat \<Rightarrow> bool) \<Rightarrow> ClusterSync \<Rightarrow> string" where
  "cluster_sync_text wide s =
     (let mode = (case ClusterSync.Synchronous s of None \<Rightarrow> ''(not set)'' | Some m \<Rightarrow> escapeControl m);
          names = (case ClusterSync.StandbyNames s of None \<Rightarrow> ''(empty: asynchronous)''
            | Some t \<Rightarrow> if trim_space t = [] then ''(empty: asynchronous)'' else escapeControl t)
      in nl @ ''synchronous'' @ nl @ writeTable wide ''  '' None
           [[''repmgr.conf'', mode @ ''  ('' @ escapeControl (ClusterSync.ConfPath s) @ '')''],
            [''synchronous_standby_names'', names]])"

definition cluster_sync :: "(nat \<Rightarrow> bool) \<Rightarrow> ClusterNodes \<Rightarrow> ClusterSyncs \<Rightarrow> string" where
  "cluster_sync wide n s =
     (if coll.Status s = StatusNotApplicable \<or> coll.Status n \<noteq> StatusOK then []
      else case coll.Rows s of
        [x] \<Rightarrow> if coll.Status s = StatusOK then cluster_sync_text wide x
               else writeNotOKAs ''synchronous'' (coll.Status s) (coll.Reason s)
      | _ \<Rightarrow> writeNotOKAs ''synchronous'' (coll.Status s) (coll.Reason s))"

definition event_line :: "(nat \<Rightarrow> bool) \<Rightarrow> ClusterNodes \<Rightarrow> ClusterEvent \<Rightarrow> string list" where
  "event_line wide n x =
     [format_datetime (ClusterEvent.Time x),
      escapeControl (case node_name n (ClusterEvent.NodeID x) of None \<Rightarrow> fmt_i (ClusterEvent.NodeID x) | Some m \<Rightarrow> m),
      escapeControl (ClusterEvent.Event x), yes_no (ClusterEvent.Successful x),
      (case ClusterEvent.Details x of None \<Rightarrow> ''-''
       | Some t \<Rightarrow> fitWidth wide (escapeControl (join '' '' (split_fields t))) 100)]"

definition cluster_events :: "(nat \<Rightarrow> bool) \<Rightarrow> ClusterNodes \<Rightarrow> ClusterEvents \<Rightarrow> string" where
  "cluster_events wide n e =
     (if coll.Status e \<noteq> StatusOK then writeNotOKAs ''events'' (coll.Status e) (coll.Reason e)
      else nl @ ''events: '' @ fmt_d (int (length (coll.Rows e))) @ ''  (the latest, at most '' @ fmt_d ClusterEventLimit @ '')'' @ nl @
           (if coll.Rows e = [] then []
            else writeTable wide ''  '' (Some [''time'', ''node'', ''event'', ''ok'', ''details'']) (map (event_line wide n) (coll.Rows e))))"

definition cluster_write ::
    "(nat \<Rightarrow> bool) \<Rightarrow> (nat \<Rightarrow> nat) \<Rightarrow> ClusterNodes \<Rightarrow> ClusterEvents \<Rightarrow> InstDownstreams \<Rightarrow> ClusterSyncs \<Rightarrow> Report \<Rightarrow> string" where
  "cluster_write wide orbit n e d s r =
     (if coll.Status n \<noteq> StatusOK then writeNotOKAs ''nodes'' (coll.Status n) (coll.Reason n)
      else writeNodes wide orbit n d r) @
     cluster_sync wide n s @ cluster_events wide n e"

end
