(* ===== verification/GoTabwriter.thy ===== *)
theory GoTabwriter
  imports Prelude GoText
begin

text \<open>
  Package \<open>text/tabwriter\<close> as the program sets it up: no minimal width, two columns of padding in spaces,
  no flags. A text is its lines, a line its cells; every cell but the last ends in a tab. The cells hold
  none of the bytes that the package reads as marks (the end of a cell or a line, \<open>0xff\<close>): they are
  escaped before.
\<close>

definition rune_count :: "string \<Rightarrow> nat" where
  "rune_count s = length (runes s)"

text \<open>\<open>writeLines\<close>: a cell is padded where the width of its column is known.\<close>

fun tab_line :: "nat list \<Rightarrow> string list \<Rightarrow> string" where
  "tab_line ws [] = [CHR 0x0A]"
| "tab_line [] (c # cs) = c @ tab_line [] cs"
| "tab_line (w # ws) (c # cs) = c @ replicate (w - rune_count c) (CHR '' '') @ tab_line ws cs"

definition tab_lines :: "nat list \<Rightarrow> string list list \<Rightarrow> string" where
  "tab_lines ws ls = concat (map (tab_line ws) ls)"

text \<open>
  \<open>format\<close>: the widths of the columns to the left are known. A column is a block of consecutive lines that
  have a cell ended by a tab in it; its width is that of its widest cell and the padding. The lines
  before a block are printed with what is known, the block with its column's width as well.
\<close>

definition in_column :: "nat \<Rightarrow> string list \<Rightarrow> bool" where
  "in_column c l \<longleftrightarrow> Suc c < length l"

definition column_width :: "nat \<Rightarrow> string list list \<Rightarrow> nat" where
  "column_width c ls = fold max (map (\<lambda>l. rune_count (l ! c) + 2) ls) 0"

text \<open>What is left of the lines to the right of the known columns.\<close>

definition cells_left :: "nat \<Rightarrow> string list list \<Rightarrow> nat" where
  "cells_left c ls = sum_list (map (\<lambda>l. length l - c) ls)"

lemma cells_left_split: "cells_left c (takeWhile P ls) + cells_left c (dropWhile P ls) = cells_left c ls"
  unfolding cells_left_def by (metis map_append sum_list_append takeWhile_dropWhile_id)

lemma cells_left_block:
  assumes "list_all (in_column c) ls" "ls \<noteq> []"
  shows "cells_left (Suc c) ls < cells_left c ls"
  using assms
proof (induction ls)
  case (Cons l ls)
  then show ?case by (cases "ls = []") (auto simp: cells_left_def in_column_def)
qed simp

lemma column_block:
  assumes "dropWhile (\<lambda>l. \<not> in_column c l) ls \<noteq> []"
  defines "rest \<equiv> dropWhile (\<lambda>l. \<not> in_column c l) ls"
  shows "cells_left (Suc c) (takeWhile (in_column c) rest) < cells_left c ls"
    and "cells_left c (dropWhile (in_column c) rest) < cells_left c ls"
proof -
  let ?block = "takeWhile (in_column c) rest"
  have "in_column c (hd rest)" using hd_dropWhile [OF assms(1)] by (simp add: rest_def)
  moreover have "rest \<noteq> []" using assms by simp
  ultimately have "?block \<noteq> []" by (cases rest) simp_all
  moreover have "list_all (in_column c) ?block" by (auto simp: list_all_iff dest: set_takeWhileD)
  ultimately have "cells_left (Suc c) ?block < cells_left c ?block" by (rule cells_left_block [rotated])
  moreover have "cells_left c ?block + cells_left c (dropWhile (in_column c) rest) \<le> cells_left c ls"
    using cells_left_split [of c "in_column c" rest] cells_left_split [of c "\<lambda>l. \<not> in_column c l" ls]
    by (simp add: rest_def)
  ultimately show "cells_left (Suc c) ?block < cells_left c ls"
    "cells_left c (dropWhile (in_column c) rest) < cells_left c ls" by simp_all
qed

function tab_format :: "nat list \<Rightarrow> string list list \<Rightarrow> string" where
  "tab_format ws ls =
     (let c = length ws; before = takeWhile (\<lambda>l. \<not> in_column c l) ls; rest = dropWhile (\<lambda>l. \<not> in_column c l) ls;
          block = takeWhile (in_column c) rest
      in tab_lines ws before @
         (if rest = [] then []
          else tab_format (ws @ [column_width c block]) block @ tab_format ws (dropWhile (in_column c) rest)))"
  by pat_completeness auto
termination
  by (relation "measure (\<lambda>(ws, ls). cells_left (length ws) ls)") (simp_all add: column_block)

declare tab_format.simps [simp del]

definition tabwriter :: "string list list \<Rightarrow> string" where
  "tabwriter ls = tab_format [] ls"

text \<open>
  Lines of as many cells each are one block in every column: each column but the last is as wide as its
  widest cell and the padding.
\<close>

lemma tab_format_table:
  assumes "\<And>l. l \<in> set ls \<Longrightarrow> length l = n" and "length ws < n" and "ls \<noteq> []"
  shows "tab_format ws ls = tab_lines (ws @ map (\<lambda>c. column_width c ls) [length ws..<n - 1]) ls"
  using assms(2)
proof (induction "n - length ws" arbitrary: ws)
  case (Suc k)
  show ?case
  proof (cases "Suc (length ws) < n")
    case True
    then have "\<forall>l\<in>set ls. in_column (length ws) l" using assms(1) by (simp add: in_column_def)
    then have parts: "dropWhile (\<lambda>l. \<not> in_column (length ws) l) ls = ls" "takeWhile (\<lambda>l. \<not> in_column (length ws) l) ls = []"
      "takeWhile (in_column (length ws)) ls = ls" "dropWhile (in_column (length ws)) ls = []"
      using assms(3) by (cases ls; simp)+
    have "tab_format ws ls = tab_format (ws @ [column_width (length ws) ls]) ls @ tab_format ws []"
      using assms(3) by (subst tab_format.simps) (simp only: Let_def parts tab_lines_def list.map concat.simps append_Nil if_False)
    also have "tab_format ws [] = []" by (subst tab_format.simps) (simp add: tab_lines_def)
    also have "tab_format (ws @ [column_width (length ws) ls]) ls =
        tab_lines ((ws @ [column_width (length ws) ls]) @ map (\<lambda>c. column_width c ls) [Suc (length ws)..<n - 1]) ls"
      using Suc.hyps(1) [of "ws @ [column_width (length ws) ls]"] Suc.hyps(2) True by simp
    finally show ?thesis using True by (simp add: upt_conv_Cons)
  next
    case False
    then have n: "n = Suc (length ws)" using Suc.prems by simp
    then have "\<forall>l\<in>set ls. \<not> in_column (length ws) l" using assms(1) by (simp add: in_column_def)
    then have parts: "dropWhile (\<lambda>l. \<not> in_column (length ws) l) ls = []" "takeWhile (\<lambda>l. \<not> in_column (length ws) l) ls = ls"
      by (simp_all add: takeWhile_eq_all_conv dropWhile_eq_Nil_conv)
    then have "[length ws..<n - 1] = []" using n by simp
    then show ?thesis
      by (subst tab_format.simps) (simp only: Let_def parts simp_thms if_True append_Nil2 list.map)
  qed
qed simp

end
