(* ===== verification/ReportText.thy ===== *)
theory ReportText
  imports TextTxn TextInst TextServer TextTables TextRepl GoTabwriter
begin

text \<open>
  \<open>WriteText\<close> (\<open>internal/report/render.go\<close>): the head line, the findings with their next steps, the
  command's layout, the redactions.
\<close>

definition level_text :: "level \<Rightarrow> string" where
  "level_text l = (case l of LevelOK \<Rightarrow> ''OK'' | LevelWARN \<Rightarrow> ''WARN'' | LevelFAIL \<Rightarrow> ''FAIL'')"

definition verdict_text :: "verdict \<Rightarrow> string" where
  "verdict_text v = (case v of VerdictOK \<Rightarrow> ''OK'' | VerdictWARN \<Rightarrow> ''WARN'' | VerdictFAIL \<Rightarrow> ''FAIL''
     | VerdictUNKNOWN \<Rightarrow> ''UNKNOWN'')"

definition head_line :: "Report \<Rightarrow> string" where
  "head_line r =
     (let c = Report.Context r
      in Report.Command r @ ''  '' @ verdict_text (Report.Verdict r) @ ''  ('' @ escapeControl (report_context.Version c) @
         '', '' @ report_context.Role c @ '', '' @ escapeControl (report_context.User c) @ ''@'' @ report_context.Location c @
         '', '' @ report_context.CollectedAt c @ '')'' @ nl)"

definition next_line :: "Next \<Rightarrow> string" where
  "next_line n =
     (let action = (if Next.Command n = [] then Next.SQL n else Next.Command n)
      in ''  '' @ Next.Kind n @ '': '' @ escapeControl action @ ''  # '' @ escapeControl (Next.Note n) @ nl)"

definition finding_text :: "Finding \<Rightarrow> string" where
  "finding_text f =
     nl @ ''['' @ level_text (Finding.Level f) @ ''] '' @ Finding.ID f @ ''  '' @ escapeControl (Finding.Symptom f) @ nl @
     (case Finding.Cause f of None \<Rightarrow> [] | Some c \<Rightarrow> ''  cause: '' @ escapeControl c @ nl) @
     concat (map next_line (Finding.Next f))"

text \<open>The default: every probe as a table, in the order of its id.\<close>

definition table_rows :: "Probe \<Rightarrow> string list list" where
  "table_rows p = Probe.Columns p # map (map cell) (Probe.Rows p)"

definition writeTables :: "Report \<Rightarrow> string" where
  "writeTables r =
     concat (map (\<lambda>(i, p).
       if Probe.Status p \<noteq> StatusOK
       then nl @ i @ '': '' @ status_text (Probe.Status p) @ ''  '' @ escapeControl (reasonOf p) @ nl
       else nl @ i @ '': '' @ fmt_d (int (length (Probe.Rows p))) @ '' rows'' @ nl @ tabwriter (table_rows p) @
            more_rows (Probe.Truncated p)) (slice_stable (\<lambda>a b. fst a < fst b) (Report.Data r)))"

definition plain_redacted :: "Redaction list \<Rightarrow> string" where
  "plain_redacted rs =
     concat (map (\<lambda>x. nl @ ''redacted: '' @ Redaction.ProbeID x @ ''.'' @ Redaction.Field x @ '' in '' @
       fmt_d (Redaction.RowsAffected x) @ '' rows ('' @ Redaction.Reason x @ '')'') rs) @
     (if rs = [] then [] else nl)"

text \<open>The layout of a report, and what it then prints of the redactions.\<close>

definition with_probe :: "Report \<Rightarrow> string \<Rightarrow> (Probe \<Rightarrow> string) \<Rightarrow> string" where
  "with_probe r i body = (case probe_of r i of None \<Rightarrow> writeNotOKAt i None | Some p \<Rightarrow> body p)"

definition layout :: "(nat \<Rightarrow> bool) \<Rightarrow> (nat \<Rightarrow> nat) \<Rightarrow> Report \<Rightarrow> string" where
  "layout wide orbit r = (case Report.View r of
       DefaultView \<Rightarrow> if Report.Command r = ''status'' then writeStatus wide r else writeTables r
     | SessionsView xs all limit \<Rightarrow> with_probe r SessionActivityID (sessions_write wide xs all limit)
     | LocksView xs limit \<Rightarrow> with_probe r LockListID (locks_write wide xs limit)
     | SessionView pid a l found \<Rightarrow> session_write wide pid a l found
     | TxnView a p limit \<Rightarrow> txn_write wide a p limit
     | WaitsView w \<Rightarrow> waits_write wide w
     | SlotsView l \<Rightarrow> slots_write wide l
     | SpaceView d \<Rightarrow> space_write wide d r
     | FreezeView \<Rightarrow> writeFreeze wide r
     | VacuumView t s limit \<Rightarrow> vacuum_write wide t s limit r
     | TableView i z s x l v found \<Rightarrow> table_write wide i z s x l v found
     | ArchiveView s \<Rightarrow> archive_write wide s r
     | CheckpointView s l cs \<Rightarrow> checkpoint_write s l cs r
     | ClusterView n e d s \<Rightarrow> cluster_write wide orbit n e d s r
     | ParamsView p \<Rightarrow> params_write wide p
     | ProgressView p cp \<Rightarrow> progress_write wide p cp
     | ReplView d \<Rightarrow> repl_write wide orbit d r
     | SeqView l limit \<Rightarrow> seq_write wide l limit r
     | TopView t by limit \<Rightarrow> top_write wide t by limit
     | TopObjectsView \<Rightarrow> writeTopObjects wide r
     | WALView p w s a \<Rightarrow> wal_write p w s a)"

definition WriteText :: "(nat \<Rightarrow> bool) \<Rightarrow> (nat \<Rightarrow> nat) \<Rightarrow> Report \<Rightarrow> string" where
  "WriteText wide orbit r =
     head_line r @ concat (map finding_text (Report.Findings r)) @ layout wide orbit r @
     (if Report.View r = DefaultView then plain_redacted (Report.Redacted r) else writeRedacted (Report.Redacted r))"

end
