(* ===== verification/TextLemmas.thy ===== *)
theory TextLemmas
  imports ReportText
begin

text \<open>
  Texts that hold only harmless runes: \<open>free H s\<close> says that \<open>s\<close> is UTF-8 and has no rune of \<open>H\<close>. What
  is escaped is free of every hostile rune, and what is put together from such pieces stays so.
\<close>

section \<open>Free texts\<close>

definition free :: "(nat \<Rightarrow> bool) \<Rightarrow> string \<Rightarrow> bool" where
  "free H s \<longleftrightarrow> valid_string s \<and> (\<forall>r\<in>set (runes s). \<not> H r)"

lemma valid_Nil [simp]: "valid_string []"
  by (simp add: valid_string_def)

lemma free_Nil [simp]: "free H []"
  by (simp add: free_def runes_def)

lemma free_append: "free H s \<Longrightarrow> free H t \<Longrightarrow> free H (s @ t)"
  by (auto simp: free_def runes_append valid_append)

lemma free_mono: "free H s \<Longrightarrow> (\<And>r. H' r \<Longrightarrow> H r) \<Longrightarrow> free H' s"
  by (auto simp: free_def)

lemma free_concat: "(\<And>x. x \<in> set xs \<Longrightarrow> free H x) \<Longrightarrow> free H (concat xs)"
  by (induction xs) (simp_all add: free_append)

lemma free_join: "free H sep \<Longrightarrow> (\<And>x. x \<in> set xs \<Longrightarrow> free H x) \<Longrightarrow> free H (join sep xs)"
  by (induction sep xs rule: join.induct) (simp_all add: free_append)

lemma valid_encode_scalar: "scalar r \<Longrightarrow> valid_string (encode_scalar r)"
  using chunks_encode [of r "[]"]
  by (auto simp: valid_string_def bad_chunk_def rune_error_def encode_scalar_def)

lemma free_encode: "scalar r \<Longrightarrow> \<not> H r \<Longrightarrow> free H (encode_scalar r)"
  using chunks_encode [of r "[]"] by (simp add: free_def valid_encode_scalar runes_def)

lemma runes_concat_encode: "\<forall>r\<in>set rs. scalar r \<Longrightarrow> runes (concat (map encode_rune rs)) = rs"
proof (induction rs)
  case (Cons r rs)
  then have "encode_rune r = encode_scalar r" "scalar r" by (simp_all add: encode_rune_def)
  with Cons show ?case by (simp add: runes_def chunks_encode)
qed (simp add: runes_def)

lemma free_encode_all: "(\<And>r. r \<in> set rs \<Longrightarrow> scalar r \<and> \<not> H r) \<Longrightarrow> free H (concat (map encode_rune rs))"
  by (rule free_concat) (auto simp: encode_rune_def intro: free_encode)

lemma scalar_error: "scalar rune_error"
  by (simp add: scalar_def rune_error_def)

lemma scalar_runes: "r \<in> set (runes s) \<Longrightarrow> scalar r"
  using chunk_cases [of _ s] scalar_error by (fastforce simp: runes_def bad_chunk_def)

section \<open>ASCII\<close>

definition plain_char :: "char \<Rightarrow> bool" where
  "plain_char c \<longleftrightarrow> 32 \<le> byte c \<and> byte c < 127"

lemma not_hostile_ascii: "32 \<le> r \<Longrightarrow> r < 127 \<Longrightarrow> \<not> hostile r"
  by (simp add: hostile_def is_control_def in_ranges_def format_ranges_def separator_ranges_def)

lemma free_ascii: "list_all (\<lambda>c. byte c < 128 \<and> \<not> H (byte c)) s \<Longrightarrow> free H s"
  by (auto simp: free_def list_all_iff runes_of_ascii intro: valid_ascii)

lemma free_Cons_ascii: "byte c < 128 \<Longrightarrow> free H (c # s) \<longleftrightarrow> \<not> H (byte c) \<and> free H s"
  by (auto simp: free_def runes_def valid_string_def bad_chunk_def rune_error_def)

text \<open>A valid text that ends in an ASCII byte ends in that rune, so cutting the byte off keeps it valid.\<close>

lemma chunks_snoc_ascii:
  assumes c: "byte c < 128" and v: "valid_string (s @ [c])"
  shows "chunks (s @ [c]) = chunks s @ [(byte c, [c])]"
proof -
  have ne: "chunks (s @ [c]) \<noteq> []" using concat_chunks [of "s @ [c]"] by auto
  then obtain qs q where qs: "chunks (s @ [c]) = qs @ [q]" by (metis rev_exhaust)
  have enc: "\<forall>p\<in>set (qs @ [q]). scalar (fst p) \<and> snd p = encode_scalar (fst p)"
    using valid_chunk [OF v] qs by simp
  have cat: "concat (map snd qs) @ snd q = s @ [c]"
    using concat_chunks [of "s @ [c]"] qs by simp
  have "snd q \<noteq> []" using enc by simp
  then have "last (snd q) = c" using cat by (metis last_appendR last_snoc)
  then have "c \<in> set (snd q)" using \<open>snd q \<noteq> []\<close> last_in_set by blast
  moreover have "q \<in> set (chunks (s @ [c]))" by (simp add: qs)
  ultimately have low: "fst q < 128" "snd q = [byte_char (fst q)]"
    using chunk_bytes [of q "s @ [c]"] c by fastforce+
  with \<open>c \<in> set (snd q)\<close> have "c = byte_char (fst q)" by simp
  with low have q: "snd q = [c]" "fst q = byte c" by simp_all
  with cat have "concat (map snd qs) = s" by simp
  moreover have "chunks (concat (map snd qs) @ []) = qs @ chunks []"
    by (rule chunks_concat) (use enc in simp)
  ultimately have "chunks s = qs" by simp
  with qs q show ?thesis by (cases q) simp
qed

lemma free_snoc_ascii:
  assumes "byte c < 128" and "free H (s @ [c])"
  shows "free H s"
proof -
  have "chunks (s @ [c]) = chunks s @ [(byte c, [c])]"
    using assms by (intro chunks_snoc_ascii) (simp_all add: free_def)
  with assms(2) show ?thesis by (simp add: free_def runes_def valid_string_def)
qed

lemma free_trim_right: "byte c < 128 \<Longrightarrow> free H s \<Longrightarrow> free H (trim_right c s)"
proof (induction s rule: rev_induct)
  case (snoc x s)
  then show ?case
    using free_snoc_ascii [of c H s] by (cases "x = c") (simp_all add: trim_right_def)
qed (simp add: trim_right_def)

end
