(* ===== verification/TextClean.thy ===== *)
theory TextClean
  imports TextLemmas
begin

text \<open>
  Clean texts: UTF-8 without any hostile rune but the newline. The numbers and the escaped values a
  layout is made of are clean, and what tables, blocks and lists make of clean pieces is clean again.
\<close>

definition clean :: "string \<Rightarrow> bool" where
  "clean s \<longleftrightarrow> free (\<lambda>r. hostile r \<and> r \<noteq> 10) s"

section \<open>Putting clean pieces together\<close>

lemma clean_Nil [simp]: "clean []"
  by (simp add: clean_def)

lemma clean_append: "clean s \<Longrightarrow> clean t \<Longrightarrow> clean (s @ t)"
  by (simp add: clean_def free_append)

lemma clean_append_iff [simp]: "clean s \<Longrightarrow> clean (s @ t) \<longleftrightarrow> clean t"
proof
  assume s: "clean s" and st: "clean (s @ t)"
  have v: "valid_string s" using s by (simp add: clean_def free_def)
  then show "clean t"
    using st chunks_append [OF v, of t] by (auto simp: clean_def free_def valid_string_def runes_def)
qed (simp add: clean_append)

lemma clean_Cons [simp]: "plain_char c \<Longrightarrow> clean (c # s) \<longleftrightarrow> clean s"
  by (simp add: clean_def plain_char_def free_Cons_ascii not_hostile_ascii)

lemma plain_clean: "list_all plain_char s \<Longrightarrow> clean s"
  by (induction s) simp_all

lemma clean_nl [simp]: "clean nl"
  by (simp add: clean_def nl_def free_Cons_ascii byte_def)

lemma clean_concat [simp]: "(\<And>x. x \<in> set xs \<Longrightarrow> clean (f x)) \<Longrightarrow> clean (concat (map f xs))"
  unfolding clean_def by (rule free_concat) auto

lemma clean_join: "clean sep \<Longrightarrow> list_all clean xs \<Longrightarrow> clean (join sep xs)"
  by (induction sep xs rule: join.induct) simp_all

lemma clean_replicate [simp]: "plain_char c \<Longrightarrow> clean (replicate n c)"
  by (induction n) simp_all

lemma clean_if [simp]: "clean (if b then s else t) \<longleftrightarrow> (if b then clean s else clean t)"
  by simp

lemma clean_option [simp]: "clean (case x of None \<Rightarrow> s | Some y \<Rightarrow> f y) \<longleftrightarrow>
    (case x of None \<Rightarrow> clean s | Some y \<Rightarrow> clean (f y))"
  by (simp split: option.split)

lemma clean_list [simp]: "clean (case xs of [] \<Rightarrow> s | y # ys \<Rightarrow> f y ys) \<longleftrightarrow>
    (case xs of [] \<Rightarrow> clean s | y # ys \<Rightarrow> clean (f y ys))"
  by (simp split: list.split)

section \<open>Numbers\<close>

lemma plain_marks [simp]: "plain_char (CHR '' '')" "plain_char (CHR ''0'')" "plain_char (CHR ''-'')" "plain_char (CHR ''.'')"
    "plain_char (CHR '':'')"
  by (simp_all add: plain_char_def byte_def)

lemma plain_digit: "is_digit c \<Longrightarrow> plain_char c"
  by (simp add: is_digit_def plain_char_def)

lemma plain_dec_nat [simp]: "list_all plain_char (dec_nat n)"
  using digits_dec_nat [of n] by (auto simp: list_all_iff plain_digit)

lemma clean_dec_nat [simp]: "clean (dec_nat n)"
  by (rule plain_clean) simp

lemma clean_fmt_d [simp]: "clean (fmt_d i)"
  by (simp add: fmt_d_def)

lemma clean_fmt_i [simp]: "clean (fmt_i w)"
  by (simp add: fmt_i_def)

lemma clean_fmt_u [simp]: "clean (fmt_u w)"
  by (simp add: fmt_u_def)

lemma plain_pad_left [simp]: "plain_char c \<Longrightarrow> list_all plain_char s \<Longrightarrow> list_all plain_char (pad_left c w s)"
  by (auto simp: pad_left_def list_all_iff)

lemma plain_take [simp]: "list_all plain_char s \<Longrightarrow> list_all plain_char (take n s)"
  by (auto simp: list_all_iff dest: in_set_takeD)

lemma plain_drop [simp]: "list_all plain_char s \<Longrightarrow> list_all plain_char (drop n s)"
  by (auto simp: list_all_iff dest: in_set_dropD)

lemma plain_replicate [simp]: "plain_char c \<Longrightarrow> list_all plain_char (replicate n c)"
  by (simp add: list_all_iff)

lemma clean_plain_digits [simp]: "clean (plain_digits p)"
  by (rule plain_clean) (simp add: plain_digits_def split_beta Let_def)

lemma clean_exp_digits [simp]: "clean (exp_digits p)"
proof -
  have "plain_char (CHR ''e'')" "plain_char (CHR ''+'')" by (simp_all add: plain_char_def byte_def)
  then show ?thesis by (intro plain_clean) (simp add: exp_digits_def split_beta Let_def)
qed

lemma clean_signed_text: "(\<And>q. clean (f q)) \<Longrightarrow> clean (signed_text f x)"
  by (simp add: signed_text_def plain_char_def byte_def split: flt.split)

lemma clean_fmt_fixed [simp]: "clean (fmt_fixed n x)"
proof -
  have "list_all plain_char (fixed_rat n q)" for q
    by (simp add: fixed_rat_def Let_def)
  then have "clean (fixed_rat n q)" for q by (rule plain_clean)
  then show ?thesis by (cases x) (simp_all add: plain_char_def byte_def)
qed

lemma clean_g_text [simp]: "clean (g_text n p)"
  by (simp add: g_text_def Let_def)

lemma clean_shortest [simp]: "clean (fmt_shortest rnd x)" "clean (fmt_g x)" "clean (fmt_g32 x)" "clean (fmt_gn n x)"
  unfolding fmt_shortest_def fmt_g_def fmt_g32_def fmt_gn_def
  by (rule clean_signed_text, simp add: Let_def)+



section \<open>Cells\<close>

text \<open>Literals: a character code is printable ASCII by its bits.\<close>

lemma plain_char_Char [simp]:
  "plain_char (Char b0 b1 b2 b3 b4 b5 b6 b7) \<longleftrightarrow>
     \<not> b7 \<and> (b5 \<or> b6) \<and> \<not> (b0 \<and> b1 \<and> b2 \<and> b3 \<and> b4 \<and> b5 \<and> b6)"
  by (simp add: plain_char_def byte_def split: bool.split)

lemma plain_digit_char: "d < 16 \<Longrightarrow> plain_char (digit_char d)"
  by (simp add: digit_char_def plain_char_def)

lemma plain_digits_in: "1 < b \<Longrightarrow> b \<le> 16 \<Longrightarrow> list_all plain_char (digits_in b n)"
proof (induction b n rule: digits_in.induct)
  case (1 b n)
  have "n mod b < 16" using "1.prems" mod_less_divisor [of b n] by linarith
  with 1 show ?case by (subst digits_in.simps) (simp add: plain_digit_char)
qed

lemma plain_fmt_hex [simp]: "list_all plain_char (fmt_hex w n)"
  by (simp add: fmt_hex_def plain_digits_in)

lemma clean_encode: "scalar r \<Longrightarrow> \<not> hostile r \<Longrightarrow> clean (encode_rune r)"
  by (simp add: clean_def encode_rune_def free_encode)

lemma clean_escape_chunk: "p \<in> set (chunks s) \<Longrightarrow> clean (escape_chunk p)"
  using chunk_cases [of p s] scalar_runes [of "fst p" s]
  by (auto simp: escape_chunk_def runes_def plain_clean clean_encode)

lemma clean_escapeControl [simp]: "clean (escapeControl s)"
proof (cases "valid_string s \<and> \<not> any_rune hostile s")
  case True
  then show ?thesis by (auto simp: escapeControl_def clean_def free_def any_rune_def list_ex_iff runes_def)
qed (auto simp: escapeControl_def clean_escape_chunk intro!: clean_concat)

lemma clean_Bytes [simp]: "clean (Units.Bytes b)"
proof -
  have "clean (snd (bytes_loop b us))" if "list_all clean us" for us
    using that by (induction b us rule: bytes_loop.induct) simp_all
  from this [of byte_units] show ?thesis
    by (simp add: Units.Bytes_def split_beta byte_units_def)
qed

lemma clean_Duration [simp]: "clean (Units.Duration s)"
proof -
  have "list_all (clean \<circ> snd) ps \<Longrightarrow> clean (duration_loop ps)" for ps :: "(int \<times> string) list"
    by (induction ps rule: duration_loop.induct) simp_all
  then show ?thesis by (simp add: Units.Duration_def duration_units_def)
qed

lemma clean_two [simp]: "clean (two i)"
  by (rule plain_clean) (simp add: two_def)

lemma clean_year4 [simp]: "clean (year4 y)"
  by (rule plain_clean) (simp add: year4_def)

lemma clean_format_datetime [simp]: "clean (format_datetime t)"
  by (simp add: format_datetime_def date_text_def clock_text_def split_beta Let_def)

lemma clean_format_rfc3339: "clean (format_rfc3339 t)"
  by (simp add: format_rfc3339_def date_text_def clock_text_def zone_text_def split_beta Let_def)

text \<open>Runes taken from a clean text make a clean text.\<close>

lemma clean_runes: "clean s \<Longrightarrow> set rs \<subseteq> set (runes s) \<Longrightarrow> clean (concat (map encode_rune rs))"
  unfolding clean_def by (rule free_encode_all) (auto simp: free_def scalar_runes)

lemma clean_first_runes [simp]: "clean s \<Longrightarrow> clean (first_runes n s)"
  by (simp add: first_runes_def clean_runes set_take_subset)

lemma set_fit_runes: "set (fit_runes wide n rs) \<subseteq> set rs"
  by (induction wide n rs rule: fit_runes.induct) auto

lemma clean_fitWidth [simp]: "clean s \<Longrightarrow> clean (fitWidth wide s w)"
  by (simp add: fitWidth_def clean_runes set_fit_runes clean_append)

lemma clean_cell [simp]: "clean (cell v)"
  by (simp add: cell_def Let_def clean_append)

lemma clean_cell_str [simp]: "clean (cell_str s)"
  by (simp add: cell_str_def)

lemma clean_name [simp]: "clean (TextBase.name wide v)"
  by (simp add: name_def)

lemma clean_name_str [simp]: "clean (name_str wide s)"
  by (simp add: name_str_def)

section \<open>Tables and blocks\<close>

abbreviation cleans :: "string list \<Rightarrow> bool" where
  "cleans \<equiv> list_all clean"

lemma clean_trim_right [simp]: "clean s \<Longrightarrow> clean (trim_right (CHR '' '') s)"
  unfolding clean_def by (rule free_trim_right) (simp_all add: byte_def)

lemma clean_table_cells: "cleans r \<Longrightarrow> clean (table_cells wide ws r)"
  by (induction wide ws r rule: table_cells.induct) simp_all

lemma clean_writeTable [simp]:
  assumes "clean indent" and "case h of None \<Rightarrow> True | Some r \<Rightarrow> cleans r" and "list_all cleans rs"
  shows "clean (writeTable wide indent h rs)"
proof -
  have "clean (table_line wide indent ws r)" if "cleans r" for ws r
    using that assms(1) by (simp add: table_line_def clean_table_cells)
  then show ?thesis
    using assms(2,3) by (auto simp: writeTable_def Let_def list_all_iff split: option.splits intro!: clean_concat)
qed

lemma clean_counted_table [simp]:
  "clean title \<Longrightarrow> cleans h \<Longrightarrow> list_all cleans rs \<Longrightarrow> clean (counted_table wide title h rs)"
  by (simp add: counted_table_def)

lemma clean_pad_right [simp]: "clean s \<Longrightarrow> clean (pad_right w s)"
  by (simp add: pad_right_def)

lemma clean_pad_start [simp]: "clean s \<Longrightarrow> clean (pad_start w s)"
  by (simp add: pad_start_def)

lemma clean_writeKV [simp]: "list_all (\<lambda>p. clean (fst p) \<and> clean (snd p)) kv \<Longrightarrow> clean (writeKV w kv)"
  by (auto simp: writeKV_def Let_def list_all_iff intro!: clean_concat)

lemma clean_status_text [simp]: "clean (status_text st)"
  by (simp add: status_text_def split: status.split)

lemma clean_writeNotOKAs [simp]: "clean title \<Longrightarrow> clean (writeNotOKAs title st reason)"
  by (simp add: writeNotOKAs_def)

lemma clean_writeNotOK [simp]: "clean i \<Longrightarrow> clean (writeNotOK i p)"
  by (simp add: writeNotOK_def)

lemma clean_writeNotOKAt [simp]: "clean title \<Longrightarrow> clean (writeNotOKAt title p)"
  by (simp add: writeNotOKAt_def split: option.split)

lemma clean_section_at [simp]:
  "clean title \<Longrightarrow> (\<And>p. clean (body p)) \<Longrightarrow> clean (section_at r i title body)"
  by (simp add: section_at_def split: option.split)

lemma clean_writeTruncated [simp]: "clean (writeTruncated n)"
  by (simp add: writeTruncated_def)

lemma clean_more_rows [simp]: "clean (more_rows n)"
  by (simp add: more_rows_def)

lemma clean_plural [simp]: "clean one \<Longrightarrow> clean many \<Longrightarrow> clean (plural n one many)"
  by (simp add: plural_def)

lemma clean_texts [simp]:
  "clean (sizeOf b)" "clean (pct n t)" "clean (behind b)" "clean (count_text i)" "clean (execTime s)"
  "clean (bytesCell v)" "clean (ago a)" "clean (running v)"
  by (simp_all add: sizeOf_def pct_def behind_def count_text_def execTime_def bytesCell_def ago_def running_def Let_def
      split: option.split)

lemma clean_relkind: "clean k \<Longrightarrow> clean (relkind k)"
  by (simp add: relkind_def relkinds_def)

end
