(* ===== verification/TextSpec.thy ===== *)
theory TextSpec
  imports TextClean
begin

text \<open>
  What a terminal is shown: every layout is made of clean pieces, so the text of a report holds no
  control or format character but its own line ends, whatever the server answered.
\<close>

section \<open>Redactions\<close>

definition plain_redaction :: "Redaction \<Rightarrow> bool" where
  "plain_redaction x \<longleftrightarrow> clean (Redaction.ProbeID x) \<and> clean (Redaction.Field x) \<and> clean (Redaction.Reason x)"

lemma label_loop_cleans:
  "list_all (\<lambda>l. clean (fst l)) ls \<Longrightarrow> cleans has \<Longrightarrow>
   cleans (fst (label_loop has ls)) \<and> cleans (snd (label_loop has ls))"
proof (induction ls arbitrary: has)
  case (Cons l ls)
  have "cleans (filter (\<lambda>f. f \<notin> set (snd l)) has)"
    using Cons.prems(2) by (simp add: list_all_iff)
  with Cons show ?case by (simp add: split_beta Let_def)
qed simp

lemma cleans_labels: "cleans fs \<Longrightarrow> cleans (labels probe fs)"
proof -
  assume fs: "cleans fs"
  have "list_all (\<lambda>l. clean (fst l)) (redactedLabels probe)"
    by (simp add: redactedLabels_def)
  from label_loop_cleans [OF this fs] show ?thesis
    by (auto simp: labels_def split_beta list_all_iff)
qed

lemma clean_grantHint [simp]: "clean (grantHint probe reason)"
  by (simp add: grantHint_def)

definition plain_group :: "(string \<times> string) \<times> int \<times> string list \<Rightarrow> bool" where
  "plain_group g \<longleftrightarrow> clean (fst (fst g)) \<and> clean (snd (fst g)) \<and> cleans (snd (snd g))"

lemma group_add_all:
  assumes "list_all P gs" and "\<And>v. (k, v) \<in> set gs \<Longrightarrow> P (k, v) \<Longrightarrow> P (k, f (Some v))" and "P (k, f None)"
  shows "list_all P (group_add k f gs)"
  using assms by (induction gs) auto

lemma foldl_all: "P a \<Longrightarrow> (\<And>a x. x \<in> set xs \<Longrightarrow> P a \<Longrightarrow> P (f a x)) \<Longrightarrow> P (foldl f a xs)"
  by (induction xs arbitrary: a) simp_all

lemma redacted_groups_plain:
  assumes "list_all plain_redaction rs"
  shows "list_all plain_group (redacted_groups rs)"
  unfolding redacted_groups_def
proof (rule foldl_all)
  fix gs x
  assume "x \<in> set rs" and gs: "list_all plain_group gs"
  then have "plain_redaction x" using assms by (simp add: list_all_iff)
  with gs show "list_all plain_group (group_add (Redaction.ProbeID x, Redaction.Reason x)
      (\<lambda>g. case g of None \<Rightarrow> (max 0 (Redaction.RowsAffected x), [Redaction.Field x])
         | Some (n, fs) \<Rightarrow> (max n (Redaction.RowsAffected x), fs @ [Redaction.Field x])) gs)"
    by (intro group_add_all) (auto simp: plain_redaction_def plain_group_def)
qed simp

lemma clean_redacted_line: "plain_group g \<Longrightarrow> clean (redacted_line g)"
  by (auto simp: plain_group_def redacted_line_def split_beta clean_join cleans_labels)

lemma clean_writeRedacted [simp]: "list_all plain_redaction rs \<Longrightarrow> clean (writeRedacted rs)"
  using redacted_groups_plain [of rs]
  by (auto simp: writeRedacted_def list_all_iff intro!: clean_concat clean_redacted_line)

lemma clean_plain_redacted [simp]: "list_all plain_redaction rs \<Longrightarrow> clean (plain_redacted rs)"
  by (auto simp: plain_redacted_def plain_redaction_def list_all_iff intro!: clean_concat clean_append)

section \<open>Sessions and locks\<close>

lemma list_all_mapI [simp]: "(\<And>x. x \<in> set xs \<Longrightarrow> P (f x)) \<Longrightarrow> list_all P (map f xs)"
  by (auto simp: list_all_iff)

lemma list_all_slice_stable [simp]: "list_all P (slice_stable r xs) \<longleftrightarrow> list_all P xs"
  by (simp add: list_all_iff)

lemma list_all_cut [simp]: "list_all P xs \<Longrightarrow> list_all P (cut_limit limit xs)"
  by (auto simp: list_all_iff dest: set_cut_limit)

lemma list_all_filter [simp]: "list_all P xs \<Longrightarrow> list_all P (filter Q xs)"
  by (simp add: list_all_iff)

lemma list_all_map_mono: "list_all P xs \<Longrightarrow> (\<And>x. P x \<Longrightarrow> Q (f x)) \<Longrightarrow> list_all Q (map f xs)"
  by (simp add: list_all_iff)

declare clean_join [simp]

lemma cleans_firsts [simp]: "list_all P xs \<Longrightarrow> list_all P (firsts xs)"
  by (simp add: list_all_iff)

lemma clean_client [simp]: "clean (client s)"
  by (simp add: client_def)

lemma clean_session_cells [simp]:
  "clean (masked_cell s v)" "clean (age_cell s a)" "clean (wait_cell s)" "clean (sql_title s)"
  by (simp_all add: masked_cell_def age_cell_def wait_cell_def sql_title_def split: option.split)

lemma cleans_session_key: "cleans (session_key wide s)"
  by (simp add: session_key_def)

lemma session_groups_keys: "list_all (\<lambda>g. cleans (fst g)) (session_groups wide xs)"
  unfolding session_groups_def
  by (rule foldl_all) (auto intro!: group_add_all simp: cleans_session_key)

lemma cleans_connected_parts [simp]: "cleans (connected_parts xs)"
  by (simp add: connected_parts_def)

lemma clean_writeSummary [simp]: "clean (writeSummary wide xs)"
proof -
  have "list_all cleans (map (\<lambda>(k, n). fmt_d n # k) (slice_stable group_less (session_groups wide xs)))"
    by (rule list_all_map_mono [of "\<lambda>g. cleans (fst g)"]) (auto simp: session_groups_keys)
  then show ?thesis by (simp add: writeSummary_def Let_def)
qed

lemma cleans_session_line [simp]: "cleans (session_line wide all s)"
  by (simp add: session_line_def Let_def)

lemma cleans_list_header [simp]: "cleans (list_header all)"
  by (simp add: list_header_def)

lemma clean_writeList [simp]: "clean (writeList wide xs all limit)"
  by (simp add: writeList_def Let_def)

lemma clean_ids [simp]:
  "clean SessionActivityID" "clean LockListID" "clean TxnPreparedID" "clean WaitSummaryID" "clean SlotListID"
  by (simp_all add: SessionActivityID_def LockListID_def TxnPreparedID_def WaitSummaryID_def SlotListID_def)

lemma clean_sessions_write: "clean (sessions_write wide xs all limit p)"
  by (simp add: sessions_write_def)

lemma clean_blockerName [simp]: "clean (blockerName b)"
  by (simp add: blockerName_def)

lemma clean_lock_cells [simp]: "clean (objectName wide x)" "clean (waited x)" "clean (blocked_by x)"
  by (simp_all add: objectName_def waited_def blocked_by_def clean_join split: option.split)

text \<open>The mode of a lock is one of the server's names for its lock modes.\<close>

definition plain_lock :: "Lock \<Rightarrow> bool" where
  "plain_lock x \<longleftrightarrow> clean (Lock.Mode x)"

lemma clean_holds:
  assumes "list_all plain_lock xs"
  shows "clean (holds wide xs b wanted)"
proof -
  let ?named = "foldl (\<lambda>(out :: (string \<times> bool) list) x. let s = objectName wide x @ '' '' @ Lock.Mode x
      in if s \<in> fst ` set out then out else out @ [(s, Lock.Granted x)]) []"
  have "list_all (\<lambda>p. clean (fst p)) (?named ys)" if "set ys \<subseteq> set xs" for ys
  proof (rule foldl_all)
    fix out :: "(string \<times> bool) list" and x
    assume "x \<in> set ys" and out: "list_all (\<lambda>p. clean (fst p)) out"
    then have "clean (Lock.Mode x)" using that assms by (auto simp: plain_lock_def list_all_iff)
    with out show "list_all (\<lambda>p. clean (fst p)) (let s = objectName wide x @ '' '' @ Lock.Mode x
        in if s \<in> fst ` set out then out else out @ [(s, Lock.Granted x)])"
      by (simp add: Let_def)
  qed simp
  then have "cleans (map fst (filter Q (?named (filter R xs))))" for Q R
    by (intro list_all_map_mono [of "\<lambda>p. clean (fst p)"] list_all_filter) auto
  then show ?thesis by (simp add: holds_def Let_def clean_join)
qed

lemma clean_writeBlockers [simp]: "list_all plain_lock xs \<Longrightarrow> clean (writeBlockers wide xs waiting)"
  by (simp add: writeBlockers_def Let_def split_beta clean_holds)

lemma clean_writeWaiting [simp]:
  assumes "list_all plain_lock xs"
  shows "clean (writeWaiting wide xs limit)"
proof -
  have "list_all plain_lock (cut_limit limit (slice_stable wait_less xs))" using assms by simp
  then have "list_all cleans (map (\<lambda>x. [fmt_i (the (Lock.PID x)), objectName wide x, Lock.Mode x, waited x, blocked_by x])
      (cut_limit limit (slice_stable wait_less xs)))"
    by (rule list_all_map_mono) (simp add: plain_lock_def)
  then show ?thesis by (simp add: writeWaiting_def Let_def)
qed

lemma clean_locks_write: "list_all plain_lock xs \<Longrightarrow> clean (locks_write wide xs limit p)"
  by (simp add: locks_write_def Let_def waiting_locks_def)

text \<open>Statements keep their line ends; everything else in them is escaped.\<close>

lemma cleans_sqlLines [simp]: "cleans (sqlLines q)"
  by (simp add: sqlLines_def Let_def)

lemma clean_sql_block [simp]: "clean (sql_block s)"
  using cleans_sqlLines by (auto simp: sql_block_def list_all_iff intro!: clean_concat split: option.split)

lemma clean_writeActivity [simp]: "clean (writeActivity wide s)"
  by (simp add: writeActivity_def activity_kv_def split: option.split)

lemma clean_session_tables [simp]:
  assumes "list_all plain_lock xs"
  shows "clean (writeWaitingFor wide pid xs)" "clean (writeBlocking wide pid xs)" "clean (writeHolds wide pid xs)"
  unfolding writeWaitingFor_def writeBlocking_def writeHolds_def
  by (intro clean_counted_table cleans_firsts list_all_map_mono [of plain_lock] list_all_filter assms;
      simp add: plain_lock_def)+

lemma clean_session_write: "list_all plain_lock (coll.Rows l) \<Longrightarrow> clean (session_write wide pid a l found)"
  by (simp add: session_write_def)

section \<open>Transactions, waits and slots\<close>

lemma holders_clean: "list_all (\<lambda>h. clean (snd h)) (holders wide a p)"
proof -
  have "list_all (\<lambda>h. clean (snd h)) (session_holders s)" for s
    by (simp add: session_holders_def split: option.split)
  then show ?thesis by (auto simp: holders_def list_all_iff)
qed

lemma cleans_missing [simp]: "cleans (missing_sources a p)"
  by (simp add: missing_sources_def)

lemma clean_writeOldest [simp]: "clean (writeOldest wide a p)"
proof -
  have "cleans (map snd (filter Q (holders wide a p)))" for Q
    by (rule list_all_map_mono [of "\<lambda>h. clean (snd h)"]) (simp_all add: holders_clean)
  then show ?thesis by (simp add: writeOldest_def Let_def)
qed

lemma cleans_txn_line [simp]: "cleans (txn_line wide s)"
  by (simp add: txn_line_def split_beta Let_def split: option.split)

lemma clean_writeOpen [simp]: "clean (writeOpen wide a limit)"
  by (simp add: writeOpen_def Let_def)

lemma clean_writePrepared [simp]: "clean (writePrepared wide p)"
  by (simp add: writePrepared_def)

lemma clean_txn_write: "clean (txn_write wide a p limit)"
  by (simp add: txn_write_def)

lemma clean_pidList [simp]: "clean (pidList pids)"
  by (simp add: pidList_def)

lemma cleans_wait_line [simp]: "cleans (wait_line g)"
  by (simp add: wait_line_def waitLabel_def)

lemma cleans_not_shown [simp]: "cleans (not_shown n)"
  by (simp add: not_shown_def)

lemma clean_waits_write: "clean (waits_write wide w)"
  by (simp add: waits_write_def Let_def)

lemma cleans_slot_line [simp]: "cleans (slot_line wide catalog s)"
  by (simp add: slot_line_def slot_active_def split: option.split)

lemma clean_slots_write: "clean (slots_write wide l)"
  by (simp add: slots_write_def Let_def)

section \<open>The instance\<close>

lemma plain_rfc: "rfc_shape s \<Longrightarrow> list_all plain_char (take 19 s)"
proof -
  have "list_all2 (\<lambda>p c. if p = CHR ''d'' then is_digit c else c = p) ps cs \<Longrightarrow> list_all plain_char ps \<Longrightarrow>
      list_all plain_char cs" for ps cs
    by (induction rule: list_all2_induct) (auto simp: plain_digit split: if_splits)
  from this [of "''dddd-dd-ddTdd:dd:dd''" "take 19 s"]
  show "rfc_shape s \<Longrightarrow> list_all plain_char (take 19 s)" by (simp add: rfc_shape_def)
qed

lemma clean_datetime_of: "datetime_of s = Some t \<Longrightarrow> clean t"
proof -
  assume t: "datetime_of s = Some t"
  then have "list_all plain_char (take 19 s)"
    by (intro plain_rfc) (simp add: datetime_of_def split: if_splits)
  then have "list_all plain_char (take 10 s)" "list_all plain_char (take 8 (drop 11 s))"
    using plain_take [of "take 19 s" 10] plain_take [OF plain_drop, of "take 19 s" 8 11] by (simp_all add: drop_take)
  with t show "clean t" by (auto simp: datetime_of_def intro!: plain_clean split: if_splits)
qed

lemma clean_start_text [simp]: "clean (start_text row)"
  by (simp add: start_text_def Let_def clean_datetime_of clean_append split: option.split)

lemma clean_writeInfo [simp]: "clean (writeInfo p)"
  by (simp add: writeInfo_def info_kv_def)

lemma clean_writeDownstreams [simp]: "clean (writeDownstreams wide p)"
  by (simp add: writeDownstreams_def)

lemma clean_writeUpstreamAs [simp]: "clean title \<Longrightarrow> clean (writeUpstreamAs p title)"
  by (simp add: writeUpstreamAs_def upstream_kv_def split: option.split)

lemma clean_db [simp]: "clean (db_name (db_of row))" "clean (db_size d)"
  by (simp_all add: db_of_def db_size_def)

lemma clean_writeDatabases [simp]: "clean title \<Longrightarrow> clean (writeDatabases p title)"
proof -
  assume "clean title"
  moreover have "clean (concat (map (\<lambda>d. ''  '' @ db_name d @ replicate (n - length (runes (db_name d)) + 2) (CHR '' '') @
      pad_start m (db_size d) @ nl) (slice_stable db_less (map db_of (probe_rows_of p)))))" for n m
    by (rule clean_concat) auto
  ultimately show ?thesis by (simp add: writeDatabases_def Let_def clean_append)
qed

lemma clean_writeDisk [simp]: "clean (writeDisk p)"
  by (simp add: writeDisk_def Let_def)

lemma clean_writeStatus: "clean (writeStatus wide r)"
proof -
  have "clean (status_section wide i p)" if "i \<in> set (status_order role)" for i p role
    using that by (auto simp: status_order_def status_section_def split: if_splits)
  then show ?thesis by (auto simp: writeStatus_def intro!: clean_concat split: option.split)
qed

text \<open>What a mount is for is one of the program's three names.\<close>

definition plain_mount :: "Mount \<Rightarrow> bool" where
  "plain_mount m \<longleftrightarrow> clean (Mount.Kind m)"

lemma disk_groups_clean: "list_all plain_mount ms \<Longrightarrow> list_all (\<lambda>g. cleans (fst (snd g))) (disk_groups ms)"
proof -
  assume ms: "list_all plain_mount ms"
  show ?thesis
    unfolding disk_groups_def
  proof (rule foldl_all)
    fix gs :: "(string \<times> string list \<times> Disk) list" and m
    assume "m \<in> set ms" and gs: "list_all (\<lambda>g. cleans (fst (snd g))) gs"
    then have "clean (mount_what m)" using ms by (simp add: mount_what_def plain_mount_def list_all_iff)
    with gs show "list_all (\<lambda>g. cleans (fst (snd g))) (group_add (mount_id m)
        (\<lambda>g. case g of None \<Rightarrow> ([mount_what m], Mount.Disk m) | Some (hs, d) \<Rightarrow> (hs @ [mount_what m], d)) gs)"
      by (intro group_add_all) auto
  qed simp
qed

lemma clean_space_disk:
  assumes "list_all plain_mount (coll.Rows d)"
  shows "clean (space_disk wide d)"
proof -
  have "list_all cleans (map (disk_line \<circ> snd) (disk_groups (coll.Rows d)))"
    by (rule list_all_map_mono [OF disk_groups_clean [OF assms]]) (simp add: disk_line_def disk_use_def split_beta Let_def)
  then show ?thesis by (simp add: space_disk_def Let_def)
qed

lemma clean_writeWAL [simp]: "clean (writeWAL p)"
  by (simp add: writeWAL_def wal_block_def wal_keep_def Let_def split: option.split)

lemma clean_writeTablespaces [simp]: "clean (writeTablespaces wide p)"
  by (simp add: writeTablespaces_def tablespace_line_def split: option.split val.split)

lemma clean_space_write: "list_all plain_mount (coll.Rows d) \<Longrightarrow> clean (space_write wide d r)"
  by (simp add: space_write_def clean_space_disk)

section \<open>Archiving, checkpoints, parameters, WAL\<close>

lemma clean_archiver_block [simp]: "clean (archiver_block wide role a)"
  by (simp add: archiver_block_def archive_kv_def archive_mode_text_def archiverRow_def Let_def
      split: option.split)

lemma clean_archive_write: "clean (archive_write wide s r)"
  by (simp add: archive_write_def archive_queue_def split: option.split)

lemma clean_first_block [simp]:
  "clean title \<Longrightarrow> (\<And>x. clean (h x)) \<Longrightarrow> (\<And>x. list_all (\<lambda>p. clean (fst p) \<and> clean (snd p)) (kv x)) \<Longrightarrow>
   clean (first_block title h kv c)"
  by (simp add: first_block_def)

lemma clean_checkpoint_write: "clean (checkpoint_write s l cs r)"
proof -
  have "clean (checkpoint_title b)" "clean (stats_since w)" "clean (checkpoints_text b w)" "clean (buffers_text w)" for b w
    by (simp_all add: checkpoint_title_def stats_since_def checkpoints_text_def buffers_text_def Let_def
        split: option.split)
  then show ?thesis
    by (simp add: checkpoint_write_def Let_def last_checkpoint_def bgwriter_kv_def checkpoint_settings_def
        split: option.split)
qed

lemma clean_params_write: "clean (params_write wide p)"
proof -
  have "plain_char (CHR 0x27)" by simp
  then have "clean (paramValue v)" "clean (paramFile x)" "clean params_note" for v x
    by (simp_all add: paramValue_def paramFile_def params_note_def split: option.split)
  then show ?thesis by (simp add: params_write_def)
qed

lemma clean_wal_write: "clean (wal_write p w s a)"
proof -
  have "list_all (\<lambda>p. clean (fst p) \<and> clean (snd p)) (wal_settings w)"
    by (simp add: wal_settings_def keep_text_def split: option.split list.split)
  moreover have "list_all (\<lambda>p. clean (fst p) \<and> clean (snd p)) (slot_keeps s)"
    by (simp add: slot_keeps_def)
  moreover have "clean (fst (archive_keeps a))" "clean (snd (archive_keeps a))"
    by (simp_all add: archive_keeps_def split: list.split)
  ultimately show ?thesis
    by (simp add: wal_write_def position_kv_def split: option.split)
qed

section \<open>Tables\<close>

lemma clean_in_database [simp]: "clean what \<Longrightarrow> clean (in_database what r)"
  by (simp add: in_database_def Let_def)

lemma clean_writeFreeze: "clean (writeFreeze wide r)"
  by (simp add: writeFreeze_def limits_block_def freeze_databases_def freeze_tables_def frozen_line_def Let_def
      clean_relkind)

lemma cleans_run_line [simp]: "cleans (run_line wide row)"
  by (simp add: run_line_def run_scanned_def split: option.split val.split)

lemma cleans_vacuum_line [simp]: "cleans (vacuum_line wide setOK s x)"
  by (simp add: vacuum_line_def vacuum_cells_def split_beta Let_def)

lemma clean_vacuum_write: "clean (vacuum_write wide t s limit r)"
  by (simp add: vacuum_write_def vacuum_settings_text_def writeVacuumRuns_def vacuum_tables_def Let_def)

text \<open>The kind of a relation is one letter of the server's catalog.\<close>

definition plain_table :: "TableInfo \<Rightarrow> bool" where
  "plain_table x \<longleftrightarrow> clean (TableInfo.Relkind x)"

lemma clean_table_texts [simp]:
  "clean (table_size x z)" "clean (dead_text x st v)" "clean (times_text n)" "clean (blocks_text rd hit)"
  "clean (index_kind i)" "clean (locked_text what) \<longleftrightarrow> clean (what @ '' is locked exclusively (VACUUM FULL, TRUNCATE, ALTER TABLE ...): kbdiag locks shows who holds it'' @ nl)"
  by (simp_all add: table_size_def dead_text_def times_text_def blocks_text_def index_kind_def locked_text_def
      split_beta Let_def split: list.split option.split)

lemma clean_table_kv [simp]: "list_all (\<lambda>p. clean (fst p) \<and> clean (snd p)) (table_kv x z s l)"
  by (simp add: table_kv_def split: option.split list.split)

lemma clean_writeStats [simp]: "clean (writeStats x s v)"
  by (simp add: writeStats_def split: option.split)

lemma clean_writeIndexes [simp]: "clean (writeIndexes wide x)"
  by (simp add: writeIndexes_def)

lemma clean_table_write:
  assumes "list_all plain_table (coll.Rows i)" and "found \<Longrightarrow> coll.Status i = StatusOK \<Longrightarrow> coll.Rows i \<noteq> []"
  shows "clean (table_write wide i z s x l v found)"
proof -
  have "clean (not_a_table t)" "clean (table_kind t)" if "plain_table t" for t
    using that by (simp_all add: plain_table_def not_a_table_def table_kind_def Let_def clean_relkind
        split: list.split)
  then show ?thesis
    using assms by (cases found; cases "coll.Status i = StatusOK"; cases "coll.Rows i") (simp_all add: table_write_def Let_def split: option.split list.split)
qed

lemma cleans_seq_line [simp]: "cleans (seq_line wide s)"
  by (simp add: seq_line_def seq_cells_def split_beta Let_def split: option.split)

lemma clean_seq_write: "clean (seq_write wide l limit r)"
  by (simp add: seq_write_def Let_def)

lemma cleans_top_line [simp]: "cleans (top_line wide all s)"
  by (simp add: top_line_def)

lemma clean_top_write: "clean by \<Longrightarrow> clean (top_write wide t by limit)"
  by (simp add: top_write_def track_note_def Let_def)

lemma clean_object_section [simp]:
  "clean title \<Longrightarrow> (\<And>p. clean (body p)) \<Longrightarrow> clean (object_section r i title body)"
  by (simp add: object_section_def lockHint_def split: option.split)

lemma clean_writeTopObjects: "clean (writeTopObjects wide r)"
  by (simp add: writeTopObjects_def object_tables_def object_indexes_def object_name_def clean_relkind)

lemma cleans_op_line [simp]: "cleans (op_line wide x)"
  by (simp add: op_line_def op_phase_def op_progress_def split: option.split)

lemma clean_progress_write: "clean (progress_write wide p cp)"
  by (simp add: progress_write_def Let_def)

section \<open>Replication and the cluster\<close>

lemma clean_repl_write: "clean (repl_write wide orbit d r)"
proof -
  have "cleans (replica_line wide x)" for x
    by (simp add: replica_line_def split: option.split)
  then have "clean (repl_downstreams wide d)" by (simp add: repl_downstreams_def)
  moreover have "clean (sync_block orbit d row)" for row
    by (simp add: sync_block_def sync_names_text_def sync_now_def Let_def split_beta split: option.split val.split)
  ultimately show ?thesis
    by (simp add: repl_write_def replay_kv_def split: option.split)
qed

lemma clean_local_lines: "clean role \<Longrightarrow> clean (local_lines orbit n d role)"
proof -
  have "cleans (map (escapeControl \<circ> ClusterNode.NodeName) xs)" for xs by simp
  then have "clean (attached_lines orbit n d i)" for i by (simp add: attached_lines_def Let_def)
  then show "clean role \<Longrightarrow> clean (local_lines orbit n d role)"
    by (simp add: local_lines_def split: list.split)
qed

lemma clean_cluster_write:
  assumes "clean (report_context.Role (Report.Context r))"
  shows "clean (cluster_write wide orbit n e d s r)"
proof -
  have "cleans (node_line n x)" "cleans (event_line wide n y)" for x y
    by (simp_all add: node_line_def event_line_def yes_no_def split: option.split)
  moreover have "clean (cluster_sync_text wide x)" for x
    by (simp add: cluster_sync_text_def Let_def split: option.split)
  ultimately show ?thesis
    using assms by (simp add: cluster_write_def writeNodes_def cluster_sync_def cluster_events_def clean_local_lines
        split: list.split)
qed

section \<open>Reports\<close>

text \<open>
  What the program puts into a report itself, or takes from a fixed vocabulary of the server: the
  names of commands, probes, findings and steps, the lock modes, the kinds of relations and mounts.
  None of it is escaped.
\<close>

definition plain_finding :: "Finding \<Rightarrow> bool" where
  "plain_finding f \<longleftrightarrow> clean (Finding.ID f) \<and> list_all (\<lambda>n. clean (Next.Kind n)) (Finding.Next f)"

definition plain_context :: "report_context \<Rightarrow> bool" where
  "plain_context c \<longleftrightarrow>
     clean (report_context.Role c) \<and> clean (report_context.Location c) \<and> clean (report_context.CollectedAt c)"

definition plain_view :: "view \<Rightarrow> bool" where
  "plain_view v = (case v of
       LocksView xs limit \<Rightarrow> list_all plain_lock xs
     | SessionView pid a l found \<Rightarrow> list_all plain_lock (coll.Rows l)
     | SpaceView d \<Rightarrow> list_all plain_mount (coll.Rows d)
     | TableView i z s x l v found \<Rightarrow> list_all plain_table (coll.Rows i) \<and> (found \<longrightarrow> coll.Status i = StatusOK \<longrightarrow> coll.Rows i \<noteq> [])
     | TopView t by limit \<Rightarrow> clean by
     | _ \<Rightarrow> True)"

definition plain_data :: "(string \<times> Probe) list \<Rightarrow> bool" where
  "plain_data ps \<longleftrightarrow> list_all (\<lambda>p. clean (fst p) \<and> cleans (Probe.Columns (snd p))) ps"

definition plain_report :: "Report \<Rightarrow> bool" where
  "plain_report r \<longleftrightarrow>
     clean (Report.Command r) \<and> plain_context (Report.Context r) \<and> plain_data (Report.Data r) \<and>
     list_all plain_finding (Report.Findings r) \<and> list_all plain_redaction (Report.Redacted r) \<and>
     plain_view (Report.View r)"

lemma clean_head_line: "clean (Report.Command r) \<Longrightarrow> plain_context (Report.Context r) \<Longrightarrow> clean (head_line r)"
  by (simp add: head_line_def plain_context_def verdict_text_def Let_def split: verdict.split)

lemma clean_finding_text: "plain_finding f \<Longrightarrow> clean (finding_text f)"
proof -
  assume f: "plain_finding f"
  then have "clean (concat (map next_line (Finding.Next f)))"
    by (intro clean_concat) (simp add: plain_finding_def next_line_def Let_def list_all_iff)
  with f show ?thesis
    by (simp add: plain_finding_def finding_text_def level_text_def clean_append split: level.split option.split)
qed

lemma clean_tab_line: "cleans l \<Longrightarrow> clean (tab_line ws l)"
  by (induction ws l rule: tab_line.induct) (simp_all add: clean_nl [unfolded nl_def])

lemma clean_tab_lines: "list_all cleans ls \<Longrightarrow> clean (tab_lines ws ls)"
  unfolding tab_lines_def by (intro clean_concat clean_tab_line) (simp add: list_all_iff)

lemma list_all_Whiles: "list_all P xs \<Longrightarrow> list_all P (takeWhile Q xs)" "list_all P xs \<Longrightarrow> list_all P (dropWhile Q xs)"
  by (auto simp: list_all_iff dest: set_takeWhileD set_dropWhileD)

lemma clean_tab_format: "list_all cleans ls \<Longrightarrow> clean (tab_format ws ls)"
proof (induction ws ls rule: tab_format.induct)
  case (1 ws ls)
  then show ?case
    by (subst tab_format.simps) (simp add: Let_def list_all_Whiles clean_tab_lines clean_append)
qed

lemma clean_tabwriter: "list_all cleans ls \<Longrightarrow> clean (tabwriter ls)"
  by (simp add: tabwriter_def clean_tab_format)

lemma clean_writeTables:
  assumes "plain_data (Report.Data r)"
  shows "clean (writeTables r)"
proof -
  have rows: "clean (tabwriter (table_rows p))" if "cleans (Probe.Columns p)" for p
    using that by (intro clean_tabwriter) (simp add: table_rows_def)
  show ?thesis
    unfolding writeTables_def
    using assms rows by (intro clean_concat) (auto simp: plain_data_def list_all_iff)
qed

lemma clean_with_probe: "clean i \<Longrightarrow> (\<And>p. clean (body p)) \<Longrightarrow> clean (with_probe r i body)"
  by (simp add: with_probe_def split: option.split)

lemma clean_layout:
  assumes "plain_report r"
  shows "clean (layout wide orbit r)"
  using assms
  by (auto simp: plain_report_def plain_view_def plain_context_def layout_def split: view.splits
      intro!: clean_writeTables clean_with_probe clean_writeStatus clean_sessions_write clean_locks_write
        clean_session_write clean_txn_write clean_waits_write clean_slots_write clean_space_write clean_writeFreeze
        clean_vacuum_write clean_table_write clean_archive_write clean_checkpoint_write clean_cluster_write
        clean_params_write clean_progress_write clean_repl_write clean_seq_write clean_top_write
        clean_writeTopObjects clean_wal_write)

lemma clean_WriteText:
  assumes "plain_report r"
  shows "clean (WriteText wide orbit r)"
proof -
  have "clean (concat (map finding_text (Report.Findings r)))"
    using assms by (intro clean_concat clean_finding_text) (simp add: plain_report_def list_all_iff)
  then show ?thesis
    using assms clean_layout [OF assms]
    by (simp add: WriteText_def plain_report_def clean_head_line)
qed

end
