(* ===== verification/GoPrint.thy ===== *)
theory GoPrint
  imports Prelude GoText
begin

text \<open>
  The two verbs the command line prints its errors with: \<open>%q\<close> (\<open>strconv.Quote\<close>) and \<open>%v\<close> of a
  \<open>time.Duration\<close>.
\<close>

text \<open>\<open>printable\<close> says which runes outside ASCII \<open>strconv.IsPrint\<close> accepts.\<close>

definition quote_chunk :: "(nat \<Rightarrow> bool) \<Rightarrow> nat \<times> string \<Rightarrow> string" where
  "quote_chunk printable p =
     (let r = fst p; esc = CHR 0x5C
      in if bad_chunk p then esc # ''x'' @ fmt_hex 2 (byte (hd (snd p)))
         else if r = 0x22 \<or> r = 0x5C then esc # snd p
         else if 32 \<le> r \<and> r < 127 \<or> 128 \<le> r \<and> printable r then snd p
         else if r = 7 then esc # ''a'' else if r = 8 then esc # ''b'' else if r = 12 then esc # ''f''
         else if r = 10 then esc # ''n'' else if r = 13 then esc # ''r'' else if r = 9 then esc # ''t''
         else if r = 11 then esc # ''v''
         else if r < 32 \<or> r = 127 then esc # ''x'' @ fmt_hex 2 r
         else if r < 65536 then esc # ''u'' @ fmt_hex 4 r
         else esc # ''U'' @ fmt_hex 8 r)"

definition go_quote :: "(nat \<Rightarrow> bool) \<Rightarrow> string \<Rightarrow> string" where
  "go_quote printable s = [CHR 0x22] @ concat (map (quote_chunk printable) (chunks s)) @ [CHR 0x22]"

text \<open>The part of a duration below the unit it is given in, without trailing zeros.\<close>

definition frac_text :: "nat \<Rightarrow> nat \<Rightarrow> string" where
  "frac_text prec u =
     (let ds = trim_right (CHR ''0'') (pad_left (CHR ''0'') prec (dec_nat (u mod 10 ^ prec)))
      in if ds = [] then [] else ''.'' @ ds)"

definition scaled_text :: "nat \<Rightarrow> nat \<Rightarrow> string" where
  "scaled_text prec u = dec_nat (u div 10 ^ prec) @ frac_text prec u"

definition clock_units :: "nat \<Rightarrow> string" where
  "clock_units u =
     (let s = u div 10 ^ 9; m = s div 60; h = m div 60
      in (if 0 < h then dec_nat h @ ''h'' else []) @
         (if 0 < m then dec_nat (m mod 60) @ ''m'' else []) @
         dec_nat (s mod 60) @ frac_text 9 u @ ''s'')"

definition duration_text :: "int64 \<Rightarrow> string" where
  "duration_text d =
     (let u = nat \<bar>sint d\<bar>
      in (if sint d < 0 then ''-'' else []) @
         (if u = 0 then ''0s''
          else if u < 10 ^ 3 then dec_nat u @ ''ns''
          else if u < 10 ^ 6 then scaled_text 3 u @ [byte_char 0xC2, byte_char 0xB5] @ ''s''
          else if u < 10 ^ 9 then scaled_text 6 u @ ''ms''
          else clock_units u))"

end
