(* ===== verification/Probe.thy ===== *)
theory Probe
  imports ProbeCore
begin

text \<open>
  The probes that read the server (\<open>internal/probe/*.go\<close>), each a statement sent under the conditions
  its function checks first. A probe's own name carries the suffix \<open>_probe\<close>.
\<close>

section \<open>Sessions, locks, transactions, waits\<close>

definition SessionActivity_probe :: "SessionActivity query" where
  "SessionActivity_probe = do {
     (st, reason) \<leftarrow> trackActivities;
     if st \<noteq> StatusOK then State_Monad.return (not_read st reason)
     else do {
       r \<leftarrow> collect AskSessions SessionActivitySQL;
       State_Monad.return (as_coll r)
     }
   }"

definition LockList_probe :: "LockList query" where
  "LockList_probe = do {
     r \<leftarrow> collect AskLocks LockListSQL;
     State_Monad.return (as_coll r)
   }"

definition TxnPrepared_probe :: "Context \<Rightarrow> TxnPrepared query" where
  "TxnPrepared_probe c =
     (if Context.Role c = ''standby''
      then State_Monad.return (not_read StatusNotApplicable
        ''a standby cannot see the primary's two-phase transactions: run kbdiag txn on the primary'')
      else do {
        r \<leftarrow> collect AskPrepared TxnPreparedSQL;
        State_Monad.return (as_coll r)
      })"

definition WaitSummary_probe :: "WaitSummary query" where
  "WaitSummary_probe = do {
     (st, reason) \<leftarrow> trackActivities;
     if st \<noteq> StatusOK then State_Monad.return (not_read st reason)
     else do {
       r \<leftarrow> collect AskWaits WaitSummarySQL;
       State_Monad.return (as_coll r)
     }
   }"

section \<open>The instance\<close>

text \<open>\<open>versionNumber\<close> keeps the build of a \<open>version()\<close> text, and all of one it does not know.\<close>

definition versionNumber :: "string \<Rightarrow> string" where
  "versionNumber v =
     (let f = split_fields v
      in if length f < 2 \<or> f ! 0 \<noteq> ''KingbaseES'' then v else f ! 1)"

definition scan_info :: "Info \<Rightarrow> Info" where
  "scan_info i = i\<lparr>Info.Version := versionNumber (Info.Version i)\<rparr>"

definition InstInfo_probe :: "InstInfo query" where
  "InstInfo_probe = do {
     (st, reason, out) \<leftarrow> collect AskInfo InstInfoSQL;
     State_Monad.return (as_coll (st, reason, map scan_info out))
   }"

definition InstDatabases_probe :: "InstDatabases query" where
  "InstDatabases_probe = do {
     r \<leftarrow> collect AskDatabases InstDatabasesSQL;
     State_Monad.return (as_coll r)
   }"

definition InstDownstreams_probe :: "InstDownstreams query" where
  "InstDownstreams_probe = do {
     r \<leftarrow> collect AskDownstreams InstDownstreamsSQL;
     State_Monad.return (as_coll r)
   }"

definition InstUpstream_probe :: "Context \<Rightarrow> InstUpstream query" where
  "InstUpstream_probe c =
     (if Context.Role c \<noteq> ''standby'' then State_Monad.return (not_read StatusNotApplicable ''primary'')
      else do {
        r \<leftarrow> collect AskUpstream InstUpstreamSQL;
        State_Monad.return (as_coll r)
      })"

section \<open>Space, objects and sequences\<close>

definition SpaceTablespaces_probe :: "SpaceTablespaces query" where
  "SpaceTablespaces_probe = do {
     r \<leftarrow> collect AskTablespaces SpaceTablespacesSQL;
     State_Monad.return (as_coll r)
   }"

definition SpaceWAL_probe :: "SpaceWAL query" where
  "SpaceWAL_probe = do {
     r \<leftarrow> collect AskWAL SpaceWALSQL;
     State_Monad.return (as_coll r)
   }"

definition ObjectTables_probe :: "ObjectTables query" where
  "ObjectTables_probe = do {
     r \<leftarrow> collect AskObjectTables ObjectTablesSQL;
     State_Monad.return (as_coll r)
   }"

definition ObjectIndexes_probe :: "ObjectIndexes query" where
  "ObjectIndexes_probe = do {
     r \<leftarrow> collect AskObjectIndexes ObjectIndexesSQL;
     State_Monad.return (as_coll r)
   }"

definition SeqList_probe :: "SeqList query" where
  "SeqList_probe = do {
     r \<leftarrow> collect AskSequences SeqListSQL;
     State_Monad.return (as_coll r)
   }"

section \<open>WAL, archiving, checkpoints, slots, parameters\<close>

definition WALPosition_probe :: "WALPosition query" where
  "WALPosition_probe = do {
     r \<leftarrow> collect AskPosition WalPositionSQL;
     State_Monad.return (as_coll r)
   }"

definition ArchiveStatus_probe :: "ArchiveStatus query" where
  "ArchiveStatus_probe = do {
     r \<leftarrow> collect AskArchiver ArchiveStatusSQL;
     State_Monad.return (as_coll r)
   }"

definition ArchiveReady_probe :: "ArchiveReady query" where
  "ArchiveReady_probe = do {
     r \<leftarrow> collect AskQueue ArchiveReadySQL;
     State_Monad.return (as_coll r)
   }"

definition CheckpointStats_probe :: "CheckpointStats query" where
  "CheckpointStats_probe = do {
     r \<leftarrow> collect AskBGWriter CheckpointStatsSQL;
     State_Monad.return (as_coll r)
   }"

definition CheckpointLast_probe :: "CheckpointLast query" where
  "CheckpointLast_probe = do {
     r \<leftarrow> collect AskLastCheckpoint CheckpointLastSQL;
     State_Monad.return (as_coll r)
   }"

definition CheckpointSettings_probe :: "CheckpointSettings query" where
  "CheckpointSettings_probe = do {
     r \<leftarrow> collect AskCheckpointSetting CheckpointSettingsSQL;
     State_Monad.return (as_coll r)
   }"

definition SlotList_probe :: "SlotList query" where
  "SlotList_probe = do {
     r \<leftarrow> collect AskSlots SlotListSQL;
     State_Monad.return (as_coll r)
   }"

definition ParamsChanged_probe :: "ParamsChanged query" where
  "ParamsChanged_probe = do {
     r \<leftarrow> collect AskParams ParamsChangedSQL;
     State_Monad.return (as_coll r)
   }"

section \<open>Freezing and long operations\<close>

definition FreezeDatabases_probe :: "FreezeDatabases query" where
  "FreezeDatabases_probe = do {
     r \<leftarrow> collect AskFrozenDatabases FreezeDatabasesSQL;
     State_Monad.return (as_coll r)
   }"

definition FreezeTables_probe :: "FreezeTables query" where
  "FreezeTables_probe = do {
     r \<leftarrow> collect AskFrozenTables FreezeTablesSQL;
     State_Monad.return (as_coll r)
   }"

definition FreezeLimits_probe :: "FreezeLimits query" where
  "FreezeLimits_probe = do {
     r \<leftarrow> collect AskFreezeLimit FreezeLimitsSQL;
     State_Monad.return (as_coll r)
   }"

definition ProgressList_probe :: "ProgressList query" where
  "ProgressList_probe = do {
     r \<leftarrow> collect AskOperations ProgressListSQL;
     State_Monad.return (as_coll r)
   }"

definition ProgressCheckpoint_probe :: "ProgressList query" where
  "ProgressCheckpoint_probe = do {
     r \<leftarrow> collect AskOperations ProgressCheckpointSQL;
     State_Monad.return (as_coll r)
   }"

section \<open>Replication\<close>

definition ReplDownstreams_probe :: "ReplDownstreams query" where
  "ReplDownstreams_probe = do {
     r \<leftarrow> collect AskReplicas ReplDownstreamsSQL;
     State_Monad.return (as_coll r)
   }"

definition ReplSync_probe :: "Context \<Rightarrow> ReplSync query" where
  "ReplSync_probe c =
     (if Context.Role c = ''standby''
      then State_Monad.return (not_read StatusNotApplicable
        ''standby: synchronous replication is decided on the primary'')
      else do {
        r \<leftarrow> collect AskSyncSetting ReplSyncSQL;
        State_Monad.return (as_coll r)
      })"

definition ReplReplay_probe :: "Context \<Rightarrow> ReplReplay query" where
  "ReplReplay_probe c =
     (if Context.Role c \<noteq> ''standby'' then State_Monad.return (not_read StatusNotApplicable ''primary'')
      else do {
        r \<leftarrow> collect AskReplay ReplReplaySQL;
        State_Monad.return (as_coll r)
      })"

section \<open>Vacuum and one table\<close>

definition standby_statistics :: string where
  "standby_statistics =
     ''standby: table statistics are local to each node and stay 0 here; run on the primary''"

definition VacuumTables_probe :: "Context \<Rightarrow> VacuumTables query" where
  "VacuumTables_probe c =
     (if Context.Role c = ''standby''
      then State_Monad.return (not_read StatusNotApplicable standby_statistics)
      else do {
        (st, reason) \<leftarrow> trackCounts;
        if st \<noteq> StatusOK then State_Monad.return (not_read st reason)
        else do {
          r \<leftarrow> collect AskVacuumTables VacuumTablesSQL;
          State_Monad.return (as_coll r)
        }
      })"

definition VacuumProgress_probe :: "Context \<Rightarrow> VacuumProgress query" where
  "VacuumProgress_probe c =
     (if Context.Role c = ''standby''
      then State_Monad.return (not_read StatusNotApplicable
        ''standby: autovacuum does not run here; run on the primary'')
      else do {
        r \<leftarrow> collect AskVacuumRuns VacuumProgressSQL;
        State_Monad.return (as_coll r)
      })"

definition VacuumSettings_probe :: "VacuumSettings query" where
  "VacuumSettings_probe = do {
     r \<leftarrow> collect AskVacuumSetting VacuumSettingsSQL;
     State_Monad.return (as_coll r)
   }"

definition TableInfo_probe :: "string \<Rightarrow> TableInfos query" where
  "TableInfo_probe rel = do {
     r \<leftarrow> collectArgs AskTableInfo TableInfoSQL [ArgText rel];
     State_Monad.return (as_coll r)
   }"

definition TableSize_probe :: "uint32 \<Rightarrow> TableSizes query" where
  "TableSize_probe oid = do {
     r \<leftarrow> collectArgs AskTableSize TableSizeSQL [ArgOID oid];
     State_Monad.return (as_coll r)
   }"

definition TableStats_probe :: "Context \<Rightarrow> uint32 \<Rightarrow> TableStats query" where
  "TableStats_probe c oid =
     (if Context.Role c = ''standby''
      then State_Monad.return (not_read StatusNotApplicable standby_statistics)
      else do {
        (st, reason) \<leftarrow> trackCounts;
        if st \<noteq> StatusOK then State_Monad.return (not_read st reason)
        else do {
          r \<leftarrow> collectArgs AskTableStat TableStatsSQL [ArgOID oid];
          State_Monad.return (as_coll r)
        }
      })"

definition TableIndexes_probe :: "uint32 \<Rightarrow> bool \<Rightarrow> TableIndexes query" where
  "TableIndexes_probe oid sizes = do {
     r \<leftarrow> collectArgs AskTableIndexes
       (TableIndexesSQL (if sizes then ''pg_relation_size(i.indexrelid)'' else ''null::bigint'')) [ArgOID oid];
     State_Monad.return (as_coll r)
   }"

section \<open>Statements\<close>

text \<open>
  \<open>sql.top\<close> reads a view of an extension: where it is, whether it collects, and what an empty view
  means are asked first; \<open>the\<close> is Go's \<open>*p\<close> of a pointer found not nil. \<open>sanitize\<close> is \<open>pgx\<close>'s
  \<open>Identifier.Sanitize\<close>, which quotes a qualified name.
\<close>

definition topCollecting :: "bool \<Rightarrow> string option \<Rightarrow> string \<Rightarrow> status \<times> string" where
  "topCollecting view track db =
     (if track = None
      then (StatusSkipped, ''sys_stat_statements is not loaded: add it to shared_preload_libraries (needs a restart)'')
      else if \<not> view
      then (StatusSkipped, ''sys_stat_statements is not installed in database '' @ db @
        '': CREATE EXTENSION sys_stat_statements there, or use -d'')
      else (StatusOK, []))"

definition topEmpty :: "string \<Rightarrow> status \<times> string" where
  "topEmpty track =
     (if track = ''none''
      then (StatusSkipped,
        ''sys_stat_statements.track=none: statements are not being collected; set it to top or all'')
      else (StatusOK, []))"

definition top_not_read :: "status \<Rightarrow> string \<Rightarrow> SQLTop" where
  "top_not_read st reason =
     \<lparr>coll.Status = st, coll.Reason = reason, coll.Rows = [], SQLTop.Track = []\<rparr>"

definition SQLTop_probe :: "(string list \<Rightarrow> string) \<Rightarrow> Context \<Rightarrow> SQLTop query" where
  "SQLTop_probe sanitize c = do {
     q \<leftarrow> ask AskTop TopCheckSQL [];
     case q of
       Inl e \<Rightarrow> (case classify e of (st, reason) \<Rightarrow> State_Monad.return (top_not_read st reason))
     | Inr (schema, track) \<Rightarrow>
         (case topCollecting (schema \<noteq> None) track (Context.Database c) of (st, reason) \<Rightarrow>
           if st \<noteq> StatusOK then State_Monad.return (top_not_read st reason)
           else do {
             (st, reason, out) \<leftarrow>
               collect AskStatements (SqlTopSQL (sanitize [the schema, ''sys_stat_statements'']));
             let (st, reason) =
               (if st = StatusOK \<and> out = [] then topEmpty (the track) else (st, reason));
             State_Monad.return
               \<lparr>coll.Status = st, coll.Reason = reason, coll.Rows = out, SQLTop.Track = the track\<rparr>
           })
   }"


section \<open>Every probe keeps the contract\<close>

interpretation session_activity: probe_contract SessionActivity_probe
  unfolding SessionActivity_probe_def by (auto intro!: contract_intros contract_not_read simp: split_beta)

interpretation lock_list: probe_contract LockList_probe
  unfolding LockList_probe_def by (auto intro!: contract_intros contract_not_read simp: split_beta)

interpretation txn_prepared: probe_contract "TxnPrepared_probe c"
  unfolding TxnPrepared_probe_def by (auto intro!: contract_intros contract_not_read simp: split_beta)

interpretation wait_summary: probe_contract WaitSummary_probe
  unfolding WaitSummary_probe_def by (auto intro!: contract_intros contract_not_read simp: split_beta)

lemma honest_map [simp]: "honest (as_coll (st, reason, map f out)) \<longleftrightarrow> honest (as_coll (st, reason, out))"
  by (simp add: honest_def)

interpretation inst_info: probe_contract InstInfo_probe
  by (rule probe_contract.intro) (auto simp: InstInfo_probe_def sent_by_def split_beta)

interpretation inst_databases: probe_contract InstDatabases_probe
  unfolding InstDatabases_probe_def by (auto intro!: contract_intros contract_not_read simp: split_beta)

interpretation inst_downstreams: probe_contract InstDownstreams_probe
  unfolding InstDownstreams_probe_def by (auto intro!: contract_intros contract_not_read simp: split_beta)

interpretation inst_upstream: probe_contract "InstUpstream_probe c"
  unfolding InstUpstream_probe_def by (auto intro!: contract_intros contract_not_read simp: split_beta)

interpretation space_tablespaces: probe_contract SpaceTablespaces_probe
  unfolding SpaceTablespaces_probe_def by (auto intro!: contract_intros contract_not_read simp: split_beta)

interpretation spacewal: probe_contract SpaceWAL_probe
  unfolding SpaceWAL_probe_def by (auto intro!: contract_intros contract_not_read simp: split_beta)

interpretation object_tables: probe_contract ObjectTables_probe
  unfolding ObjectTables_probe_def by (auto intro!: contract_intros contract_not_read simp: split_beta)

interpretation object_indexes: probe_contract ObjectIndexes_probe
  unfolding ObjectIndexes_probe_def by (auto intro!: contract_intros contract_not_read simp: split_beta)

interpretation seq_list: probe_contract SeqList_probe
  unfolding SeqList_probe_def by (auto intro!: contract_intros contract_not_read simp: split_beta)

interpretation wal_position: probe_contract WALPosition_probe
  unfolding WALPosition_probe_def by (auto intro!: contract_intros contract_not_read simp: split_beta)

interpretation archive_status: probe_contract ArchiveStatus_probe
  unfolding ArchiveStatus_probe_def by (auto intro!: contract_intros contract_not_read simp: split_beta)

interpretation archive_ready: probe_contract ArchiveReady_probe
  unfolding ArchiveReady_probe_def by (auto intro!: contract_intros contract_not_read simp: split_beta)

interpretation checkpoint_stats: probe_contract CheckpointStats_probe
  unfolding CheckpointStats_probe_def by (auto intro!: contract_intros contract_not_read simp: split_beta)

interpretation checkpoint_last: probe_contract CheckpointLast_probe
  unfolding CheckpointLast_probe_def by (auto intro!: contract_intros contract_not_read simp: split_beta)

interpretation checkpoint_settings: probe_contract CheckpointSettings_probe
  unfolding CheckpointSettings_probe_def by (auto intro!: contract_intros contract_not_read simp: split_beta)

interpretation slot_list: probe_contract SlotList_probe
  unfolding SlotList_probe_def by (auto intro!: contract_intros contract_not_read simp: split_beta)

interpretation params_changed: probe_contract ParamsChanged_probe
  unfolding ParamsChanged_probe_def by (auto intro!: contract_intros contract_not_read simp: split_beta)

interpretation freeze_databases: probe_contract FreezeDatabases_probe
  unfolding FreezeDatabases_probe_def by (auto intro!: contract_intros contract_not_read simp: split_beta)

interpretation freeze_tables: probe_contract FreezeTables_probe
  unfolding FreezeTables_probe_def by (auto intro!: contract_intros contract_not_read simp: split_beta)

interpretation freeze_limits: probe_contract FreezeLimits_probe
  unfolding FreezeLimits_probe_def by (auto intro!: contract_intros contract_not_read simp: split_beta)

interpretation progress_list: probe_contract ProgressList_probe
  unfolding ProgressList_probe_def by (auto intro!: contract_intros contract_not_read simp: split_beta)

interpretation progress_checkpoint: probe_contract ProgressCheckpoint_probe
  unfolding ProgressCheckpoint_probe_def by (auto intro!: contract_intros contract_not_read simp: split_beta)

interpretation repl_downstreams: probe_contract ReplDownstreams_probe
  unfolding ReplDownstreams_probe_def by (auto intro!: contract_intros contract_not_read simp: split_beta)

interpretation repl_sync: probe_contract "ReplSync_probe c"
  unfolding ReplSync_probe_def by (auto intro!: contract_intros contract_not_read simp: split_beta)

interpretation repl_replay: probe_contract "ReplReplay_probe c"
  unfolding ReplReplay_probe_def by (auto intro!: contract_intros contract_not_read simp: split_beta)

interpretation vacuum_tables: probe_contract "VacuumTables_probe c"
  unfolding VacuumTables_probe_def by (auto intro!: contract_intros contract_not_read simp: split_beta)

interpretation vacuum_progress: probe_contract "VacuumProgress_probe c"
  unfolding VacuumProgress_probe_def by (auto intro!: contract_intros contract_not_read simp: split_beta)

interpretation vacuum_settings: probe_contract VacuumSettings_probe
  unfolding VacuumSettings_probe_def by (auto intro!: contract_intros contract_not_read simp: split_beta)

interpretation table_info: probe_contract "TableInfo_probe rel"
  unfolding TableInfo_probe_def by (auto intro!: contract_intros contract_not_read simp: split_beta)

interpretation table_size: probe_contract "TableSize_probe oid"
  unfolding TableSize_probe_def by (auto intro!: contract_intros contract_not_read simp: split_beta)

interpretation table_stats: probe_contract "TableStats_probe c oid"
  unfolding TableStats_probe_def by (auto intro!: contract_intros contract_not_read simp: split_beta)

interpretation table_indexes: probe_contract "TableIndexes_probe oid sizes"
  unfolding TableIndexes_probe_def by (auto intro!: contract_intros contract_not_read simp: split_beta)


interpretation sql_top: probe_contract "SQLTop_probe sanitize c"
proof (rule probe_contract.intro)
  fix x
  show "honest (fst (run_state (SQLTop_probe sanitize c) x))"
    by (auto simp: SQLTop_probe_def honest_def top_not_read_def topEmpty_def read_reply_def split_beta Let_def
        split: sum.split prod.split reply.split if_splits)
  show "\<exists>new. sent_by x (snd (run_state (SQLTop_probe sanitize c) x)) new"
    by (auto simp: SQLTop_probe_def sent_by_def split_beta Let_def split: sum.split prod.split)
qed

end
