(* ===== verification/Connect.thy ===== *)
theory Connect
  imports ProbeCore RuleNames "HOL-Library.Signed_Division"
begin

text \<open>
  Package \<open>conn\<close> (\<open>internal/conn/conn.go\<close>): the one connection kbdiag makes, and the instance behind
  it. The library \<open>pgx\<close> parses the connection string and connects; both are parts of the \<open>World\<close>.
\<close>

section \<open>Where to connect\<close>

record Config =
  Host :: string
  Port :: int64
  User :: string
  DBName :: string
  QueryTimeout :: int64

definition Local :: "Config \<Rightarrow> bool" where
  "Local c \<longleftrightarrow> Config.Host c = [] \<or> has_prefix (Config.Host c) ''/''"

definition Loopback :: "Config \<Rightarrow> bool" where
  "Loopback c \<longleftrightarrow> to_lower (Config.Host c) \<in> {''localhost'', ''127.0.0.1'', ''::1''}"

text \<open>\<open>strings.NewReplacer\<close> of single bytes replaces byte by byte.\<close>

definition quote_setting :: "string \<Rightarrow> string" where
  "quote_setting v =
     [CHR 0x27] @ concat (map (\<lambda>c. if c = CHR 0x5C \<or> c = CHR 0x27 then [CHR 0x5C, c] else [c]) v) @ [CHR 0x27]"

definition defaultSocketDir :: string where
  "defaultSocketDir = ''/tmp''"

definition settings :: "Config \<Rightarrow> (string \<times> string) list" where
  "settings c =
     [(''host'', if Config.Host c = [] then defaultSocketDir else Config.Host c),
      (''port'', fmt_d (sint (Config.Port c))), (''user'', Config.User c), (''dbname'', Config.DBName c)]"

definition setting_text :: "string \<times> string \<Rightarrow> string" where
  "setting_text p = fst p @ ''='' @ quote_setting (snd p)"

definition dsn :: "Config \<Rightarrow> string" where
  "dsn c = join '' '' (map setting_text (settings c))"

section \<open>How to connect\<close>

text \<open>\<open>timeoutMillis\<close>: the sum wraps, Go's division truncates.\<close>

definition timeoutMillis :: "int64 \<Rightarrow> int64" where
  "timeoutMillis d = word_of_int (sint (d + 1000000 - 1) sdiv 1000000)"

text \<open>What \<open>pgx.ParseConfig\<close> returns, as far as \<open>connConfig\<close> changes it.\<close>

record client_config =
  Settings :: "(string \<times> string) list"
  ConnectTimeout :: int64
  RuntimeParams :: "string \<rightharpoonup> string"

definition set_params :: "Config \<Rightarrow> client_config \<Rightarrow> client_config" where
  "set_params c cc = cc\<lparr>client_config.ConnectTimeout := 5000000000,
     client_config.RuntimeParams := (client_config.RuntimeParams cc)
       (''application_name'' \<mapsto> ''kbdiag'',
        ''default_transaction_read_only'' \<mapsto> ''on'',
        ''lock_timeout'' \<mapsto> ''500ms'',
        ''statement_timeout'' \<mapsto> fmt_d (sint (timeoutMillis (Config.QueryTimeout c))))\<rparr>"

definition kingbaseSocket :: "string \<Rightarrow> string" where
  "kingbaseSocket s = replace_all ''.s.PGSQL.'' ''.s.KINGBASE.'' s"

text \<open>The \<open>DialFunc\<close>: the address that is dialled for the one \<open>pgx\<close> asks for.\<close>

definition dial_address :: "string \<Rightarrow> string \<Rightarrow> string" where
  "dial_address network addr = (if network = ''unix'' then kingbaseSocket addr else addr)"

text \<open>
  The world of one run: what \<open>pgx\<close> makes of a connection string, what each attempt to connect
  gives, from the attempts so far, and the clock.
\<close>

record World =
  Attempts :: "client_config list"
  ParseConfig :: "string \<Rightarrow> goerr + client_config"
  ConnectConfig :: "client_config list \<Rightarrow> goerr + Conn"
  Now :: gotime

definition connConfig :: "World \<Rightarrow> Config \<Rightarrow> goerr + client_config" where
  "connConfig w c = (case World.ParseConfig w (dsn c) of Inl e \<Rightarrow> Inl e | Inr cc \<Rightarrow> Inr (set_params c cc))"

definition openError :: "goerr \<Rightarrow> goerr" where
  "openError e = \<lparr>goerr.Text = kingbaseSocket (goerr.Text e), goerr.Pg = goerr.Pg e\<rparr>"

definition Open :: "Config \<Rightarrow> (World, goerr + Conn) state" where
  "Open c = do {
     w \<leftarrow> State_Monad.get;
     case connConfig w c of
       Inl e \<Rightarrow> State_Monad.return (Inl e)
     | Inr cc \<Rightarrow> do {
         let attempts = World.Attempts w @ [cc];
         State_Monad.set (w\<lparr>World.Attempts := attempts\<rparr>);
         State_Monad.return (case World.ConnectConfig w attempts of
             Inl e \<Rightarrow> Inl (openError e)
           | Inr x \<Rightarrow> Inr x)
       }
   }"

definition MissingDatabase :: "goerr \<Rightarrow> bool" where
  "MissingDatabase e = (case goerr.Pg e of Some (code, _) \<Rightarrow> code = ''3D000'' | None \<Rightarrow> False)"

definition ServerError :: "goerr \<Rightarrow> bool" where
  "ServerError e \<longleftrightarrow> goerr.Pg e \<noteq> None"

section \<open>Who answers\<close>

definition shortVersion :: "string \<Rightarrow> string" where
  "shortVersion v =
     (let f = split_fields v in if length f < 2 then v else f ! 0 @ '' '' @ f ! 1)"

definition Identify :: "gotime \<Rightarrow> Config \<Rightarrow> (goerr + Context) query" where
  "Identify now c = do {
     r \<leftarrow> ask AskIdentity IdentifySQL [];
     State_Monad.return (case r of
         Inl e \<Rightarrow> Inl e
       | Inr (version, standby, user, db) \<Rightarrow> Inr
           \<lparr>Context.Version = shortVersion version,
            Context.Role = (if standby then ''standby'' else ''primary''),
            Context.Location = (if Local c then ''local'' else ''remote''),
            Context.User = user, Context.Database = db, Context.CollectedAt = now\<rparr>)
   }"

section \<open>Reading the connection string back\<close>

text \<open>
  The reader of connection strings the quoting is for, the keyword/value form \<open>libpq\<close> documents: a value
  in single quotes, where a backslash takes the next character as it is, or a value up to a space.
\<close>

fun read_quoted :: "string \<Rightarrow> (string \<times> string) option" where
  "read_quoted [] = None"
| "read_quoted (c # cs) =
     (if c = CHR 0x27 then Some ([], cs)
      else if c = CHR 0x5C then (case cs of
          [] \<Rightarrow> None | d # ds \<Rightarrow> map_option (\<lambda>(w, rest). (d # w, rest)) (read_quoted ds))
      else map_option (\<lambda>(w, rest). (c # w, rest)) (read_quoted cs))"

definition read_setting_value :: "string \<Rightarrow> (string \<times> string) option" where
  "read_setting_value s = (case s of
       [] \<Rightarrow> Some ([], [])
     | c # cs \<Rightarrow> if c = CHR 0x27 then read_quoted cs
         else Some (takeWhile (\<lambda>c. c \<noteq> CHR '' '') s, dropWhile (\<lambda>c. c \<noteq> CHR '' '') s))"

lemma read_quoted_shorter: "read_quoted s = Some (v, rest) \<Longrightarrow> length rest < length s"
  by (induction s arbitrary: v rest rule: read_quoted.induct)
    (fastforce split: if_splits list.splits simp: less_SucI)+

lemma read_setting_value_shorter: "read_setting_value s = Some (v, rest) \<Longrightarrow> length rest \<le> length s"
  using read_quoted_shorter [of "tl s" v rest] length_dropWhile_le [of "\<lambda>c. c \<noteq> CHR '' ''" s]
  by (auto simp: read_setting_value_def split: list.splits if_splits)

function read_dsn :: "string \<Rightarrow> (string \<times> string) list option" where
  "read_dsn s =
     (let s = dropWhile (\<lambda>c. c = CHR '' '') s
      in if s = [] then Some []
         else (case cut_at (CHR ''='') s of
             None \<Rightarrow> None
           | Some (k, after) \<Rightarrow> (case read_setting_value after of
               None \<Rightarrow> None
             | Some (v, rest) \<Rightarrow> map_option (\<lambda>kvs. (k, v) # kvs) (read_dsn rest))))"
  by pat_completeness auto

lemma cut_at_shorter: "cut_at c s = Some (k, after) \<Longrightarrow> length after < length s"
  using length_dropWhile_le [of "\<lambda>x. x \<noteq> c" s] by (auto simp: cut_at_def split: list.splits)

termination read_dsn
proof (relation "measure length")
  fix s s' p k after q v rest
  assume "s' = dropWhile (\<lambda>c. c = CHR '' '') s" and "cut_at (CHR ''='') s' = Some p" and "(k, after) = p"
    and "read_setting_value after = Some q" and "(v, rest) = q"
  then have "length s' \<le> length s" "length after < length s'" "length rest \<le> length after"
    using cut_at_shorter read_setting_value_shorter length_dropWhile_le by auto
  then show "(rest, s) \<in> measure length" by simp
qed simp

declare read_dsn.simps [simp del]

lemma read_quoted_body:
  "read_quoted (concat (map (\<lambda>c. if c = CHR 0x5C \<or> c = CHR 0x27 then [CHR 0x5C, c] else [c]) v) @ CHR 0x27 # rest) =
     Some (v, rest)"
  by (induction v) simp_all

text \<open>A quoted value is read back whole, whatever follows it.\<close>

interpretation dsn_value: quoting "\<lambda>_. True" "\<lambda>_. True" quote_setting read_setting_value
  by unfold_locales (simp_all add: quote_setting_def read_setting_value_def read_quoted_body)

lemma read_dsn_Nil [simp]: "read_dsn [] = Some []"
  by (subst read_dsn.simps) simp

definition setting_key :: "string \<times> string \<Rightarrow> bool" where
  "setting_key p \<longleftrightarrow> fst p \<noteq> [] \<and> list_all (\<lambda>c. c \<noteq> CHR ''='' \<and> c \<noteq> CHR '' '') (fst p)"

lemma read_dsn_setting:
  assumes "setting_key p"
  shows "read_dsn (setting_text p @ rest) = map_option (\<lambda>kvs. p # kvs) (read_dsn rest)"
proof -
  from assms obtain a as where p: "fst p = a # as" "a \<noteq> CHR '' ''" and key: "\<forall>c\<in>set (fst p). c \<noteq> CHR ''=''"
    by (auto simp: setting_key_def list_all_iff neq_Nil_conv)
  have k: "takeWhile (\<lambda>x. x \<noteq> CHR ''='') (fst p @ CHR ''='' # after) = fst p"
    "dropWhile (\<lambda>x. x \<noteq> CHR ''='') (fst p @ CHR ''='' # after) = CHR ''='' # after"
    "dropWhile (\<lambda>c. c = CHR '' '') (fst p @ after) = fst p @ after" for after
    using key by (simp_all add: takeWhile_append2 dropWhile_append2) (simp add: p)
  then have cut: "cut_at (CHR ''='') (fst p @ CHR ''='' # after) = Some (fst p, after)" for after
    by (simp add: cut_at_def)
  have v: "read_setting_value (quote_setting (snd p) @ rest) = Some (snd p, rest)"
    by (rule dsn_value.reads_back) simp_all
  show ?thesis
    using assms by (subst read_dsn.simps) (simp add: setting_key_def setting_text_def k cut v Let_def)
qed

lemma read_dsn_blank: "read_dsn (CHR '' '' # s) = read_dsn s"
  by (subst (1 2) read_dsn.simps) simp

lemma read_dsn_join: "list_all setting_key kvs \<Longrightarrow> read_dsn (join '' '' (map setting_text kvs)) = Some kvs"
proof (induction kvs rule: induct_list012)
  case (2 p)
  then show ?case using read_dsn_setting [of p "[]"] by simp
next
  case (3 p q kvs)
  then show ?case
    using read_dsn_setting [of p "CHR '' '' # join '' '' (map setting_text (q # kvs))"]
    by (simp add: read_dsn_blank)
qed simp

section \<open>The statement timeout\<close>

lemma sint_plus_wrap:
  fixes d :: int64
  assumes "0 \<le> k" "k < 2 ^ 63"
  shows "sint (d + word_of_int k) = (if sint d + k < 2 ^ 63 then sint d + k else sint d + k - 2 ^ 64)"
proof -
  have b: "- (2 ^ 63) \<le> sint d" "sint d < 2 ^ 63" by (rule sint64_bounds)+
  have e: "d + word_of_int k = word_of_int (sint d + k)" by simp
  have w: "word_of_int (sint d + k) = (word_of_int (sint d + k - 2 ^ 64) :: int64)"
    by (simp add: word_of_int_eq_iff take_bit_eq_mod)
  show ?thesis
  proof (cases "sint d + k < 2 ^ 63")
    case True
    with b assms have "sint (word_of_int (sint d + k) :: int64) = sint d + k"
      by (intro sint_word_of_int64) simp_all
    with True show ?thesis unfolding e by simp
  next
    case False
    with b assms have "sint (word_of_int (sint d + k - 2 ^ 64) :: int64) = sint d + k - 2 ^ 64"
      by (intro sint_word_of_int64) simp_all
    with False show ?thesis unfolding e w by simp
  qed
qed

lemma timeoutMillis_ceiling:
  assumes "0 < sint d"
  defines "ms \<equiv> sint (timeoutMillis d)"
  shows "if sint d < 2 ^ 63 - 999999 then (ms - 1) * 1000000 < sint d \<and> sint d \<le> ms * 1000000
    else ms < 0"
proof -
  let ?s = "sint (d + 1000000 - 1)"
  have s: "?s = (if sint d + 999999 < 2 ^ 63 then sint d + 999999 else sint d + 999999 - 2 ^ 64)"
    using sint_plus_wrap [of 999999 d] by (simp add: algebra_simps)
  have b: "- (2 ^ 63) \<le> ?s" "?s < 2 ^ 63" by (rule sint64_bounds)+
  have q: "?s sdiv 1000000 = (if 0 \<le> ?s then ?s div 1000000 else - (- ?s div 1000000))"
    by (auto simp: signed_divide_int_def sgn_if)
  have "- (2 ^ 63) \<le> ?s sdiv 1000000 \<and> ?s sdiv 1000000 < 2 ^ 63"
    unfolding q using b by (auto split: if_splits)
  then have ms: "ms = ?s sdiv 1000000"
    unfolding ms_def timeoutMillis_def by (intro sint_word_of_int64) simp_all
  have top: "sint d < 2 ^ 63" by (rule sint64_bounds)
  show ?thesis
  proof (cases "sint d < 2 ^ 63 - 999999")
    case True
    then have "?s = sint d + 999999" unfolding s by simp
    then have "ms = (sint d + 999999) div 1000000" using assms(1) unfolding ms q by simp
    moreover have "((x + 999999) div 1000000 - 1) * 1000000 < x \<and> x \<le> (x + 999999) div 1000000 * 1000000" for x :: int
      using div_mult_mod_eq [of "x + 999999" 1000000] pos_mod_bound [of 1000000 "x + 999999"]
        pos_mod_sign [of 1000000 "x + 999999"] by (simp only: left_diff_distrib) linarith
    ultimately show ?thesis using True by simp
  next
    case False
    then have "?s = sint d + 999999 - 2 ^ 64" unfolding s by simp
    then have "?s \<le> - 1000000" using top by simp
    moreover have "y \<le> - 1000000 \<Longrightarrow> (if 0 \<le> y then y div 1000000 else - (- y div 1000000)) < 0" for y :: int
      using zdiv_mono1 [of 1000000 "- y" 1000000] by simp
    ultimately have "ms < 0" unfolding ms q by blast
    with False show ?thesis by simp
  qed
qed

end
