(* ===== verification/Commands.thy ===== *)
theory Commands
  imports Connect ScenarioOrder
begin

text \<open>
  The commands and flags as \<open>cmd/kbdiag/main.go\<close> declares them to \<open>cobra\<close>: names, help, defaults, how many
  arguments each takes, and the options that the flags are bound to. \<open>cobra\<close> parses the arguments and
  calls the \<open>RunE\<close> of the command they select; here that is the command with its options, and what
  it then does is in \<open>Main_kbdiag\<close> and \<open>MainRun\<close>.
\<close>

section \<open>Commands with their options\<close>

record globalFlags =
  cfg :: Config
  json :: bool

datatype command =
    SessionsCmd SessionsOptions
  | SessionCmd string Thresholds
  | LocksCmd int Thresholds
  | TxnCmd int Thresholds
  | WaitsCmd
  | StatusCmd
  | SlotsCmd
  | SpaceCmd
  | FreezeCmd int
  | VacuumCmd int
  | ArchiveCmd
  | ParamsCmd
  | ReplCmd
  | ClusterCmd bool
  | TopObjectsCmd int
  | TableCmd string
  | TopCmd int string
  | ProgressCmd
  | CheckpointCmd
  | WALCmd
  | SeqCmd int

section \<open>What is declared\<close>

datatype flag_value = StringFlag string | IntFlag int | DurationFlag int64 | BoolFlag bool | FloatFlag flt

record flag =
  Name :: string
  Shorthand :: string
  Default :: flag_value
  Usage :: string

datatype positional = NoArgs | ExactArgs nat

text \<open>The flags after parsing: the value of each, and whether it was given.\<close>

record flags_read =
  Value :: "string \<Rightarrow> flag_value option"
  Changed :: "string \<Rightarrow> bool"

record cobra =
  Use :: string
  Short :: string
  Args :: positional
  RunE :: "flags_read \<Rightarrow> string list \<Rightarrow> command"
  Flags :: "flag list"

record cobra_root =
  Use :: string
  Short :: string
  Version :: string
  SilenceUsage :: bool
  SilenceErrors :: bool
  PersistentFlags :: "flag list"
  Commands :: "cobra list"

text \<open>
  What \<open>cobra\<close> makes of the arguments: an error of its own, a text it prints itself (help, the version), or
  a command to run, with the flags that were given, in their declared types, and the other arguments.
\<close>

datatype selected = Refused string | Printed string | Selected cobra "(string \<times> flag_value) list" "string list"

section \<open>Flags\<close>

text \<open>A flag that was not given has its default.\<close>

definition read_flags :: "flag list \<Rightarrow> (string \<times> flag_value) list \<Rightarrow> flags_read" where
  "read_flags fs given =
     \<lparr>flags_read.Value = (\<lambda>n. case map_of given n of
          Some v \<Rightarrow> Some v
        | None \<Rightarrow> map_option flag.Default (find (\<lambda>f. flag.Name f = n) fs)),
      flags_read.Changed = (\<lambda>n. map_of given n \<noteq> None)\<rparr>"

text \<open>The variables that the flags are bound to.\<close>

definition string_flag :: "flags_read \<Rightarrow> string \<Rightarrow> string" where
  "string_flag r n = (case flags_read.Value r n of Some (StringFlag s) \<Rightarrow> s | _ \<Rightarrow> [])"

definition int_flag :: "flags_read \<Rightarrow> string \<Rightarrow> int" where
  "int_flag r n = (case flags_read.Value r n of Some (IntFlag i) \<Rightarrow> i | _ \<Rightarrow> 0)"

definition duration_flag :: "flags_read \<Rightarrow> string \<Rightarrow> int64" where
  "duration_flag r n = (case flags_read.Value r n of Some (DurationFlag d) \<Rightarrow> d | _ \<Rightarrow> 0)"

definition bool_flag :: "flags_read \<Rightarrow> string \<Rightarrow> bool" where
  "bool_flag r n = (case flags_read.Value r n of Some (BoolFlag b) \<Rightarrow> b | _ \<Rightarrow> False)"

definition float_flag :: "flags_read \<Rightarrow> string \<Rightarrow> flt" where
  "float_flag r n = (case flags_read.Value r n of Some (FloatFlag x) \<Rightarrow> x | _ \<Rightarrow> Fin 0)"

definition persistent_flags :: "flag list" where
  "persistent_flags =
     [\<lparr>flag.Name = ''host'', flag.Shorthand = [], flag.Default = StringFlag [],
       flag.Usage = ''server host, or socket directory (default /tmp)''\<rparr>,
      \<lparr>flag.Name = ''port'', flag.Shorthand = ''p'', flag.Default = IntFlag 54321, flag.Usage = ''server port''\<rparr>,
      \<lparr>flag.Name = ''user'', flag.Shorthand = ''U'', flag.Default = StringFlag ''system'',
       flag.Usage = ''database user (password from PGPASSWORD or ~/.pgpass)''\<rparr>,
      \<lparr>flag.Name = ''dbname'', flag.Shorthand = ''d'', flag.Default = StringFlag ''test'',
       flag.Usage = ''database to connect to''\<rparr>,
      \<lparr>flag.Name = ''timeout'', flag.Shorthand = [], flag.Default = DurationFlag 10000000000,
       flag.Usage = ''statement timeout for each query''\<rparr>,
      \<lparr>flag.Name = ''json'', flag.Shorthand = [], flag.Default = BoolFlag False,
       flag.Usage = ''print the report as JSON''\<rparr>]"

definition limitFlagN :: "int \<Rightarrow> flag" where
  "limitFlagN n = \<lparr>flag.Name = ''limit'', flag.Shorthand = [], flag.Default = IntFlag n,
     flag.Usage = ''max rows to show, 0 for all (findings still cover every row)''\<rparr>"

definition limitFlag :: flag where
  "limitFlag = limitFlagN 50"

text \<open>The global flags, and their values before the command line is read.\<close>

definition global_flags :: "flags_read \<Rightarrow> globalFlags" where
  "global_flags r =
     \<lparr>cfg = \<lparr>Config.Host = string_flag r ''host'', Config.Port = word_of_int (int_flag r ''port''),
       Config.User = string_flag r ''user'', Config.DBName = string_flag r ''dbname'',
       Config.QueryTimeout = duration_flag r ''timeout''\<rparr>, json = bool_flag r ''json''\<rparr>"

definition default_flags :: globalFlags where
  "default_flags = \<lparr>cfg = \<lparr>Config.Host = [], Config.Port = 54321, Config.User = ''system'',
     Config.DBName = ''test'', Config.QueryTimeout = 10000000000\<rparr>, json = False\<rparr>"

section \<open>Commands\<close>

definition newSessions :: cobra where
  "newSessions =
     \<lparr>cobra.Use = ''sessions'',
      cobra.Short = ''Who holds the connections and which sessions are doing something; flag long idle-in-transaction ones'',
      cobra.Args = NoArgs,
      cobra.RunE = (\<lambda>r as. SessionsCmd
        \<lparr>SessionsOptions.All = bool_flag r ''all'', SessionsOptions.Limit = int_flag r ''limit'',
         SessionsOptions.Thresholds = Defaults\<lparr>IdleInTxnWarnS := float_flag r ''idle-in-txn-warn''\<rparr>\<rparr>),
      cobra.Flags = [\<lparr>flag.Name = ''all'', flag.Shorthand = [], flag.Default = BoolFlag False,
       flag.Usage = ''list every session, including idle ones and background processes''\<rparr>,
      limitFlag,
      \<lparr>flag.Name = ''idle-in-txn-warn'', flag.Shorthand = [], flag.Default = FloatFlag (IdleInTxnWarnS Defaults),
       flag.Usage = ''seconds idle in transaction before WARN''\<rparr>]\<rparr>"

definition newSession :: cobra where
  "newSession =
     \<lparr>cobra.Use = ''session <pid>'',
      cobra.Short = ''Show one session: its SQL, waits, locks held and who blocks it'',
      cobra.Args = ExactArgs 1,
      cobra.RunE = (\<lambda>r as. SessionCmd (hd as)
        (Defaults\<lparr>IdleInTxnWarnS := float_flag r ''idle-in-txn-warn'', LockWaitWarnS := float_flag r ''lock-wait-warn''\<rparr>)),
      cobra.Flags = [\<lparr>flag.Name = ''idle-in-txn-warn'', flag.Shorthand = [], flag.Default = FloatFlag (IdleInTxnWarnS Defaults),
       flag.Usage = ''seconds idle in transaction before WARN''\<rparr>,
      \<lparr>flag.Name = ''lock-wait-warn'', flag.Shorthand = [], flag.Default = FloatFlag (LockWaitWarnS Defaults),
       flag.Usage = ''seconds waiting for a lock before WARN''\<rparr>]\<rparr>"

definition newLocks :: cobra where
  "newLocks =
     \<lparr>cobra.Use = ''locks'',
      cobra.Short = ''List lock waits and their direct blockers'',
      cobra.Args = NoArgs,
      cobra.RunE = (\<lambda>r as. LocksCmd (int_flag r ''limit'') (Defaults\<lparr>LockWaitWarnS := float_flag r ''lock-wait-warn''\<rparr>)),
      cobra.Flags = [limitFlag,
      \<lparr>flag.Name = ''lock-wait-warn'', flag.Shorthand = [], flag.Default = FloatFlag (LockWaitWarnS Defaults),
       flag.Usage = ''seconds waiting for a lock before WARN''\<rparr>]\<rparr>"

definition newTxn :: cobra where
  "newTxn =
     \<lparr>cobra.Use = ''txn'',
      cobra.Short = ''List open transactions and prepared (2PC) ones; flag long ones'',
      cobra.Args = NoArgs,
      cobra.RunE = (\<lambda>r as. TxnCmd (int_flag r ''limit'')
        (Defaults\<lparr>XactWarnS := float_flag r ''xact-warn'', PreparedWarnS := float_flag r ''prepared-warn''\<rparr>)),
      cobra.Flags = [limitFlag,
      \<lparr>flag.Name = ''xact-warn'', flag.Shorthand = [], flag.Default = FloatFlag (XactWarnS Defaults),
       flag.Usage = ''transaction age in seconds before WARN''\<rparr>,
      \<lparr>flag.Name = ''prepared-warn'', flag.Shorthand = [], flag.Default = FloatFlag (PreparedWarnS Defaults),
       flag.Usage = ''prepared transaction age in seconds before WARN''\<rparr>]\<rparr>"

definition newWaits :: cobra where
  "newWaits =
     \<lparr>cobra.Use = ''waits'',
      cobra.Short = ''Summarize what sessions are waiting on right now'',
      cobra.Args = NoArgs,
      cobra.RunE = (\<lambda>r as. WaitsCmd),
      cobra.Flags = []\<rparr>"

definition newStatus :: cobra where
  "newStatus =
     \<lparr>cobra.Use = ''status'',
      cobra.Short = ''Show what this instance is and whether its basics hold: role, replication, connections, sizes, disk'',
      cobra.Args = NoArgs,
      cobra.RunE = (\<lambda>r as. StatusCmd),
      cobra.Flags = []\<rparr>"

definition newSlots :: cobra where
  "newSlots =
     \<lparr>cobra.Use = ''slots'',
      cobra.Short = ''List replication slots; flag inactive ones'',
      cobra.Args = NoArgs,
      cobra.RunE = (\<lambda>r as. SlotsCmd),
      cobra.Flags = []\<rparr>"

definition newSpace :: cobra where
  "newSpace =
     \<lparr>cobra.Use = ''space'',
      cobra.Short = ''Show where the space goes: filesystems, WAL, databases, tablespaces'',
      cobra.Args = NoArgs,
      cobra.RunE = (\<lambda>r as. SpaceCmd),
      cobra.Flags = []\<rparr>"

definition newFreeze :: cobra where
  "newFreeze =
     \<lparr>cobra.Use = ''freeze'',
      cobra.Short = ''How far each database is from transaction ID wraparound; the oldest tables of this one'',
      cobra.Args = NoArgs,
      cobra.RunE = (\<lambda>r as. FreezeCmd (int_flag r ''limit'')),
      cobra.Flags = [limitFlagN 20]\<rparr>"

definition newVacuum :: cobra where
  "newVacuum =
     \<lparr>cobra.Use = ''vacuum'',
      cobra.Short = ''Which tables have the most dead tuples, whether autovacuum will clean them, and what is vacuuming now'',
      cobra.Args = NoArgs,
      cobra.RunE = (\<lambda>r as. VacuumCmd (int_flag r ''limit'')),
      cobra.Flags = [limitFlagN 20]\<rparr>"

definition newArchive :: cobra where
  "newArchive =
     \<lparr>cobra.Use = ''archive'',
      cobra.Short = ''Whether WAL archiving works: settings, last success and failure, WAL waiting to be archived'',
      cobra.Args = NoArgs,
      cobra.RunE = (\<lambda>r as. ArchiveCmd),
      cobra.Flags = []\<rparr>"

definition newParams :: cobra where
  "newParams =
     \<lparr>cobra.Use = ''params'',
      cobra.Short = ''Which parameters are not at their default and where they are set; flag changes waiting for a restart'',
      cobra.Args = NoArgs,
      cobra.RunE = (\<lambda>r as. ParamsCmd),
      cobra.Flags = []\<rparr>"

definition newRepl :: cobra where
  "newRepl =
     \<lparr>cobra.Use = ''repl'',
      cobra.Short = ''Replication from this node's side: each standby's lag and the synchronous settings on a primary; receive and replay on a standby'',
      cobra.Args = NoArgs,
      cobra.RunE = (\<lambda>r as. ReplCmd),
      cobra.Flags = []\<rparr>"

definition newCluster :: cobra where
  "newCluster =
     \<lparr>cobra.Use = ''cluster'',
      cobra.Short = ''repmgr's view of the cluster (nodes, roles, upstreams, latest events), checked against this node; connects to database esrep unless -d is given'',
      cobra.Args = NoArgs,
      cobra.RunE = (\<lambda>r as. ClusterCmd (flags_read.Changed r ''dbname'')),
      cobra.Flags = []\<rparr>"

definition newTopObjects :: cobra where
  "newTopObjects =
     \<lparr>cobra.Use = ''top-objects'',
      cobra.Short = ''The largest tables (heap, indexes, TOAST) and indexes of this database'',
      cobra.Args = NoArgs,
      cobra.RunE = (\<lambda>r as. TopObjectsCmd (int_flag r ''limit'')),
      cobra.Flags = [limitFlagN 20]\<rparr>"

definition newTable :: cobra where
  "newTable =
     \<lparr>cobra.Use = ''table <name>'',
      cobra.Short = ''One table: size, rows, vacuum and analyze, freeze age, access, indexes (the name follows SQL rules: unquoted folds to lower case)'',
      cobra.Args = ExactArgs 1,
      cobra.RunE = (\<lambda>r as. TableCmd (hd as)),
      cobra.Flags = []\<rparr>"

definition newTop :: cobra where
  "newTop =
     \<lparr>cobra.Use = ''top'',
      cobra.Short = ''Cumulative top SQL from sys_stat_statements; says so when statements are not being collected'',
      cobra.Args = NoArgs,
      cobra.RunE = (\<lambda>r as. TopCmd (int_flag r ''limit'') (string_flag r ''by'')),
      cobra.Flags = [limitFlagN 20,
      \<lparr>flag.Name = ''by'', flag.Shorthand = [], flag.Default = StringFlag ''time'',
       flag.Usage = ''order: time (total), mean, calls, io (blocks read), temp (temp blocks written)''\<rparr>]\<rparr>"

definition newProgress :: cobra where
  "newProgress =
     \<lparr>cobra.Use = ''progress'',
      cobra.Short = ''How far running VACUUM, CREATE INDEX, CLUSTER / VACUUM FULL and CHECKPOINT have got'',
      cobra.Args = NoArgs,
      cobra.RunE = (\<lambda>r as. ProgressCmd),
      cobra.Flags = []\<rparr>"

definition newCheckpoint :: cobra where
  "newCheckpoint =
     \<lparr>cobra.Use = ''checkpoint'',
      cobra.Short = ''The last checkpoint, timed vs requested checkpoints, who writes dirty buffers, and the settings'',
      cobra.Args = NoArgs,
      cobra.RunE = (\<lambda>r as. CheckpointCmd),
      cobra.Flags = []\<rparr>"

definition newWAL :: cobra where
  "newWAL =
     \<lparr>cobra.Use = ''wal'',
      cobra.Short = ''Where WAL is, how much sys_wal holds, and what keeps it: settings, slots, archiving'',
      cobra.Args = NoArgs,
      cobra.RunE = (\<lambda>r as. WALCmd),
      cobra.Flags = []\<rparr>"

definition newSeq :: cobra where
  "newSeq =
     \<lparr>cobra.Use = ''seq'',
      cobra.Short = ''Sequences of this database by how much of their range is used; FAIL when one is exhausted'',
      cobra.Args = NoArgs,
      cobra.RunE = (\<lambda>r as. SeqCmd (int_flag r ''limit'')),
      cobra.Flags = [limitFlagN 20]\<rparr>"

definition root_commands :: "cobra list" where
  "root_commands =
     [newSessions, newSession, newLocks, newTxn, newWaits, newStatus, newSlots, newSpace, newFreeze,
      newVacuum, newArchive, newParams, newRepl, newCluster, newTopObjects, newTable, newTop,
      newProgress, newCheckpoint, newWAL, newSeq]"

lemmas command_defs = newSessions_def newSession_def newLocks_def newTxn_def newWaits_def newStatus_def newSlots_def
  newSpace_def newFreeze_def newVacuum_def newArchive_def newParams_def newRepl_def newCluster_def
  newTopObjects_def newTable_def newTop_def newProgress_def newCheckpoint_def newWAL_def newSeq_def

definition version :: string where
  "version = ''dev''"

text \<open>The root, with the version of a build that sets none.\<close>

definition newRoot :: cobra_root where
  "newRoot = \<lparr>cobra_root.Use = ''kbdiag'', cobra_root.Short = ''Diagnose a KingbaseES instance from the command line'',
     cobra_root.Version = version, cobra_root.SilenceUsage = True, cobra_root.SilenceErrors = True,
     cobra_root.PersistentFlags = persistent_flags, cobra_root.Commands = root_commands\<rparr>"

text \<open>No flag is declared twice for a command, nor a short name, and no command.\<close>

definition declared_once :: "cobra \<Rightarrow> bool" where
  "declared_once c =
     (let fs = persistent_flags @ cobra.Flags c
      in distinct (map flag.Name fs) \<and> distinct (filter (\<lambda>n. n \<noteq> []) (map flag.Shorthand fs)))"

lemma flags_declared_once: "list_all declared_once root_commands \<and> distinct (map cobra.Use root_commands)"
  by (simp add: root_commands_def declared_once_def persistent_flags_def limitFlag_def limitFlagN_def command_defs)

section \<open>What flags are read as\<close>

lemma flag_simps [simp]:
  "flags_read.Value r n = Some (StringFlag s) \<Longrightarrow> string_flag r n = s"
  "flags_read.Value r n = Some (IntFlag i) \<Longrightarrow> int_flag r n = i"
  "flags_read.Value r n = Some (DurationFlag d) \<Longrightarrow> duration_flag r n = d"
  "flags_read.Value r n = Some (BoolFlag b) \<Longrightarrow> bool_flag r n = b"
  "flags_read.Value r n = Some (FloatFlag x) \<Longrightarrow> float_flag r n = x"
  by (simp_all add: string_flag_def int_flag_def duration_flag_def bool_flag_def float_flag_def)

lemma read_flags_simps [simp]:
  "flags_read.Value (read_flags fs given) n = (case map_of given n of
     Some v \<Rightarrow> Some v | None \<Rightarrow> map_option flag.Default (find (\<lambda>f. flag.Name f = n) fs))"
  "flags_read.Changed (read_flags fs given) n \<longleftrightarrow> map_of given n \<noteq> None"
  by (simp_all add: read_flags_def)

lemma global_flags_default: "global_flags (read_flags persistent_flags []) = default_flags"
  by (simp add: global_flags_def persistent_flags_def default_flags_def bool_flag_def)

end
