(* ===== verification/GoJSON.thy ===== *)
theory GoJSON
  imports GoNumber
begin

text \<open>
  Package \<open>encoding/json\<close> as the program uses it: an encoder that does not escape HTML and indents by two
  spaces. A value is first a tree; numbers are kept as their text, since that is what is written.
\<close>

datatype json =
    JNull
  | JBool bool
  | JNum string
  | JStr string
  | JArr "json list"
  | JObj "(string \<times> json) list"

section \<open>Encoding\<close>

text \<open>A string: quotes, backslashes, controls and the two line separators are escaped, what is not UTF-8 is replaced.\<close>

definition json_chunk :: "nat \<times> string \<Rightarrow> string" where
  "json_chunk p =
     (let r = fst p; esc = CHR 0x5C
      in if bad_chunk p then esc # ''ufffd''
         else if r = 0x22 \<or> r = 0x5C then esc # snd p
         else if r = 8 then esc # ''b'' else if r = 12 then esc # ''f'' else if r = 10 then esc # ''n''
         else if r = 13 then esc # ''r'' else if r = 9 then esc # ''t''
         else if r < 32 \<or> r = 0x2028 \<or> r = 0x2029 then esc # ''u'' @ fmt_hex 4 r
         else snd p)"

definition json_string :: "string \<Rightarrow> string" where
  "json_string s = [CHR 0x22] @ concat (map json_chunk (chunks s)) @ [CHR 0x22]"

text \<open>
  A float: \<open>strconv.AppendFloat\<close> with the format \<open>f\<close>, or \<open>e\<close> for the very small and the very large, whose
  exponent then loses its leading zero. Only finite numbers can be encoded.
\<close>

definition small_exponent :: "string \<Rightarrow> string" where
  "small_exponent b =
     (let n = length b in
      if 4 \<le> n \<and> b ! (n - 4) = CHR ''e'' \<and> b ! (n - 3) = CHR ''-'' \<and> b ! (n - 2) = CHR ''0''
      then take (n - 2) b @ [b ! (n - 1)] else b)"

definition json_float :: "(rat \<Rightarrow> flt) \<Rightarrow> flt \<Rightarrow> string" where
  "json_float rnd x = signed_text (\<lambda>q.
     if q = 0 then ''0''
     else if f_less (Fin q) (rnd (1 / 10 ^ 6)) \<or> f_le (rnd (10 ^ 21)) (Fin q)
     then small_exponent (exp_digits (strip_zeros (shortest rnd q)))
     else plain_digits (strip_zeros (shortest rnd q))) x"

definition finite_float :: "flt \<Rightarrow> bool" where
  "finite_float x = (case x of FNaN \<Rightarrow> False | FInf _ \<Rightarrow> False | _ \<Rightarrow> True)"

text \<open>The text with every element of an array or object on a line of its own.\<close>

definition indent_text :: "nat \<Rightarrow> string" where
  "indent_text n = CHR 0x0A # replicate (2 * n) (CHR '' '')"

definition bracket :: "char \<Rightarrow> char \<Rightarrow> nat \<Rightarrow> string list \<Rightarrow> string" where
  "bracket left right n items =
     (if items = [] then [left, right]
      else [left] @ indent_text (Suc n) @ join ('','' @ indent_text (Suc n)) items @ indent_text n @ [right])"

fun json_text :: "nat \<Rightarrow> json \<Rightarrow> string" where
  "json_text n JNull = ''null''"
| "json_text n (JBool b) = (if b then ''true'' else ''false'')"
| "json_text n (JNum d) = d"
| "json_text n (JStr s) = json_string s"
| "json_text n (JArr xs) = bracket (CHR ''['') (CHR '']'') n (map (json_text (Suc n)) xs)"
| "json_text n (JObj kvs) = bracket (CHR 0x7B) (CHR 0x7D) n
     (map (\<lambda>(k, v). json_string k @ '': '' @ json_text (Suc n) v) kvs)"

end
