(* ===== verification/ReportJSON.thy ===== *)
theory ReportJSON
  imports ReportText GoJSON ProbeCore
begin

text \<open>
  \<open>WriteJSON\<close> (\<open>internal/report/render.go\<close>): the report as \<open>encoding/json\<close> prints it, under the tags of the
  structs in \<open>internal/report/report.go\<close>. A map is printed in the order of its keys; the views are not
  exported, so they are left out.
\<close>

section \<open>The report as a tree\<close>

definition json_int :: "int \<Rightarrow> json" where
  "json_int i = JNum (fmt_d i)"

definition json_option :: "string option \<Rightarrow> json" where
  "json_option x = (case x of None \<Rightarrow> JNull | Some s \<Rightarrow> JStr s)"

text \<open>\<open>omitempty\<close> of a string.\<close>

definition omitempty :: "string \<Rightarrow> string \<Rightarrow> (string \<times> json) list" where
  "omitempty k s = (if s = [] then [] else [(k, JStr s)])"

fun json_val :: "val \<Rightarrow> json" where
  "json_val VNull = JNull"
| "json_val (VStr s) = JStr s"
| "json_val (VInt i) = json_int i"
| "json_val (VFlt x) = JNum (json_float rnd64 x)"
| "json_val (VFlt32 x) = JNum (json_float rnd32 x)"
| "json_val (VBool b) = JBool b"
| "json_val (VStrs ss) = JArr (map JStr ss)"
| "json_val (VInts is) = JArr (map json_int is)"

text \<open>The keys of a map in their order.\<close>

definition by_key :: "(string \<times> 'a) list \<Rightarrow> (string \<times> 'a) list" where
  "by_key m = slice_stable (\<lambda>a b. fst a < fst b) m"

definition context_json :: "report_context \<Rightarrow> json" where
  "context_json c = JObj
     ([(''version'', JStr (report_context.Version c)), (''role'', JStr (report_context.Role c)),
       (''location'', JStr (report_context.Location c)), (''user'', JStr (report_context.User c))] @
      omitempty ''database'' (report_context.Database c) @
      [(''collected_at'', JStr (report_context.CollectedAt c))])"

definition probe_json :: "Probe \<Rightarrow> json" where
  "probe_json p = JObj
     [(''status'', JStr (status_text (Probe.Status p))), (''reason'', json_option (Probe.Reason p)),
      (''columns'', JArr (map JStr (Probe.Columns p))),
      (''rows'', JArr (map (\<lambda>row. JArr (map json_val row)) (Probe.Rows p))),
      (''truncated'', json_int (Probe.Truncated p))]"

definition evidence_json :: "Evidence \<Rightarrow> json" where
  "evidence_json e = JObj
     [(''probe_id'', JStr (Evidence.ProbeID e)),
      (''fields'', JObj (map (\<lambda>(k, v). (k, json_val v)) (by_key (Evidence.Fields e))))]"

definition next_json :: "Next \<Rightarrow> json" where
  "next_json n = JObj
     ([(''kind'', JStr (Next.Kind n))] @ omitempty ''command'' (Next.Command n) @ omitempty ''sql'' (Next.SQL n) @
      [(''note'', JStr (Next.Note n))])"

definition finding_json :: "Finding \<Rightarrow> json" where
  "finding_json f = JObj
     [(''id'', JStr (Finding.ID f)), (''level'', JStr (level_text (Finding.Level f))),
      (''symptom'', JStr (Finding.Symptom f)), (''evidence'', JArr (map evidence_json (Finding.Evidence f))),
      (''cause'', json_option (Finding.Cause f)), (''next'', JArr (map next_json (Finding.Next f)))]"

definition redacted_json :: "Redaction \<Rightarrow> json" where
  "redacted_json x = JObj
     [(''probe_id'', JStr (Redaction.ProbeID x)), (''field'', JStr (Redaction.Field x)),
      (''reason'', JStr (Redaction.Reason x)), (''rows_affected'', json_int (Redaction.RowsAffected x))]"

definition report_json :: "Report \<Rightarrow> json" where
  "report_json r = JObj
     [(''command'', JStr (Report.Command r)), (''verdict'', JStr (verdict_text (Report.Verdict r))),
      (''context'', context_json (Report.Context r)),
      (''data'', JObj (map (\<lambda>(i, p). (i, probe_json p)) (by_key (Report.Data r)))),
      (''findings'', JArr (map finding_json (Report.Findings r))),
      (''redacted'', JArr (map redacted_json (Report.Redacted r)))]"

section \<open>Encoding\<close>

text \<open>A float that is not a number stops the encoder: the first one, in the order of the text.\<close>

fun unsupported_val :: "val \<Rightarrow> flt list" where
  "unsupported_val (VFlt x) = (if finite_float x then [] else [x])"
| "unsupported_val (VFlt32 x) = (if finite_float x then [] else [x])"
| "unsupported_val v = []"

definition report_values :: "Report \<Rightarrow> val list" where
  "report_values r =
     concat (map (\<lambda>(i, p). concat (Probe.Rows p)) (by_key (Report.Data r))) @
     concat (map (\<lambda>f. concat (map (\<lambda>e. map snd (by_key (Evidence.Fields e))) (Finding.Evidence f)))
       (Report.Findings r))"

definition unsupported :: "Report \<Rightarrow> flt list" where
  "unsupported r = concat (map unsupported_val (report_values r))"

definition WriteJSON :: "Report \<Rightarrow> goerr + string" where
  "WriteJSON r = (case unsupported r of
       x # _ \<Rightarrow> Inl (plain_error (''json: unsupported value: '' @ signed_text (\<lambda>_. []) x))
     | [] \<Rightarrow> Inr (json_text 0 (report_json r) @ nl))"

end
