(* ===== verification/Main_kbdiag.thy ===== *)
theory Main_kbdiag
  imports GoPrint Probe ProbeCluster Commands ReportText ReportJSON
begin

text \<open>
  The command line (\<open>cmd/kbdiag/main.go\<close>): which probes each command runs, in which order. Each \<open>build\<close> closure is a query that returns the report and what it prints on the
  standard error.
\<close>

text \<open>
  What surrounds the program: the operating system, \<open>cobra\<close>, \<open>pgx\<close>'s quoting, the tables of the
  Unicode libraries, and the error, if any, of writing a text to the standard output.
\<close>

record Env =
  Os :: OS
  Cobra :: "cobra_root \<Rightarrow> string list \<Rightarrow> selected"
  Sanitize :: "string list \<Rightarrow> string"
  Letter :: "nat \<Rightarrow> bool"
  Orbit :: "nat \<Rightarrow> nat"
  Wide :: "nat \<Rightarrow> bool"
  Printable :: "nat \<Rightarrow> bool"
  WriteErr :: "string \<Rightarrow> goerr option"

text \<open>
  What a command line stands for: \<open>cobra\<close>'s own answer, or the global flags and the command it selects.
\<close>

datatype parsed = ParseError string | Shown string | Parsed globalFlags command

definition parse :: "Env \<Rightarrow> string list \<Rightarrow> parsed" where
  "parse env args = (case Env.Cobra env newRoot args of
       Refused e \<Rightarrow> ParseError e
     | Printed out \<Rightarrow> Shown out
     | Selected c given pos \<Rightarrow>
         Parsed (global_flags (read_flags persistent_flags given))
           (cobra.RunE c (read_flags (persistent_flags @ cobra.Flags c) given) pos))"

section \<open>What each command runs\<close>

type_synonym build = "Context \<Rightarrow> (Report \<times> string) query"

definition silent :: "Report \<Rightarrow> (Report \<times> string) query" where
  "silent rep = State_Monad.return (rep, [])"

definition sessions_build :: "SessionsOptions \<Rightarrow> build" where
  "sessions_build opt info = do {
     a \<leftarrow> SessionActivity_probe;
     silent (Sessions_report info a opt)
   }"

definition session_build :: "int32 \<Rightarrow> Thresholds \<Rightarrow> build" where
  "session_build pid th info = do {
     a \<leftarrow> SessionActivity_probe;
     l \<leftarrow> LockList_probe;
     let (rep, found) = Session_report info a l pid th;
     State_Monad.return (rep, if found then []
       else ''kbdiag: no session with pid '' @ fmt_i pid @ '' (it may have ended)'' @ nl)
   }"

definition locks_build :: "int \<Rightarrow> Thresholds \<Rightarrow> build" where
  "locks_build limit th info = do {
     l \<leftarrow> LockList_probe;
     silent (Locks_report info l limit th)
   }"

definition txn_build :: "int \<Rightarrow> Thresholds \<Rightarrow> build" where
  "txn_build limit th info = do {
     a \<leftarrow> SessionActivity_probe;
     p \<leftarrow> TxnPrepared_probe info;
     silent (Txn_report info a p limit th)
   }"

definition waits_build :: build where
  "waits_build info = do {
     w \<leftarrow> WaitSummary_probe;
     silent (Waits_report info w)
   }"

definition status_build :: "OS \<Rightarrow> Config \<Rightarrow> build" where
  "status_build os c info = do {
     i \<leftarrow> InstInfo_probe;
     d \<leftarrow> InstDatabases_probe;
     n \<leftarrow> InstDownstreams_probe;
     u \<leftarrow> InstUpstream_probe info;
     silent (Status_report info i d n u (InstDisk_probe os i (Local c) (Loopback c)))
   }"

definition slots_build :: build where
  "slots_build info = do {
     l \<leftarrow> SlotList_probe;
     silent (Slots_report info l)
   }"

definition space_build :: "OS \<Rightarrow> Config \<Rightarrow> build" where
  "space_build os c info = do {
     t \<leftarrow> SpaceTablespaces_probe;
     i \<leftarrow> InstInfo_probe;
     let disk = SpaceDisk_probe os i t (Local c) (Loopback c);
     d \<leftarrow> InstDatabases_probe;
     w \<leftarrow> SpaceWAL_probe;
     silent (Space_report info d t w disk)
   }"

definition freeze_build :: "(nat \<Rightarrow> bool) \<Rightarrow> int \<Rightarrow> build" where
  "freeze_build letter limit info = do {
     d \<leftarrow> FreezeDatabases_probe;
     t \<leftarrow> FreezeTables_probe;
     l \<leftarrow> FreezeLimits_probe;
     silent (Freeze_report letter info d t l limit)
   }"

definition vacuum_build :: "int \<Rightarrow> build" where
  "vacuum_build limit info = do {
     t \<leftarrow> VacuumTables_probe info;
     p \<leftarrow> VacuumProgress_probe info;
     s \<leftarrow> VacuumSettings_probe;
     silent (Vacuum_report info t p s limit)
   }"

definition archive_build :: build where
  "archive_build info = do {
     s \<leftarrow> ArchiveStatus_probe;
     r \<leftarrow> ArchiveReady_probe;
     silent (Archive_report info s r)
   }"

definition params_build :: build where
  "params_build info = do {
     p \<leftarrow> ParamsChanged_probe;
     silent (Params_report info p)
   }"

definition repl_build :: "(nat \<Rightarrow> nat) \<Rightarrow> build" where
  "repl_build orbit info = do {
     d \<leftarrow> ReplDownstreams_probe;
     s \<leftarrow> ReplSync_probe info;
     u \<leftarrow> InstUpstream_probe info;
     r \<leftarrow> ReplReplay_probe info;
     silent (Repl_report orbit info d s u r)
   }"

text \<open>
  \<open>skip\<close>, when not empty, replaces what was read of repmgr's metadata; it is also set here when \<open>-d\<close>
  named a database that has none.
\<close>

definition repmgrDB :: string where
  "repmgrDB = ''esrep''"

definition cluster_skip :: "string \<Rightarrow> bool \<Rightarrow> string \<Rightarrow> ClusterNodes \<Rightarrow> string" where
  "cluster_skip skip explicit db n =
     (if explicit \<and> coll.Status n = StatusNotApplicable
      then ''no repmgr schema in database '' @ db @ '' named by -d; repmgr keeps it in database '' @ repmgrDB @
        '' by default''
      else skip)"

definition cluster_build :: "OS \<Rightarrow> (nat \<Rightarrow> nat) \<Rightarrow> Config \<Rightarrow> string \<Rightarrow> bool \<Rightarrow> build" where
  "cluster_build os orbit c skip explicit info = do {
     n \<leftarrow> ClusterNodes_probe info;
     e \<leftarrow> ClusterEvents_probe info;
     let skip = cluster_skip skip explicit (Context.Database info) n;
     let n = (if skip \<noteq> [] then not_read StatusSkipped skip else n);
     let e = (if skip \<noteq> [] then not_read StatusSkipped skip else e);
     s \<leftarrow> ClusterSync_probe os info n (Local c) (Loopback c);
     d \<leftarrow> InstDownstreams_probe;
     silent (Cluster_report orbit info n e d s)
   }"

definition top_objects_build :: "int \<Rightarrow> build" where
  "top_objects_build limit info = do {
     t \<leftarrow> ObjectTables_probe;
     i \<leftarrow> ObjectIndexes_probe;
     silent (TopObjects_report info t i limit)
   }"

text \<open>The probes about one table run only when its name was found and is a table's.\<close>

definition table_oid :: "TableInfos \<Rightarrow> uint32 option" where
  "table_oid i = (case coll.Rows i of
       [t] \<Rightarrow> if coll.Status i = StatusOK \<and> TableInfo.Relkind t \<in> set TableKinds then Some (TableInfo.OID t) else None
     | _ \<Rightarrow> None)"

definition table_note :: "(nat \<Rightarrow> bool) \<Rightarrow> string \<Rightarrow> string \<Rightarrow> TableInfos \<Rightarrow> string" where
  "table_note printable rel db i = (case coll.Rows i of
       [] \<Rightarrow> ''kbdiag: no table '' @ go_quote printable rel @ '' in database '' @ go_quote printable db @
         '' (unquoted names fold to lower case; quote them as in SQL: '' @ [CHR 0x27, CHR 0x22] @ ''Name'' @
         [CHR 0x22, CHR 0x27] @ ''; use -d for another database)'' @ nl
     | t # _ \<Rightarrow> ''kbdiag: '' @ go_quote printable rel @ '' is not a table (relkind '' @ TableInfo.Relkind t @ '')'' @ nl)"

definition table_build :: "(nat \<Rightarrow> bool) \<Rightarrow> string \<Rightarrow> build" where
  "table_build printable rel info = do {
     i \<leftarrow> TableInfo_probe rel;
     (z, s, ix) \<leftarrow> (case table_oid i of
         None \<Rightarrow> (case TableAfter i of (st, reason) \<Rightarrow>
           State_Monad.return (not_read st reason, not_read st reason, not_read st reason))
       | Some oid \<Rightarrow> do {
           z \<leftarrow> TableSize_probe oid;
           s \<leftarrow> TableStats_probe info oid;
           ix \<leftarrow> TableIndexes_probe oid (coll.Status z = StatusOK);
           State_Monad.return (z, s, ix)
         });
     l \<leftarrow> FreezeLimits_probe;
     v \<leftarrow> VacuumSettings_probe;
     let (rep, found) = Table_report info i z s ix l v;
     State_Monad.return (rep, if found then [] else table_note printable rel (Context.Database info) i)
   }"

definition top_build :: "(string list \<Rightarrow> string) \<Rightarrow> int \<Rightarrow> string \<Rightarrow> build" where
  "top_build sanitize limit by info = do {
     t \<leftarrow> SQLTop_probe sanitize info;
     silent (Top_report info t limit by)
   }"

definition progress_build :: build where
  "progress_build info = do {
     p \<leftarrow> ProgressList_probe;
     c \<leftarrow> ProgressCheckpoint_probe;
     silent (Progress_report info p c)
   }"

definition checkpoint_build :: build where
  "checkpoint_build info = do {
     s \<leftarrow> CheckpointStats_probe;
     l \<leftarrow> CheckpointLast_probe;
     cs \<leftarrow> CheckpointSettings_probe;
     silent (Checkpoint_report info s l cs)
   }"

definition wal_build :: build where
  "wal_build info = do {
     p \<leftarrow> WALPosition_probe;
     w \<leftarrow> SpaceWAL_probe;
     s \<leftarrow> SlotList_probe;
     a \<leftarrow> ArchiveReady_probe;
     silent (WAL_report info p w s a)
   }"

definition seq_build :: "int \<Rightarrow> build" where
  "seq_build limit info = do {
     l \<leftarrow> SeqList_probe;
     silent (Seq_report info l limit)
   }"

end
