(* ===== verification/MainRun.thy ===== *)
theory MainRun
  imports Main_kbdiag
begin

text \<open>
  How a run of the command line ends (\<open>run\<close>, \<open>diagnose\<close> and \<open>write\<close> in \<open>cmd/kbdiag/main.go\<close>): what is
  printed where, and the exit code. What a command does to the world is the attempts to connect.
\<close>

section \<open>One diagnosis\<close>

text \<open>The error a command returns: \<open>*exitError\<close>, or any other, which is one of usage.\<close>

datatype failure = ExitError int "goerr option" | UsageError string

record ran =
  Failed :: "failure option"
  Stdout :: string
  Stderr :: string

definition failed :: "failure \<Rightarrow> ran" where
  "failed f = \<lparr>ran.Failed = Some f, ran.Stdout = [], ran.Stderr = []\<rparr>"

text \<open>\<open>write\<close>: the text of the report, and the failure its verdict or an error of writing is.\<close>

definition report_output :: "Env \<Rightarrow> bool \<Rightarrow> Report \<Rightarrow> goerr + string" where
  "report_output env as_json rep =
     (if as_json then WriteJSON rep
      else Inr (WriteText (Env.Wide env) (Env.Orbit env) rep))"

definition write_report :: "Env \<Rightarrow> bool \<Rightarrow> Report \<Rightarrow> failure option \<times> string" where
  "write_report env as_json rep = (case report_output env as_json rep of
       Inl e \<Rightarrow> (Some (ExitError 3 (Some e)), [])
     | Inr out \<Rightarrow> (case Env.WriteErr env out of
         Some e \<Rightarrow> (Some (ExitError 3 (Some e)), out)
       | None \<Rightarrow>
           let code = ExitCode (Report.Verdict rep)
           in (if code \<noteq> 0 then Some (ExitError code None) else None, out)))"

definition diagnose :: "Env \<Rightarrow> globalFlags \<Rightarrow> build \<Rightarrow> (World, ran) state" where
  "diagnose env g build = do {
     r \<leftarrow> Open (cfg g);
     w \<leftarrow> State_Monad.get;
     State_Monad.return (case r of
         Inl e \<Rightarrow> failed (ExitError ExitUnavailable (Some e))
       | Inr x \<Rightarrow> (case run_state (Identify (World.Now w) (cfg g)) x of
           (Inl e, _) \<Rightarrow>
             failed (ExitError (ExitCode VerdictUNKNOWN) (Some (wrap_error ''identify instance: '' e)))
         | (Inr info, x) \<Rightarrow>
             let (rep, note) = fst (run_state (build info) x);
                 (f, out) = write_report env (json g) rep
             in \<lparr>ran.Failed = f, ran.Stdout = out, ran.Stderr = note\<rparr>))
   }"

section \<open>The commands\<close>

text \<open>The arguments a command refuses itself, before it connects.\<close>

definition usage_error :: "(nat \<Rightarrow> bool) \<Rightarrow> command \<Rightarrow> string option" where
  "usage_error printable cmd = (case cmd of
       SessionCmd arg _ \<Rightarrow> (case parse_int 32 arg of
           Some pid \<Rightarrow> if pid \<le> 0 then Some (''pid must be a positive integer, got '' @ go_quote printable arg) else None
         | None \<Rightarrow> Some (''pid must be a positive integer, got '' @ go_quote printable arg))
     | TableCmd rel \<Rightarrow> if trim_space rel = [] then Some ''table name must not be empty'' else None
     | TopCmd _ by \<Rightarrow> if map_of TopOrders by = None
         then Some (''--by must be time, mean, calls, io or temp, got '' @ go_quote printable by) else None
     | _ \<Rightarrow> None)"

text \<open>\<open>int32(pid)\<close> of an argument that passed.\<close>

definition pid_of :: "string \<Rightarrow> int32" where
  "pid_of arg = (case parse_int 32 arg of Some pid \<Rightarrow> word_of_int pid | None \<Rightarrow> 0)"

text \<open>
  \<open>cluster\<close> reads repmgr's database unless \<open>-d\<close> was given. Where that database is missing or refuses the
  user, it reports from the default one.
\<close>

definition cluster_flags :: "globalFlags \<Rightarrow> globalFlags" where
  "cluster_flags g = g\<lparr>cfg := (cfg g)\<lparr>Config.DBName := repmgrDB\<rparr>\<rparr>"

definition run_cluster :: "Env \<Rightarrow> globalFlags \<Rightarrow> bool \<Rightarrow> (World, ran) state" where
  "run_cluster env g explicit =
     (let build = cluster_build (Env.Os env) (Env.Orbit env) (cfg g)
      in if explicit then diagnose env g (build [] True)
         else do {
           r \<leftarrow> Open (cfg (cluster_flags g));
           case r of
             Inr x \<Rightarrow> diagnose env (cluster_flags g) (build [] False)
           | Inl e \<Rightarrow>
               if MissingDatabase e then diagnose env g (build [] False)
               else if ServerError e
               then diagnose env g
                 (build (''cannot connect to database '' @ repmgrDB @ '': '' @ goerr.Text e) False)
               else diagnose env (cluster_flags g) (build [] False)
         })"

definition run_command :: "Env \<Rightarrow> globalFlags \<Rightarrow> command \<Rightarrow> (World, ran) state" where
  "run_command env g cmd = (case cmd of
       SessionsCmd opt \<Rightarrow> diagnose env g (sessions_build opt)
     | SessionCmd arg th \<Rightarrow> diagnose env g (session_build (pid_of arg) th)
     | LocksCmd limit th \<Rightarrow> diagnose env g (locks_build limit th)
     | TxnCmd limit th \<Rightarrow> diagnose env g (txn_build limit th)
     | WaitsCmd \<Rightarrow> diagnose env g waits_build
     | StatusCmd \<Rightarrow> diagnose env g (status_build (Env.Os env) (cfg g))
     | SlotsCmd \<Rightarrow> diagnose env g slots_build
     | SpaceCmd \<Rightarrow> diagnose env g (space_build (Env.Os env) (cfg g))
     | FreezeCmd limit \<Rightarrow> diagnose env g (freeze_build (Env.Letter env) limit)
     | VacuumCmd limit \<Rightarrow> diagnose env g (vacuum_build limit)
     | ArchiveCmd \<Rightarrow> diagnose env g archive_build
     | ParamsCmd \<Rightarrow> diagnose env g params_build
     | ReplCmd \<Rightarrow> diagnose env g (repl_build (Env.Orbit env))
     | ClusterCmd explicit \<Rightarrow> run_cluster env g explicit
     | TopObjectsCmd limit \<Rightarrow> diagnose env g (top_objects_build limit)
     | TableCmd rel \<Rightarrow> diagnose env g (table_build (Env.Printable env) rel)
     | TopCmd limit by \<Rightarrow> diagnose env g (top_build (Env.Sanitize env) limit by)
     | ProgressCmd \<Rightarrow> diagnose env g progress_build
     | CheckpointCmd \<Rightarrow> diagnose env g checkpoint_build
     | WALCmd \<Rightarrow> diagnose env g wal_build
     | SeqCmd limit \<Rightarrow> diagnose env g (seq_build limit))"

section \<open>The run\<close>

text \<open>\<open>PersistentPreRunE\<close>, then the command's own code.\<close>

definition execute :: "Env \<Rightarrow> globalFlags \<Rightarrow> command \<Rightarrow> (World, ran) state" where
  "execute env g cmd =
     (if sint (Config.QueryTimeout (cfg g)) \<le> 0
      then State_Monad.return (failed (UsageError
        (''--timeout must be positive, got '' @ duration_text (Config.QueryTimeout (cfg g)))))
      else (case usage_error (Env.Printable env) cmd of
          Some e \<Rightarrow> State_Monad.return (failed (UsageError e))
        | None \<Rightarrow> run_command env g cmd))"

definition usage_text :: "string \<Rightarrow> string" where
  "usage_text e = ''kbdiag: '' @ e @ nl @ ''Run '' @ [CHR 0x27] @ ''kbdiag --help'' @ [CHR 0x27] @ '' for usage.'' @ nl"

text \<open>What the process prints and returns.\<close>

record exited =
  Code :: int
  Out :: string
  ErrOut :: string

definition finish :: "ran \<Rightarrow> exited" where
  "finish r = (case ran.Failed r of
       None \<Rightarrow> \<lparr>exited.Code = 0, exited.Out = ran.Stdout r, exited.ErrOut = ran.Stderr r\<rparr>
     | Some (ExitError code e) \<Rightarrow> \<lparr>exited.Code = code, exited.Out = ran.Stdout r,
         exited.ErrOut = ran.Stderr r @ (case e of None \<Rightarrow> [] | Some e \<Rightarrow> ''kbdiag: '' @ goerr.Text e @ nl)\<rparr>
     | Some (UsageError e) \<Rightarrow> \<lparr>exited.Code = ExitUsage, exited.Out = ran.Stdout r,
         exited.ErrOut = ran.Stderr r @ usage_text e\<rparr>)"

definition run_kbdiag :: "Env \<Rightarrow> string list \<Rightarrow> World \<Rightarrow> exited" where
  "run_kbdiag env args w = (case parse env args of
       ParseError e \<Rightarrow> finish (failed (UsageError e))
     | Shown text \<Rightarrow> \<lparr>exited.Code = 0, exited.Out = text, exited.ErrOut = []\<rparr>
     | Parsed g cmd \<Rightarrow> finish (fst (run_state (execute env g cmd) w)))"

end
