(* ===== verification/MainSpec.thy ===== *)
theory MainSpec
  imports MainRun ScenarioSpec
begin

text \<open>
  What a run of kbdiag promises: an exit code that tells what the report says, connections that cannot
  change or block the server, and no all-clear for a cluster whose metadata was not read.
\<close>

section \<open>Reports that tell the truth\<close>

text \<open>What a report says, as the result of a rule; it tells the truth when that result is a sound one.\<close>

definition result_of :: "Report \<Rightarrow> Result" where
  "result_of rep = \<lparr>Result.Verdict = Report.Verdict rep, Result.Findings = Report.Findings rep\<rparr>"

lemma result_of_steps [report_simps]:
  "result_of (New cmd c r) = r" "result_of (add_probe i cols row p limit rep) = result_of rep"
  "result_of (AddProbe i st reason cols xs limit rep) = result_of rep"
  "result_of (AddRedacted rs rep) = result_of rep" "result_of (set_view v rep) = result_of rep"
  by (simp_all add: result_of_def)

lemma sound_levels:
  "sound_result r \<Longrightarrow> (\<And>f. Finding.Level (g f) = Finding.Level f) \<Longrightarrow>
   sound_result (r\<lparr>Result.Findings := map g (Result.Findings r)\<rparr>)"
proof -
  assume s: "sound_result r" and g: "\<And>f. Finding.Level (g f) = Finding.Level f"
  have "has_level l (map g fs) \<longleftrightarrow> has_level l fs" for l fs by (simp add: has_level_def g)
  then have v: "verdictOf (map g fs) u = verdictOf fs u" for fs u by (simp add: verdictOf_cases)
  show ?thesis using s by (cases r) (simp only: sound_result_def Result.simps v)
qed

lemma sound_Txn: "sound_result (Txn a p th)"
  by (simp add: Txn_def)

lemma sound_Space: "sound_result (Space d t w disk)"
proof -
  have "fs \<noteq> [] \<Longrightarrow> sound_result \<lparr>Result.Verdict = VerdictFAIL, Result.Findings = map (disk_full seg) fs\<rparr>" for fs seg
    by (cases fs) (simp_all add: sound_result_def verdictOf_cases disk_full_def)
  then show ?thesis
    using display_rule.sound by (auto simp: Space_def Let_def split: option.split)
qed

lemma sound_unknown: "sound_result \<lparr>Result.Verdict = VerdictUNKNOWN, Result.Findings = []\<rparr>"
  by (simp add: sound_result_def verdict_simps)

lemmas sound_rules =
  sessions_rule.sound [of "(a, th)" for a th, simplified] locks_rule.sound [of "(a, th)" for a th, simplified]
  waits_rule.sound status_rule.sound [of "(i, d, n, u)" for i d n u, simplified] slots_rule.sound
  display_rule.sound [of "(h, s)" for h s, simplified]
  archive_rule.sound [of "(s, r)" for s r, simplified] params_rule.sound
  repl_rule.sound [of "(orbit, d, s, u, r)" for orbit d s u r, simplified]
  cluster_rule.sound [of "(orbit, n, d, s, r)" for orbit n d s r, simplified]
  freeze_rule.sound [of "(u, d, l, r)" for u d l r, simplified]
  vacuum_rule.sound [of "(t, s, r, d)" for t s r d, simplified]
  table_rule.sound [of "(i, s, l, v, r, d)" for i s l v r d, simplified]
  seq_rule.sound [of "(l, r)" for l r, simplified]
  sound_Txn sound_Space sound_unknown

lemmas told_simps = result_of_steps Let_def sound_rules

lemma told_session_reports:
  "sound_result (result_of (Sessions_report c a opt))"
  "sound_result (result_of (fst (Session_report c a l pid th)))"
  "sound_result (result_of (Locks_report c l limit th))"
  "sound_result (result_of (Txn_report c a tp limit th))"
  "sound_result (result_of (Waits_report c ws))"
  by (simp_all add: told_simps Sessions_report_def Session_report_def Locks_report_def Txn_report_def
      Waits_report_def sound_levels drop_self_def)

lemma told_instance_reports:
  "sound_result (result_of (Status_report c i d n u disk))"
  "sound_result (result_of (Slots_report c sl))"
  "sound_result (result_of (Space_report c d ts wal mounts))"
  "sound_result (result_of (Archive_report c ar aq))"
  "sound_result (result_of (Checkpoint_report c k1 k2 k3))"
  "sound_result (result_of (Params_report c ps))"
  "sound_result (result_of (WAL_report c pos wal sl aq))"
  "sound_result (result_of (Repl_report orbit c rd rs u rr))"
  "sound_result (result_of (Cluster_report orbit c cn ce n cs))"
  by (simp_all add: told_simps Status_report_def Slots_report_def Space_report_def Archive_report_def
      Checkpoint_report_def Params_report_def WAL_report_def Repl_report_def Cluster_report_def)

lemma told_table_reports:
  "sound_result (result_of (Freeze_report uni c fd ft fl limit))"
  "sound_result (result_of (Vacuum_report c vt vp vs limit))"
  "sound_result (result_of (fst (Table_report c ti tz tst ix l v)))"
  "sound_result (result_of (TopObjects_report c ot oi limit))"
  "sound_result (result_of (Top_report c st limit by))"
  "sound_result (result_of (Progress_report c pl pc))"
  "sound_result (result_of (Seq_report c sq limit))"
  by (simp_all add: told_simps Freeze_report_def Vacuum_report_def Table_report_def TopObjects_report_def
      Top_report_def Progress_report_def Seq_report_def)

section \<open>What a command hands over\<close>

text \<open>
  The contract between a command and \<open>diagnose\<close>: the report its \<open>build\<close> returns tells the truth. Then
  the exit code of the run can be read off the findings that were printed.
\<close>

definition code_of :: "Report \<Rightarrow> int" where
  "code_of rep =
     (if has_level LevelFAIL (Report.Findings rep) then 2
      else if has_level LevelWARN (Report.Findings rep) then 1
      else if Report.Verdict rep = VerdictUNKNOWN then 3 else 0)"

lemma ExitCode_sound: "sound_result (result_of rep) \<Longrightarrow> ExitCode (Report.Verdict rep) = code_of rep"
  by (auto simp: result_of_def sound_result_def verdictOf_cases ExitCode_def code_of_def
      split: verdict.split if_splits)

locale command_build =
  fixes build :: build
  assumes tells: "sound_result (result_of (fst (fst (run_state (build info) x))))"
begin

lemma exit_code: "ExitCode (Report.Verdict (fst (fst (run_state (build info) x)))) =
    code_of (fst (fst (run_state (build info) x)))"
  by (rule ExitCode_sound [OF tells])

end

lemmas build_simps = silent_def split_beta Let_def told_session_reports told_instance_reports told_table_reports

interpretation sessions_command: command_build "sessions_build opt"
  by unfold_locales (simp add: sessions_build_def build_simps)

interpretation session_command: command_build "session_build pid th"
  by unfold_locales (simp add: session_build_def build_simps)

interpretation locks_command: command_build "locks_build limit th"
  by unfold_locales (simp add: locks_build_def build_simps)

interpretation txn_command: command_build "txn_build limit th"
  by unfold_locales (simp add: txn_build_def build_simps)

interpretation waits_command: command_build waits_build
  by unfold_locales (simp add: waits_build_def build_simps)

interpretation status_command: command_build "status_build os c"
  by unfold_locales (simp add: status_build_def build_simps)

interpretation slots_command: command_build slots_build
  by unfold_locales (simp add: slots_build_def build_simps)

interpretation space_command: command_build "space_build os c"
  by unfold_locales (simp add: space_build_def build_simps)

interpretation freeze_command: command_build "freeze_build letter limit"
  by unfold_locales (simp add: freeze_build_def build_simps)

interpretation vacuum_command: command_build "vacuum_build limit"
  by unfold_locales (simp add: vacuum_build_def build_simps)

interpretation archive_command: command_build archive_build
  by unfold_locales (simp add: archive_build_def build_simps)

interpretation params_command: command_build params_build
  by unfold_locales (simp add: params_build_def build_simps)

interpretation repl_command: command_build "repl_build orbit"
  by unfold_locales (simp add: repl_build_def build_simps)

interpretation cluster_command: command_build "cluster_build os orbit c skip explicit"
  by unfold_locales (simp add: cluster_build_def build_simps)

interpretation top_objects_command: command_build "top_objects_build limit"
  by unfold_locales (simp add: top_objects_build_def build_simps)

interpretation table_command: command_build "table_build printable rel"
  by unfold_locales (simp add: table_build_def build_simps  split: option.split)

interpretation top_command: command_build "top_build sanitize limit by"
  by unfold_locales (simp add: top_build_def build_simps)

interpretation progress_command: command_build progress_build
  by unfold_locales (simp add: progress_build_def build_simps)

interpretation checkpoint_command: command_build checkpoint_build
  by unfold_locales (simp add: checkpoint_build_def build_simps)

interpretation wal_command: command_build wal_build
  by unfold_locales (simp add: wal_build_def build_simps)

interpretation seq_command: command_build "seq_build limit"
  by unfold_locales (simp add: seq_build_def build_simps)

section \<open>How a run ends\<close>

text \<open>What an attempt to connect does to the world: at most one more attempt, and nothing else.\<close>

lemma run_Open:
  "run_state (Open c) w = (case World.ParseConfig w (dsn c) of
       Inl e \<Rightarrow> (Inl e, w)
     | Inr cc \<Rightarrow>
         (let w' = w\<lparr>World.Attempts := World.Attempts w @ [set_params c cc]\<rparr>
          in (case World.ConnectConfig w (World.Attempts w') of Inl e \<Rightarrow> Inl (openError e) | Inr x \<Rightarrow> Inr x, w')))"
  by (simp add: Open_def connConfig_def Let_def split: sum.split)

text \<open>The four ways a diagnosis ends, over the world it leaves behind.\<close>

definition unavailable :: "World \<Rightarrow> World \<Rightarrow> exited \<Rightarrow> bool" where
  "unavailable w w' r \<longleftrightarrow> (\<exists>e. r = \<lparr>exited.Code = 69, exited.Out = [], exited.ErrOut = ''kbdiag: '' @ e @ nl\<rparr>) \<and>
     ((\<exists>c e. World.ParseConfig w (dsn c) = Inl e) \<or> (\<exists>e. World.ConnectConfig w (World.Attempts w') = Inl e))"

definition unreported :: "exited \<Rightarrow> bool" where
  "unreported r \<longleftrightarrow> exited.Code r = 3 \<and> exited.Out r = [] \<and>
     (\<exists>note e. exited.ErrOut r = note @ ''kbdiag: '' @ e @ nl)"

definition reported :: "Env \<Rightarrow> bool \<Rightarrow> exited \<Rightarrow> bool" where
  "reported env as_json r \<longleftrightarrow> (\<exists>rep. report_output env as_json rep = Inr (exited.Out r) \<and>
     exited.Code r = (if \<exists>e. Env.WriteErr env (exited.Out r) = Some e then 3 else code_of rep))"

definition ends :: "Env \<Rightarrow> bool \<Rightarrow> World \<Rightarrow> World \<Rightarrow> exited \<Rightarrow> bool" where
  "ends env as_json w w' r \<longleftrightarrow> unavailable w w' r \<or>
     (\<exists>x. World.ConnectConfig w (World.Attempts w') = Inr x) \<and> (unreported r \<or> reported env as_json r)"

lemma write_ends:
  assumes "sound_result (result_of rep)"
  shows "(case write_report env as_json rep of (f, out) \<Rightarrow>
     unreported (finish \<lparr>ran.Failed = f, ran.Stdout = out, ran.Stderr = msg\<rparr>) \<or>
     reported env as_json (finish \<lparr>ran.Failed = f, ran.Stdout = out, ran.Stderr = msg\<rparr>))"
proof (cases "report_output env as_json rep")
  case (Inl e)
  then show ?thesis by (auto simp: write_report_def finish_def unreported_def)
next
  case (Inr out)
  have "ExitCode (Report.Verdict rep) = code_of rep" by (rule ExitCode_sound [OF assms])
  with Inr have "reported env as_json
      (finish \<lparr>ran.Failed = fst (write_report env as_json rep), ran.Stdout = snd (write_report env as_json rep),
        ran.Stderr = msg\<rparr>)"
    unfolding reported_def
    by (intro exI [of _ rep]) (simp add: write_report_def finish_def Let_def split: option.split)
  then show ?thesis by (simp add: split_beta)
qed

context command_build
begin

lemma diagnose_ends:
  "ends env (json g) w (snd (run_state (diagnose env g build) w)) (finish (fst (run_state (diagnose env g build) w)))"
proof (cases "fst (run_state (Open (cfg g)) w)")
  case (Inl e)
  then show ?thesis
    by (auto simp: diagnose_def run_Open Let_def ends_def unavailable_def failed_def finish_def ExitUnavailable_def
        split: sum.splits)
next
  case (Inr x)
  obtain r x' where r: "run_state (Identify (World.Now (snd (run_state (Open (cfg g)) w))) (cfg g)) x = (r, x')"
    by fastforce
  have conn: "\<exists>x. World.ConnectConfig w (World.Attempts (snd (run_state (diagnose env g build) w))) = Inr x"
    using Inr by (auto simp: diagnose_def run_Open Let_def split: sum.splits)
  show ?thesis
  proof (cases r)
    case (Inl e)
    have "unreported (finish (fst (run_state (diagnose env g build) w)))"
      using Inr r Inl
      by (auto simp: diagnose_def split_beta failed_def finish_def unreported_def ExitCode_def wrap_error_def)
    with conn show ?thesis by (simp add: ends_def)
  next
    case (Inr info)
    show ?thesis
      using write_ends [OF tells [of info x'], where env = env and as_json = "json g"
            and msg = "snd (fst (run_state (build info) x'))"]
        conn \<open>fst (run_state (Open (cfg g)) w) = Inr x\<close> r Inr
      by (simp add: diagnose_def split_beta ends_def Let_def)
  qed
qed

end

text \<open>An attempt leaves what \<open>pgx\<close> would answer as it was.\<close>

lemma world_after_Open:
  "World.ParseConfig (snd (run_state (Open c) w)) = World.ParseConfig w"
  "World.ConnectConfig (snd (run_state (Open c) w)) = World.ConnectConfig w"
  by (simp_all add: run_Open Let_def split: sum.split)

lemma ends_after_Open: "ends env js (snd (run_state (Open c) w)) w' r \<longleftrightarrow> ends env js w w' r"
  by (simp add: ends_def unavailable_def world_after_Open)

lemma json_cluster [simp]: "json (cluster_flags g) = json g"
  by (simp add: cluster_flags_def)

text \<open>What \<open>cluster\<close> without \<open>-d\<close> goes on with, from its attempt at repmgr's database.\<close>

definition cluster_next :: "globalFlags \<Rightarrow> goerr + Conn \<Rightarrow> globalFlags \<times> string" where
  "cluster_next g r = (case r of
       Inr x \<Rightarrow> (cluster_flags g, [])
     | Inl e \<Rightarrow> if MissingDatabase e then (g, [])
         else if ServerError e then (g, ''cannot connect to database '' @ repmgrDB @ '': '' @ goerr.Text e)
         else (cluster_flags g, []))"

lemma run_cluster_eq:
  "run_state (run_cluster env g explicit) w =
     (if explicit
      then run_state (diagnose env g (cluster_build (Env.Os env) (Env.Orbit env) (cfg g) [] True)) w
      else case run_state (Open (cfg (cluster_flags g))) w of (r, w1) \<Rightarrow>
        (case cluster_next g r of (g', skip) \<Rightarrow>
           run_state (diagnose env g' (cluster_build (Env.Os env) (Env.Orbit env) (cfg g) skip False)) w1))"
  by (simp add: run_cluster_def cluster_next_def Let_def split_beta split: sum.split)

lemma run_cluster_ends:
  "ends env (json g) w (snd (run_state (run_cluster env g explicit) w))
     (finish (fst (run_state (run_cluster env g explicit) w)))"
proof (cases explicit)
  case True
  then show ?thesis by (simp add: run_cluster_eq cluster_command.diagnose_ends)
next
  case False
  obtain r w1 where o: "run_state (Open (cfg (cluster_flags g))) w = (r, w1)" by fastforce
  obtain g' skip where n: "cluster_next g r = (g', skip)" by fastforce
  have "json g' = json g" using n by (auto simp: cluster_next_def split: sum.splits if_splits)
  then show ?thesis
    using cluster_command.diagnose_ends [of env g' w1 "Env.Os env" "Env.Orbit env" "cfg g" skip False]
      ends_after_Open [of env "json g" "cfg (cluster_flags g)" w] False
    by (simp add: run_cluster_eq o n)
qed

lemma run_command_ends:
  "ends env (json g) w (snd (run_state (run_command env g cmd) w)) (finish (fst (run_state (run_command env g cmd) w)))"
  by (cases cmd) (simp_all add: run_command_def run_cluster_ends
      sessions_command.diagnose_ends session_command.diagnose_ends locks_command.diagnose_ends
      txn_command.diagnose_ends waits_command.diagnose_ends status_command.diagnose_ends
      slots_command.diagnose_ends space_command.diagnose_ends freeze_command.diagnose_ends
      vacuum_command.diagnose_ends archive_command.diagnose_ends params_command.diagnose_ends
      repl_command.diagnose_ends top_objects_command.diagnose_ends table_command.diagnose_ends
      top_command.diagnose_ends progress_command.diagnose_ends checkpoint_command.diagnose_ends
      wal_command.diagnose_ends seq_command.diagnose_ends)

lemma run_kbdiag_parsed: "parse env args = Parsed g cmd \<Longrightarrow>
    run_kbdiag env args w = finish (fst (run_state (execute env g cmd) w))"
  by (simp add: run_kbdiag_def)


section \<open>What a run asks of the server\<close>

text \<open>A connection that cannot write, waits for no lock long and for no statement forever.\<close>

definition harmless :: "int64 \<Rightarrow> client_config \<Rightarrow> bool" where
  "harmless timeout cc \<longleftrightarrow>
     client_config.RuntimeParams cc ''default_transaction_read_only'' = Some ''on'' \<and>
     client_config.RuntimeParams cc ''lock_timeout'' = Some ''500ms'' \<and>
     client_config.RuntimeParams cc ''statement_timeout'' = Some (fmt_d (sint (timeoutMillis timeout)))"

lemma harmless_params: "Config.QueryTimeout c = timeout \<Longrightarrow> harmless timeout (set_params c cc)"
  by (simp add: harmless_def set_params_def)

lemma cluster_flags_timeout [simp]: "Config.QueryTimeout (cfg (cluster_flags g)) = Config.QueryTimeout (cfg g)"
  by (simp add: cluster_flags_def)

definition attempts :: "nat \<Rightarrow> int64 \<Rightarrow> World \<Rightarrow> World \<Rightarrow> bool" where
  "attempts n timeout w w' \<longleftrightarrow> (\<exists>new. World.Attempts w' = World.Attempts w @ new \<and> length new \<le> n \<and>
     list_all (harmless timeout) new)"

lemma attempts_refl: "attempts n timeout w w"
  by (simp add: attempts_def)

lemma attempts_trans: "attempts m t w w1 \<Longrightarrow> attempts n t w1 w2 \<Longrightarrow> attempts (m + n) t w w2"
  by (fastforce simp: attempts_def)

lemma attempts_Open: "attempts 1 (Config.QueryTimeout c) w (snd (run_state (Open c) w))"
  by (auto simp: run_Open attempts_def Let_def harmless_params split: sum.split)

lemma attempts_diagnose: "attempts 1 (Config.QueryTimeout (cfg g)) w (snd (run_state (diagnose env g b) w))"
  using attempts_Open [of "cfg g" w] by (simp add: diagnose_def split_beta)

lemma attempts_cluster:
  "attempts 2 (Config.QueryTimeout (cfg g)) w (snd (run_state (run_cluster env g explicit) w))"
proof (cases explicit)
  case True
  then show ?thesis
    using attempts_trans [OF attempts_diagnose attempts_refl [of 1]] by (simp add: run_cluster_eq numeral_2_eq_2)
next
  case False
  obtain r w1 where o: "run_state (Open (cfg (cluster_flags g))) w = (r, w1)" by fastforce
  obtain g' skip where n: "cluster_next g r = (g', skip)" by fastforce
  have t: "Config.QueryTimeout (cfg g') = Config.QueryTimeout (cfg g)"
    using n by (auto simp: cluster_next_def split: sum.splits if_splits)
  have "attempts 1 (Config.QueryTimeout (cfg g)) w w1"
    using attempts_Open [of "cfg (cluster_flags g)" w] by (simp add: o)
  moreover have "attempts 1 (Config.QueryTimeout (cfg g)) w1 (snd (run_state (diagnose env g' b) w1))" for b
    using attempts_diagnose [of g' w1 env b] by (simp add: t)
  ultimately show ?thesis
    using False attempts_trans [of 1 _ w w1 1] by (simp add: run_cluster_eq o n numeral_2_eq_2)
qed

lemma attempts_command: "attempts 2 (Config.QueryTimeout (cfg g)) w (snd (run_state (run_command env g cmd) w))"
proof -
  have "attempts 2 (Config.QueryTimeout (cfg g)) w (snd (run_state (diagnose env g b) w))" for b
    using attempts_trans [OF attempts_diagnose attempts_refl [of 1]] by (simp add: numeral_2_eq_2)
  then show ?thesis by (cases cmd) (simp_all add: run_command_def attempts_cluster)
qed

text \<open>
  C24. Whatever the arguments, a run connects at most twice, and each connection it asks for is one in
  which nothing can be written, no lock is waited for longer than half a second and every statement
  ends: the statement timeout is the positive number of milliseconds \<open>--timeout\<close> rounds up to, never
  0, which would mean none. Only within a millisecond of the largest duration the sum wraps, and
  the number is negative.
\<close>

theorem connections_harmless:
  "case parse env args of
     Parsed g cmd \<Rightarrow> (\<exists>new. World.Attempts (snd (run_state (execute env g cmd) w)) = World.Attempts w @ new \<and>
       length new \<le> 2 \<and>
       list_all (\<lambda>cc.
         client_config.RuntimeParams cc ''default_transaction_read_only'' = Some ''on'' \<and>
         client_config.RuntimeParams cc ''lock_timeout'' = Some ''500ms'' \<and>
         (\<exists>ms. client_config.RuntimeParams cc ''statement_timeout'' = Some (fmt_d ms) \<and>
            (if sint (Config.QueryTimeout (cfg g)) < 2 ^ 63 - 999999
             then 0 < ms \<and> (ms - 1) * 1000000 < sint (Config.QueryTimeout (cfg g)) \<and>
               sint (Config.QueryTimeout (cfg g)) \<le> ms * 1000000
             else ms < 0))) new)
   | _ \<Rightarrow> True"
proof (cases "parse env args")
  case (Parsed g cmd)
  let ?t = "Config.QueryTimeout (cfg g)"
  show ?thesis
  proof (cases "0 < sint ?t")
    case True
    let ?ms = "sint (timeoutMillis ?t)"
    have ms: "if sint ?t < 2 ^ 63 - 999999
        then 0 < ?ms \<and> (?ms - 1) * 1000000 < sint ?t \<and> sint ?t \<le> ?ms * 1000000 else ?ms < 0"
      using timeoutMillis_ceiling [OF True] True by (auto split: if_splits)
    have "attempts 2 ?t w (snd (run_state (execute env g cmd) w))"
      using attempts_command [of g w env cmd] attempts_refl by (simp add: execute_def split: option.split)
    then obtain new where new: "World.Attempts (snd (run_state (execute env g cmd) w)) = World.Attempts w @ new"
        "length new \<le> 2" "list_all (harmless ?t) new"
      by (auto simp: attempts_def)
    then show ?thesis
      unfolding Parsed parsed.case
      by (intro exI [of _ new] conjI) (assumption | rule new ms list.pred_mono_strong [OF new(3)] conjI exI [of _ ?ms] | simp only: harmless_def)+
  qed (simp add: Parsed execute_def)
qed simp_all

section \<open>No all-clear without repmgr's metadata\<close>

lemma diagnose_zero:
  assumes "exited.Code (finish (fst (run_state (diagnose env g b) w))) = 0"
  obtains info x where
    "report_output env (json g) (fst (fst (run_state (b info) x))) =
       Inr (exited.Out (finish (fst (run_state (diagnose env g b) w))))"
    "Report.Verdict (fst (fst (run_state (b info) x))) = VerdictOK"
proof (cases "fst (run_state (Open (cfg g)) w)")
  case (Inl e)
  then show ?thesis using assms
    by (simp add: diagnose_def split_beta failed_def finish_def ExitUnavailable_def)
next
  case (Inr x)
  obtain r x' where r: "run_state (Identify (World.Now (snd (run_state (Open (cfg g)) w))) (cfg g)) x = (r, x')"
    by fastforce
  show ?thesis
  proof (cases r)
    case (Inl e)
    then show ?thesis using assms Inr r
      by (simp add: diagnose_def split_beta failed_def finish_def ExitCode_def)
  next
    case (Inr info)
    then show ?thesis
      using assms \<open>fst (run_state (Open (cfg g)) w) = Inr x\<close> r that [of info x']
      by (auto simp: diagnose_def split_beta finish_def write_report_def ExitCode_def Let_def
          split: sum.splits option.splits if_splits verdict.splits)
  qed
qed

text \<open>What \<open>cluster\<close> shows of repmgr's nodes when it finds nothing to report.\<close>

lemma cluster_build_ok:
  assumes "Report.Verdict (fst (fst (run_state (cluster_build os orbit c skip explicit info) x))) = VerdictOK"
  shows "\<exists>p. probe_of (fst (fst (run_state (cluster_build os orbit c skip explicit info) x))) ClusterNodesID = Some p \<and>
    (Probe.Status p = StatusOK \<and> Probe.Rows p \<noteq> [] \<or> Probe.Status p = StatusNotApplicable \<and> \<not> explicit \<and> skip = [])"
proof -
  let ?n = "fst (run_state (ClusterNodes_probe info) x)"
  let ?skip = "cluster_skip skip explicit (Context.Database info) ?n"
  let ?shown = "if ?skip \<noteq> [] then not_read StatusSkipped ?skip else ?n"
  obtain e d s where rep: "fst (fst (run_state (cluster_build os orbit c skip explicit info) x)) =
      Cluster_report orbit info ?shown e d s"
    by (simp add: cluster_build_def silent_def split_beta Let_def)
  have "Result.Verdict (Cluster orbit ?shown d s (Context.Role info)) = VerdictOK"
    using assms unfolding rep by (simp add: Cluster_report_def Let_def)
  then have seen: "\<not> cluster_unseen ?shown d s (Context.Role info)"
    using cluster_rule.unseen_not_OK [of "(orbit, ?shown, d, s, Context.Role info)"] by auto
  then have st: "coll.Status ?shown = StatusOK \<or> coll.Status ?shown = StatusNotApplicable"
    by (cases "coll.Status ?shown") (simp_all add: cluster_unseen_def)
  then have noskip: "?skip = []" by (auto split: if_splits)
  have na: "coll.Status ?n = StatusNotApplicable \<Longrightarrow> \<not> explicit \<and> skip = []"
    using noskip by (auto simp: cluster_skip_def split: if_splits)
  have rows: "coll.Status ?n = StatusOK \<Longrightarrow> coll.Rows ?n \<noteq> []"
    using seen noskip by (auto simp: cluster_unseen_def local_node_def split: option.splits)
  let ?p = "new_probe (coll.Status ?n) (coll.Reason ?n) ClusterNodeColumns (map ClusterNode_Row (coll.Rows ?n)) 0"
  have "probe_of (Cluster_report orbit info ?shown e d s) ClusterNodesID = Some ?p"
    using noskip by (simp add: Cluster_report_def Let_def ClusterNodesID_def ClusterEventsID_def InstDownstreamsID_def
        ClusterSyncID_def rows_def)
  then show ?thesis
    unfolding rep using st na rows noskip by (intro exI [of _ ?p]) (auto simp: new_probe_def)
qed

lemma run_cluster_zero:
  assumes "exited.Code (finish (fst (run_state (run_cluster env g explicit) w))) = 0"
  shows "\<exists>rep p. report_output env (json g) rep = Inr (exited.Out (finish (fst (run_state (run_cluster env g explicit) w)))) \<and>
    Report.Verdict rep = VerdictOK \<and> probe_of rep ClusterNodesID = Some p \<and>
    (Probe.Status p = StatusOK \<and> Probe.Rows p \<noteq> [] \<or>
     Probe.Status p = StatusNotApplicable \<and> \<not> explicit \<and>
       snd (cluster_next g (fst (run_state (Open (cfg (cluster_flags g))) w))) = [])"
proof (cases explicit)
  case True
  with assms have "exited.Code (finish (fst (run_state (diagnose env g
      (cluster_build (Env.Os env) (Env.Orbit env) (cfg g) [] True)) w))) = 0" by (simp add: run_cluster_eq)
  then show ?thesis
    using True cluster_build_ok [of "Env.Os env" "Env.Orbit env" "cfg g" "[]" True]
    by (elim diagnose_zero) (fastforce simp: run_cluster_eq)
next
  case False
  obtain r w1 where o: "run_state (Open (cfg (cluster_flags g))) w = (r, w1)" by fastforce
  obtain g' skip where n: "cluster_next g r = (g', skip)" by fastforce
  have j: "json g' = json g" using n by (auto simp: cluster_next_def split: sum.splits if_splits)
  from assms False have "exited.Code (finish (fst (run_state (diagnose env g'
      (cluster_build (Env.Os env) (Env.Orbit env) (cfg g) skip False)) w1))) = 0" by (simp add: run_cluster_eq o n)
  then show ?thesis
    using False cluster_build_ok [of "Env.Os env" "Env.Orbit env" "cfg g" skip False]
    by (elim diagnose_zero) (fastforce simp: run_cluster_eq o n j)
qed

text \<open>
  C25. \<open>kbdiag cluster\<close> gives no all-clear without repmgr's metadata. When it exits 0 it has printed an OK
  report that shows repmgr's nodes, at least one; or, only without \<open>-d\<close> and unless repmgr's database
  was there and refused the user, one that says there is no repmgr here.
\<close>

theorem cluster_exit_0:
  assumes "parse env args = Parsed g (ClusterCmd explicit)" and "exited.Code (run_kbdiag env args w) = 0"
  shows "\<exists>rep p. report_output env (json g) rep = Inr (exited.Out (run_kbdiag env args w)) \<and>
    Report.Verdict rep = VerdictOK \<and> probe_of rep ClusterNodesID = Some p \<and>
    (Probe.Status p = StatusOK \<and> Probe.Rows p \<noteq> [] \<or>
     Probe.Status p = StatusNotApplicable \<and> \<not> explicit \<and>
       \<not> (\<exists>e code msg. fst (run_state (Open (cfg (cluster_flags g))) w) = Inl e \<and>
            goerr.Pg e = Some (code, msg) \<and> code \<noteq> ''3D000''))"
proof -
  have exe: "execute env g (ClusterCmd explicit) =
      (if sint (Config.QueryTimeout (cfg g)) \<le> 0
       then State_Monad.return (failed (UsageError
         (''--timeout must be positive, got '' @ duration_text (Config.QueryTimeout (cfg g)))))
       else run_cluster env g explicit)"
    by (simp add: execute_def usage_error_def run_command_def)
  note r = run_kbdiag_parsed [OF assms(1), of w]
  have "\<not> sint (Config.QueryTimeout (cfg g)) \<le> 0"
    using assms(2) unfolding r exe by (auto simp: failed_def finish_def ExitUsage_def)
  with assms(2) r exe have "exited.Code (finish (fst (run_state (run_cluster env g explicit) w))) = 0"
    and out: "run_kbdiag env args w = finish (fst (run_state (run_cluster env g explicit) w))" by simp_all
  moreover have "snd (cluster_next g (Inl e)) \<noteq> []"
    if "goerr.Pg e = Some (code, msg)" "code \<noteq> ''3D000''" for e code msg
    using that by (simp add: cluster_next_def MissingDatabase_def ServerError_def)
  ultimately show ?thesis using run_cluster_zero [of env g explicit w] unfolding out by fastforce
qed

text \<open>A server without a repmgr database, and without repmgr's schema in the default one.\<close>

definition demo_conn :: Conn where
  "demo_conn =
     \<lparr>Conn.Sent = [], AskText = (\<lambda>_. Inl (plain_error ''no answer'')),
      AskBool = (\<lambda>_. Inr False), AskID = (\<lambda>_. Inl (plain_error ''no answer'')),
      AskTop = (\<lambda>_. Inl (plain_error ''no answer'')),
      AskConf = (\<lambda>_. Inl (plain_error ''no answer'')),
      AskIdentity = (\<lambda>_. Inr (''KingbaseES V008R006C009B0014'', False, ''system'', ''test'')),
      AskSessions = (\<lambda>_. Collected []), AskLocks = (\<lambda>_. Collected []),
      AskPrepared = (\<lambda>_. Collected []), AskWaits = (\<lambda>_. Collected []),
      AskInfo = (\<lambda>_. Collected []), AskDatabases = (\<lambda>_. Collected []),
      AskDownstreams = (\<lambda>_. Collected []), AskUpstream = (\<lambda>_. Collected []),
      AskSlots = (\<lambda>_. Collected []), AskPosition = (\<lambda>_. Collected []),
      AskTablespaces = (\<lambda>_. Collected []), AskWAL = (\<lambda>_. Collected []),
      AskArchiver = (\<lambda>_. Collected []), AskQueue = (\<lambda>_. Collected []),
      AskBGWriter = (\<lambda>_. Collected []), AskLastCheckpoint = (\<lambda>_. Collected []),
      AskCheckpointSetting = (\<lambda>_. Collected []), AskParams = (\<lambda>_. Collected []),
      AskReplicas = (\<lambda>_. Collected []), AskSyncSetting = (\<lambda>_. Collected []),
      AskReplay = (\<lambda>_. Collected []), AskNodes = (\<lambda>_. Collected []),
      AskEvents = (\<lambda>_. Collected []), AskFrozenDatabases = (\<lambda>_. Collected []),
      AskFrozenTables = (\<lambda>_. Collected []), AskFreezeLimit = (\<lambda>_. Collected []),
      AskVacuumTables = (\<lambda>_. Collected []), AskVacuumRuns = (\<lambda>_. Collected []),
      AskVacuumSetting = (\<lambda>_. Collected []), AskTableInfo = (\<lambda>_. Collected []),
      AskTableSize = (\<lambda>_. Collected []), AskTableStat = (\<lambda>_. Collected []),
      AskTableIndexes = (\<lambda>_. Collected []), AskObjectTables = (\<lambda>_. Collected []),
      AskObjectIndexes = (\<lambda>_. Collected []), AskSequences = (\<lambda>_. Collected []),
      AskStatements = (\<lambda>_. Collected []), AskOperations = (\<lambda>_. Collected [])\<rparr>"

definition demo_env :: Env where
  "demo_env = \<lparr>Env.Os = \<lparr>OS.Stat = (\<lambda>_. Inl (plain_error ''no file'')), OS.Statfs = (\<lambda>_. Inl (plain_error ''no file'')),
      OS.OpenFile = (\<lambda>_. Inl (plain_error ''no file''))\<rparr>,
     Env.Cobra = (\<lambda>_ _. Selected newCluster [] []), Env.Sanitize = join ''.'', Env.Letter = (\<lambda>_. False),
     Env.Orbit = id, Env.Wide = (\<lambda>_. False), Env.Printable = (\<lambda>_. True), Env.WriteErr = (\<lambda>_. None)\<rparr>"

lemma demo_parse: "parse demo_env [] = Parsed default_flags (ClusterCmd False)"
  by (simp add: parse_def demo_env_def newCluster_def global_flags_default)

definition demo_world :: World where
  "demo_world = \<lparr>World.Attempts = [],
     World.ParseConfig = (\<lambda>_. Inr \<lparr>client_config.Settings = [], client_config.ConnectTimeout = 0,
       client_config.RuntimeParams = Map.empty\<rparr>),
     World.ConnectConfig = (\<lambda>sent. if length sent = 1
       then Inl \<lparr>goerr.Text = ''no such database'', goerr.Pg = Some (''3D000'', ''no such database'')\<rparr>
       else Inr demo_conn),
     World.Now = \<lparr>gotime.Unix = 0, gotime.Nanos = 0, gotime.Offset = 0\<rparr>\<rparr>"

definition demo_build :: build where
  "demo_build = cluster_build (Env.Os demo_env) (Env.Orbit demo_env) (cfg default_flags) [] False"

lemma demo_nodes: "fst (run_state (ClusterNodes_probe info) (demo_conn\<lparr>Conn.Sent := sent\<rparr>)) =
    not_read StatusNotApplicable (no_schema (Context.Database info))"
  by (simp add: ClusterNodes_probe_def demo_conn_def)

lemma demo_verdict:
  "Report.Verdict (fst (fst (run_state (demo_build info) (demo_conn\<lparr>Conn.Sent := sent\<rparr>)))) = VerdictOK"
proof -
  obtain n e d s where rep: "fst (fst (run_state (demo_build info) (demo_conn\<lparr>Conn.Sent := sent\<rparr>))) =
      Cluster_report id info n e d s" and n: "coll.Status n = StatusNotApplicable"
    by (simp add: demo_build_def cluster_build_def silent_def split_beta Let_def demo_nodes cluster_skip_def
        demo_env_def)
  show ?thesis unfolding rep by (simp add: Cluster_report_def Let_def Cluster_def n verdict_simps)
qed

lemma demo_run: "exited.Code (run_kbdiag demo_env [] demo_world) = 0"
proof -
  let ?cc = "set_params (cfg (cluster_flags default_flags))
    \<lparr>client_config.Settings = [], client_config.ConnectTimeout = 0, client_config.RuntimeParams = Map.empty\<rparr>"
  let ?w = "demo_world\<lparr>World.Attempts := [?cc]\<rparr>"
  have o: "run_state (Open (cfg (cluster_flags default_flags))) demo_world =
      (Inl (openError \<lparr>goerr.Text = ''no such database'', goerr.Pg = Some (''3D000'', ''no such database'')\<rparr>), ?w)"
    by (simp add: run_Open demo_world_def Let_def)
  have n: "cluster_next default_flags (fst (run_state (Open (cfg (cluster_flags default_flags))) demo_world)) =
      (default_flags, [])"
    unfolding o by (simp add: cluster_next_def MissingDatabase_def openError_def)
  have x: "fst (run_state (Open (cfg default_flags)) ?w) = Inr demo_conn"
    by (simp add: run_Open demo_world_def Let_def)
  have ident: "\<exists>info. run_state (Identify now (cfg default_flags)) demo_conn =
      (Inr info, demo_conn\<lparr>Conn.Sent := [(IdentifySQL, [])]\<rparr>)" for now
    by (simp add: Identify_def demo_conn_def)
  have "exited.Code (finish (fst (run_state (diagnose demo_env default_flags demo_build) ?w))) = 0"
    using x ident [of "World.Now (snd (run_state (Open (cfg default_flags)) ?w))"]
    by (auto simp: diagnose_def split_beta Let_def write_report_def report_output_def finish_def demo_verdict
        ExitCode_def default_flags_def demo_env_def)
  moreover have "parse demo_env [] = Parsed default_flags (ClusterCmd False)" by (rule demo_parse)
  ultimately show ?thesis
    using n by (simp add: run_kbdiag_parsed execute_def default_flags_def [THEN arg_cong [of _ _ "\<lambda>g. Config.QueryTimeout (cfg g)"]]
        usage_error_def run_command_def run_cluster_eq o demo_build_def)
qed


theorem cluster_exit_0_witness:
  "\<exists>rep. report_output demo_env False rep = Inr (exited.Out (run_kbdiag demo_env [] demo_world)) \<and>
     Report.Verdict rep = VerdictOK"
proof -
  have "parse demo_env [] = Parsed default_flags (ClusterCmd False)" by (rule demo_parse)
  from cluster_exit_0 [OF this demo_run] show ?thesis by (auto simp: default_flags_def)
qed

section \<open>The connection string\<close>

text \<open>
  C26. The connection string says what the flags say: read as \<open>libpq\<close> documents, it gives the host (the
  default socket directory when none was given), the port, the user and the database, each exactly
  as it was typed, whatever spaces, quotes, backslashes or equals signs are in it; no value can
  add a setting of its own.
\<close>

theorem dsn_roundtrip:
  "read_dsn (dsn c) = Some
     [(''host'', if Config.Host c = [] then ''/tmp'' else Config.Host c), (''port'', fmt_d (sint (Config.Port c))),
      (''user'', Config.User c), (''dbname'', Config.DBName c)]"
proof -
  have "read_dsn (dsn c) = Some (settings c)"
    unfolding dsn_def by (rule read_dsn_join) (simp add: settings_def setting_key_def)
  then show ?thesis by (simp add: settings_def defaultSocketDir_def)
qed

end
