(* ===== verification/RunText.thy ===== *)
theory RunText
  imports TextSpec MainSpec
begin

text \<open>
  What a whole run prints on a terminal: the reports the commands build are plain but for what is
  escaped, so the text on the standard output is clean.
\<close>

section \<open>Findings\<close>

abbreviation plain_next :: "Next \<Rightarrow> bool" where
  "plain_next n \<equiv> clean (Next.Kind n)"

abbreviation plain_findings :: "Finding list \<Rightarrow> bool" where
  "plain_findings \<equiv> list_all plain_finding"

lemma plain_finding_simps [simp]:
  "plain_finding (finding i l symptom probe ev next) \<longleftrightarrow> clean i \<and> list_all plain_next next"
  "plain_finding (bare_finding i l symptom) \<longleftrightarrow> clean i"
  "plain_next (verify command note)" "plain_next (fix_sql sql note)"
  by (simp_all add: plain_finding_def finding_def bare_finding_def verify_def fix_sql_def)

lemma plain_scan: "(\<And>x. plain_findings (fst (row x))) \<Longrightarrow> plain_findings (Result.Findings (scan_rule row st xs))"
  by (auto simp: scan_rule_findings list_all_iff)

lemma plain_Merge: "list_all (\<lambda>r. plain_findings (Result.Findings r)) rs \<Longrightarrow> plain_findings (Result.Findings (Merge rs))"
  by (auto simp: Merge_def list_all_iff)

lemma plain_of_option [simp]: "list_all P (of_option f) \<longleftrightarrow> (case f of None \<Rightarrow> True | Some x \<Rightarrow> P x)"
  by (simp add: of_option_def split: option.split)

lemma plain_session_rules [simp]:
  "plain_findings (Result.Findings (Sessions a th))" "plain_findings (Result.Findings (Locks l th))"
  "plain_findings (Result.Findings (longTxn a th))" "plain_findings (Result.Findings (prepared p th))"
proof -
  have "plain_finding (idle_finding s st age)" "plain_finding (lockWaiting x pid wait)" "plain_finding (txn_finding s age)"
    "plain_finding (prepared_finding y)" for s st age x pid wait y
    by (simp_all add: idle_finding_def lockWaiting_def lock_next_def txn_finding_def prepared_finding_def
        prepared_fix_def Let_def)
  then show "plain_findings (Result.Findings (Sessions a th))" "plain_findings (Result.Findings (Locks l th))"
    "plain_findings (Result.Findings (longTxn a th))" "plain_findings (Result.Findings (prepared p th))"
    unfolding Sessions_scan Locks_def longTxn_def prepared_def
    by (auto intro!: plain_scan simp: sessions_row_eq locks_row_eq txn_row_eq prepared_row_eq)
qed

lemma plain_Txn [simp]: "plain_findings (Result.Findings (Txn a p th))"
  by (simp add: Txn_def plain_Merge)

lemma plain_upstream: "case fst (upstream u) of None \<Rightarrow> True | Some f \<Rightarrow> plain_finding f"
proof -
  have "plain_finding no_receiver" "plain_finding (not_streaming x st)" "plain_finding (stuck_receiver x st age t)" for x st age t
    by (simp_all add: no_receiver_def not_streaming_def stuck_receiver_def upstream_next_def)
  then have "case fst (receiver_rows xs) of None \<Rightarrow> True | Some f \<Rightarrow> plain_finding f" for xs
    by (induction xs) (auto simp: receiver_row_def split: option.splits receiver.splits if_splits)
  moreover have "plain_finding no_receiver" by (simp add: no_receiver_def upstream_next_def)
  ultimately show ?thesis by (simp add: upstream_def split_beta)
qed

lemma plain_instance_rules [simp]:
  "plain_findings (Result.Findings (Waits w))" "plain_findings (Result.Findings (Display h sts))"
  "plain_findings (Result.Findings (Status_rule i d n u))" "plain_findings (Result.Findings (Slots l))"
  "plain_findings (Result.Findings (Space db t wal disk))"
proof -
  have "list_all plain_finding (of_option (connections x))" for x
    by (simp add: connections_def Let_def)
  then show "plain_findings (Result.Findings (Status_rule i d n u))"
    using plain_upstream [of u]
    by (auto simp: Status_rule_def split_beta Let_def list_all_iff split: option.splits)
  show "plain_findings (Result.Findings (Slots l))"
    unfolding Slots_def by (rule plain_scan) (simp add: slots_row_def slot_finding_def)
  have "plain_finding (disk_full seg f)" for seg f by (simp add: disk_full_def)
  then show "plain_findings (Result.Findings (Space db t wal disk))"
    by (simp add: Space_def Let_def Display_def split: option.split)
qed (simp_all add: Waits_def Display_def split_beta)

lemma plain_ageFinding: "clean i \<Longrightarrow> ageFinding i what xid mxid lm = (Some f, blind) \<Longrightarrow> clean (Finding.ID f)"
  by (auto simp: ageFinding_def Let_def split: if_splits)

lemma plain_freezeNext [simp]: "list_all plain_next (freezeNext uni db allowConn role stopped)"
  by (simp add: freezeNext_def Let_def)

lemma plain_Freeze [simp]: "plain_findings (Result.Findings (Freeze uni db l role))"
  unfolding Freeze_def
  by (rule plain_scan) (auto simp: freeze_row_def plain_finding_def split: prod.split option.split
      dest: plain_ageFinding [rotated])

lemma plain_Vacuum [simp]: "plain_findings (Result.Findings (Vacuum t s role db))"
proof -
  have "plain_finding (table_disabled x th db)" "plain_finding (vacuumDisabled st)" for x th st
    by (simp_all add: table_disabled_def vacuum_fix_def vacuumDisabled_def)
  then show ?thesis by (simp add: Vacuum_findings split: option.split)
qed

lemma plain_Table [simp]: "plain_findings (Result.Findings (Table i s l v role db))"
proof -
  have "plain_finding (table_stat_disabled t x th db)" "plain_finding (vacuumDisabled st)" for t x th st
    by (simp_all add: table_stat_disabled_def tableFix_def vacuumDisabled_def)
  then have "plain_findings (table_stats t s v db)" for t
    by (simp add: table_stats_def Let_def split_beta split: option.split list.split)
  moreover have "plain_findings (fst (table_age t l db))" for t
    by (auto simp: table_age_def Let_def plain_finding_def tableFix_def split: prod.split option.split
        dest: plain_ageFinding [rotated])
  ultimately show ?thesis by (simp add: Table_def split_beta Let_def split: list.split)
qed

lemma plain_seq_rules [simp]:
  "plain_findings (Result.Findings (Seq l role))"
  "plain_findings (Result.Findings (Archive s role))"
  "plain_findings (Result.Findings (Params p))"
proof -
  have "plain_finding (seq_finding x cur)" "plain_finding (archive_finding a)" "plain_finding (param_finding y)" for x cur a y
    by (simp_all add: seq_finding_def seqFix_def Let_def archive_finding_def param_finding_def)
  then show "plain_findings (Result.Findings (Seq l role))" "plain_findings (Result.Findings (Archive s role))"
    "plain_findings (Result.Findings (Params p))"
    by (simp_all add: Seq_findings Archive_def Params_findings ok_result_def split_beta Let_def split: list.split)
qed

lemma plain_replication_rules [simp]:
  "plain_findings (Result.Findings (Repl orbit d sy u r))"
  "plain_findings (Result.Findings (Cluster orbit n d' cs role))"
proof -
  have "plain_finding (short_finding names commit need streaming)" "plain_finding (paused_finding p)" for names commit need streaming p
    by (simp_all add: short_finding_def paused_finding_def)
  then have "case fst (syncShort orbit d sy) of None \<Rightarrow> True | Some f \<Rightarrow> plain_finding f"
    by (simp add: syncShort_def split_beta Let_def split: list.split option.split)
  with \<open>\<And>p. plain_finding (paused_finding p)\<close> show "plain_findings (Result.Findings (Repl orbit d sy u r))"
    using plain_upstream [of u] by (simp add: Repl_def split_beta Let_def)
  have "plain_finding (primaries_finding ps)" "plain_finding (inactive_finding x)" "plain_finding (role_finding x role)"
    "plain_finding (detached_finding x y)" for ps x y
    by (simp_all add: primaries_finding_def inactive_finding_def role_finding_def detached_finding_def)
  moreover have "list_all plain_finding (of_option (syncDegraded orbit c n i dj me))" for c i dj me
    by (simp add: syncDegraded_def Let_def)
  then have "plain_findings (if sj then (case coll.Rows cs of [x] \<Rightarrow> of_option (syncDegraded orbit x n d' dj me) | _ \<Rightarrow> [])
      else [])" for sj dj me
    by (auto split: list.split)
  ultimately show "plain_findings (Result.Findings (Cluster orbit n d' cs role))"
    unfolding Cluster_def Let_def split_beta by (auto split: option.split)
qed


section \<open>Reports\<close>

text \<open>The names of the probes and of their columns are the program's own.\<close>

lemma clean_probe_ids [simp]:
  "clean InstInfoID" "clean InstDatabasesID" "clean InstDownstreamsID" "clean InstUpstreamID" "clean InstDiskID"
  "clean WALPositionID" "clean ArchiveStatusID" "clean ArchiveReadyID" "clean CheckpointStatsID"
  "clean CheckpointLastID" "clean CheckpointSettingsID" "clean ParamsChangedID" "clean ReplDownstreamsID"
  "clean ReplSyncID" "clean ReplReplayID" "clean ClusterNodesID" "clean ClusterEventsID" "clean ClusterSyncID"
  "clean SpaceTablespacesID" "clean SpaceWALID" "clean SpaceDiskID" "clean FreezeDatabasesID"
  "clean FreezeTablesID" "clean FreezeLimitsID" "clean VacuumTablesID" "clean VacuumProgressID"
  "clean VacuumSettingsID" "clean TableInfoID" "clean TableSizeID" "clean TableStatsID" "clean TableIndexesID"
  "clean ObjectTablesID" "clean ObjectIndexesID" "clean SeqListID" "clean SQLTopID" "clean ProgressListID"
  "clean ProgressCheckpointID"
  by (simp_all add:
      InstInfoID_def InstDatabasesID_def InstDownstreamsID_def InstUpstreamID_def InstDiskID_def WALPositionID_def
      ArchiveStatusID_def ArchiveReadyID_def CheckpointStatsID_def CheckpointLastID_def CheckpointSettingsID_def
      ParamsChangedID_def ReplDownstreamsID_def ReplSyncID_def ReplReplayID_def ClusterNodesID_def
      ClusterEventsID_def ClusterSyncID_def SpaceTablespacesID_def SpaceWALID_def SpaceDiskID_def
      FreezeDatabasesID_def FreezeTablesID_def FreezeLimitsID_def VacuumTablesID_def VacuumProgressID_def
      VacuumSettingsID_def TableInfoID_def TableSizeID_def TableStatsID_def TableIndexesID_def ObjectTablesID_def
      ObjectIndexesID_def SeqListID_def SQLTopID_def ProgressListID_def ProgressCheckpointID_def)

lemma cleans_columns [simp]:
  "cleans InfoColumns" "cleans DatabaseColumns" "cleans DownstreamsColumns" "cleans UpstreamColumns"
  "cleans DiskColumns" "cleans SlotColumns" "cleans WALPositionColumns" "cleans ArchiveStatusColumns"
  "cleans ArchiveReadyColumns" "cleans CheckpointStatsColumns" "cleans CheckpointLastColumns"
  "cleans CheckpointSettingsColumns" "cleans ParamColumns" "cleans ReplDownstreamColumns" "cleans ReplSyncColumns"
  "cleans ReplReplayColumns" "cleans ClusterNodeColumns" "cleans ClusterEventColumns" "cleans ClusterSyncColumns"
  "cleans SessionColumns" "cleans LockColumns" "cleans PreparedColumns" "cleans WaitColumns"
  "cleans TablespaceColumns" "cleans WALColumns" "cleans SpaceDiskColumns" "cleans FreezeDatabaseColumns"
  "cleans FreezeTableColumns" "cleans FreezeLimitColumns" "cleans VacuumTableColumns"
  "cleans VacuumProgressColumns" "cleans VacuumSettingColumns" "cleans TableInfoColumns" "cleans TableSizeColumns"
  "cleans TableStatsColumns" "cleans TableIndexColumns" "cleans ObjectTableColumns" "cleans ObjectIndexColumns"
  "cleans SeqColumns" "cleans TopColumns" "cleans ProgressColumns"
  by (simp_all add:
      InfoColumns_def DatabaseColumns_def DownstreamsColumns_def UpstreamColumns_def DiskColumns_def
      SlotColumns_def WALPositionColumns_def ArchiveStatusColumns_def ArchiveReadyColumns_def
      CheckpointStatsColumns_def CheckpointLastColumns_def CheckpointSettingsColumns_def ParamColumns_def
      ReplDownstreamColumns_def ReplSyncColumns_def ReplReplayColumns_def ClusterNodeColumns_def
      ClusterEventColumns_def ClusterSyncColumns_def SessionColumns_def LockColumns_def PreparedColumns_def
      WaitColumns_def TablespaceColumns_def WALColumns_def SpaceDiskColumns_def FreezeDatabaseColumns_def
      FreezeTableColumns_def FreezeLimitColumns_def VacuumTableColumns_def VacuumProgressColumns_def
      VacuumSettingColumns_def TableInfoColumns_def TableSizeColumns_def TableStatsColumns_def
      TableIndexColumns_def ObjectTableColumns_def ObjectIndexColumns_def SeqColumns_def TopColumns_def
      ProgressColumns_def)

lemma plain_redactions [simp]:
  "clean i \<Longrightarrow> cleans cols \<Longrightarrow> clean reason \<Longrightarrow> list_all plain_redaction (redactions i cols reason n)"
  by (simp add: redactions_def plain_redaction_def list_all_iff)

lemma plain_redacted_probes [simp]:
  "list_all plain_redaction (InstDatabases_Redacted x1)"
  "list_all plain_redaction (InstDownstreams_Redacted x2)" "list_all plain_redaction (InstUpstream_Redacted x3)"
  "list_all plain_redaction (ParamsChanged_Redacted x4)" "list_all plain_redaction (SessionActivity_Redacted x5)"
  "list_all plain_redaction (LockList_Redacted x6)" "list_all plain_redaction (WaitSummary_Redacted x7)"
  "list_all plain_redaction (SpaceTablespaces_Redacted x8)"
  "list_all plain_redaction (VacuumProgress_Redacted x9)" "list_all plain_redaction (SeqList_Redacted x10)"
  "list_all plain_redaction (SQLTop_Redacted x11)"
  "clean i \<Longrightarrow> list_all plain_redaction (ProgressList_Redacted i pl)"
  by (simp_all add: ReasonInsufficientPrivilege_def ReasonTrackActivitiesOff_def maskedSessionColumns_def
      untrackedSessionColumns_def redactedWaitColumns_def
      InstDatabases_Redacted_def InstDownstreams_Redacted_def InstUpstream_Redacted_def
      ParamsChanged_Redacted_def SessionActivity_Redacted_def LockList_Redacted_def WaitSummary_Redacted_def
      SpaceTablespaces_Redacted_def VacuumProgress_Redacted_def SeqList_Redacted_def SQLTop_Redacted_def
      ProgressList_Redacted_def)

definition plain_info :: "Context \<Rightarrow> bool" where
  "plain_info c \<longleftrightarrow> clean (Context.Role c) \<and> clean (Context.Location c)"

lemma plain_New [simp]:
  "plain_report (New cmd c r) \<longleftrightarrow> clean cmd \<and> plain_info c \<and> plain_findings (Result.Findings r)"
  by (auto simp: plain_report_def plain_context_def shown_context_def plain_info_def plain_data_def plain_view_def
      clean_format_rfc3339)

lemma plain_AddProbe [simp]:
  assumes "plain_report rep" and "clean i" and "cleans cols"
  shows "plain_report (AddProbe i st reason cols xs limit rep)"
proof -
  have "plain_data ps \<Longrightarrow> cleans (Probe.Columns p) \<Longrightarrow> plain_data (AList.update i p ps)" for ps p
    using assms(2) by (induction ps) (auto simp: plain_data_def)
  with assms show ?thesis by (simp add: plain_report_def AddProbe_def new_probe_def Let_def)
qed

lemma plain_add_probe [simp]:
  "plain_report rep \<Longrightarrow> clean i \<Longrightarrow> cleans cols \<Longrightarrow> plain_report (add_probe i cols row c limit rep)"
  by (simp add: add_probe_def)

lemma plain_AddRedacted [simp]:
  "plain_report rep \<Longrightarrow> list_all plain_redaction rs \<Longrightarrow> plain_report (AddRedacted rs rep)"
  by (simp add: plain_report_def)

lemma plain_set_view [simp]: "plain_report rep \<Longrightarrow> plain_view v \<Longrightarrow> plain_report (set_view v rep)"
  by (simp add: plain_report_def)

lemma plain_session_reports [simp]:
  assumes "plain_info c"
  shows "plain_report (Sessions_report c a opt)"
    "list_all plain_lock (coll.Rows l) \<Longrightarrow> plain_report (fst (Session_report c a l pid th))"
    "list_all plain_lock (coll.Rows l) \<Longrightarrow> plain_report (Locks_report c l limit th)"
    "plain_report (Txn_report c a tp limit th)" "plain_report (Waits_report c ws)"
proof -
  have "plain_finding f \<Longrightarrow> plain_finding (drop_self self f)" for self f
    by (simp add: plain_finding_def drop_self_def)
  then have "plain_findings fs \<Longrightarrow> plain_findings (map (drop_self self) fs)" for self fs
    by (simp add: list_all_iff)
  then show "list_all plain_lock (coll.Rows l) \<Longrightarrow> plain_report (fst (Session_report c a l pid th))"
    using assms by (simp add: Session_report_def Let_def plain_view_def locks_of_def plain_Merge)
qed (use assms in \<open>simp_all add: Sessions_report_def Locks_report_def Txn_report_def Waits_report_def Let_def
      plain_view_def\<close>)

lemma plain_instance_reports [simp]:
  assumes "plain_info c"
  shows "plain_report (Status_report c i d n u disk)" "plain_report (Slots_report c sl)"
    "list_all plain_mount (coll.Rows mounts) \<Longrightarrow> plain_report (Space_report c d ts wal mounts)"
    "plain_report (Archive_report c ar aq)" "plain_report (Checkpoint_report c k1 k2 k3)"
    "plain_report (Params_report c ps)" "plain_report (WAL_report c pos wal sl aq)"
    "plain_report (Repl_report orbit c rd rs u rr)" "plain_report (Cluster_report orbit c cn ce n cs)"
  using assms by (simp_all add: Status_report_def Slots_report_def Space_report_def Archive_report_def
      Checkpoint_report_def Params_report_def WAL_report_def Repl_report_def Cluster_report_def Let_def plain_view_def)

lemma plain_table_reports [simp]:
  assumes "plain_info c"
  shows "plain_report (Freeze_report uni c fd ft fl limit)" "plain_report (Vacuum_report c vt vp vs limit)"
    "list_all plain_table (coll.Rows ti) \<Longrightarrow> plain_report (fst (Table_report c ti tz tst ix fl vs))"
    "plain_report (TopObjects_report c ot oi limit)" "plain_report (Top_report c st limit by)"
    "plain_report (Progress_report c pl pc)" "plain_report (Seq_report c sq limit)"
proof -
  have "clean (orEmpty (map_of TopOrders by))"
    by (simp add: orEmpty_def TopOrders_def)
  then show "plain_report (Top_report c st limit by)"
    using assms by (simp add: Top_report_def Let_def plain_view_def)
  have "table_found ti \<Longrightarrow> coll.Status ti = StatusOK \<Longrightarrow> coll.Rows ti \<noteq> []"
    by (auto simp: table_found_def)
  then show "list_all plain_table (coll.Rows ti) \<Longrightarrow> plain_report (fst (Table_report c ti tz tst ix fl vs))"
    using assms by (simp add: Table_report_def Let_def plain_view_def)
qed (use assms in \<open>simp_all add: Freeze_report_def Vacuum_report_def TopObjects_report_def Progress_report_def
      Seq_report_def Let_def plain_view_def\<close>)


section \<open>What the server says in its own words\<close>

text \<open>
  Two things are printed as the server sends them: the names of lock modes, and the letter that says what
  kind a relation is. KES has a fixed list of both, in plain ASCII.
\<close>

definition plain_server :: "Conn \<Rightarrow> bool" where
  "plain_server x \<longleftrightarrow>
     (\<forall>sent xs. AskLocks x sent = Collected xs \<longrightarrow> list_all plain_lock xs) \<and>
     (\<forall>sent xs. AskTableInfo x sent = Collected xs \<longrightarrow> list_all plain_table xs)"

definition plain_world :: "World \<Rightarrow> bool" where
  "plain_world w \<longleftrightarrow> (\<forall>sent x. World.ConnectConfig w sent = Inr x \<longrightarrow> plain_server x)"

lemma plain_sent [simp]: "plain_server (x\<lparr>Conn.Sent := sent\<rparr>) \<longleftrightarrow> plain_server x"
  by (simp add: plain_server_def)

lemma plain_sent_by: "sent_by x y new \<Longrightarrow> plain_server x \<Longrightarrow> plain_server y"
  by (simp add: sent_by_def)

lemma plain_LockList [simp]: "plain_server x \<Longrightarrow> list_all plain_lock (coll.Rows (fst (run_state LockList_probe x)))"
  by (simp add: LockList_probe_def rows_reply plain_server_def split: reply.split)

lemma plain_TableInfo [simp]:
  "plain_server x \<Longrightarrow> list_all plain_table (coll.Rows (fst (run_state (TableInfo_probe rel) x)))"
  by (simp add: TableInfo_probe_def rows_reply plain_server_def split: reply.split)

lemma plain_after_activity [simp]: "plain_server x \<Longrightarrow> plain_server (snd (run_state SessionActivity_probe x))"
  using session_activity.asks_only [of x] plain_sent_by by blast

lemma plain_mounts [simp]: "list_all plain_mount (coll.Rows (SpaceDisk_probe os i t socket loopback))"
proof -
  have loop: "list_all plain_mount out \<Longrightarrow> list_all (\<lambda>p. clean (fst p)) ps \<Longrightarrow>
      list_all plain_mount (coll.Rows (disk_loop os ps out bad))" for ps out bad
    by (induction ps arbitrary: out bad) (auto simp: plain_mount_def split: sum.split)
  have "list_all (\<lambda>p. clean (fst p)) (tablespace_paths t)"
    by (auto simp: list_all_iff dest: tablespace_paths_kind)
  then show ?thesis
    by (auto simp: SpaceDisk_probe_def Let_def plain_mount_def intro!: loop split: sum.split)
qed

section \<open>Commands\<close>

text \<open>What \<open>diagnose\<close> relies on to print a report safely.\<close>

locale plain_build = command_build +
  assumes plain: "plain_server x \<Longrightarrow> plain_info info \<Longrightarrow> plain_report (fst (fst (run_state (build info) x)))"
begin

lemma prints_clean:
  assumes w: "plain_world w" and shown: "\<not> json g"
  shows "clean (ran.Stdout (fst (run_state (diagnose env g build) w)))"
proof -
  have out: "clean (snd (write_report env (json g) rep))" if "plain_report rep" for rep
    using clean_WriteText [of rep] that shown
    by (simp add: write_report_def report_output_def Let_def split: option.split)
  obtain r w' where o: "run_state (Open (cfg g)) w = (r, w')" by fastforce
  show ?thesis
  proof (cases r)
    case (Inl e)
    then show ?thesis by (simp add: diagnose_def o failed_def)
  next
    case (Inr x)
    then have x: "plain_server x"
      using o w by (auto simp: run_Open Let_def plain_world_def split: sum.splits)
    obtain i y where i: "run_state (Identify (World.Now w') (cfg g)) x = (i, y)" by fastforce
    then have y: "plain_server y" using x by (auto simp: Identify_def)
    show ?thesis
    proof (cases i)
      case (Inl e)
      then show ?thesis by (simp add: diagnose_def o i failed_def \<open>r = Inr x\<close>)
    next
      case (Inr info)
      then have "plain_info info"
        using i by (auto simp: Identify_def plain_info_def split: sum.splits)
      then have "clean (snd (write_report env (json g) (fst (fst (run_state (build info) y)))))"
        by (intro out plain y)
      then show ?thesis using Inr by (simp add: diagnose_def o i \<open>r = Inr x\<close> split_beta Let_def)
    qed
  qed
qed

end

lemmas plain_build_simps = silent_def split_beta Let_def

interpretation sessions_text: plain_build "sessions_build opt"
  by unfold_locales (simp_all add: sessions_build_def plain_build_simps)

interpretation session_text: plain_build "session_build pid th"
  by unfold_locales (simp_all add: session_build_def plain_build_simps)

interpretation locks_text: plain_build "locks_build limit th"
  by unfold_locales (simp_all add: locks_build_def plain_build_simps)

interpretation txn_text: plain_build "txn_build limit th"
  by unfold_locales (simp_all add: txn_build_def plain_build_simps)

interpretation waits_text: plain_build "waits_build"
  by unfold_locales (simp_all add: waits_build_def plain_build_simps)

interpretation status_text: plain_build "status_build os c"
  by unfold_locales (simp_all add: status_build_def plain_build_simps)

interpretation slots_text: plain_build "slots_build"
  by unfold_locales (simp_all add: slots_build_def plain_build_simps)

interpretation space_text: plain_build "space_build os c"
  by unfold_locales (simp_all add: space_build_def plain_build_simps)

interpretation freeze_text: plain_build "freeze_build letter limit"
  by unfold_locales (simp_all add: freeze_build_def plain_build_simps)

interpretation vacuum_text: plain_build "vacuum_build limit"
  by unfold_locales (simp_all add: vacuum_build_def plain_build_simps)

interpretation archive_text: plain_build "archive_build"
  by unfold_locales (simp_all add: archive_build_def plain_build_simps)

interpretation params_text: plain_build "params_build"
  by unfold_locales (simp_all add: params_build_def plain_build_simps)

interpretation repl_text: plain_build "repl_build orbit"
  by unfold_locales (simp_all add: repl_build_def plain_build_simps)

interpretation cluster_text: plain_build "cluster_build os orbit c skip explicit"
  by unfold_locales (simp_all add: cluster_build_def plain_build_simps)

interpretation top_objects_text: plain_build "top_objects_build limit"
  by unfold_locales (simp_all add: top_objects_build_def plain_build_simps)

interpretation table_text: plain_build "table_build printable rel"
  by unfold_locales (simp_all add: table_build_def plain_build_simps)

interpretation top_text: plain_build "top_build sanitize limit by"
  by unfold_locales (simp_all add: top_build_def plain_build_simps)

interpretation progress_text: plain_build "progress_build"
  by unfold_locales (simp_all add: progress_build_def plain_build_simps)

interpretation checkpoint_text: plain_build "checkpoint_build"
  by unfold_locales (simp_all add: checkpoint_build_def plain_build_simps)

interpretation wal_text: plain_build "wal_build"
  by unfold_locales (simp_all add: wal_build_def plain_build_simps)

interpretation seq_text: plain_build "seq_build limit"
  by unfold_locales (simp_all add: seq_build_def plain_build_simps)

section \<open>The run\<close>

lemma plain_Open: "plain_world (snd (run_state (Open c) w)) \<longleftrightarrow> plain_world w"
  by (simp add: run_Open Let_def plain_world_def split: sum.split)

lemma clean_command:
  assumes w: "plain_world w" and shown: "\<not> json g"
  shows "clean (ran.Stdout (fst (run_state (run_command env g cmd) w)))"
proof -
  have "clean (ran.Stdout (fst (run_state (run_cluster env g explicit) w)))" for explicit
  proof (cases explicit)
    case False
    obtain r w1 where o: "run_state (Open (cfg (cluster_flags g))) w = (r, w1)" by fastforce
    then have w1: "plain_world w1" using w plain_Open [of "cfg (cluster_flags g)" w] by simp
    obtain g' skip where c: "cluster_next g r = (g', skip)" by fastforce
    then have "\<not> json g'" using shown by (auto simp: cluster_next_def json_cluster split: sum.splits if_splits)
    with False o c show ?thesis by (simp add: run_cluster_eq cluster_text.prints_clean [OF w1])
  qed (simp add: run_cluster_eq cluster_text.prints_clean [OF w shown])
  then show ?thesis
    using sessions_text.prints_clean [OF w shown] session_text.prints_clean [OF w shown]
      locks_text.prints_clean [OF w shown] txn_text.prints_clean [OF w shown]
      waits_text.prints_clean [OF w shown] status_text.prints_clean [OF w shown]
      slots_text.prints_clean [OF w shown] space_text.prints_clean [OF w shown]
      freeze_text.prints_clean [OF w shown] vacuum_text.prints_clean [OF w shown]
      archive_text.prints_clean [OF w shown] params_text.prints_clean [OF w shown]
      repl_text.prints_clean [OF w shown] top_objects_text.prints_clean [OF w shown]
      table_text.prints_clean [OF w shown] top_text.prints_clean [OF w shown]
      progress_text.prints_clean [OF w shown] checkpoint_text.prints_clean [OF w shown]
      wal_text.prints_clean [OF w shown] seq_text.prints_clean [OF w shown]
    by (cases cmd) (simp_all add: run_command_def)
qed



end
