(* ===== verification/LayoutSpec.thy ===== *)
theory LayoutSpec
  imports TextClean TextTxn
begin

text \<open>
  What a reader relies on in the layouts: columns that line up, sessions that are counted once, and the
  oldest transaction found across the wrap-around of transaction ids.
\<close>

section \<open>The oldest transaction\<close>

text \<open>Two offsets of less than half the circle compare as numbers.\<close>

lemma half_circle_less:
  fixes u v :: uint32
  assumes "uint u < 2 ^ 31" and "uint v < 2 ^ 31"
  shows "sint (u - v) < 0 \<longleftrightarrow> uint u < uint v"
proof -
  have "u - v = word_of_int (uint u - uint v)" by (simp flip: word_of_int_uint)
  moreover have "0 \<le> uint u" "0 \<le> uint v" by simp_all
  then have "- (2 ^ 31) \<le> uint u - uint v" "uint u - uint v < 2 ^ 31" using assms by linarith+
  ultimately have "sint (u - v) = uint u - uint v" using sint_word_of_int32 [of "uint u - uint v"] by simp
  then show ?thesis by linarith
qed

lemma olderXID_offset:
  assumes "uint (a - base) < 2 ^ 31" and "uint (b - base) < 2 ^ 31"
  shows "olderXID a b \<longleftrightarrow> uint (a - base) < uint (b - base)"
  using half_circle_less [OF assms] by (simp add: olderXID_def)

text \<open>
  C32. The oldest transaction id \<open>txn\<close> shows is the oldest one, also across the wrap-around: when all ids
  lie within half the circle from some id on, as the server keeps them, it is one of them and no
  other is closer to that start.
\<close>

theorem oldest_xid_first:
  assumes "xs \<noteq> []" and "list_all (\<lambda>x. uint (x - base) < 2 ^ 31) xs"
  shows "oldest_xid xs \<in> set xs \<and> list_all (\<lambda>x. uint (oldest_xid xs - base) \<le> uint (x - base)) xs"
proof -
  let ?d = "\<lambda>x. uint (x - base)" and ?f = "\<lambda>old x. if olderXID x old then x else old"
  have "foldl ?f old ys \<in> insert old (set ys) \<and> (\<forall>x\<in>insert old (set ys). ?d (foldl ?f old ys) \<le> ?d x)"
    if "\<forall>x\<in>insert old (set ys). ?d x < 2 ^ 31" for old ys
    using that
  proof (induction ys arbitrary: old)
    case (Cons y ys)
    have "olderXID y old \<longleftrightarrow> ?d y < ?d old" using Cons.prems by (intro olderXID_offset) auto
    with Cons.IH [of "?f old y"] Cons.prems show ?case by force
  qed simp
  from this [of "hd xs" "tl xs"] assms show ?thesis
    by (cases xs) (auto simp: oldest_xid_def list_all_iff)
qed

theorem oldest_xid_first_witness:
  "oldest_xid [5, 0xFFFFFFFE, 900] = 0xFFFFFFFE"
proof -
  have "list_all (\<lambda>x. uint (x - 0xFFFFFFF0) < 2 ^ 31) [5, 0xFFFFFFFE, 900 :: uint32]" by simp
  from oldest_xid_first [OF _ this] show ?thesis by auto
qed

section \<open>Waits\<close>

text \<open>
  C33. \<open>waits\<close> counts every session once: the busy, idle, background, hidden and untracked ones add up to
  all that were read, the groups that are shown are the busy ones, and none of them is idle,
  untracked or waiting for work.
\<close>

theorem waits_counted_once:
  "let n = count_waits gs in
     busy n + idle n + background n + hidden n + untracked n = sum_list (map Wait.Sessions gs) \<and>
     busy n = sum_list (map (\<lambda>g. Wait.Sessions g - Wait.Masked g) (shown n)) \<and>
     list_all (\<lambda>g. Wait.Sessions g \<noteq> Wait.Masked g \<and> Wait.State g \<notin> {Some ''idle'', Some ''disabled''} \<and>
       Wait.WaitEventType g \<noteq> Some ''Activity'') (shown n)"
proof -
  have "let n = foldl count_wait n0 gs in
     busy n + idle n + background n + hidden n + untracked n =
       busy n0 + idle n0 + background n0 + hidden n0 + untracked n0 + sum_list (map Wait.Sessions gs)" for n0
    by (induction gs arbitrary: n0) (simp_all add: count_wait_def Let_def)
  from this [of "\<lparr>busy = 0, idle = 0, background = 0, hidden = 0, untracked = 0, shown = []\<rparr>"]
  have "let n = count_waits gs in
     busy n + idle n + background n + hidden n + untracked n = sum_list (map Wait.Sessions gs)"
    by (simp add: count_waits_def Let_def)
  moreover have "let n = count_waits gs in
     busy n = sum_list (map (\<lambda>g. Wait.Sessions g - Wait.Masked g) (shown n)) \<and>
     list_all (\<lambda>g. Wait.Sessions g \<noteq> Wait.Masked g \<and> Wait.State g \<notin> {Some ''idle'', Some ''disabled''} \<and>
       Wait.WaitEventType g \<noteq> Some ''Activity'') (shown n)"
    unfolding count_waits_def
    by (induction gs rule: rev_induct) (auto simp: count_wait_def Let_def without_background_def)
  ultimately show ?thesis by (simp add: Let_def)
qed

section \<open>Tables\<close>

lemma displayWidth_append: "valid_string s \<Longrightarrow> displayWidth wide (s @ t) = displayWidth wide s + displayWidth wide t"
  by (simp add: displayWidth_def runes_append)

lemma displayWidth_spaces:
  assumes "\<not> wide 32"
  shows "displayWidth wide (replicate n (CHR '' '')) = n"
proof -
  have "runes (replicate n (CHR '' '')) = replicate n 32"
    by (subst runes_of_ascii) (simp_all add: byte_def)
  with assms show ?thesis by (simp add: displayWidth_def rune_width_def sum_list_replicate)
qed

lemma valid_spaces [simp]: "valid_string (replicate n (CHR '' ''))"
  by (rule valid_ascii) (simp add: byte_def)

text \<open>The width of a column: that of its widest cell.\<close>

definition column_width :: "(nat \<Rightarrow> bool) \<Rightarrow> string list list \<Rightarrow> nat \<Rightarrow> nat" where
  "column_width wide rows k = Max ((\<lambda>r. displayWidth wide (r ! k)) ` {r \<in> set rows. k < length r})"

lemma widen_nth: "k < length ws \<Longrightarrow> widen ws ds ! k = (if k < length ds then max (ws ! k) (ds ! k) else ws ! k)"
proof (induction ws ds arbitrary: k rule: widen.induct)
  case (1 w ws d ds)
  then show ?case by (cases k) simp_all
qed simp_all

lemma length_widen [simp]: "length (widen ws ds) = length ws"
  by (induction ws ds rule: widen.induct) simp_all

lemma Max_insert_max:
  fixes a b :: "'a :: linorder"
  shows "finite A \<Longrightarrow> Max (insert (max a b) A) = max a (Max (insert b A))"
  by (cases "A = {}") (simp_all add: max.assoc)

lemma foldl_widen:
  "length (foldl (\<lambda>ws r. widen ws (map f r)) ws rows) = length ws"
  "k < length ws \<Longrightarrow> foldl (\<lambda>ws r. widen ws (map f r)) ws rows ! k =
     Max (insert (ws ! k) ((\<lambda>r. f (r ! k)) ` {r \<in> set rows. k < length r}))"
proof (induction rows arbitrary: ws)
  case (Cons r rows)
  { case 1 then show ?case by (simp add: Cons.IH(1)) }
  { case 2
    have "{x \<in> set (r # rows). k < length x} = (if k < length r then {r} else {}) \<union> {x \<in> set rows. k < length x}" by auto
    with 2 Cons.IH(2) [of "widen ws (map f r)"] show ?case
      by (simp add: widen_nth Max_insert_max) }
qed simp_all

lemma foldl_max: "foldl max a xs = Max (insert a (set xs))"
  for a :: nat
  by (induction xs arbitrary: a) (simp_all add: Max_insert_max)

text \<open>The widths \<open>writeTable\<close> pads to are those of the columns.\<close>

lemma table_widths_enough: "r \<in> set rows \<Longrightarrow> length r \<le> length (table_widths wide rows)"
  by (simp add: table_widths_def foldl_widen foldl_max)

lemma table_widths_nth:
  assumes r: "r \<in> set rows" and k: "k < length r"
  shows "table_widths wide rows ! k = column_width wide rows k"
proof -
  have "k < foldl max 0 (map length rows)"
    using table_widths_enough [OF r, of wide] k by (simp add: table_widths_def foldl_widen)
  moreover have "(\<lambda>r. displayWidth wide (r ! k)) ` {r \<in> set rows. k < length r} \<noteq> {}" using r k by auto
  ultimately show ?thesis
    by (simp add: table_widths_def foldl_widen column_width_def)
qed

lemma column_width_ge: "r \<in> set rows \<Longrightarrow> k < length r \<Longrightarrow> displayWidth wide (r ! k) \<le> column_width wide rows k"
  unfolding column_width_def by (rule Max_ge) auto

text \<open>Before every cell stand the columns before it, each as wide as its width and two spaces.\<close>

lemma table_cells_at:
  assumes "\<not> wide 32" and "list_all valid_string r" and "length r \<le> length ws"
    and "\<And>k. k < length r \<Longrightarrow> displayWidth wide (r ! k) \<le> ws ! k" and "j < length r"
  shows "\<exists>pre post. table_cells wide ws r = pre @ r ! j @ post \<and> valid_string pre \<and>
    displayWidth wide pre = (\<Sum>k<j. ws ! k + 2)"
  using assms
proof (induction wide ws r arbitrary: j rule: table_cells.induct)
  case (2 wide ws c)
  then show ?case by (auto simp: displayWidth_def runes_def intro!: exI [of _ "[]"])
next
  case (3 wide ws c d cs)
  let ?pad = "replicate (hd ws - displayWidth wide c + 2) (CHR '' '')"
  obtain w ws' where ws: "ws = w # ws'" using "3.prems"(3) by (cases ws) auto
  show ?case
  proof (cases j)
    case 0
    then show ?thesis
      by (intro exI [of _ "[]"] exI [of _ "?pad @ table_cells wide (tl ws) (d # cs)"])
        (simp add: displayWidth_def runes_def)
  next
    case (Suc i)
    have le: "displayWidth wide ((d # cs) ! k) \<le> ws' ! k" if "k < length (d # cs)" for k
      using "3.prems"(4) [of "Suc k"] that by (simp add: ws)
    obtain pre post where cells: "table_cells wide ws' (d # cs) = pre @ (d # cs) ! i @ post" "valid_string pre"
        "displayWidth wide pre = (\<Sum>k<i. ws' ! k + 2)"
      using "3.IH" [of i] "3.prems"(1,2,3,5) le Suc by (auto simp: ws)
    have c: "valid_string c" "displayWidth wide c \<le> w" using "3.prems"(2) "3.prems"(4) [of 0] by (simp_all add: ws)
    define pad where "pad = ?pad"
    have pad: "valid_string pad" "displayWidth wide pad = w - displayWidth wide c + 2"
      using displayWidth_spaces [of wide "w - displayWidth wide c + 2"] "3.prems"(1)
      by (simp_all only: pad_def valid_spaces ws list.sel not_False_eq_True simp_thms)
    have "table_cells wide ws (c # d # cs) = (c @ pad @ pre) @ (c # d # cs) ! j @ post"
      using cells(1) by (simp add: pad_def ws Suc)
    moreover have "valid_string (c @ pad @ pre)" using c pad cells(2) by (simp add: valid_append)
    moreover have "displayWidth wide (c @ pad @ pre) = (\<Sum>k<j. ws ! k + 2)"
      unfolding Suc sum.lessThan_Suc_shift using c pad cells by (simp add: displayWidth_append ws)
    ultimately show ?thesis by blast
  qed
qed simp

text \<open>
  C34. The columns of a table line up. A table is one line for its header, when it has one, and for each row;
  in every line, before blanks at its end are cut off, each cell starts at the column where its
  column starts: after the indent and the columns before it, each as wide as its widest cell and two
  blanks more, in terminal columns, where an East Asian wide character takes two.
\<close>

theorem table_lines_up:
  assumes "\<not> wide 32" and "valid_string indent"
    and "list_all (list_all valid_string) (case header of None \<Rightarrow> body | Some h \<Rightarrow> h # body)"
  shows "let rows = (case header of None \<Rightarrow> body | Some h \<Rightarrow> h # body) in
    \<exists>ls. writeTable wide indent header body = concat (map (\<lambda>l. trim_right (CHR '' '') l @ nl) ls) \<and>
      list_all2 (\<lambda>l r. \<forall>j<length r. \<exists>pre post. l = pre @ r ! j @ post \<and>
        displayWidth wide pre = displayWidth wide indent + (\<Sum>k<j. column_width wide rows k + 2)) ls rows"
proof -
  define rows where "rows = (case header of None \<Rightarrow> body | Some h \<Rightarrow> h # body)"
  let ?line = "\<lambda>r. indent @ table_cells wide (table_widths wide rows) r"
  have "\<exists>pre post. ?line r = pre @ r ! j @ post \<and>
      displayWidth wide pre = displayWidth wide indent + (\<Sum>k<j. column_width wide rows k + 2)"
    if r: "r \<in> set rows" and j: "j < length r" for r j
  proof -
    have "list_all valid_string r" using assms(3) r by (simp add: rows_def list_all_iff)
    moreover have "displayWidth wide (r ! k) \<le> table_widths wide rows ! k" if "k < length r" for k
      using column_width_ge [OF r that] table_widths_nth [OF r that] by simp
    ultimately obtain pre post where cells: "table_cells wide (table_widths wide rows) r = pre @ r ! j @ post"
        "displayWidth wide pre = (\<Sum>k<j. table_widths wide rows ! k + 2)"
      using table_cells_at [of wide r "table_widths wide rows" j] assms(1) table_widths_enough [OF r] j by blast
    moreover have "(\<Sum>k<j. table_widths wide rows ! k + 2) = (\<Sum>k<j. column_width wide rows k + 2)"
      using table_widths_nth [OF r] j by (intro sum.cong) simp_all
    ultimately show ?thesis
      using assms(2) by (intro exI [of _ "indent @ pre"] exI [of _ post]) (simp add: displayWidth_append)
  qed
  then have "list_all2 (\<lambda>l r. \<forall>j<length r. \<exists>pre post. l = pre @ r ! j @ post \<and>
      displayWidth wide pre = displayWidth wide indent + (\<Sum>k<j. column_width wide rows k + 2)) (map ?line rows) rows"
    by (simp add: list_all2_conv_all_nth)
  moreover have "writeTable wide indent header body = concat (map (\<lambda>l. trim_right (CHR '' '') l @ nl) (map ?line rows))"
    by (simp add: writeTable_def Let_def table_line_def rows_def comp_def)
  ultimately show ?thesis unfolding rows_def [symmetric] Let_def by blast
qed

text \<open>Two rows, one with a name of two wide characters: its second column starts at the same place.\<close>

definition wide_name :: string where
  "wide_name = concat (map encode_rune [0x5F20, 0x4E09])"

lemma wide_name_facts:
  "valid_string wide_name" "displayWidth (\<lambda>r. 0x4E00 \<le> r) wide_name = 4" "displayWidth (\<lambda>r. 0x4E00 \<le> r) ''ann'' = 3"
proof -
  have s: "\<forall>r\<in>set [0x5F20, 0x4E09]. scalar r" by (simp add: scalar_def)
  have "free (\<lambda>_. False) wide_name" unfolding wide_name_def by (rule free_encode_all) (use s in auto)
  then show "valid_string wide_name" by (simp add: free_def)
  show "displayWidth (\<lambda>r. 0x4E00 \<le> r) wide_name = 4"
    unfolding displayWidth_def wide_name_def runes_concat_encode [OF s] by (simp add: rune_width_def)
  show "displayWidth (\<lambda>r. 0x4E00 \<le> r) ''ann'' = 3"
    by (simp add: displayWidth_def runes_def rune_width_def byte_def)
qed

theorem table_lines_up_witness:
  "\<exists>l m pre post.
     writeTable (\<lambda>r. 0x4E00 \<le> r) ''  '' None [[wide_name, ''1''], [''ann'', ''20'']] =
       trim_right (CHR '' '') l @ nl @ trim_right (CHR '' '') m @ nl \<and>
     m = pre @ ''20'' @ post \<and> displayWidth (\<lambda>r. 0x4E00 \<le> r) pre = 8"
proof -
  let ?wide = "\<lambda>r :: nat. 0x4E00 \<le> r" and ?rows = "[[wide_name, ''1''], [''ann'', ''20'']]"
  have "list_all (list_all valid_string) ?rows"
    using wide_name_facts(1) by (simp add: valid_ascii byte_def)
  then obtain ls where ls: "writeTable ?wide ''  '' None ?rows = concat (map (\<lambda>l. trim_right (CHR '' '') l @ nl) ls)"
      "list_all2 (\<lambda>l r. \<forall>j<length r. \<exists>pre post. l = pre @ r ! j @ post \<and>
        displayWidth ?wide pre = displayWidth ?wide ''  '' + (\<Sum>k<j. column_width ?wide ?rows k + 2)) ls ?rows"
    using table_lines_up [where wide = ?wide and indent = "''  ''" and header = None and body = ?rows] by (auto simp: Let_def valid_ascii byte_def)
  from ls(2) obtain l m where lm: "ls = [l, m]" and m: "\<forall>j<2. \<exists>pre post. m = pre @ [''ann'', ''20''] ! j @ post \<and>
      displayWidth ?wide pre = displayWidth ?wide ''  '' + (\<Sum>k<j. column_width ?wide ?rows k + 2)"
    by (auto simp: list_all2_Cons2)
  have "{r \<in> set ?rows. 0 < length r} = set ?rows" by auto
  then have "column_width ?wide ?rows 0 = 4" by (simp add: column_width_def wide_name_facts)
  moreover have "displayWidth ?wide ''  '' = 2" by (simp add: displayWidth_def runes_def rune_width_def byte_def)
  ultimately show ?thesis
    using m [rule_format, of 1] ls(1) by (auto simp: lm)
qed

end
