(* ===== verification/ProbeSQL.thy ===== *)
theory ProbeSQL
  imports ProbeCore
begin

text \<open>
  The SQL of every probe (\<open>internal/probe/*.go\<close>), word for word, and the variables each row is scanned
  into, by their names in the code. The constants carry the names of the code; a statement that is written
  in the call that sends it is named after what it asks.
\<close>

section \<open>Texts\<close>

text \<open>A raw string that begins with a line break.\<close>

definition sql_lines :: "string list \<Rightarrow> string" where
  "sql_lines ls = concat (map (\<lambda>l. CHR 0x0A # l) ls)"

text \<open>\<open>fmt.Sprintf\<close> with one verb, \<open>%s\<close>.\<close>

fun sprintf_s :: "string \<Rightarrow> string \<Rightarrow> string" where
  "sprintf_s [] a = []"
| "sprintf_s (c # cs) a = (if c = CHR ''%'' then a @ drop 1 cs else c # sprintf_s cs a)"

section \<open>The statements\<close>

subsection \<open>Sessions, locks, transactions, waits\<close>

definition trackActivitiesSQL :: string where
  "trackActivitiesSQL = ''select current_setting('track_activities')''"

definition trackActivitiesScan :: "string list" where
  "trackActivitiesScan =
     [''track'']"

definition sessionActivitySQL :: string where
  "sessionActivitySQL = sql_lines
     [''select pid,'',
      ''       usename::text,'',
      ''       datname::text,'',
      ''       application_name,'',
      ''       host(client_addr),'',
      ''       backend_type,'',
      ''       state,'',
      ''       backend_xid,'',
      ''       backend_xmin,'',
      ''       round(extract(epoch from now() - xact_start)::numeric, 1)::float8 as xact_age_s,'',
      ''       round(extract(epoch from now() - query_start)::numeric, 1)::float8 as query_age_s,'',
      ''       round(extract(epoch from now() - state_change)::numeric, 1)::float8 as state_age_s,'',
      ''       wait_event_type,'',
      ''       wait_event,'',
      ''       query'',
      ''from sys_stat_activity'',
      ''where pid <> sys_backend_pid()'',
      ''order by xact_age_s desc nulls last, pid'']"

definition SessionActivity_scan :: "string list" where
  "SessionActivity_scan =
     [''PID'', ''Usename'', ''Datname'', ''ApplicationName'', ''ClientAddr'', ''BackendType'',
      ''State'', ''BackendXID'', ''BackendXmin'', ''XactAgeS'', ''QueryAgeS'', ''StateAgeS'',
      ''WaitEventType'', ''WaitEvent'', ''Query'']"

definition lockListSQL :: string where
  "lockListSQL = sql_lines
     [''select l.pid,'',
      ''       l.locktype,'',
      ''       case when l.relation is null then null'',
      ''            when c.oid is null then l.relation::text'',
      ''            else n.nspname::text || '.' || c.relname::text end as relation,'',
      ''       l.mode,'',
      ''       l.granted,'',
      ''       case when not l.granted'',
      ''            then round(extract(epoch from now() - a.state_change)::numeric, 1)::float8 end as wait_s,'',
      ''       case when l.granted then '{}'::int[] else sys_blocking_pids(l.pid) end as blocked_by,'',
      ''       coalesce(a.query = '<insufficient privilege>', false) as masked'',
      ''from sys_locks l'',
      ''left join sys_stat_activity a on a.pid = l.pid'',
      ''left join sys_class c on c.oid = l.relation'',
      ''left join pg_catalog.pg_namespace n on n.oid = c.relnamespace'',
      ''where l.pid is distinct from sys_backend_pid()'',
      ''order by l.pid nulls last, l.granted desc, l.locktype, l.mode, relation'']"

definition LockList_scan :: "string list" where
  "LockList_scan =
     [''PID'', ''Locktype'', ''Relation'', ''Mode'', ''Granted'', ''WaitS'', ''BlockedBy'', ''Masked'']"

definition txnPreparedSQL :: string where
  "txnPreparedSQL = sql_lines
     [''select gid,'',
      ''       owner::text,'',
      ''       database::text,'',
      ''       prepared,'',
      ''       round(extract(epoch from now() - prepared)::numeric, 1)::float8 as age_s,'',
      ''       transaction'',
      ''from sys_prepared_xacts'',
      ''order by prepared, gid'']"

definition TxnPrepared_scan :: "string list" where
  "TxnPrepared_scan =
     [''GID'', ''Owner'', ''Database'', ''PreparedAt'', ''AgeS'', ''Transaction'']"

definition waitSummarySQL :: string where
  "waitSummarySQL = sql_lines
     [''select wait_event_type,'',
      ''       wait_event,'',
      ''       state,'',
      ''       count(*)::int as sessions,'',
      ''       array_agg(pid order by pid) as pids,'',
      ''       count(*) filter (where query = '<insufficient privilege>')::int as masked,'',
      ''       array_agg(pid order by pid) filter (where backend_type not in ('client backend', 'parallel worker')'',
      ''                                            and query is distinct from '<insufficient privilege>') as background'',
      ''from sys_stat_activity'',
      ''where pid <> sys_backend_pid()'',
      ''group by wait_event_type, wait_event, state'',
      ''order by sessions desc, wait_event_type nulls last, wait_event nulls last, state nulls last'']"

definition WaitSummary_scan :: "string list" where
  "WaitSummary_scan =
     [''WaitEventType'', ''WaitEvent'', ''State'', ''Sessions'', ''PIDs'', ''Masked'', ''Background'']"

subsection \<open>The instance\<close>

definition identifySQL :: string where
  "identifySQL = ''select version(), sys_is_in_recovery(), current_user::text, current_database()::text''"

definition identifyScan :: "string list" where
  "identifyScan =
     [''version'', ''standby'', ''user'', ''db'']"

definition instInfoSQL :: string where
  "instInfoSQL = sql_lines
     [''select version(),'',
      ''       sys_postmaster_start_time(),'',
      ''       round(extract(epoch from now() - sys_postmaster_start_time())::numeric, 1)::float8,'',
      ''       (select coalesce(sum(numbackends), 0) from sys_stat_database)::int,'',
      ''       current_setting('max_connections')::int,'',
      ''       current_setting('superuser_reserved_connections')::int,'',
      ''       (select setting from sys_settings where name = 'data_directory'),'',
      ''       current_setting('port')::int'']"

definition InstInfo_scan :: "string list" where
  "InstInfo_scan =
     [''Version'', ''StartTime'', ''UptimeS'', ''Connections'', ''MaxConnections'',
      ''SuperuserReserved'', ''DataDirectory'', ''Port'']"

definition instDatabasesSQL :: string where
  "instDatabasesSQL = sql_lines
     [''select datname::text,'',
      ''       case when has_database_privilege(oid, 'CONNECT') then pg_database_size(oid) end'',
      ''from sys_database'',
      ''where not datistemplate'',
      ''order by datname'']"

definition InstDatabases_scan :: "string list" where
  "InstDatabases_scan =
     [''Datname'', ''SizeBytes'']"

definition instDownstreamsSQL :: string where
  "instDownstreamsSQL = sql_lines
     [''select application_name::text, host(client_addr), state::text, sync_state::text'',
      ''from sys_stat_replication'',
      ''order by application_name, pid'']"

definition InstDownstreams_scan :: "string list" where
  "InstDownstreams_scan =
     [''ApplicationName'', ''ClientAddr'', ''State'', ''SyncState'']"

definition instUpstreamSQL :: string where
  "instUpstreamSQL = sql_lines
     [''select status::text, sender_host::text, sender_port, slot_name::text,'',
      ''       round(extract(epoch from now() - last_msg_receipt_time)::numeric, 1)::float8,'',
      ''       (select setting::numeric * case unit when 'ms' then 0.001 when 's' then 1 when 'min' then 60 else 1 end'',
      ''        from sys_settings where name = 'wal_receiver_timeout')::float8'',
      ''from sys_stat_wal_receiver'']"

definition InstUpstream_scan :: "string list" where
  "InstUpstream_scan =
     [''Status'', ''SenderHost'', ''SenderPort'', ''SlotName'', ''LastMsgAgeS'',
      ''WALReceiverTimeoutS'']"

definition paramsChangedSQL :: string where
  "paramsChangedSQL = sql_lines
     [''select name::text, setting, unit, source, sourcefile, sourceline, boot_val, reset_val, context, pending_restart'',
      ''from sys_settings'',
      ''where source not in ('default', 'override', 'client', 'session') or pending_restart'',
      ''order by name'']"

definition ParamsChanged_scan :: "string list" where
  "ParamsChanged_scan =
     [''Name'', ''Setting'', ''Unit'', ''Source'', ''Sourcefile'', ''Sourceline'', ''BootVal'',
      ''ResetVal'', ''Context'', ''PendingRestart'']"

subsection \<open>Space, objects and sequences\<close>

definition spaceTablespacesSQL :: string where
  "spaceTablespacesSQL = sql_lines
     [''select spcname::text,'',
      ''       pg_tablespace_location(oid),'',
      ''       case when has_tablespace_privilege(oid, 'CREATE')'',
      ''              or oid = (select dattablespace from sys_database where datname = current_database())'',
      ''              or pg_has_role('sys_monitor', 'MEMBER')'',
      ''            then pg_tablespace_size(oid) end'',
      ''from sys_tablespace'',
      ''order by spcname'']"

definition SpaceTablespaces_scan :: "string list" where
  "SpaceTablespaces_scan =
     [''Name'', ''Location'', ''SizeBytes'']"

definition spaceWALSQL :: string where
  "spaceWALSQL = sql_lines
     [''with s as ('',
      ''  select name, setting::numeric * case unit when 'B' then 1 when 'kB' then 1024 when '8kB' then 8192'',
      ''                                             when 'MB' then 1048576 when 'GB' then 1073741824 else 1 end as v'',
      ''  from sys_settings'',
      ''  where name in ('max_wal_size', 'wal_keep_segments', 'wal_segment_size'))'',
      ''select count(*)::bigint,'',
      ''       coalesce(sum(size), 0)::bigint,'',
      ''       (select v from s where name = 'max_wal_size')::bigint,'',
      ''       ((select v from s where name = 'wal_keep_segments') * (select v from s where name = 'wal_segment_size'))::bigint,'',
      ''       (select v from s where name = 'wal_segment_size')::bigint'',
      ''from sys_ls_waldir()'']"

definition SpaceWAL_scan :: "string list" where
  "SpaceWAL_scan =
     [''Files'', ''Bytes'', ''MaxWALSizeBytes'', ''WALKeepBytes'', ''WALSegmentBytes'']"

definition objectTablesSQL :: string where
  "objectTablesSQL = sql_lines
     [''select * from ('',
      ''  select n.nspname::text, c.relname::text, c.relkind::text,'',
      ''         pg_total_relation_size(c.oid) as total,'',
      ''         pg_table_size(c.oid) - coalesce(case when c.reltoastrelid <> 0 then pg_total_relation_size(c.reltoastrelid) end, 0) as heap,'',
      ''         pg_indexes_size(c.oid) as idx,'',
      ''         case when c.reltoastrelid <> 0 then pg_total_relation_size(c.reltoastrelid) end,'',
      ''         c.reltuples::bigint'',
      ''  from sys_class c join pg_catalog.pg_namespace n on n.oid = c.relnamespace'',
      ''  where c.relkind in ('r', 'p', 'm')) x'',
      ''where total is not null and heap is not null and idx is not null'',
      ''order by 4 desc, 1, 2'']"

definition ObjectTables_scan :: "string list" where
  "ObjectTables_scan =
     [''Schemaname'', ''Relname'', ''Relkind'', ''TotalBytes'', ''TableBytes'', ''IndexBytes'',
      ''ToastBytes'', ''Reltuples'']"

definition objectIndexesSQL :: string where
  "objectIndexesSQL = sql_lines
     [''select * from ('',
      ''  select n.nspname::text, c.relname::text, t.relname::text, pg_relation_size(c.oid) as bytes'',
      ''  from sys_index i'',
      ''  join sys_class c on c.oid = i.indexrelid'',
      ''  join sys_class t on t.oid = i.indrelid'',
      ''  join pg_catalog.pg_namespace n on n.oid = c.relnamespace'',
      ''  where t.relkind <> 't') x'',
      ''where bytes is not null'',
      ''order by 4 desc, 1, 2'']"

definition ObjectIndexes_scan :: "string list" where
  "ObjectIndexes_scan =
     [''Schemaname'', ''Relname'', ''TableName'', ''Bytes'']"

definition seqListSQL :: string where
  "seqListSQL = sql_lines
     [''select s.schemaname::text, s.sequencename::text, s.data_type::text, s.start_value, s.min_value, s.max_value, s.increment_by, s.cycle, s.cache_size, s.last_value,'',
      ''       coalesce(has_sequence_privilege(c.oid, 'SELECT, USAGE'), false)'',
      ''from sys_sequences s'',
      ''left join sys_namespace n on n.nspname = s.schemaname'',
      ''left join sys_class c on c.relnamespace = n.oid and c.relname = s.sequencename'',
      ''order by 1, 2'']"

definition SeqList_scan :: "string list" where
  "SeqList_scan =
     [''Schemaname'', ''Sequencename'', ''DataType'', ''StartValue'', ''MinValue'', ''MaxValue'',
      ''IncrementBy'', ''Cycle'', ''CacheSize'', ''LastValue'', ''Readable'']"

subsection \<open>WAL, archiving, checkpoints and slots\<close>

definition walPositionSQL :: string where
  "walPositionSQL = sql_lines
     [''select sys_is_in_recovery(),'',
      ''       case when sys_is_in_recovery() then sys_last_wal_replay_lsn() else sys_current_wal_lsn() end::text,'',
      ''       case when not sys_is_in_recovery() then sys_walfile_name(sys_current_wal_lsn()) end'']"

definition WALPosition_scan :: "string list" where
  "WALPosition_scan =
     [''InRecovery'', ''LSN'', ''WALFile'']"

definition archiveStatusSQL :: string where
  "archiveStatusSQL = sql_lines
     [''select (select setting from sys_settings where name = 'archive_mode'),'',
      ''       (select setting from sys_settings where name = 'archive_command'),'',
      ''       (select setting::bigint from sys_settings where name = 'archive_timeout'),'',
      ''       archived_count, last_archived_wal, last_archived_time,'',
      ''       round(extract(epoch from now() - last_archived_time)::numeric, 1)::float8,'',
      ''       failed_count, last_failed_wal, last_failed_time,'',
      ''       round(extract(epoch from now() - last_failed_time)::numeric, 1)::float8,'',
      ''       stats_reset'',
      ''from sys_stat_archiver'']"

definition ArchiveStatus_scan :: "string list" where
  "ArchiveStatus_scan =
     [''Mode'', ''Command'', ''TimeoutS'', ''ArchivedCount'', ''LastArchivedWAL'', ''LastArchivedTime'',
      ''LastArchivedAgeS'', ''FailedCount'', ''LastFailedWAL'', ''LastFailedTime'', ''LastFailedAgeS'',
      ''StatsReset'']"

definition archiveReadySQL :: string where
  "archiveReadySQL = sql_lines
     [''select count(*) filter (where name like '%.ready'),'',
      ''       count(*) filter (where name like '%.done'),'',
      ''       round(extract(epoch from now() - min(modification) filter (where name like '%.ready'))::numeric, 1)::float8'',
      ''from sys_ls_archive_statusdir()'']"

definition ArchiveReady_scan :: "string list" where
  "ArchiveReady_scan =
     [''Ready'', ''Done'', ''OldestReadyAgeS'']"

definition checkpointStatsSQL :: string where
  "checkpointStatsSQL = sql_lines
     [''select checkpoints_timed, checkpoints_req, checkpoint_write_time / 1000, checkpoint_sync_time / 1000,'',
      ''       buffers_checkpoint, buffers_clean, maxwritten_clean, buffers_backend, buffers_backend_fsync, buffers_alloc,'',
      ''       stats_reset, round(extract(epoch from now() - stats_reset)::numeric, 1)::float8'',
      ''from sys_stat_bgwriter'']"

definition CheckpointStats_scan :: "string list" where
  "CheckpointStats_scan =
     [''CheckpointsTimed'', ''CheckpointsReq'', ''CheckpointWriteS'', ''CheckpointSyncS'',
      ''BuffersCheckpoint'', ''BuffersClean'', ''MaxwrittenClean'', ''BuffersBackend'',
      ''BuffersBackendFsync'', ''BuffersAlloc'', ''StatsReset'', ''StatsResetAgeS'']"

definition checkpointLastSQL :: string where
  "checkpointLastSQL = sql_lines
     [''select checkpoint_time, round(extract(epoch from now() - checkpoint_time)::numeric, 1)::float8,'',
      ''       checkpoint_lsn::text, redo_lsn::text, redo_wal_file'',
      ''from sys_control_checkpoint()'']"

definition CheckpointLast_scan :: "string list" where
  "CheckpointLast_scan =
     [''Time'', ''AgeS'', ''LSN'', ''RedoLSN'', ''RedoWALFile'']"

definition checkpointSettingsSQL :: string where
  "checkpointSettingsSQL = sql_lines
     [''with s as ('',
      ''  select name, setting::numeric * case unit when 'ms' then 0.001 when 's' then 1 when 'min' then 60 when 'h' then 3600'',
      ''                                            when 'B' then 1 when 'kB' then 1024 when '8kB' then 8192 when 'MB' then 1048576 when 'GB' then 1073741824'',
      ''                                            else 1 end as v'',
      ''  from sys_settings'',
      ''  where name in ('checkpoint_timeout', 'max_wal_size', 'checkpoint_warning'))'',
      ''select (select v from s where name = 'checkpoint_timeout')::bigint,'',
      ''       (select v from s where name = 'max_wal_size')::bigint,'',
      ''       current_setting('checkpoint_completion_target')::float8,'',
      ''       (select v from s where name = 'checkpoint_warning')::bigint,'',
      ''       current_setting('log_checkpoints')'']"

definition CheckpointSettings_scan :: "string list" where
  "CheckpointSettings_scan =
     [''TimeoutS'', ''MaxWALSizeBytes'', ''CompletionTarget'', ''WarningS'', ''LogCheckpoints'']"

definition slotListSQL :: string where
  "slotListSQL = sql_lines
     [''select slot_name::text,'',
      ''       slot_type,'',
      ''       active,'',
      ''       active_pid,'',
      ''       xmin,'',
      ''       catalog_xmin,'',
      ''       age(xmin),'',
      ''       restart_lsn::text,'',
      ''       sys_wal_lsn_diff(case when sys_is_in_recovery() then sys_last_wal_replay_lsn()'',
      ''                             else sys_current_wal_lsn() end, restart_lsn)::bigint'',
      ''from sys_replication_slots'',
      ''order by slot_name'']"

definition SlotList_scan :: "string list" where
  "SlotList_scan =
     [''Name'', ''Type'', ''Active'', ''ActivePID'', ''Xmin'', ''CatalogXmin'', ''XminAge'',
      ''RestartLSN'', ''RetainedWALBytes'']"

subsection \<open>Freezing, vacuum and one table\<close>

definition freezeDatabasesSQL :: string where
  "freezeDatabasesSQL = sql_lines
     [''select datname::text, datfrozenxid, age(datfrozenxid), datminmxid, mxid_age(datminmxid), datallowconn'',
      ''from sys_database'',
      ''order by age(datfrozenxid) desc, datname'']"

definition FreezeDatabases_scan :: "string list" where
  "FreezeDatabases_scan =
     [''Datname'', ''DatFrozenXID'', ''XIDAge'', ''DatMinMXID'', ''MXIDAge'', ''AllowConn'']"

definition freezeTablesSQL :: string where
  "freezeTablesSQL = sql_lines
     [''select n.nspname::text || '.' || c.relname::text, c.relkind::text,'',
      ''       c.relfrozenxid, age(c.relfrozenxid), c.relminmxid, mxid_age(c.relminmxid),'',
      ''       c.relpages::bigint * current_setting('block_size')::bigint'',
      ''from sys_class c join pg_catalog.pg_namespace n on n.oid = c.relnamespace'',
      ''where c.relkind in ('r', 'm', 't') and c.relfrozenxid::text <> '0'' @ [CHR 0x27],
      ''order by age(c.relfrozenxid) desc, 1'']"

definition FreezeTables_scan :: "string list" where
  "FreezeTables_scan =
     [''Relation'', ''Relkind'', ''RelFrozenXID'', ''XIDAge'', ''RelMinMXID'', ''MXIDAge'',
      ''HeapBytesEst'']"

definition freezeLimitsSQL :: string where
  "freezeLimitsSQL = sql_lines
     [''select current_setting('autovacuum_freeze_max_age')::bigint,'',
      ''       current_setting('autovacuum_multixact_freeze_max_age')::bigint,'',
      ''       current_setting('vacuum_freeze_table_age')::bigint'']"

definition FreezeLimits_scan :: "string list" where
  "FreezeLimits_scan =
     [''FreezeMaxAge'', ''MultiFreezeMaxAge'', ''FreezeTableAge'']"

definition trackCountsSQL :: string where
  "trackCountsSQL = ''select current_setting('track_counts')''"

definition trackCountsScan :: "string list" where
  "trackCountsScan =
     [''track'']"

definition vacuumTablesSQL :: string where
  "vacuumTablesSQL = sql_lines
     [''select s.schemaname::text, s.relname::text, s.n_live_tup, s.n_dead_tup, c.reltuples, c.reloptions::text[],'',
      ''       round(extract(epoch from now() - s.last_vacuum)::numeric, 1)::float8,'',
      ''       round(extract(epoch from now() - s.last_autovacuum)::numeric, 1)::float8,'',
      ''       s.vacuum_count, s.autovacuum_count'',
      ''from sys_stat_user_tables s join sys_class c on c.oid = s.relid'',
      ''order by s.n_dead_tup desc, s.relid'']"

definition VacuumTables_scan :: "string list" where
  "VacuumTables_scan =
     [''Schemaname'', ''Relname'', ''NLiveTup'', ''NDeadTup'', ''Reltuples'', ''Reloptions'',
      ''LastVacuumAgeS'', ''LastAutovacuumAgeS'', ''VacuumCount'', ''AutovacuumCount'']"

definition vacuumProgressSQL :: string where
  "vacuumProgressSQL = sql_lines
     [''select p.pid,'',
      ''       p.datname::text,'',
      ''       case when p.datname = current_database() then p.relid::regclass::text else p.relid::text end,'',
      ''       p.phase,'',
      ''       p.heap_blks_total,'',
      ''       p.heap_blks_scanned,'',
      ''       case when a.backend_type is not null then a.backend_type = 'autovacuum worker' end,'',
      ''       round(extract(epoch from now() - a.xact_start)::numeric, 1)::float8'',
      ''from sys_stat_progress_vacuum p left join sys_stat_activity a on a.pid = p.pid'',
      ''order by p.pid'']"

definition VacuumProgress_scan :: "string list" where
  "VacuumProgress_scan =
     [''PID'', ''Datname'', ''Relation'', ''Phase'', ''HeapBlksTotal'', ''HeapBlksScanned'',
      ''IsAutovacuum'', ''XactAgeS'']"

definition vacuumSettingsSQL :: string where
  "vacuumSettingsSQL = sql_lines
     [''select current_setting('autovacuum'),'',
      ''       current_setting('track_counts'),'',
      ''       current_setting('autovacuum_vacuum_threshold')::bigint,'',
      ''       current_setting('autovacuum_vacuum_scale_factor')::float8,'',
      ''       (select setting::bigint from sys_settings where name = 'autovacuum_naptime'),'',
      ''       current_setting('autovacuum_max_workers')::int'']"

definition VacuumSettings_scan :: "string list" where
  "VacuumSettings_scan =
     [''Autovacuum'', ''TrackCounts'', ''Threshold'', ''ScaleFactor'', ''NaptimeS'', ''MaxWorkers'']"

definition tableInfoSQL :: string where
  "tableInfoSQL = sql_lines
     [''select c.oid, n.nspname::text, c.relname::text, c.relkind::text, c.relpersistence::text, c.reltuples, c.relpages,'',
      ''       c.reloptions::text[],'',
      ''       case when c.relfrozenxid::text <> '0' then age(c.relfrozenxid) end,'',
      ''       case when c.relminmxid::text <> '0' then mxid_age(c.relminmxid) end'',
      ''from sys_class c join pg_catalog.pg_namespace n on n.oid = c.relnamespace'',
      ''where c.oid = to_regclass($1::text)'']"

definition TableInfo_scan :: "string list" where
  "TableInfo_scan =
     [''OID'', ''Schemaname'', ''Relname'', ''Relkind'', ''Relpersistence'', ''Reltuples'',
      ''Relpages'', ''Reloptions'', ''XIDAge'', ''MXIDAge'']"

definition tableSizeSQL :: string where
  "tableSizeSQL = sql_lines
     [''select pg_total_relation_size(c.oid),'',
      ''       pg_table_size(c.oid) - coalesce(case when c.reltoastrelid <> 0 then pg_total_relation_size(c.reltoastrelid) end, 0),'',
      ''       pg_indexes_size(c.oid),'',
      ''       case when c.reltoastrelid <> 0 then pg_total_relation_size(c.reltoastrelid) end'',
      ''from sys_class c'',
      ''where c.oid = $1::oid'']"

definition TableSize_scan :: "string list" where
  "TableSize_scan =
     [''TotalBytes'', ''TableBytes'', ''IndexBytes'', ''ToastBytes'']"

definition tableStatsSQL :: string where
  "tableStatsSQL = sql_lines
     [''select s.n_live_tup, s.n_dead_tup, s.n_mod_since_analyze,'',
      ''       round(extract(epoch from now() - s.last_vacuum)::numeric, 1)::float8,'',
      ''       round(extract(epoch from now() - s.last_autovacuum)::numeric, 1)::float8,'',
      ''       round(extract(epoch from now() - s.last_analyze)::numeric, 1)::float8,'',
      ''       round(extract(epoch from now() - s.last_autoanalyze)::numeric, 1)::float8,'',
      ''       s.vacuum_count, s.autovacuum_count, s.analyze_count, s.autoanalyze_count,'',
      ''       s.seq_scan, s.seq_tup_read, s.idx_scan, s.idx_tup_fetch,'',
      ''       s.n_tup_ins, s.n_tup_upd, s.n_tup_del, s.n_tup_hot_upd,'',
      ''       io.heap_blks_read, io.heap_blks_hit, io.idx_blks_read, io.idx_blks_hit'',
      ''from sys_stat_user_tables s left join sys_statio_user_tables io on io.relid = s.relid'',
      ''where s.relid = $1::oid'']"

definition TableStats_scan :: "string list" where
  "TableStats_scan =
     [''NLiveTup'', ''NDeadTup'', ''NModSinceAnalyze'', ''LastVacuumAgeS'', ''LastAutovacuumAgeS'',
      ''LastAnalyzeAgeS'', ''LastAutoanalyzeAgeS'', ''VacuumCount'', ''AutovacuumCount'',
      ''AnalyzeCount'', ''AutoanalyzeN'', ''SeqScan'', ''SeqTupRead'', ''IdxScan'', ''IdxTupFetch'',
      ''NTupIns'', ''NTupUpd'', ''NTupDel'', ''NTupHotUpd'', ''HeapBlksRead'', ''HeapBlksHit'',
      ''IdxBlksRead'', ''IdxBlksHit'']"

definition tableIndexesSQL :: string where
  "tableIndexesSQL = sql_lines
     [''select c.relname::text, pg_get_indexdef(i.indexrelid), %s,'',
      ''       i.indisunique, i.indisprimary, i.indisvalid,'',
      ''       case when not sys_is_in_recovery() then s.idx_scan end'',
      ''from sys_index i'',
      ''join sys_class c on c.oid = i.indexrelid'',
      ''left join sys_stat_user_indexes s on s.indexrelid = i.indexrelid'',
      ''where i.indrelid = $1::oid'',
      ''order by 1'']"

definition TableIndexes_scan :: "string list" where
  "TableIndexes_scan =
     [''Name'', ''Definition'', ''Bytes'', ''IsUnique'', ''IsPrimary'', ''IsValid'', ''IdxScan'']"

subsection \<open>Statements and long operations\<close>

definition topCheckSQL :: string where
  "topCheckSQL = sql_lines
     [''select (select n.nspname::text from sys_extension e join sys_namespace n on n.oid = e.extnamespace'',
      ''        where e.extname = 'sys_stat_statements'),'',
      ''       (select setting from sys_settings where name = 'sys_stat_statements.track')'']"

definition topCheckScan :: "string list" where
  "topCheckScan =
     [''schema'', ''track'']"

definition sqlTopSQL :: string where
  "sqlTopSQL = sql_lines
     [''select s.queryid, pg_get_userbyid(s.userid)::text, d.datname::text, s.calls,'',
      ''       s.total_exec_time / 1000, s.mean_exec_time / 1000, s.max_exec_time / 1000, s.rows,'',
      ''       s.shared_blks_hit, s.shared_blks_read, s.temp_blks_written, s.query'',
      ''from %s s left join sys_database d on d.oid = s.dbid'']"

definition SQLTop_scan :: "string list" where
  "SQLTop_scan =
     [''QueryID'', ''Username'', ''Datname'', ''Calls'', ''TotalExecS'', ''MeanExecS'', ''MaxExecS'',
      ''Rows'', ''SharedBlksHit'', ''SharedBlksRead'', ''TempBlksWritten'', ''Query'']"

definition progressListSQL :: string where
  "progressListSQL = sql_lines
     [''select * from ('',
      ''  select p.pid,'',
      ''         case when a.backend_type = 'autovacuum worker' then 'autovacuum'' @ [CHR 0x27],
      ''              when a.backend_type is null then 'VACUUM or autovacuum'' @ [CHR 0x27],
      ''              else 'VACUUM' end as command,'',
      ''         p.datname::text,'',
      ''         case when p.datname = current_database() then p.relid::regclass::text else p.relid::text end,'',
      ''         p.phase::text,'',
      ''         case when p.phase = 'vacuuming heap' then p.heap_blks_vacuumed'',
      ''              when p.phase in ('scanning heap', 'truncating heap', 'initializing') then p.heap_blks_scanned end::bigint,'',
      ''         case when p.phase in ('vacuuming heap', 'scanning heap', 'truncating heap', 'initializing') then p.heap_blks_total end::bigint,'',
      ''         'blocks'::text,'',
      ''         round(extract(epoch from now() - a.xact_start)::numeric, 1)::float8 as running,'',
      ''         null::bigint'',
      ''  from sys_stat_progress_vacuum p left join sys_stat_activity a on a.pid = p.pid'',
      ''  union all'',
      ''  select p.pid, coalesce(p.command::text, 'CREATE INDEX or REINDEX'), p.datname::text,'',
      ''         case when p.datname = current_database() then p.relid::regclass::text else p.relid::text end,'',
      ''         p.phase::text,'',
      ''         case when p.tuples_total > 0 then p.tuples_done else p.blocks_done end::bigint,'',
      ''         case when p.tuples_total > 0 then p.tuples_total else p.blocks_total end::bigint,'',
      ''         case when p.tuples_total > 0 then 'tuples' else 'blocks' end::text,'',
      ''         round(extract(epoch from now() - a.xact_start)::numeric, 1)::float8,'',
      ''         (p.lockers_total - p.lockers_done)::bigint'',
      ''  from sys_stat_progress_create_index p left join sys_stat_activity a on a.pid = p.pid'',
      ''  union all'',
      ''  select p.pid, coalesce(p.command::text, 'CLUSTER or VACUUM FULL'), p.datname::text,'',
      ''         case when p.datname = current_database() then p.relid::regclass::text else p.relid::text end,'',
      ''         p.phase::text,'',
      ''         case when p.heap_blks_total > 0 then p.heap_blks_scanned else p.heap_tuples_scanned end::bigint,'',
      ''         case when p.heap_blks_total > 0 then p.heap_blks_total end::bigint,'',
      ''         case when p.heap_blks_total > 0 then 'blocks' else 'tuples' end::text,'',
      ''         round(extract(epoch from now() - a.xact_start)::numeric, 1)::float8,'',
      ''         null::bigint'',
      ''  from sys_stat_progress_cluster p left join sys_stat_activity a on a.pid = p.pid) x'',
      ''order by running desc nulls last, pid'']"

definition scanOperation :: "string list" where
  "scanOperation =
     [''PID'', ''Command'', ''Datname'', ''Relation'', ''Phase'', ''Done'', ''Total'', ''Unit'',
      ''RunningS'', ''WaitingLockers'']"

definition progressCheckpointSQL :: string where
  "progressCheckpointSQL = sql_lines
     [''select c.pid, 'CHECKPOINT', null::text, null::text, c.phase::text,'',
      ''       c.buffers_processed::bigint, c.buffers_scan::bigint, 'buffers'::text,'',
      ''       round(extract(epoch from now() - c.start_time::timestamptz)::numeric, 1)::float8,'',
      ''       null::bigint'',
      ''from sys_stat_progress_checkpoint c'']"

subsection \<open>Replication and cluster\<close>

definition replDownstreamsSQL :: string where
  "replDownstreamsSQL = sql_lines
     [''with pos as (select sys_last_wal_receive_lsn() as rcv, sys_last_wal_replay_lsn() as rpl),'',
      ''cur as (select case when not sys_is_in_recovery() then sys_current_wal_lsn()'',
      ''                    when rcv is null or rcv < rpl then rpl else rcv end as lsn from pos)'',
      ''select r.pid, r.application_name::text, host(r.client_addr), r.state::text, r.sync_state::text, r.sync_priority,'',
      ''       r.sent_lsn::text, r.write_lsn::text, r.flush_lsn::text, r.replay_lsn::text,'',
      ''       sys_wal_lsn_diff(cur.lsn, r.sent_lsn)::bigint,'',
      ''       sys_wal_lsn_diff(cur.lsn, r.flush_lsn)::bigint,'',
      ''       sys_wal_lsn_diff(cur.lsn, r.replay_lsn)::bigint,'',
      ''       extract(epoch from r.write_lag)::float8,'',
      ''       extract(epoch from r.flush_lag)::float8,'',
      ''       extract(epoch from r.replay_lag)::float8,'',
      ''       round(extract(epoch from now() - r.reply_time)::numeric, 1)::float8'',
      ''from sys_stat_replication r, cur'',
      ''order by r.application_name, r.pid'']"

definition ReplDownstreams_scan :: "string list" where
  "ReplDownstreams_scan =
     [''PID'', ''ApplicationName'', ''ClientAddr'', ''State'', ''SyncState'', ''SyncPriority'',
      ''SentLSN'', ''WriteLSN'', ''FlushLSN'', ''ReplayLSN'', ''SentLagBytes'', ''FlushLagBytes'',
      ''ReplayLagBytes'', ''WriteLagS'', ''FlushLagS'', ''ReplayLagS'', ''ReplyAgeS'']"

definition replSyncSQL :: string where
  "replSyncSQL = sql_lines
     [''select (select setting from sys_settings where name = 'synchronous_standby_names'),'',
      ''       (select setting from sys_settings where name = 'synchronous_commit')'']"

definition ReplSync_scan :: "string list" where
  "ReplSync_scan =
     [''StandbyNames'', ''Commit'']"

definition replReplaySQL :: string where
  "replReplaySQL = sql_lines
     [''select sys_last_wal_receive_lsn()::text, sys_last_wal_replay_lsn()::text,'',
      ''       sys_wal_lsn_diff(sys_last_wal_receive_lsn(), sys_last_wal_replay_lsn())::bigint,'',
      ''       round(extract(epoch from now() - sys_last_xact_replay_timestamp())::numeric, 1)::float8,'',
      ''       sys_is_wal_replay_paused()'']"

definition ReplReplay_scan :: "string list" where
  "ReplReplay_scan =
     [''ReceiveLSN'', ''ReplayLSN'', ''ReplayGapBytes'', ''LastReplayAgeS'', ''ReplayPaused'']"

definition clusterSchemaSQL :: string where
  "clusterSchemaSQL = ''select exists(select 1 from sys_namespace where nspname = 'repmgr')''"

definition clusterSchemaScan :: "string list" where
  "clusterSchemaScan =
     [''ok'']"

definition localNodeExistsSQL :: string where
  "localNodeExistsSQL = ''select exists(select 1 from sys_proc p join sys_namespace n on n.oid = p.pronamespace'' @
     [CHR 0x0A, CHR 0x09, CHR 0x09] @ ''where n.nspname = 'repmgr' and p.proname = 'get_local_node_id')''"

definition localNodeExistsScan :: "string list" where
  "localNodeExistsScan =
     [''exists'']"

definition localNodeIDSQL :: string where
  "localNodeIDSQL = ''select repmgr.get_local_node_id()''"

definition localNodeIDScan :: "string list" where
  "localNodeIDScan =
     [''id'']"

definition clusterNodesSQL :: string where
  "clusterNodesSQL = sql_lines
     [''select n.node_id, n.node_name::text, n.type::text, n.upstream_node_id, n.active, n.priority, n.location::text, n.slot_name::text,'',
      ''       coalesce(n.node_id = $1::int, false)'',
      ''         or coalesce(n.slot_name::text = (select setting from sys_settings where name = 'primary_slot_name'), false)'',
      ''from repmgr.nodes n'',
      ''order by n.node_id'']"

definition ClusterNodes_scan :: "string list" where
  "ClusterNodes_scan =
     [''NodeID'', ''NodeName'', ''Type'', ''UpstreamNodeID'', ''Active'', ''Priority'', ''Location'',
      ''SlotName'', ''IsLocal'']"

definition clusterEventsSQL :: string where
  "clusterEventsSQL = sql_lines
     [''select node_id, event::text, successful, event_timestamp,'',
      ''       round(extract(epoch from now() - event_timestamp)::numeric, 1)::float8, details::text'',
      ''from repmgr.events'',
      ''order by event_timestamp desc'',
      ''limit 20'']"

definition ClusterEvents_scan :: "string list" where
  "ClusterEvents_scan =
     [''NodeID'', ''Event'', ''Successful'', ''Time'', ''AgeS'', ''Details'']"

definition clusterSyncSQL :: string where
  "clusterSyncSQL = sql_lines
     [''select (select value from repmgr.conf where node_id = $1::int and key = 'sys_bindir'),'',
      ''       current_setting('data_directory'),'',
      ''       current_setting('synchronous_standby_names')'']"

definition clusterSyncScan :: "string list" where
  "clusterSyncScan =
     [''bindir'', ''datadir'', ''names'']"

section \<open>What is sent, and what is read from it\<close>

text \<open>The text of each statement; two are completed by \<open>fmt.Sprintf\<close>.\<close>

fun sql :: "statement \<Rightarrow> string" where
  "sql TrackActivitiesSQL = trackActivitiesSQL"
| "sql SessionActivitySQL = sessionActivitySQL"
| "sql LockListSQL = lockListSQL"
| "sql TxnPreparedSQL = txnPreparedSQL"
| "sql WaitSummarySQL = waitSummarySQL"
| "sql IdentifySQL = identifySQL"
| "sql InstInfoSQL = instInfoSQL"
| "sql InstDatabasesSQL = instDatabasesSQL"
| "sql InstDownstreamsSQL = instDownstreamsSQL"
| "sql InstUpstreamSQL = instUpstreamSQL"
| "sql ParamsChangedSQL = paramsChangedSQL"
| "sql SpaceTablespacesSQL = spaceTablespacesSQL"
| "sql SpaceWALSQL = spaceWALSQL"
| "sql ObjectTablesSQL = objectTablesSQL"
| "sql ObjectIndexesSQL = objectIndexesSQL"
| "sql SeqListSQL = seqListSQL"
| "sql WalPositionSQL = walPositionSQL"
| "sql ArchiveStatusSQL = archiveStatusSQL"
| "sql ArchiveReadySQL = archiveReadySQL"
| "sql CheckpointStatsSQL = checkpointStatsSQL"
| "sql CheckpointLastSQL = checkpointLastSQL"
| "sql CheckpointSettingsSQL = checkpointSettingsSQL"
| "sql SlotListSQL = slotListSQL"
| "sql FreezeDatabasesSQL = freezeDatabasesSQL"
| "sql FreezeTablesSQL = freezeTablesSQL"
| "sql FreezeLimitsSQL = freezeLimitsSQL"
| "sql TrackCountsSQL = trackCountsSQL"
| "sql VacuumTablesSQL = vacuumTablesSQL"
| "sql VacuumProgressSQL = vacuumProgressSQL"
| "sql VacuumSettingsSQL = vacuumSettingsSQL"
| "sql TableInfoSQL = tableInfoSQL"
| "sql TableSizeSQL = tableSizeSQL"
| "sql TableStatsSQL = tableStatsSQL"
| "sql (TableIndexesSQL x) = sprintf_s tableIndexesSQL x"
| "sql TopCheckSQL = topCheckSQL"
| "sql (SqlTopSQL x) = sprintf_s sqlTopSQL x"
| "sql ProgressListSQL = progressListSQL"
| "sql ProgressCheckpointSQL = progressCheckpointSQL"
| "sql ReplDownstreamsSQL = replDownstreamsSQL"
| "sql ReplSyncSQL = replSyncSQL"
| "sql ReplReplaySQL = replReplaySQL"
| "sql ClusterSchemaSQL = clusterSchemaSQL"
| "sql LocalNodeExistsSQL = localNodeExistsSQL"
| "sql LocalNodeIDSQL = localNodeIDSQL"
| "sql ClusterNodesSQL = clusterNodesSQL"
| "sql ClusterEventsSQL = clusterEventsSQL"
| "sql ClusterSyncSQL = clusterSyncSQL"

text \<open>The variables its columns are scanned into, in order.\<close>

fun destinations :: "statement \<Rightarrow> string list" where
  "destinations TrackActivitiesSQL = trackActivitiesScan"
| "destinations SessionActivitySQL = SessionActivity_scan"
| "destinations LockListSQL = LockList_scan"
| "destinations TxnPreparedSQL = TxnPrepared_scan"
| "destinations WaitSummarySQL = WaitSummary_scan"
| "destinations IdentifySQL = identifyScan"
| "destinations InstInfoSQL = InstInfo_scan"
| "destinations InstDatabasesSQL = InstDatabases_scan"
| "destinations InstDownstreamsSQL = InstDownstreams_scan"
| "destinations InstUpstreamSQL = InstUpstream_scan"
| "destinations ParamsChangedSQL = ParamsChanged_scan"
| "destinations SpaceTablespacesSQL = SpaceTablespaces_scan"
| "destinations SpaceWALSQL = SpaceWAL_scan"
| "destinations ObjectTablesSQL = ObjectTables_scan"
| "destinations ObjectIndexesSQL = ObjectIndexes_scan"
| "destinations SeqListSQL = SeqList_scan"
| "destinations WalPositionSQL = WALPosition_scan"
| "destinations ArchiveStatusSQL = ArchiveStatus_scan"
| "destinations ArchiveReadySQL = ArchiveReady_scan"
| "destinations CheckpointStatsSQL = CheckpointStats_scan"
| "destinations CheckpointLastSQL = CheckpointLast_scan"
| "destinations CheckpointSettingsSQL = CheckpointSettings_scan"
| "destinations SlotListSQL = SlotList_scan"
| "destinations FreezeDatabasesSQL = FreezeDatabases_scan"
| "destinations FreezeTablesSQL = FreezeTables_scan"
| "destinations FreezeLimitsSQL = FreezeLimits_scan"
| "destinations TrackCountsSQL = trackCountsScan"
| "destinations VacuumTablesSQL = VacuumTables_scan"
| "destinations VacuumProgressSQL = VacuumProgress_scan"
| "destinations VacuumSettingsSQL = VacuumSettings_scan"
| "destinations TableInfoSQL = TableInfo_scan"
| "destinations TableSizeSQL = TableSize_scan"
| "destinations TableStatsSQL = TableStats_scan"
| "destinations (TableIndexesSQL _) = TableIndexes_scan"
| "destinations TopCheckSQL = topCheckScan"
| "destinations (SqlTopSQL _) = SQLTop_scan"
| "destinations ProgressListSQL = scanOperation"
| "destinations ProgressCheckpointSQL = scanOperation"
| "destinations ReplDownstreamsSQL = ReplDownstreams_scan"
| "destinations ReplSyncSQL = ReplSync_scan"
| "destinations ReplReplaySQL = ReplReplay_scan"
| "destinations ClusterSchemaSQL = clusterSchemaScan"
| "destinations LocalNodeExistsSQL = localNodeExistsScan"
| "destinations LocalNodeIDSQL = localNodeIDScan"
| "destinations ClusterNodesSQL = ClusterNodes_scan"
| "destinations ClusterEventsSQL = ClusterEvents_scan"
| "destinations ClusterSyncSQL = clusterSyncScan"

end
