(* ===== verification/SqlText.thy ===== *)
theory SqlText
  imports ProbeSQL
begin

text \<open>
  What the texts of the statements say, read by a lexer of SQL's words, literals and quoted names: whether
  a statement only reads, how many columns each of its \<open>select\<close> lists has, and which parameters it takes.
  The functions recurse over the text without accumulators, so that they evaluate in linear time.
\<close>

section \<open>A lexer\<close>

datatype token = Word string | Literal | Quoted | Lparen | Rparen | Comma | Sym char | Gap

datatype lex_mode = InText | InLiteral | InName

datatype char_class = Letter | Quote | DQuote | Opening | Closing | Separator | Blank | Other

definition char_class :: "char \<Rightarrow> char_class" where
  "char_class c =
     (if c \<in> set ''abcdefghijklmnopqrstuvwxyzABCDEFGHIJKLMNOPQRSTUVWXYZ0123456789_$''
      then Letter
      else if c = CHR 0x27 then Quote else if c = CHR 0x22 then DQuote
      else if c = CHR ''('' then Opening else if c = CHR '')'' then Closing else if c = CHR '','' then Separator
      else if c = CHR '' '' \<or> c = CHR 0x0A \<or> c = CHR 0x09 then Blank else Other)"

text \<open>The same by the bits of the character, to compute with.\<close>

lemma char_class_code [code]:
  "char_class (Char b0 b1 b2 b3 b4 b5 b6 b7) =
     (if b7 then Other else (if b6 then (if b5 then (if b4 then (if b3 then (if b2 then Other
     else (if b1 then (if b0 then Other else Letter) else Letter)) else Letter) else (if b3
     then Letter else (if b2 then Letter else (if b1 then Letter else (if b0 then Letter else
     Other))))) else (if b4 then (if b3 then (if b2 then (if b1 then (if b0 then Letter else
     Other) else Other) else (if b1 then (if b0 then Other else Letter) else Letter)) else
     Letter) else (if b3 then Letter else (if b2 then Letter else (if b1 then Letter else (if
     b0 then Letter else Other)))))) else (if b5 then (if b4 then (if b3 then (if b2 then Other
     else (if b1 then Other else Letter)) else Letter) else (if b3 then (if b2 then (if b1 then
     Other else (if b0 then Other else Separator)) else (if b1 then Other else (if b0 then
     Closing else Opening))) else (if b2 then (if b1 then (if b0 then Quote else Other) else
     (if b0 then Other else Letter)) else (if b1 then (if b0 then Other else DQuote) else (if
     b0 then Other else Blank))))) else (if b4 then Other else (if b3 then (if b2 then Other
     else (if b1 then (if b0 then Other else Blank) else (if b0 then Blank else Other))) else
     Other)))))"
  by (cases b7; cases b6; cases b5; cases b4; cases b3; cases b2; cases b1; cases b0; simp add: char_class_def)

fun next_mode :: "lex_mode \<Rightarrow> char_class \<Rightarrow> lex_mode" where
  "next_mode InText Quote = InLiteral"
| "next_mode InText DQuote = InName"
| "next_mode InLiteral Quote = InText"
| "next_mode InName DQuote = InText"
| "next_mode m _ = m"

text \<open>SQL's words are the same in either case.\<close>

lemma lower_byte_code [code]:
  "lower_byte (Char b0 b1 b2 b3 b4 b5 b6 b7) = Char b0 b1 b2 b3 b4
     (if b7 then b5 else if b6 then b5 \<or> \<not> (b4 \<and> b3 \<and> (b2 \<or> b1 \<and> b0)) \<and> (b4 \<or> b3 \<or> b2 \<or> b1 \<or> b0) else b5) b6 b7"
  by (cases b7; cases b6; cases b5; cases b4; cases b3; cases b2; cases b1; cases b0; simp add: lower_byte_def byte_def byte_char_def char_of_def bit_iff_odd)

fun add_letter :: "char \<Rightarrow> token list \<Rightarrow> token list" where
  "add_letter c (Word w # ts) = Word (lower_byte c # w) # ts"
| "add_letter c ts = Word [lower_byte c] # ts"

fun add_token :: "lex_mode \<Rightarrow> char_class \<Rightarrow> char \<Rightarrow> token list \<Rightarrow> token list" where
  "add_token InText Letter c ts = add_letter c ts"
| "add_token InText Quote _ ts = Literal # ts"
| "add_token InText DQuote _ ts = Quoted # ts"
| "add_token InText Opening _ ts = Lparen # ts"
| "add_token InText Closing _ ts = Rparen # ts"
| "add_token InText Separator _ ts = Comma # ts"
| "add_token InText Blank _ ts = Gap # ts"
| "add_token InText Other c ts = Sym c # ts"
| "add_token _ _ _ ts = ts"

fun lex :: "(char_class \<times> char) list \<Rightarrow> lex_mode \<Rightarrow> token list" where
  "lex [] m = []"
| "lex ((k, c) # cs) m = add_token m k c (lex cs (next_mode m k))"

primrec classes :: "string \<Rightarrow> (char_class \<times> char) list" where
  "classes [] = []"
| "classes (c # cs) = (char_class c, c) # classes cs"

fun no_space :: "token list \<Rightarrow> token list" where
  "no_space [] = []"
| "no_space (Gap # ts) = no_space ts"
| "no_space (t # ts) = t # no_space ts"

definition tokens :: "string \<Rightarrow> token list" where
  "tokens s = no_space (lex (classes s) InText)"

fun words :: "token list \<Rightarrow> string list" where
  "words [] = []"
| "words (Word w # ts) = w # words ts"
| "words (_ # ts) = words ts"

section \<open>Statements that only read\<close>

text \<open>
  What can write in a single \<open>select\<close> or \<open>with\<close>: a \<open>with\<close> that modifies, \<open>into\<close>, row locks (\<open>for update\<close>,
  \<open>for share\<close>), and a function that acts. The functions below only read.
\<close>

definition writing_words :: "string list" where
  "writing_words = [''insert'', ''update'', ''delete'', ''merge'', ''into'', ''share'']"

definition syntax_words :: "string list" where
  "syntax_words = [''as'', ''exists'', ''filter'', ''from'', ''in'', ''select'']"

definition reading_functions :: "string list" where
  "reading_functions = [
     ''extract'', ''round'', ''now'', ''current_setting'', ''coalesce'',
     ''sys_is_in_recovery'', ''age'', ''pg_total_relation_size'', ''current_database'',
     ''count'', ''sys_last_wal_replay_lsn'', ''sys_wal_lsn_diff'', ''sys_current_wal_lsn'',
     ''mxid_age'', ''host'', ''sys_backend_pid'', ''sys_last_wal_receive_lsn'', ''version'',
     ''sys_postmaster_start_time'', ''sum'', ''pg_table_size'', ''pg_indexes_size'',
     ''array_agg'', ''min'', ''sys_ls_archive_statusdir'', ''sys_control_checkpoint'',
     ''has_database_privilege'', ''pg_database_size'', ''sys_blocking_pids'',
     ''pg_relation_size'', ''sys_last_xact_replay_timestamp'', ''sys_is_wal_replay_paused'',
     ''has_sequence_privilege'', ''pg_tablespace_location'', ''has_tablespace_privilege'',
     ''pg_has_role'', ''pg_tablespace_size'', ''sys_ls_waldir'', ''to_regclass'',
     ''pg_get_indexdef'', ''pg_get_userbyid'', ''sys_walfile_name'', ''get_local_node_id'']"

text \<open>The words before an opening parenthesis: functions, and words of the syntax.\<close>

fun called :: "token list \<Rightarrow> string list" where
  "called (Word w # Lparen # ts) = w # called ts"
| "called (_ # ts) = called ts"
| "called [] = []"

fun symbols :: "token list \<Rightarrow> string" where
  "symbols (Sym c # ts) = c # symbols ts"
| "symbols (_ # ts) = symbols ts"
| "symbols [] = []"

definition reads_only :: "token list \<Rightarrow> bool" where
  "reads_only ts \<longleftrightarrow>
     hd ts \<in> {Word ''select'', Word ''with''} \<and> CHR '';'' \<notin> set (symbols ts) \<and>
     list_all (\<lambda>w. w \<notin> set writing_words) (words ts) \<and>
     list_all (\<lambda>f. f \<in> set reading_functions \<or> f \<in> set syntax_words) (called ts)"

section \<open>Columns\<close>

text \<open>The tokens outside every parenthesis, and those inside, one level of parentheses taken off.\<close>

fun outer :: "nat \<Rightarrow> token list \<Rightarrow> token list" where
  "outer n [] = []"
| "outer n (Lparen # ts) = outer (Suc n) ts"
| "outer (Suc n) (Rparen # ts) = outer n ts"
| "outer 0 (Rparen # ts) = outer 0 ts"
| "outer 0 (t # ts) = t # outer 0 ts"
| "outer (Suc n) (t # ts) = outer (Suc n) ts"

fun inner :: "nat \<Rightarrow> token list \<Rightarrow> token list" where
  "inner n [] = []"
| "inner 0 (Lparen # ts) = inner 1 ts"
| "inner (Suc n) (Lparen # ts) = Lparen # inner (Suc (Suc n)) ts"
| "inner (Suc 0) (Rparen # ts) = inner 0 ts"
| "inner (Suc (Suc n)) (Rparen # ts) = Rparen # inner (Suc n) ts"
| "inner 0 (t # ts) = inner 0 ts"
| "inner (Suc n) (t # ts) = t # inner (Suc n) ts"

text \<open>The columns of a \<open>select\<close> list: its commas, up to \<open>from\<close>, and one more.\<close>

datatype mark = Select | From | Another | Part

fun mark_of :: "token \<Rightarrow> mark" where
  "mark_of Comma = Another"
| "mark_of (Word w) = (if w = ''select'' then Select else if w = ''from'' then From else Part)"
| "mark_of _ = Part"

fun commas :: "mark list \<Rightarrow> nat" where
  "commas [] = 0"
| "commas (Another # ms) = Suc (commas ms)"
| "commas (From # ms) = 0"
| "commas (_ # ms) = commas ms"

fun select_lists :: "mark list \<Rightarrow> nat list" where
  "select_lists [] = []"
| "select_lists (Select # ms) = Suc (commas ms) # select_lists ms"
| "select_lists (_ # ms) = select_lists ms"

text \<open>
  The number of columns of a statement, once per \<open>select\<close> that gives its rows: more than one for a
  \<open>union\<close>. \<open>select * from (...)\<close> has the columns of what is in the parentheses.
\<close>

definition column_counts :: "token list \<Rightarrow> nat list" where
  "column_counts ts =
     select_lists (map mark_of
       (if take 3 ts = [Word ''select'', Sym (CHR ''*''), Word ''from''] then outer 0 (inner 0 ts) else outer 0 ts))"

section \<open>Parameters\<close>

definition placeholders :: "token list \<Rightarrow> string list" where
  "placeholders ts = concat (map (\<lambda>w. if hd w = CHR ''$'' then [w] else []) (words ts))"

text \<open>
  A well posed request: its statement only reads, every row has one column for each variable it is
  scanned into, and its parameters are those that are bound.
\<close>

definition posed :: "token list \<Rightarrow> nat list \<Rightarrow> nat \<Rightarrow> nat \<Rightarrow> bool" where
  "posed ts counts n k \<longleftrightarrow> reads_only ts \<and> counts \<noteq> [] \<and> list_all (\<lambda>c. c = n) counts \<and>
     set (placeholders ts) = set (map (\<lambda>i. CHR ''$'' # dec_nat (Suc i)) [0..<k])"

definition well_posed :: "request \<Rightarrow> bool" where
  "well_posed r = (case r of (st, args) \<Rightarrow>
     posed (tokens (sql st)) (column_counts (tokens (sql st))) (length (destinations st)) (length args))"

text \<open>The same with the tokens read once, to compute with.\<close>

definition posed_tokens :: "token list \<Rightarrow> nat \<Rightarrow> nat \<Rightarrow> bool" where
  "posed_tokens ts n k = posed ts (column_counts ts) n k"

lemma well_posed_code [code]:
  "well_posed (st, args) = posed_tokens (tokens (sql st)) (length (destinations st)) (length args)"
  by (simp add: well_posed_def posed_tokens_def)

section \<open>Every statement\<close>

lemma posed_sessions_instance [simp]:
  "well_posed (TrackActivitiesSQL, [])"
  "well_posed (SessionActivitySQL, [])"
  "well_posed (LockListSQL, [])"
  "well_posed (TxnPreparedSQL, [])"
  "well_posed (WaitSummarySQL, [])"
  "well_posed (IdentifySQL, [])"
  "well_posed (InstInfoSQL, [])"
  "well_posed (InstDatabasesSQL, [])"
  "well_posed (InstDownstreamsSQL, [])"
  "well_posed (InstUpstreamSQL, [])"
  "well_posed (ParamsChangedSQL, [])"
  by code_simp+

lemma posed_space_wal [simp]:
  "well_posed (SpaceTablespacesSQL, [])"
  "well_posed (SpaceWALSQL, [])"
  "well_posed (ObjectTablesSQL, [])"
  "well_posed (ObjectIndexesSQL, [])"
  "well_posed (SeqListSQL, [])"
  "well_posed (WalPositionSQL, [])"
  "well_posed (ArchiveStatusSQL, [])"
  "well_posed (ArchiveReadySQL, [])"
  "well_posed (CheckpointStatsSQL, [])"
  "well_posed (CheckpointLastSQL, [])"
  "well_posed (CheckpointSettingsSQL, [])"
  "well_posed (SlotListSQL, [])"
  by code_simp+

lemma posed_freeze_tables [simp]:
  "well_posed (FreezeDatabasesSQL, [])"
  "well_posed (FreezeTablesSQL, [])"
  "well_posed (FreezeLimitsSQL, [])"
  "well_posed (TrackCountsSQL, [])"
  "well_posed (VacuumTablesSQL, [])"
  "well_posed (VacuumProgressSQL, [])"
  "well_posed (VacuumSettingsSQL, [])"
  "well_posed (TableInfoSQL, [ArgText x])"
  "well_posed (TableSizeSQL, [ArgOID oid])"
  "well_posed (TableStatsSQL, [ArgOID oid])"
  "well_posed (ProgressListSQL, [])"
  by code_simp+

lemma posed_replication [simp]:
  "well_posed (ProgressCheckpointSQL, [])"
  "well_posed (TopCheckSQL, [])"
  "well_posed (ReplDownstreamsSQL, [])"
  "well_posed (ReplSyncSQL, [])"
  "well_posed (ReplReplaySQL, [])"
  "well_posed (ClusterSchemaSQL, [])"
  "well_posed (LocalNodeExistsSQL, [])"
  "well_posed (LocalNodeIDSQL, [])"
  "well_posed (ClusterNodesSQL, [ArgInt i])"
  "well_posed (ClusterEventsSQL, [])"
  "well_posed (ClusterSyncSQL, [ArgInt i])"
  by code_simp+

lemma posed_indexes [simp]:
  "well_posed (TableIndexesSQL ''pg_relation_size(i.indexrelid)'', [ArgOID oid])"
  "well_posed (TableIndexesSQL ''null::bigint'', [ArgOID oid])"
  by code_simp+

section \<open>The view of the statements\<close>

text \<open>
  The name in \<open>sql.top\<close> is quoted by \<open>pgx\<close>: each part in double quotes, those in it doubled. Whatever the
  schema is called, its name stays a name.
\<close>

definition view_name :: "string \<Rightarrow> string" where
  "view_name s = CHR 0x22 # concat (map (\<lambda>c. if c = CHR 0x22 then [c, c] else [c]) s) @ [CHR 0x22]"

definition quotes_names :: "(string list \<Rightarrow> string) \<Rightarrow> bool" where
  "quotes_names sanitize \<longleftrightarrow> (\<forall>parts. \<exists>qs. length qs = length parts \<and> sanitize parts = join ''.'' (map view_name qs))"

lemma class_DQuote: "char_class c = DQuote \<longleftrightarrow> c = CHR 0x22"
  by (auto simp: char_class_def)

lemma next_mode_InName: "next_mode InName k = (if k = DQuote then InText else InName)"
  by (cases k) simp_all

lemma add_token_InName: "add_token InName k c ts = ts"
  by (cases k) simp_all

lemma classes_append [simp]: "classes (s @ t) = classes s @ classes t"
  by (induction s) simp_all

lemma lex_name_body:
  "\<exists>n. \<forall>cs. lex (classes (concat (map (\<lambda>c. if c = CHR 0x22 then [c, c] else [c]) s)) @ cs) InName =
     replicate n Quoted @ lex cs InName"
proof (induction s)
  case Nil
  show ?case by (rule exI [of _ 0]) simp
next
  case (Cons c s)
  then obtain n where n: "lex (classes (concat (map (\<lambda>c. if c = CHR 0x22 then [c, c] else [c]) s)) @ cs) InName =
      replicate n Quoted @ lex cs InName" for cs by blast
  show ?case
  proof (cases "c = CHR 0x22")
    case True
    then have "char_class c = DQuote" by (simp add: class_DQuote)
    with True n show ?thesis by (intro exI [of _ "Suc n"]) simp
  next
    case False
    then have "char_class c \<noteq> DQuote" by (simp add: class_DQuote)
    with False n show ?thesis by (intro exI [of _ n]) (simp add: next_mode_InName add_token_InName)
  qed
qed

lemma lex_view_name:
  "\<exists>n. \<forall>cs. lex (classes (view_name s) @ cs) InText = Quoted # replicate n Quoted @ lex cs InText"
proof -
  obtain n where "lex (classes (concat (map (\<lambda>c. if c = CHR 0x22 then [c, c] else [c]) s)) @ cs) InName =
      replicate n Quoted @ lex cs InName" for cs
    using lex_name_body by blast
  moreover have "char_class (CHR 0x22) = DQuote" by (simp add: class_DQuote)
  ultimately show ?thesis by (intro exI [of _ n]) (simp add: view_name_def)
qed

lemma no_space_quoted [simp]: "no_space (replicate n Quoted @ ts) = replicate n Quoted @ no_space ts"
  by (induction n) simp_all

lemma words_quoted [simp]: "words (replicate n Quoted @ ts) = words ts"
  by (induction n) simp_all

lemma symbols_quoted [simp]: "symbols (replicate n Quoted @ ts) = symbols ts"
  by (induction n) simp_all

lemma called_quoted [simp]: "called (replicate n Quoted @ ts) = called ts"
  by (induction n) simp_all

lemma outer_quoted [simp]: "outer 0 (replicate n Quoted @ ts) = replicate n Quoted @ outer 0 ts"
  by (induction n) simp_all

lemma select_lists_parts [simp]:
  "commas (replicate n Part @ ms) = commas ms" "select_lists (replicate n Part @ ms) = select_lists ms"
  by (induction n) simp_all

lemma lex_view:
  "\<exists>m n. \<forall>cs. lex (classes (join ''.'' (map view_name [a, b])) @ cs) InText =
     Quoted # replicate m Quoted @ Sym (CHR ''.'') # Quoted # replicate n Quoted @ lex cs InText"
proof -
  obtain m where "lex (classes (view_name a) @ cs) InText = Quoted # replicate m Quoted @ lex cs InText" for cs
    using lex_view_name by blast
  moreover obtain n where "lex (classes (view_name b) @ cs) InText = Quoted # replicate n Quoted @ lex cs InText" for cs
    using lex_view_name by blast
  moreover have "char_class (CHR ''.'') = Other" by (simp add: char_class_def)
  ultimately show ?thesis by (intro exI [of _ m] exI [of _ n]) simp
qed

lemma posed_top:
  assumes "v = join ''.'' (map view_name [a, b])"
  shows "well_posed (SqlTopSQL v, [])"
proof -
  obtain m n where v: "lex (classes v @ cs) InText =
      Quoted # replicate m Quoted @ Sym (CHR ''.'') # Quoted # replicate n Quoted @ lex cs InText" for cs
    using lex_view unfolding assms by blast
  show ?thesis
    by (simp add: well_posed_def posed_def tokens_def sqlTopSQL_def sql_lines_def SQLTop_scan_def v
        char_class_code lower_byte_code reads_only_def writing_words_def reading_functions_def
        syntax_words_def column_counts_def placeholders_def)
qed

end
