(* ===== verification/SentSpec.thy ===== *)
theory SentSpec
  imports SqlText MainSpec
begin

text \<open>
  What a run sends to the server. Every request of every command is well posed: a single query that only
  reads, with the columns its rows are scanned into and the parameters that are bound.
\<close>

section \<open>Queries and what they send\<close>

definition asks :: "(request \<Rightarrow> bool) \<Rightarrow> 'a query \<Rightarrow> bool" where
  "asks ok q \<longleftrightarrow> (\<forall>x. \<exists>new. sent_by x (snd (run_state q x)) new \<and> list_all ok new)"

lemma asks_return: "asks ok (State_Monad.return a)"
  unfolding asks_def by (intro allI exI [of _ "[]"]) (simp add: sent_by_def)

lemma asks_ask: "ok (st, args) \<Longrightarrow> asks ok (ask server st args)"
  unfolding asks_def by (auto simp: sent_by_def)

lemma asks_bind:
  assumes "asks ok q" and "\<And>a. asks ok (f a)"
  shows "asks ok (State_Monad.bind q f)"
  unfolding asks_def
proof
  fix x
  obtain a y where y: "run_state q x = (a, y)" by fastforce
  obtain new where "sent_by x y new" "list_all ok new" using assms(1) y unfolding asks_def by (metis snd_conv)
  moreover obtain new' where "sent_by y (snd (run_state (f a) y)) new'" "list_all ok new'"
    using assms(2) unfolding asks_def by blast
  ultimately show "\<exists>new. sent_by x (snd (run_state (State_Monad.bind q f) x)) new \<and> list_all ok new"
    using sent_by_trans [of x y new "snd (run_state (f a) y)" new'] by (intro exI [of _ "new @ new'"]) (simp add: y)
qed

lemma asks_collectArgs: "ok (st, args) \<Longrightarrow> asks ok (collectArgs server st args)"
  unfolding collectArgs_def by (intro asks_bind asks_ask asks_return)

lemma asks_collect: "ok (st, []) \<Longrightarrow> asks ok (collect server st)"
  unfolding collect_def by (rule asks_collectArgs)

lemma asks_silent: "asks ok (silent rep)"
  unfolding silent_def by (rule asks_return)

lemma asks_cases:
  "(b \<Longrightarrow> asks ok q) \<Longrightarrow> (\<not> b \<Longrightarrow> asks ok q') \<Longrightarrow> asks ok (if b then q else q')"
  "(\<And>a b. asks ok (f a b)) \<Longrightarrow> asks ok (case p of (a, b) \<Rightarrow> f a b)"
  "(\<And>e. asks ok (g e)) \<Longrightarrow> (\<And>r. asks ok (h r)) \<Longrightarrow> asks ok (case s of Inl e \<Rightarrow> g e | Inr r \<Rightarrow> h r)"
  "asks ok q \<Longrightarrow> (\<And>a. asks ok (k a)) \<Longrightarrow> asks ok (case o' of None \<Rightarrow> q | Some a \<Rightarrow> k a)"
  "(\<And>a. asks ok (k a)) \<Longrightarrow> asks ok (Let a' k)"
  by (simp_all add: Let_def split: prod.split sum.split option.split)

lemmas asks_intros = asks_bind asks_ask asks_collectArgs asks_collect asks_silent asks_return asks_cases

section \<open>The probes\<close>

lemma asks_tracks: "asks well_posed trackActivities" "asks well_posed trackCounts"
  by (auto simp: trackActivities_def trackCounts_def intro!: asks_intros)

lemmas posed_intros = asks_tracks asks_intros posed_sessions_instance posed_space_wal posed_freeze_tables
  posed_replication posed_indexes

lemma asks_plain_probes:
  "asks well_posed SessionActivity_probe" "asks well_posed LockList_probe"
  "asks well_posed WaitSummary_probe" "asks well_posed InstInfo_probe"
  "asks well_posed InstDatabases_probe" "asks well_posed InstDownstreams_probe"
  "asks well_posed SpaceTablespaces_probe" "asks well_posed SpaceWAL_probe"
  "asks well_posed ObjectTables_probe" "asks well_posed ObjectIndexes_probe"
  "asks well_posed SeqList_probe" "asks well_posed WALPosition_probe"
  "asks well_posed ArchiveStatus_probe" "asks well_posed ArchiveReady_probe"
  "asks well_posed CheckpointStats_probe" "asks well_posed CheckpointLast_probe"
  "asks well_posed CheckpointSettings_probe" "asks well_posed SlotList_probe"
  "asks well_posed ParamsChanged_probe" "asks well_posed FreezeDatabases_probe"
  "asks well_posed FreezeTables_probe" "asks well_posed FreezeLimits_probe"
  "asks well_posed ProgressList_probe" "asks well_posed ProgressCheckpoint_probe"
  "asks well_posed ReplDownstreams_probe" "asks well_posed VacuumSettings_probe"
  unfolding SessionActivity_probe_def LockList_probe_def WaitSummary_probe_def InstInfo_probe_def
    InstDatabases_probe_def InstDownstreams_probe_def SpaceTablespaces_probe_def SpaceWAL_probe_def
    ObjectTables_probe_def ObjectIndexes_probe_def SeqList_probe_def WALPosition_probe_def
    ArchiveStatus_probe_def ArchiveReady_probe_def CheckpointStats_probe_def CheckpointLast_probe_def
    CheckpointSettings_probe_def SlotList_probe_def ParamsChanged_probe_def FreezeDatabases_probe_def
    FreezeTables_probe_def FreezeLimits_probe_def ProgressList_probe_def ProgressCheckpoint_probe_def
    ReplDownstreams_probe_def VacuumSettings_probe_def
  by (intro posed_intros)+

lemma asks_context_probes:
  "asks well_posed (TxnPrepared_probe c)" "asks well_posed (InstUpstream_probe c)"
  "asks well_posed (ReplSync_probe c)" "asks well_posed (ReplReplay_probe c)"
  "asks well_posed (VacuumTables_probe c)" "asks well_posed (VacuumProgress_probe c)"
  "asks well_posed (ClusterEvents_probe c)" "asks well_posed (ClusterNodes_probe c)"
  unfolding TxnPrepared_probe_def InstUpstream_probe_def ReplSync_probe_def ReplReplay_probe_def
    VacuumTables_probe_def VacuumProgress_probe_def ClusterEvents_probe_def ClusterNodes_probe_def
    repmgrSchema_def localNodeID_def
  by (intro posed_intros)+

lemma posed_sizes:
  "well_posed (TableIndexesSQL (if sizes then ''pg_relation_size(i.indexrelid)'' else ''null::bigint''), [ArgOID oid])"
  by (cases sizes) (simp_all add: posed_indexes)

lemma asks_table_probes:
  "asks well_posed (TableInfo_probe rel)" "asks well_posed (TableSize_probe oid)"
  "asks well_posed (TableStats_probe c oid)" "asks well_posed (TableIndexes_probe oid sizes)"
  unfolding TableInfo_probe_def TableSize_probe_def TableStats_probe_def TableIndexes_probe_def
  by (intro posed_intros posed_sizes)+

lemma asks_cluster_sync: "asks well_posed (ClusterSync_probe os c n socket loopback)"
  unfolding ClusterSync_probe_def by (intro posed_intros)

lemma asks_SQLTop:
  assumes "quotes_names sanitize"
  shows "asks well_posed (SQLTop_probe sanitize c)"
proof -
  have top: "well_posed (SqlTopSQL (sanitize [a, b]), [])" for a b
  proof -
    obtain qs where qs: "length qs = length [a, b]" "sanitize [a, b] = join ''.'' (map view_name qs)"
      using assms [unfolded quotes_names_def, rule_format, of "[a, b]"] by (elim exE conjE)
    then obtain p q where "qs = [p, q]" by (auto simp: length_Suc_conv)
    with qs(2) have "sanitize [a, b] = join ''.'' (map view_name [p, q])" by (simp only:)
    then show ?thesis by (rule posed_top)
  qed
  show ?thesis unfolding SQLTop_probe_def by (intro posed_intros top)
qed

section \<open>The commands\<close>

lemma asks_Identify: "asks well_posed (Identify now c)"
  unfolding Identify_def by (intro posed_intros)

lemmas command_intros = asks_plain_probes asks_context_probes asks_table_probes asks_cluster_sync posed_intros

lemma asks_session_builds:
  "asks well_posed (sessions_build opt info)" "asks well_posed (session_build pid th info)"
  "asks well_posed (locks_build limit th info)" "asks well_posed (txn_build limit th info)"
  "asks well_posed (waits_build info)" "asks well_posed (progress_build info)"
  unfolding sessions_build_def session_build_def locks_build_def txn_build_def waits_build_def progress_build_def
  by (intro command_intros)+

lemma asks_instance_builds:
  "asks well_posed (status_build os c info)" "asks well_posed (slots_build info)"
  "asks well_posed (space_build os c info)" "asks well_posed (archive_build info)"
  "asks well_posed (params_build info)" "asks well_posed (checkpoint_build info)" "asks well_posed (wal_build info)"
  "asks well_posed (repl_build orbit info)" "asks well_posed (cluster_build os orbit c skip explicit info)"
  unfolding status_build_def slots_build_def space_build_def archive_build_def params_build_def
    checkpoint_build_def wal_build_def repl_build_def cluster_build_def
  by (intro command_intros)+

lemma asks_table_builds:
  "asks well_posed (freeze_build letter limit info)" "asks well_posed (vacuum_build limit info)"
  "asks well_posed (top_objects_build limit info)" "asks well_posed (table_build printable rel info)"
  "asks well_posed (seq_build limit info)"
  unfolding freeze_build_def vacuum_build_def top_objects_build_def table_build_def seq_build_def
  by (intro command_intros)+

lemma asks_top_build: "quotes_names sanitize \<Longrightarrow> asks well_posed (top_build sanitize limit by info)"
  unfolding top_build_def by (intro command_intros asks_SQLTop)

section \<open>What a run sends\<close>

text \<open>What a command hands to \<open>diagnose\<close>; \<open>skip\<close> is the reason \<open>cluster\<close> may have for not reading repmgr's tables.\<close>

definition build_of :: "Env \<Rightarrow> globalFlags \<Rightarrow> command \<Rightarrow> string \<Rightarrow> build" where
  "build_of env g cmd skip = (case cmd of
       SessionsCmd opt \<Rightarrow> sessions_build opt
     | SessionCmd arg th \<Rightarrow> session_build (pid_of arg) th
     | LocksCmd limit th \<Rightarrow> locks_build limit th
     | TxnCmd limit th \<Rightarrow> txn_build limit th
     | WaitsCmd \<Rightarrow> waits_build
     | StatusCmd \<Rightarrow> status_build (Env.Os env) (cfg g)
     | SlotsCmd \<Rightarrow> slots_build
     | SpaceCmd \<Rightarrow> space_build (Env.Os env) (cfg g)
     | FreezeCmd limit \<Rightarrow> freeze_build (Env.Letter env) limit
     | VacuumCmd limit \<Rightarrow> vacuum_build limit
     | ArchiveCmd \<Rightarrow> archive_build
     | ParamsCmd \<Rightarrow> params_build
     | ReplCmd \<Rightarrow> repl_build (Env.Orbit env)
     | ClusterCmd explicit \<Rightarrow> cluster_build (Env.Os env) (Env.Orbit env) (cfg g) skip explicit
     | TopObjectsCmd limit \<Rightarrow> top_objects_build limit
     | TableCmd rel \<Rightarrow> table_build (Env.Printable env) rel
     | TopCmd limit by \<Rightarrow> top_build (Env.Sanitize env) limit by
     | ProgressCmd \<Rightarrow> progress_build
     | CheckpointCmd \<Rightarrow> checkpoint_build
     | WALCmd \<Rightarrow> wal_build
     | SeqCmd limit \<Rightarrow> seq_build limit)"

lemma run_cluster_builds:
  "\<exists>g' skip w'. json g' = json g \<and> run_state (run_cluster env g explicit) w =
     run_state (diagnose env g' (build_of env g (ClusterCmd explicit) skip)) w'"
proof (cases explicit)
  case True
  then show ?thesis by (auto simp: run_cluster_eq build_of_def)
next
  case False
  obtain r w1 where o: "run_state (Open (cfg (cluster_flags g))) w = (r, w1)" by fastforce
  obtain g' skip where n: "cluster_next g r = (g', skip)" by fastforce
  then have "json g' = json g" by (auto simp: cluster_next_def cluster_flags_def split: sum.splits if_splits)
  moreover have "run_state (run_cluster env g explicit) w =
      run_state (diagnose env g' (build_of env g (ClusterCmd explicit) skip)) w1"
    using False by (simp add: run_cluster_eq o n build_of_def)
  ultimately show ?thesis by blast
qed

text \<open>Every run of a command is one diagnosis with its build.\<close>

lemma run_command_builds:
  "\<exists>g' skip w'. json g' = json g \<and>
     run_state (run_command env g cmd) w = run_state (diagnose env g' (build_of env g cmd skip)) w'"
proof (cases "\<exists>explicit. cmd = ClusterCmd explicit")
  case True
  then show ?thesis using run_cluster_builds [of g env _ w] by (auto simp: run_command_def)
next
  case False
  then have "run_state (run_command env g cmd) w = run_state (diagnose env g (build_of env g cmd [])) w"
    by (cases cmd) (auto simp: run_command_def build_of_def)
  then show ?thesis by blast
qed

lemma asks_build:
  assumes "quotes_names (Env.Sanitize env)"
  shows "asks well_posed (build_of env g cmd skip info)"
  using assms by (cases cmd) (simp_all add: build_of_def asks_session_builds asks_instance_builds asks_table_builds asks_top_build)

lemma asks_mono: "asks ok q \<Longrightarrow> (\<And>r. ok r \<Longrightarrow> ok' r) \<Longrightarrow> asks ok' q"
  unfolding asks_def by (metis list.pred_mono_strong)

definition harmless :: "request \<Rightarrow> bool" where
  "harmless r \<longleftrightarrow> reads_only (tokens (sql (fst r)))"

text \<open>Every row has one column for each variable, and the parameters are those that are bound.\<close>

definition fits :: "request \<Rightarrow> bool" where
  "fits r \<longleftrightarrow> (let ts = tokens (sql (fst r)); n = length (snd r) in
     column_counts ts \<noteq> [] \<and> list_all (\<lambda>c. c = length (destinations (fst r))) (column_counts ts) \<and>
     set (placeholders ts) = set (map (\<lambda>i. CHR ''$'' # dec_nat (Suc i)) [0..<n]))"

lemma well_posed_iff: "well_posed r \<longleftrightarrow> harmless r \<and> fits r"
  by (simp add: well_posed_def harmless_def fits_def posed_def split_beta Let_def)

text \<open>
  C35. No command changes the server. Whatever the server answers, all that is sent to identify the instance
  and to collect a report are single queries: a \<open>select\<close> or \<open>with\<close> that holds no \<open>insert\<close>, \<open>update\<close>,
  \<open>delete\<close>, \<open>merge\<close>, \<open>into\<close> or row lock, not even in a subquery, and calls only functions that read. The
  name of the schema that \<open>top\<close> puts into its statement cannot change that, quoted as \<open>pgx\<close> documents it.
\<close>

theorem sent_reads_only:
  assumes "quotes_names (Env.Sanitize env)"
  shows "(\<exists>g' skip w'. run_state (run_command env g cmd) w =
      run_state (diagnose env g' (build_of env g cmd skip)) w') \<and>
    asks harmless (Identify now c) \<and> asks harmless (build_of env g cmd skip info)"
proof -
  obtain g' skip' w' where
    "run_state (run_command env g cmd) w = run_state (diagnose env g' (build_of env g cmd skip')) w'"
    using run_command_builds [of g env cmd w] by (elim exE conjE)
  then have "\<exists>g' skip w'. run_state (run_command env g cmd) w =
      run_state (diagnose env g' (build_of env g cmd skip)) w'" by (intro exI)
  moreover have "asks harmless (Identify now c) \<and> asks harmless (build_of env g cmd skip info)"
    using asks_mono [OF asks_Identify] asks_mono [OF asks_build [OF assms]] unfolding well_posed_iff by blast
  ultimately show ?thesis ..
qed

text \<open>With names quoted that way, for \<open>top\<close>, whose statement holds one.\<close>

definition quoting_env :: Env where
  "quoting_env = demo_env\<lparr>Env.Sanitize := \<lambda>parts. join ''.'' (map view_name parts)\<rparr>"

lemma quoting_env_quotes: "quotes_names (Env.Sanitize quoting_env)"
  by (auto simp: quotes_names_def quoting_env_def)

theorem sent_reads_only_witness:
  "\<forall>info. asks harmless (top_build (\<lambda>parts. join ''.'' (map view_name parts)) 20 ''time'' info)"
  using sent_reads_only [OF quoting_env_quotes, where cmd = "TopCmd 20 ''time''"]
  by (simp add: build_of_def quoting_env_def)

text \<open>
  C36. The statements fit the code that reads their rows: in every request that is sent, each \<open>select\<close> that
  gives rows, each branch of a \<open>union\<close> too, lists exactly one column for each variable the row is scanned
  into, and the text names the parameters \<open>$1\<close> to \<open>$n\<close> of the \<open>n\<close> values that are bound.
\<close>

theorem sent_fits:
  assumes "quotes_names (Env.Sanitize env)"
  shows "asks fits (Identify now c) \<and> asks fits (build_of env g cmd skip info)"
  using asks_mono [OF asks_Identify] asks_mono [OF asks_build [OF assms]]
  unfolding well_posed_iff by blast

theorem sent_fits_witness:
  "\<forall>info. asks fits (table_build (Env.Printable demo_env) ''t'' info)"
  using sent_fits [OF quoting_env_quotes, where cmd = "TableCmd ''t''"]
  by (simp add: build_of_def quoting_env_def)

end
