(* ===== verification/SuggestSpec.thy ===== *)
theory SuggestSpec
  imports SentSpec
begin

text \<open>
  The commands that findings suggest. Each is a line a shell splits into words and, when it is for \<open>kbdiag\<close>, the
  arguments of a command that is declared, with the flags and as many arguments as it takes, and that
  it does not refuse.
\<close>

section \<open>A shell's command line\<close>

text \<open>The words of a line, which blanks separate; an operator is where reading stops.\<close>

function sh_words :: "string \<Rightarrow> string list option" where
  "sh_words s = (case dropWhile (\<lambda>c. c = CHR '' '') s of
       [] \<Rightarrow> Some []
     | c # cs \<Rightarrow> (case sh_word False (c # cs) of
           None \<Rightarrow> None
         | Some (w, rest) \<Rightarrow>
             if length rest \<le> length cs then map_option ((#) w) (sh_words rest) else None))"
  by pat_completeness auto
termination
proof (relation "measure length", goal_cases)
  case (2 s c cs p w rest)
  have "length (c # cs) \<le> length s" using 2(1) by (metis length_dropWhile_le)
  with 2(4) show ?case by simp
qed simp

declare sh_words.simps [simp del]

section \<open>The command line\<close>

text \<open>
  The arguments as \<open>cobra\<close> documents them: global flags before or after the command, \<open>--name\<close>, \<open>-n\<close>, with
  their value in the next argument unless they are switches.
\<close>

definition find_flag :: "string \<Rightarrow> flag option" where
  "find_flag a = find (\<lambda>f. a = ''--'' @ flag.Name f \<or> flag.Shorthand f \<noteq> [] \<and> a = ''-'' @ flag.Shorthand f) persistent_flags"

fun arguments :: "string list \<Rightarrow> string list option" where
  "arguments [] = Some []"
| "arguments (a # as) =
     (if a = [] \<or> hd a \<noteq> CHR ''-'' then map_option ((#) a) (arguments as)
      else case find_flag a of
          None \<Rightarrow> None
        | Some f \<Rightarrow> (case (flag.Default f, as) of
            (BoolFlag _, _) \<Rightarrow> arguments as
          | (_, []) \<Rightarrow> None
          | (_, v # as') \<Rightarrow> arguments as'))"

definition command_name :: "cobra \<Rightarrow> string" where
  "command_name c = takeWhile (\<lambda>x. x \<noteq> CHR '' '') (cobra.Use c)"

definition takes :: "cobra \<Rightarrow> nat" where
  "takes c = (case cobra.Args c of NoArgs \<Rightarrow> 0 | ExactArgs n \<Rightarrow> n)"

text \<open>The command is declared, takes that many arguments, and does not refuse them.\<close>

definition accepted :: "string list \<Rightarrow> bool" where
  "accepted args = (case arguments args of
       Some (cmd_name # pos) \<Rightarrow>
         (case find (\<lambda>c. command_name c = cmd_name) root_commands of
             None \<Rightarrow> False
           | Some c \<Rightarrow> length pos = takes c \<and>
               usage_error (\<lambda>_. True) (cobra.RunE c (read_flags (cobra.Flags c) []) pos) = None)
     | _ \<Rightarrow> False)"

definition runnable :: "Next \<Rightarrow> bool" where
  "runnable n = (case sh_words (Next.Command n) of
       None \<Rightarrow> False
     | Some [] \<Rightarrow> True
     | Some (p # args) \<Rightarrow> p \<noteq> ''kbdiag'' \<or> accepted args)"

lemma runnable_fixed [simp]:
  "runnable (verify ''kbdiag repl'' note)" "runnable (verify ''kbdiag sessions'' note)"
  "runnable (verify ''kbdiag slots'' note)" "runnable (verify ''kbdiag space'' note)"
  "runnable (verify ''kbdiag status'' note)" "runnable (verify ''kbdiag top-objects'' note)"
  "runnable (verify ''kbdiag txn'' note)" "runnable (verify ''kbdiag wal'' note)"
  "runnable (verify ''kbdiag freeze --json'' note)" "runnable (verify ''kbdiag txn --json'' note)"
  "runnable (verify ''kbdiag vacuum --json'' note)" "runnable (verify ''ps -C repmgrd -o pid,args'' note)"
  by code_simp+

lemma runnable_no_command [simp]: "Next.Command n = [] \<Longrightarrow> runnable n"
  by (simp add: runnable_def sh_words.simps)

lemma runnable_sql [simp]: "runnable (fix_sql q note)"
  by (simp add: fix_sql_def)

lemma sh_words_blank [simp]: "sh_words (CHR '' '' # s) = sh_words s"
  by (subst (1 2) sh_words.simps) simp

lemma sh_words_Nil [simp]: "sh_words [] = Some []"
  by (simp add: sh_words.simps)

lemma sh_words_word:
  assumes "sh_word False t = Some (w, rest)" and "t \<noteq> []" "hd t \<noteq> CHR '' ''" "length rest < length t"
  shows "sh_words t = map_option ((#) w) (sh_words rest)"
proof -
  obtain c cs where t: "t = c # cs" "c \<noteq> CHR '' ''" using assms(2,3) by (cases t) auto
  then have "dropWhile (\<lambda>c. c = CHR '' '') t = c # cs" by simp
  then show ?thesis
    using assms(1,4) unfolding t by (subst sh_words.simps) (simp del: sh_word.simps)
qed

lemma sh_words_plain:
  assumes "list_all plain_byte w" and "w \<noteq> []" and "rest = [] \<or> hd rest = CHR '' ''"
  shows "sh_words (w @ rest) = map_option ((#) w) (sh_words rest)"
proof -
  have "sh_end (CHR '' '')" by (simp add: sh_end_def byte_def)
  with assms(3) have "sh_word False rest = Some ([], rest)" by (cases rest) auto
  moreover have "hd w \<noteq> CHR '' ''" using assms(1,2) \<open>sh_end (CHR '' '')\<close> by (cases w) (auto simp: plain_byte_def)
  ultimately show ?thesis
    using assms(1,2) by (intro sh_words_word) (simp_all add: sh_word_plain)
qed

lemma plain_kbdiag: "list_all plain_byte ''kbdiag''" "list_all plain_byte ''session''" "list_all plain_byte ''freeze''"
  "list_all plain_byte ''-d''"
  by (simp_all add: plain_byte_def sh_end_def sh_special_def byte_def)

lemma plain_dec: "list_all plain_byte (dec_nat n)"
proof -
  have "is_digit c \<Longrightarrow> plain_byte c" for c by (auto simp: is_digit_def plain_byte_def sh_end_def sh_special_def byte_def)
  then show ?thesis using digits_dec_nat [of n] by (auto simp: list_all_iff)
qed

lemma parse_pid:
  fixes p :: int32
  assumes "0 < sint p"
  shows "parse_int 32 (dec_nat (nat (sint p))) = Some (sint p)"
proof -
  let ?n = "nat (sint p)"
  obtain c cs where d: "dec_nat ?n = c # cs" by (cases "dec_nat ?n") auto
  have "is_digit c" using digits_dec_nat [of ?n] by (simp add: d)
  then have "c \<noteq> CHR ''-''" "c \<noteq> CHR ''+''" by (auto simp: is_digit_def byte_def)
  moreover have "sint p < 2 ^ 31" using sint_lt [of p] by simp
  ultimately show ?thesis
    using assms digits_dec_nat [of ?n] read_dec_nat [of ?n] by (simp add: parse_int_def d)
qed

text \<open>The two commands that name something: a backend's pid, and a database.\<close>

lemma runnable_session:
  fixes p :: int32
  assumes "0 < sint p"
  shows "runnable (verify (''kbdiag session '' @ fmt_i p) note)"
proof -
  let ?d = "dec_nat (nat (sint p))"
  have f: "fmt_i p = ?d" using assms by (simp add: fmt_i_def fmt_d_def)
  have "sh_words ?d = Some [?d]" using sh_words_plain [OF plain_dec, of "nat (sint p)" "[]"] by simp
  then have "sh_words (''session '' @ ?d) = Some [''session'', ?d]"
    using sh_words_plain [OF plain_kbdiag(2), of "CHR '' '' # ?d"] by simp
  then have w: "sh_words (''kbdiag session '' @ fmt_i p) = Some [''kbdiag'', ''session'', ?d]"
    using sh_words_plain [OF plain_kbdiag(1), of "'' session '' @ ?d"] by (simp add: f)
  obtain c cs where d: "?d = c # cs" by (cases ?d) auto
  have "is_digit c" using digits_dec_nat [of "nat (sint p)"] by (simp add: d)
  then have "c \<noteq> CHR ''-''" by (auto simp: is_digit_def byte_def)
  then have "arguments [''session'', ?d] = Some [''session'', ?d]" by (simp add: d)
  moreover have "find (\<lambda>c. command_name c = ''session'') root_commands = Some newSession"
    by (simp add: root_commands_def command_name_def newSessions_def newSession_def)
  ultimately have "accepted [''session'', ?d]"
    using parse_pid [OF assms] assms
    by (simp add: accepted_def takes_def newSession_def usage_error_def)
  with w show ?thesis by (simp add: runnable_def verify_def)
qed

lemma shellWord_start: "shellWord uni s \<noteq> []" "hd (shellWord uni s) \<noteq> CHR '' ''"
proof -
  show ne: "shellWord uni s \<noteq> []" by (simp add: shellWord_def)
  have "sh_word False (shellWord uni s @ []) = Some (s, [])" by (rule read_shellWord) simp
  then have "hd (shellWord uni s) = CHR '' '' \<Longrightarrow> s = []"
    using ne by (cases "shellWord uni s") (simp_all add: sh_end_def byte_def)
  moreover have "hd (shellWord uni []) \<noteq> CHR '' ''" by (simp add: shellWord_def)
  ultimately show "hd (shellWord uni s) \<noteq> CHR '' ''" by blast
qed

lemma runnable_freeze: "runnable (verify (''kbdiag -d '' @ shellWord uni db @ '' freeze'') note)"
proof -
  let ?w = "shellWord uni db"
  have "sh_words ''freeze'' = Some [''freeze'']" using sh_words_plain [OF plain_kbdiag(3), of "[]"] by simp
  moreover have "sh_word False (?w @ '' freeze'') = Some (db, '' freeze'')"
    by (rule read_shellWord) (simp add: sh_end_def byte_def)
  moreover have "?w \<noteq> []" "hd ?w \<noteq> CHR '' ''"
    by (rule shellWord_start)+
  ultimately have "sh_words (?w @ '' freeze'') = Some [db, ''freeze'']"
    using sh_words_word [of "?w @ '' freeze''" db "'' freeze''"] by simp
  then have "sh_words (''-d '' @ ?w @ '' freeze'') = Some [''-d'', db, ''freeze'']"
    using sh_words_plain [OF plain_kbdiag(4), of "CHR '' '' # ?w @ '' freeze''"] by simp
  then have w: "sh_words (''kbdiag -d '' @ ?w @ '' freeze'') = Some [''kbdiag'', ''-d'', db, ''freeze'']"
    using sh_words_plain [OF plain_kbdiag(1), of "'' -d '' @ ?w @ '' freeze''"] by simp
  have "find_flag ''-d'' = Some \<lparr>flag.Name = ''dbname'', flag.Shorthand = ''d'', flag.Default = StringFlag ''test'',
       flag.Usage = ''database to connect to''\<rparr>"
    by (simp add: find_flag_def persistent_flags_def)
  then have "arguments [''-d'', db, ''freeze''] = Some [''freeze'']" by simp
  moreover have "find (\<lambda>c. command_name c = ''freeze'') root_commands = Some newFreeze"
    by (simp add: root_commands_def command_name_def newSessions_def newSession_def newLocks_def newTxn_def
        newWaits_def newStatus_def newSlots_def newSpace_def newFreeze_def)
  ultimately have "accepted [''-d'', db, ''freeze'']"
    by (simp add: accepted_def takes_def newFreeze_def usage_error_def)
  with w show ?thesis by (simp add: runnable_def verify_def)
qed

lemmas runnable_named [simp] = runnable_session [simplified append_Cons append_Nil]
  runnable_freeze [simplified append_Cons append_Nil]

section \<open>Findings\<close>

definition advises :: "Finding \<Rightarrow> bool" where
  "advises f \<longleftrightarrow> list_all runnable (Finding.Next f)"

abbreviation sound_advice :: "Result \<Rightarrow> bool" where
  "sound_advice r \<equiv> list_all advises (Result.Findings r)"

lemma advises_simps [simp]:
  "advises (finding i l symptom probe ev next) \<longleftrightarrow> list_all runnable next"
  "advises (bare_finding i l symptom)"
  by (simp_all add: advises_def finding_def bare_finding_def)

lemma advises_scan:
  "(\<And>x. x \<in> set xs \<Longrightarrow> list_all advises (fst (row x))) \<Longrightarrow> sound_advice (scan_rule row st xs)"
  by (auto simp: scan_rule_findings list_all_iff)

lemma advises_Merge: "list_all sound_advice rs \<Longrightarrow> sound_advice (Merge rs)"
  by (auto simp: Merge_def list_all_iff)

lemma advises_map [simp]: "(\<And>x. P (f x)) \<Longrightarrow> list_all P (map f xs)"
  by (simp add: list.pred_map list_all_iff)

lemma advises_of_option [simp]: "list_all P (of_option f) \<longleftrightarrow> (case f of None \<Rightarrow> True | Some x \<Rightarrow> P x)"
  by (simp add: of_option_def split: option.split)

text \<open>A backend's pid is positive; a blocker is one, or 0 for a two-phase transaction.\<close>

definition real_session :: "Session \<Rightarrow> bool" where
  "real_session s \<longleftrightarrow> 0 < sint (Session.PID s)"

definition real_lock :: "Lock \<Rightarrow> bool" where
  "real_lock l \<longleftrightarrow> list_all (\<lambda>b. 0 \<le> sint b) (Lock.BlockedBy l)"

lemma advises_Sessions: "list_all real_session (coll.Rows a) \<Longrightarrow> sound_advice (Sessions a th)"
  unfolding Sessions_scan
  by (rule advises_scan) (auto simp: sessions_row_eq idle_finding_def real_session_def list_all_iff)

lemma advises_Locks: "list_all real_lock (coll.Rows l) \<Longrightarrow> sound_advice (Locks l th)"
proof -
  have next_ok: "runnable (lock_next b)" if "0 \<le> sint b" for b
    using that signed_eq_0_iff [of b] by (auto simp: lock_next_def PreparedBlocker_def order_le_less)
  have "advises (lockWaiting x pid wait)" if "real_lock x" for x pid wait
    using that next_ok
    by (auto simp: Lock_Blockers_def lockWaiting_def Let_def real_lock_def list_all_iff)
  then show "list_all real_lock (coll.Rows l) \<Longrightarrow> sound_advice (Locks l th)"
    unfolding Locks_def by (intro advises_scan) (auto simp: locks_row_eq list_all_iff)
qed

lemma advises_Txn:
  assumes "list_all real_session (coll.Rows a)"
  shows "sound_advice (Txn a p th)"
proof -
  have "sound_advice (longTxn a th)"
    using assms unfolding longTxn_def
    by (intro advises_scan) (auto simp: txn_row_eq txn_finding_def real_session_def list_all_iff)
  moreover have "sound_advice (prepared p th)"
    unfolding prepared_def
    by (rule advises_scan) (simp add: prepared_row_eq prepared_finding_def prepared_fix_def Let_def)
  ultimately show ?thesis by (simp add: Txn_def advises_Merge)
qed

lemma advises_upstream: "case fst (upstream u) of None \<Rightarrow> True | Some f \<Rightarrow> advises f"
proof -
  have found: "advises no_receiver" "advises (not_streaming x st)" "advises (stuck_receiver x st age t)" for x st age t
    by (simp_all add: no_receiver_def not_streaming_def stuck_receiver_def upstream_next_def)
  then have "case fst (receiver_rows xs) of None \<Rightarrow> True | Some f \<Rightarrow> advises f" for xs
    by (induction xs) (auto simp: receiver_row_def split: option.splits receiver.splits if_splits)
  with found(1) show ?thesis by (simp add: upstream_def split_beta)
qed

lemma advises_instance:
  "sound_advice (Waits w)" "sound_advice (Display h sts)" "sound_advice (Status_rule i d n u)"
  "sound_advice (Slots l)" "sound_advice (RuleSpace.Space db t wal disk)"
proof -
  have "list_all advises (of_option (connections x))" for x
    by (simp add: connections_def Let_def)
  then show "sound_advice (Status_rule i d n u)"
    using advises_upstream [of u]
    by (auto simp: Status_rule_def split_beta Let_def list_all_iff split: option.splits)
  show "sound_advice (Slots l)"
    unfolding Slots_def by (rule advises_scan) (simp add: slots_row_def slot_finding_def)
  have "advises (disk_full seg f)" for seg f by (simp add: disk_full_def)
  then show "sound_advice (RuleSpace.Space db t wal disk)"
    by (simp add: Space_def Let_def Display_def split: option.split)
qed (simp_all add: Waits_def Display_def split_beta)

lemma advises_next: "list_all runnable next \<Longrightarrow> advises (f\<lparr>Finding.Next := next\<rparr>)"
  by (simp add: advises_def)

lemma advises_freezeNext [simp]: "list_all runnable (freezeNext uni db allowConn role stopped)"
  by (simp add: freezeNext_def Let_def)

lemma advises_Freeze: "sound_advice (Freeze uni db l role)"
  unfolding Freeze_def
  by (rule advises_scan) (auto simp: freeze_row_def advises_next split: prod.split option.split)

lemma advises_Vacuum: "sound_advice (Vacuum t s role db)"
proof -
  have "advises (table_disabled x th db)" "advises (vacuumDisabled st)" for x th st
    by (simp_all add: table_disabled_def vacuum_fix_def vacuumDisabled_def)
  then show ?thesis by (simp add: Vacuum_findings split: option.split)
qed

lemma advises_Table: "sound_advice (Table i s l v role db)"
proof -
  have "advises (table_stat_disabled t x th db)" "advises (vacuumDisabled st)" for t x th st
    by (simp_all add: table_stat_disabled_def tableFix_def vacuumDisabled_def)
  then have "list_all advises (table_stats t s v db)" for t
    by (simp add: table_stats_def Let_def split_beta split: option.split list.split)
  moreover have "list_all advises (fst (table_age t l db))" for t
    by (auto simp: table_age_def Let_def tableFix_def advises_next split: prod.split option.split)
  ultimately show ?thesis by (simp add: Table_def split_beta Let_def split: list.split)
qed

lemma advises_settings:
  "sound_advice (Seq l role)" "sound_advice (Archive s role)" "sound_advice (Params p)"
proof -
  have "advises (seq_finding x cur)" "advises (archive_finding a)" "advises (param_finding y)" for x cur a y
    by (simp_all add: seq_finding_def seqFix_def Let_def archive_finding_def param_finding_def)
  then show "sound_advice (Seq l role)" "sound_advice (Archive s role)" "sound_advice (Params p)"
    by (simp_all add: Seq_findings Archive_def Params_findings ok_result_def split_beta Let_def split: list.split)
qed

lemma advises_replication: "sound_advice (Repl orbit d sy u r)" "sound_advice (Cluster orbit n d' cs role)"
proof -
  have "advises (short_finding names commit need streaming)" "advises (paused_finding p)" for names commit need streaming p
    by (simp_all add: short_finding_def paused_finding_def)
  then have "case fst (syncShort orbit d sy) of None \<Rightarrow> True | Some f \<Rightarrow> advises f"
    by (simp add: syncShort_def split_beta Let_def split: list.split option.split)
  with \<open>\<And>p. advises (paused_finding p)\<close> show "sound_advice (Repl orbit d sy u r)"
    using advises_upstream [of u] by (simp add: Repl_def split_beta Let_def)
  have "advises (primaries_finding ps)" "advises (inactive_finding x)" "advises (role_finding x role)"
    "advises (detached_finding x y)" for ps x y
    by (simp_all add: primaries_finding_def inactive_finding_def role_finding_def detached_finding_def)
  moreover have "list_all advises (of_option (syncDegraded orbit c n i dj me))" for c i dj me
    by (simp add: syncDegraded_def Let_def)
  then have "list_all advises (if sj then (case coll.Rows cs of [x] \<Rightarrow> of_option (syncDegraded orbit x n d' dj me) | _ \<Rightarrow> [])
      else [])" for sj dj me
    by (auto split: list.split)
  ultimately show "sound_advice (Cluster orbit n d' cs role)"
    unfolding Cluster_def Let_def split_beta by (auto split: option.split)
qed

section \<open>Reports\<close>

definition advised :: "Report \<Rightarrow> bool" where
  "advised rep \<longleftrightarrow> list_all advises (Report.Findings rep)"

lemma advised_steps [simp]:
  "advised (New cmd c r) \<longleftrightarrow> sound_advice r"
  "advised (AddProbe i st reason cols xss limit rep) \<longleftrightarrow> advised rep"
  "advised (AddRedacted rs rep) \<longleftrightarrow> advised rep" "advised (set_view v rep) \<longleftrightarrow> advised rep"
  by (simp_all add: advised_def)

lemma advised_add_probe [simp]: "advised (add_probe i cols row c limit rep) \<longleftrightarrow> advised rep"
  by (simp add: add_probe_def)

lemmas advice = advises_instance advises_Freeze advises_Vacuum advises_Table advises_settings advises_replication

lemma advised_session_reports:
  assumes "list_all real_session (coll.Rows a)" and "list_all real_lock (coll.Rows l)"
  shows "advised (Sessions_report c a opt)" "advised (fst (Session_report c a l pid th))"
    "advised (Locks_report c l limit th)" "advised (Txn_report c a tp limit th)"
proof -
  have "list_all advises fs \<Longrightarrow> list_all advises (map (drop_self self) fs)" for self fs
    by (auto simp: list_all_iff advises_def drop_self_def)
  moreover have "list_all real_session (coll.Rows (activity_of pid a))" "list_all real_lock (coll.Rows (locks_of pid l))"
    using assms by (auto simp: activity_of_def locks_of_def list_all_iff)
  ultimately show "advised (fst (Session_report c a l pid th))"
    by (auto simp: Session_report_def Let_def advises_Merge advises_Sessions advises_Locks)
qed (use assms in \<open>simp_all add: Sessions_report_def Locks_report_def Txn_report_def Let_def advises_Sessions
      advises_Locks advises_Txn\<close>)

lemma advised_reports:
  "advised (Waits_report c ws)" "advised (Status_report c i d n u disk)" "advised (Slots_report c sl)"
  "advised (Space_report c d ts wal mounts)" "advised (Archive_report c ar aq)" "advised (Checkpoint_report c k1 k2 k3)"
  "advised (Params_report c ps)" "advised (WAL_report c pos wal sl aq)" "advised (Repl_report orbit c rd rs u rr)"
  "advised (Cluster_report orbit c cn ce n cs)" "advised (Freeze_report uni c fd ft fl limit)"
  "advised (Vacuum_report c vt vp vs limit)" "advised (fst (Table_report c ti tz tst ix fl vs))"
  "advised (TopObjects_report c ot oi limit)" "advised (Top_report c st limit by)" "advised (Progress_report c pl pc)"
  "advised (Seq_report c sq limit)"
  by (simp_all add: Waits_report_def Status_report_def Slots_report_def Space_report_def Archive_report_def
      Checkpoint_report_def Params_report_def WAL_report_def Repl_report_def Cluster_report_def Freeze_report_def
      Vacuum_report_def Table_report_def TopObjects_report_def Top_report_def Progress_report_def Seq_report_def
      Let_def advice)

section \<open>Commands\<close>

text \<open>A server that answers with real pids.\<close>

definition real_server :: "Conn \<Rightarrow> bool" where
  "real_server x \<longleftrightarrow>
     (\<forall>sent xs. AskSessions x sent = Collected xs \<longrightarrow> list_all real_session xs) \<and>
     (\<forall>sent xs. AskLocks x sent = Collected xs \<longrightarrow> list_all real_lock xs)"

lemma real_sent [simp]: "real_server (x\<lparr>Conn.Sent := sent\<rparr>) \<longleftrightarrow> real_server x"
  by (simp add: real_server_def)

lemma real_SessionActivity [simp]:
  "real_server x \<Longrightarrow> list_all real_session (coll.Rows (fst (run_state SessionActivity_probe x)))"
  by (auto simp: SessionActivity_probe_def trackActivities_def rows_reply real_server_def split_beta
      split: reply.split sum.split)

lemma real_LockList [simp]: "real_server x \<Longrightarrow> list_all real_lock (coll.Rows (fst (run_state LockList_probe x)))"
  by (simp add: LockList_probe_def rows_reply real_server_def split: reply.split)

lemma real_after_activity [simp]: "real_server x \<Longrightarrow> real_server (snd (run_state SessionActivity_probe x))"
  using session_activity.asks_only [of x] by (auto simp: sent_by_def)

lemmas advised_simps = silent_def split_beta Let_def advised_session_reports [where l = "not_read StatusError []"]
  advised_reports

lemma advised_session_builds:
  assumes "real_server x"
  shows "advised (fst (fst (run_state (sessions_build opt info) x)))"
    "advised (fst (fst (run_state (session_build pid th info) x)))"
    "advised (fst (fst (run_state (locks_build limit th info) x)))"
    "advised (fst (fst (run_state (txn_build limit th info) x)))"
  using assms advised_session_reports(3) [where a = "not_read StatusError []"]
  by (simp_all add: sessions_build_def session_build_def locks_build_def txn_build_def advised_session_reports(2)
      advised_simps)

lemma advised_builds:
  "advised (fst (fst (run_state (waits_build info) x)))" "advised (fst (fst (run_state (status_build os c info) x)))"
  "advised (fst (fst (run_state (slots_build info) x)))" "advised (fst (fst (run_state (space_build os c info) x)))"
  "advised (fst (fst (run_state (freeze_build uni limit info) x)))"
  "advised (fst (fst (run_state (vacuum_build limit info) x)))"
  "advised (fst (fst (run_state (archive_build info) x)))" "advised (fst (fst (run_state (params_build info) x)))"
  "advised (fst (fst (run_state (repl_build orbit info) x)))"
  "advised (fst (fst (run_state (cluster_build os orbit c skip explicit info) x)))"
  "advised (fst (fst (run_state (top_objects_build limit info) x)))"
  "advised (fst (fst (run_state (table_build printable rel info) x)))"
  "advised (fst (fst (run_state (top_build sanitize limit by info) x)))"
  "advised (fst (fst (run_state (progress_build info) x)))" "advised (fst (fst (run_state (checkpoint_build info) x)))"
  "advised (fst (fst (run_state (wal_build info) x)))" "advised (fst (fst (run_state (seq_build limit info) x)))"
  by (simp_all add: waits_build_def status_build_def slots_build_def space_build_def freeze_build_def vacuum_build_def
      archive_build_def params_build_def repl_build_def cluster_build_def top_objects_build_def table_build_def
      top_build_def progress_build_def checkpoint_build_def wal_build_def seq_build_def silent_def split_beta Let_def
      advised_reports)

text \<open>
  C37. What a finding tells the reader to run can be run. For a server whose pids are positive, every command
  a finding of any report suggests is a line that a shell splits into words, with names quoted where
  they have to be; and when its first word is \<open>kbdiag\<close>, the others are global flags that are declared, the
  name of a command that is declared, as many arguments as it takes, and none that it refuses.
\<close>

theorem suggestions_run:
  assumes "real_server x"
  shows "list_all (\<lambda>f. list_all runnable (Finding.Next f))
    (Report.Findings (fst (fst (run_state (build_of env g cmd skip info) x))))"
proof -
  have "advised (fst (fst (run_state (build_of env g cmd skip info) x)))"
    using advised_session_builds [OF assms] by (cases cmd) (simp_all add: build_of_def advised_builds)
  then show ?thesis by (simp add: advised_def advises_def [abs_def])
qed

text \<open>A server where backend 7 has waited a minute for what backend 9 holds.\<close>

definition waiting_conn :: Conn where
  "waiting_conn = demo_conn\<lparr>AskLocks := \<lambda>_. Collected
     [\<lparr>Lock.PID = Some 7, Lock.Locktype = ''relation'', Lock.Relation = Some ''public.t'', Lock.Mode = ''RowExclusiveLock'',
       Lock.Granted = False, Lock.WaitS = Some (Fin 60), Lock.BlockedBy = [9], Lock.Masked = False\<rparr>]\<rparr>"

theorem suggestions_run_witness:
  "\<forall>info. (let fs = Report.Findings (fst (fst (run_state (locks_build 0 Defaults info) waiting_conn))) in
     list_all (\<lambda>f. list_all runnable (Finding.Next f)) fs \<and>
     map Next.Command (concat (map Finding.Next fs)) = [''kbdiag session 9''])"
proof
  fix info
  have "real_server waiting_conn"
    by (simp add: real_server_def waiting_conn_def demo_conn_def real_lock_def)
  from suggestions_run [OF this, where cmd = "LocksCmd 0 Defaults"]
  have "list_all (\<lambda>f. list_all runnable (Finding.Next f))
      (Report.Findings (fst (fst (run_state (locks_build 0 Defaults info) waiting_conn))))"
    by (simp add: build_of_def)
  moreover have "map Next.Command (concat (map Finding.Next
      (Report.Findings (fst (fst (run_state (locks_build 0 Defaults info) waiting_conn)))))) = [''kbdiag session 9'']"
  proof -
    have "dec_nat 9 = ''9''" by (subst dec_nat_rec) (simp add: digit_char_def byte_char_def char_of_def bit_iff_odd)
    then show ?thesis
      by (simp add: locks_build_def LockList_probe_def silent_def split_beta waiting_conn_def demo_conn_def read_reply_def
          Locks_report_def Let_def Locks_def scan_rule_def scan_eq locks_row_def Defaults_def lockWaiting_def finding_def
          Lock_Blockers_def firsts_def lock_next_def PreparedBlocker_def verify_def fmt_i_def fmt_d_def)
  qed
  ultimately show "let fs = Report.Findings (fst (fst (run_state (locks_build 0 Defaults info) waiting_conn))) in
     list_all (\<lambda>f. list_all runnable (Finding.Next f)) fs \<and>
     map Next.Command (concat (map Finding.Next fs)) = [''kbdiag session 9'']"
    by (simp add: Let_def)
qed

end
