(* ===== verification/SentBound.thy ===== *)
theory SentBound
  imports SentSpec
begin

text \<open>
  How many statements a run sends: each command has a budget that no answer of the server exceeds, so with a
  timeout for each statement and at most two attempts to connect every run comes to its end.
\<close>

section \<open>Counting what is sent\<close>

definition sends :: "nat \<Rightarrow> 'a query \<Rightarrow> bool" where
  "sends n q \<longleftrightarrow> (\<forall>x. \<exists>new. sent_by x (snd (run_state q x)) new \<and> length new \<le> n)"

lemma sends_mono: "sends m q \<Longrightarrow> m \<le> n \<Longrightarrow> sends n q"
  unfolding sends_def by (meson le_trans)

lemma sends_return: "sends 0 (State_Monad.return a)"
  unfolding sends_def by (intro allI exI [of _ "[]"]) (simp add: sent_by_def)

lemma sends_ask: "sends 1 (ask server st args)"
  unfolding sends_def by (auto simp: sent_by_def)

lemma sends_bind:
  assumes "sends m q" and "\<And>a. sends n (f a)"
  shows "sends (m + n) (State_Monad.bind q f)"
  unfolding sends_def
proof
  fix x
  obtain a y where y: "run_state q x = (a, y)" by fastforce
  obtain new where new: "sent_by x y new" "length new \<le> m" using assms(1) y unfolding sends_def by (metis snd_conv)
  obtain new' where new': "sent_by y (snd (run_state (f a) y)) new'" "length new' \<le> n"
    using assms(2) unfolding sends_def by blast
  show "\<exists>new. sent_by x (snd (run_state (State_Monad.bind q f) x)) new \<and> length new \<le> m + n"
    using sent_by_trans [OF new(1) new'(1)] new(2) new'(2) by (intro exI [of _ "new @ new'"]) (simp add: y)
qed

lemma sends_collectArgs: "sends 1 (collectArgs server st args)"
  unfolding collectArgs_def by (rule sends_mono, (rule sends_bind sends_ask sends_return)+, simp)

lemma sends_collect: "sends 1 (collect server st)"
  unfolding collect_def by (rule sends_collectArgs)

lemma sends_silent: "sends 0 (silent rep)"
  unfolding silent_def by (rule sends_return)

lemma sends_cases:
  "sends m q \<Longrightarrow> sends n q' \<Longrightarrow> sends (max m n) (if b then q else q')"
  "(\<And>a b. sends n (f a b)) \<Longrightarrow> sends n (case p of (a, b) \<Rightarrow> f a b)"
  "(\<And>e. sends m (g e)) \<Longrightarrow> (\<And>r. sends n (h r)) \<Longrightarrow> sends (max m n) (case s of Inl e \<Rightarrow> g e | Inr r \<Rightarrow> h r)"
  "sends m q \<Longrightarrow> (\<And>a. sends n (k a)) \<Longrightarrow> sends (max m n) (case o' of None \<Rightarrow> q | Some a \<Rightarrow> k a)"
  "(\<And>a. sends n (k a)) \<Longrightarrow> sends n (Let a' k)"
  by (auto simp: Let_def split: prod.split sum.split option.split
      intro: sends_mono [OF _ max.cobounded1] sends_mono [OF _ max.cobounded2])

lemmas sends_intros = sends_bind sends_ask sends_collectArgs sends_collect sends_silent sends_return sends_cases

section \<open>The probes\<close>

lemma sends_tracks: "sends 1 trackActivities" "sends 1 trackCounts"
  unfolding trackActivities_def trackCounts_def by (rule sends_mono, (rule sends_intros)+, simp)+

lemmas probe_intros = sends_tracks sends_intros

lemma sends_plain_probes:
  "sends 2 SessionActivity_probe" "sends 2 WaitSummary_probe" "sends 1 LockList_probe"
  "sends 1 InstInfo_probe" "sends 1 InstDatabases_probe" "sends 1 InstDownstreams_probe"
  "sends 1 SpaceTablespaces_probe" "sends 1 SpaceWAL_probe" "sends 1 ObjectTables_probe"
  "sends 1 ObjectIndexes_probe" "sends 1 SeqList_probe" "sends 1 WALPosition_probe"
  "sends 1 ArchiveStatus_probe" "sends 1 ArchiveReady_probe" "sends 1 CheckpointStats_probe"
  "sends 1 CheckpointLast_probe" "sends 1 CheckpointSettings_probe" "sends 1 SlotList_probe"
  "sends 1 ParamsChanged_probe" "sends 1 FreezeDatabases_probe" "sends 1 FreezeTables_probe"
  "sends 1 FreezeLimits_probe" "sends 1 ProgressList_probe" "sends 1 ProgressCheckpoint_probe"
  "sends 1 ReplDownstreams_probe" "sends 1 VacuumSettings_probe"
  unfolding SessionActivity_probe_def WaitSummary_probe_def LockList_probe_def InstInfo_probe_def
    InstDatabases_probe_def InstDownstreams_probe_def SpaceTablespaces_probe_def SpaceWAL_probe_def
    ObjectTables_probe_def ObjectIndexes_probe_def SeqList_probe_def WALPosition_probe_def
    ArchiveStatus_probe_def ArchiveReady_probe_def CheckpointStats_probe_def CheckpointLast_probe_def
    CheckpointSettings_probe_def SlotList_probe_def ParamsChanged_probe_def FreezeDatabases_probe_def
    FreezeTables_probe_def FreezeLimits_probe_def ProgressList_probe_def ProgressCheckpoint_probe_def
    ReplDownstreams_probe_def VacuumSettings_probe_def
  by (rule sends_mono, (rule probe_intros)+, simp)+

lemma sends_context_probes:
  "sends 1 (TxnPrepared_probe c)" "sends 1 (InstUpstream_probe c)" "sends 1 (ReplSync_probe c)"
  "sends 1 (ReplReplay_probe c)" "sends 1 (VacuumProgress_probe c)" "sends 2 (VacuumTables_probe c)"
  "sends 4 (ClusterNodes_probe c)" "sends 2 (ClusterEvents_probe c)"
  "sends 1 (ClusterSync_probe os c n socket loopback)" "sends 2 (SQLTop_probe sanitize c)"
  unfolding TxnPrepared_probe_def InstUpstream_probe_def ReplSync_probe_def ReplReplay_probe_def
    VacuumProgress_probe_def VacuumTables_probe_def ClusterNodes_probe_def ClusterEvents_probe_def
    ClusterSync_probe_def SQLTop_probe_def repmgrSchema_def localNodeID_def
  by (rule sends_mono, (rule probe_intros)+, simp)+

lemma sends_table_probes:
  "sends 1 (TableInfo_probe rel)" "sends 1 (TableSize_probe oid)" "sends 2 (TableStats_probe c oid)"
  "sends 1 (TableIndexes_probe oid sizes)"
  unfolding TableInfo_probe_def TableSize_probe_def TableStats_probe_def TableIndexes_probe_def
  by (rule sends_mono, (rule probe_intros)+, simp)+

section \<open>The commands\<close>

text \<open>The budget of a command, beside the one statement that identifies the instance.\<close>

definition statement_budget :: "command \<Rightarrow> nat" where
  "statement_budget cmd = (case cmd of
       SessionsCmd _ \<Rightarrow> 2 | SessionCmd _ _ \<Rightarrow> 3 | LocksCmd _ _ \<Rightarrow> 1 | TxnCmd _ _ \<Rightarrow> 3 | WaitsCmd \<Rightarrow> 2
     | StatusCmd \<Rightarrow> 4 | SlotsCmd \<Rightarrow> 1 | SpaceCmd \<Rightarrow> 4 | FreezeCmd _ \<Rightarrow> 3 | VacuumCmd _ \<Rightarrow> 4 | ArchiveCmd \<Rightarrow> 2
     | ParamsCmd \<Rightarrow> 1 | ReplCmd \<Rightarrow> 4 | ClusterCmd _ \<Rightarrow> 8 | TopObjectsCmd _ \<Rightarrow> 2 | TableCmd _ \<Rightarrow> 7 | TopCmd _ _ \<Rightarrow> 2
     | ProgressCmd \<Rightarrow> 2 | CheckpointCmd \<Rightarrow> 3 | WALCmd \<Rightarrow> 4 | SeqCmd _ \<Rightarrow> 1)"

lemmas build_intros = sends_plain_probes sends_context_probes sends_table_probes probe_intros

lemma sends_Identify: "sends 1 (Identify now c)"
  unfolding Identify_def by (rule sends_mono, (rule probe_intros)+, simp)

lemma sends_session_builds:
  "sends 2 (sessions_build opt info)" "sends 3 (session_build pid th info)"
  "sends 1 (locks_build limit th info)" "sends 3 (txn_build limit th info)" "sends 2 (waits_build info)"
  "sends 2 (progress_build info)"
  unfolding sessions_build_def session_build_def locks_build_def txn_build_def waits_build_def
    progress_build_def
  by (rule sends_mono, (rule build_intros)+, simp)+

lemma sends_instance_builds:
  "sends 4 (status_build os c info)" "sends 1 (slots_build info)" "sends 4 (space_build os c info)"
  "sends 2 (archive_build info)" "sends 1 (params_build info)" "sends 3 (checkpoint_build info)"
  "sends 4 (wal_build info)" "sends 4 (repl_build orbit info)"
  "sends 8 (cluster_build os orbit c skip explicit info)"
  unfolding status_build_def slots_build_def space_build_def archive_build_def params_build_def
    checkpoint_build_def wal_build_def repl_build_def cluster_build_def
  by (rule sends_mono, (rule build_intros)+, simp)+

lemma sends_table_builds:
  "sends 3 (freeze_build letter limit info)" "sends 4 (vacuum_build limit info)"
  "sends 2 (top_objects_build limit info)" "sends 7 (table_build printable rel info)"
  "sends 1 (seq_build limit info)" "sends 2 (top_build sanitize limit by info)"
  unfolding freeze_build_def vacuum_build_def top_objects_build_def table_build_def seq_build_def
    top_build_def
  by (rule sends_mono, (rule build_intros)+, simp)+

text \<open>
  C38. Every run ends in a bounded amount of work, whatever the server answers. It makes at most two attempts
  to connect, identifies the instance by one statement, and then sends at most as many statements as
  the budget of its command says, which is at most eight: none is sent again for each row of another.
\<close>

theorem run_bounded:
  "length (World.Attempts (snd (run_state (execute env g cmd) w))) \<le> length (World.Attempts w) + 2 \<and>
   sends 1 (Identify now c) \<and> sends (statement_budget cmd) (build_of env g cmd skip info) \<and> statement_budget cmd \<le> 8"
proof -
  have "sends (statement_budget cmd) (build_of env g cmd skip info)"
    by (cases cmd) (simp_all add: statement_budget_def build_of_def sends_session_builds sends_instance_builds sends_table_builds
        del: One_nat_def)
  moreover have "length (World.Attempts (snd (run_state (execute env g cmd) w))) \<le> length (World.Attempts w) + 2"
    using attempts_command [of g w env cmd] by (auto simp: execute_def attempts_def split: option.split)
  moreover have "statement_budget cmd \<le> 8" by (cases cmd) (simp_all add: statement_budget_def)
  ultimately show ?thesis using sends_Identify by blast
qed

end
