(* ===== verification/JSONRead.thy ===== *)
theory JSONRead
  imports GoJSON
begin

text \<open>
  A reader of JSON (RFC 8259), for which the output is meant, and the proof that it reads back what was
  encoded: every tree, with the bytes of a string that are not UTF-8 replaced by U+FFFD.
\<close>

section \<open>The reader\<close>

text \<open>The grammar of a number.\<close>

definition some_digits :: "string \<Rightarrow> bool" where
  "some_digits s \<longleftrightarrow> s \<noteq> [] \<and> list_all is_digit s"

definition json_exponent :: "string \<Rightarrow> bool" where
  "json_exponent s = (case s of
       [] \<Rightarrow> True
     | c # t \<Rightarrow> (c = CHR ''e'' \<or> c = CHR ''E'') \<and>
         some_digits (case t of [] \<Rightarrow> [] | d # u \<Rightarrow> if d = CHR ''+'' \<or> d = CHR ''-'' then u else t))"

definition json_fraction :: "string \<Rightarrow> bool" where
  "json_fraction s = (case s of
       [] \<Rightarrow> True
     | c # t \<Rightarrow> if c = CHR ''.'' then takeWhile is_digit t \<noteq> [] \<and> json_exponent (dropWhile is_digit t)
         else json_exponent s)"

definition json_number :: "string \<Rightarrow> bool" where
  "json_number s =
     (let t = (if take 1 s = ''-'' then drop 1 s else s); i = takeWhile is_digit t
      in i \<noteq> [] \<and> (hd i = CHR ''0'' \<longrightarrow> length i = 1) \<and> json_fraction (dropWhile is_digit t))"

definition number_char :: "char \<Rightarrow> bool" where
  "number_char c \<longleftrightarrow> is_digit c \<or> c \<in> set ''+-.eE''"

definition json_space :: "char \<Rightarrow> bool" where
  "json_space c \<longleftrightarrow> c = CHR '' '' \<or> c = CHR 0x0A \<or> c = CHR 0x0D \<or> c = CHR 0x09"

definition skip_space :: "string \<Rightarrow> string" where
  "skip_space s = dropWhile json_space s"

text \<open>A string, after its opening quote. An escape \<open>\u\<close> is one rune; pairs of surrogates are not read.\<close>

definition hex4 :: "char \<Rightarrow> char \<Rightarrow> char \<Rightarrow> char \<Rightarrow> nat option" where
  "hex4 a b c d = (case (hex_digit a, hex_digit b, hex_digit c, hex_digit d) of
       (Some a, Some b, Some c, Some d) \<Rightarrow> Some (((a * 16 + b) * 16 + c) * 16 + d)
     | _ \<Rightarrow> None)"

definition unescaped :: "char \<Rightarrow> char option" where
  "unescaped c = map_of [(CHR 0x22, CHR 0x22), (CHR 0x5C, CHR 0x5C), (CHR ''/'', CHR ''/''), (CHR ''b'', CHR 0x08),
     (CHR ''f'', CHR 0x0C), (CHR ''n'', CHR 0x0A), (CHR ''r'', CHR 0x0D), (CHR ''t'', CHR 0x09)] c"

fun read_string :: "string \<Rightarrow> (string \<times> string) option" where
  "read_string [] = None"
| "read_string (c # cs) =
     (if c = CHR 0x22 then Some ([], cs)
      else if c = CHR 0x5C then (case cs of
          e # ds \<Rightarrow>
            if e = CHR ''u'' then (case ds of
                a # b # c' # d # us \<Rightarrow> (case hex4 a b c' d of
                    None \<Rightarrow> None
                  | Some r \<Rightarrow> map_option (\<lambda>(s, t). (encode_rune r @ s, t)) (read_string us))
              | _ \<Rightarrow> None)
            else (case unescaped e of
                None \<Rightarrow> None
              | Some x \<Rightarrow> map_option (\<lambda>(s, t). (x # s, t)) (read_string ds))
        | [] \<Rightarrow> None)
      else if byte c < 32 then None
      else map_option (\<lambda>(s, t). (c # s, t)) (read_string cs))"

text \<open>
  A value, the elements of an array that is not empty up to its bracket, and the members of an object. The
  first argument bounds the nesting; the length of the text is always enough.
\<close>

definition after_text :: "string \<Rightarrow> string \<Rightarrow> string option" where
  "after_text w s = (if take (length w) s = w then Some (drop (length w) s) else None)"

definition read_atom :: "string \<Rightarrow> (json \<times> string) option" where
  "read_atom s = (case after_text ''null'' s of
       Some t \<Rightarrow> Some (JNull, t)
     | None \<Rightarrow> (case after_text ''true'' s of
           Some t \<Rightarrow> Some (JBool True, t)
         | None \<Rightarrow> (case after_text ''false'' s of
               Some t \<Rightarrow> Some (JBool False, t)
             | None \<Rightarrow>
                 if json_number (takeWhile number_char s)
                 then Some (JNum (takeWhile number_char s), dropWhile number_char s) else None)))"

text \<open>What comes after an element: a comma, or the end.\<close>

datatype next_element = Again string | Ended string

definition element_end :: "char \<Rightarrow> string \<Rightarrow> next_element option" where
  "element_end right s = (case skip_space s of
       [] \<Rightarrow> None
     | c # t \<Rightarrow> if c = CHR '','' then Some (Again t) else if c = right then Some (Ended t) else None)"

definition read_key :: "string \<Rightarrow> (string \<times> string) option" where
  "read_key s = (case skip_space s of
       [] \<Rightarrow> None
     | c # t \<Rightarrow> if c \<noteq> CHR 0x22 then None
         else (case read_string t of
             None \<Rightarrow> None
           | Some (k, u) \<Rightarrow> (case skip_space u of [] \<Rightarrow> None | d # v \<Rightarrow> if d = CHR '':'' then Some (k, v) else None)))"

fun read_value :: "nat \<Rightarrow> string \<Rightarrow> (json \<times> string) option"
  and read_elements :: "nat \<Rightarrow> string \<Rightarrow> (json list \<times> string) option"
  and read_members :: "nat \<Rightarrow> string \<Rightarrow> ((string \<times> json) list \<times> string) option" where
  "read_value 0 s = None"
| "read_value (Suc n) s = (case skip_space s of
       [] \<Rightarrow> None
     | c # t \<Rightarrow>
         if c = CHR 0x22 then map_option (\<lambda>(x, u). (JStr x, u)) (read_string t)
         else if c = CHR ''['' then
           (if take 1 (skip_space t) = '']'' then Some (JArr [], drop 1 (skip_space t))
            else map_option (\<lambda>(xs, u). (JArr xs, u)) (read_elements n t))
         else if c = CHR 0x7B then
           (if take 1 (skip_space t) = [CHR 0x7D] then Some (JObj [], drop 1 (skip_space t))
            else map_option (\<lambda>(xs, u). (JObj xs, u)) (read_members n t))
         else read_atom (c # t))"
| "read_elements 0 s = None"
| "read_elements (Suc n) s = (case read_value n s of
       None \<Rightarrow> None
     | Some (x, t) \<Rightarrow> (case element_end (CHR '']'') t of
           None \<Rightarrow> None
         | Some (Ended u) \<Rightarrow> Some ([x], u)
         | Some (Again u) \<Rightarrow> map_option (\<lambda>(xs, v). (x # xs, v)) (read_elements n u)))"
| "read_members 0 s = None"
| "read_members (Suc n) s = (case read_key s of
       None \<Rightarrow> None
     | Some (k, r) \<Rightarrow> (case read_value n r of
           None \<Rightarrow> None
         | Some (x, t) \<Rightarrow> (case element_end (CHR 0x7D) t of
               None \<Rightarrow> None
             | Some (Ended u) \<Rightarrow> Some ([(k, x)], u)
             | Some (Again u) \<Rightarrow> map_option (\<lambda>(xs, v). ((k, x) # xs, v)) (read_members n u))))"

definition read_json :: "string \<Rightarrow> json option" where
  "read_json s = (case read_value (length s) s of
       Some (x, t) \<Rightarrow> if skip_space t = [] then Some x else None
     | None \<Rightarrow> None)"

section \<open>Strings\<close>

text \<open>What the encoder makes of a string that is not UTF-8.\<close>

definition coerced :: "string \<Rightarrow> string" where
  "coerced s = concat (map encode_rune (runes s))"

lemma coerced_valid: "valid_string s \<Longrightarrow> coerced s = s"
  by (simp add: coerced_def encode_runes)

definition plain_json :: "char \<Rightarrow> bool" where
  "plain_json c \<longleftrightarrow> 32 \<le> byte c \<and> c \<noteq> CHR 0x22 \<and> c \<noteq> CHR 0x5C"

lemma read_plain:
  "list_all plain_json u \<Longrightarrow> read_string (u @ t) = map_option (\<lambda>(x, r). (u @ x, r)) (read_string t)"
proof (induction u)
  case Nil
  show ?case by (cases "read_string t") simp_all
next
  case (Cons c u)
  then show ?case by (cases "read_string t") (auto simp: plain_json_def)
qed

lemma hex_digit_char: "d < 16 \<Longrightarrow> hex_digit (digit_char d) = Some d"
  by (auto simp: hex_digit_def digit_char_def lower_byte_def is_digit_def)

lemma hex4_digits:
  "a < 16 \<Longrightarrow> b < 16 \<Longrightarrow> c < 16 \<Longrightarrow> d < 16 \<Longrightarrow>
   hex4 (digit_char a) (digit_char b) (digit_char c) (digit_char d) = Some (((a * 16 + b) * 16 + c) * 16 + d)"
  by (simp add: hex4_def hex_digit_char)

lemma fmt_hex_4:
  assumes "r < 65536"
  shows "fmt_hex 4 r = map digit_char [r div 4096, r div 256 mod 16, r div 16 mod 16, r mod 16]"
proof -
  have zero: "CHR ''0'' = digit_char 0" by (simp add: digit_char_def byte_char_def char_of_def bit_iff_odd)
  have div: "r div 16 div 16 = r div 256" "r div 256 div 16 = r div 4096" by (simp_all add: div_mult2_eq [symmetric])
  have step: "digits_in 16 n = (if n < 16 then [digit_char n] else digits_in 16 (n div 16) @ [digit_char (n mod 16)])" for n
    by (subst digits_in.simps) simp
  consider "r < 16" | "16 \<le> r" "r < 256" | "256 \<le> r" "r < 4096" | "4096 \<le> r" by linarith
  then show ?thesis
  proof cases
    case 1
    then show ?thesis by (simp add: fmt_hex_def pad_left_def step [of r] zero numeral_2_eq_2 numeral_3_eq_3)
  next
    case 2
    then have "r div 16 < 16" by simp
    with 2 show ?thesis by (simp add: fmt_hex_def pad_left_def step [of r] step [of "r div 16"] zero numeral_2_eq_2 numeral_3_eq_3)
  next
    case 3
    then have "\<not> r div 16 < 16" "r div 256 < 16" by simp_all
    with 3 show ?thesis
      by (simp add: fmt_hex_def pad_left_def step [of r] step [of "r div 16"] step [of "r div 256"] zero div)
  next
    case 4
    then have "\<not> r div 16 < 16" "\<not> r div 256 < 16" "r div 4096 < 16" using assms by simp_all
    with 4 show ?thesis
      by (simp add: fmt_hex_def pad_left_def step [of r] step [of "r div 16"] step [of "r div 256"] step [of "r div 4096"] div)
  qed
qed

lemma read_hex:
  assumes "r < 65536"
  shows "read_string (CHR 0x5C # CHR ''u'' # fmt_hex 4 r @ t) =
    map_option (\<lambda>(x, u). (encode_rune r @ x, u)) (read_string t)"
proof -
  have "r div 16 div 16 = r div 256" "r div 256 div 16 = r div 4096" by (simp_all add: div_mult2_eq [symmetric])
  then have "((r div 4096 * 16 + r div 256 mod 16) * 16 + r div 16 mod 16) * 16 + r mod 16 = r"
    using div_mult_mod_eq [of "r div 256" 16] div_mult_mod_eq [of "r div 16" 16] div_mult_mod_eq [of r 16] by simp
  moreover have "r div 4096 < 16" using assms by simp
  ultimately show ?thesis using assms by (simp add: fmt_hex_4 hex4_digits)
qed

text \<open>Each chunk reads back as its rune.\<close>

lemma plain_json_byte: "32 \<le> byte c \<Longrightarrow> byte c \<noteq> 0x22 \<Longrightarrow> byte c \<noteq> 0x5C \<Longrightarrow> plain_json c"
  by (auto simp: plain_json_def byte_def)

lemma read_escape:
  "unescaped c = Some x \<Longrightarrow> c \<noteq> CHR ''u'' \<Longrightarrow>
   read_string (CHR 0x5C # c # t) = map_option (\<lambda>(y, u). (x # y, u)) (read_string t)"
  by simp

lemma encode_scalar_small: "r < 128 \<Longrightarrow> encode_rune r = [byte_char r]"
  by (simp add: encode_rune_def encode_scalar_def scalar_def)

lemma small_chars:
  "byte_char 0x22 = CHR 0x22" "byte_char 0x5C = CHR 0x5C" "byte_char 8 = CHR 0x08" "byte_char 9 = CHR 0x09"
  "byte_char 10 = CHR 0x0A" "byte_char 12 = CHR 0x0C" "byte_char 13 = CHR 0x0D"
  by (simp_all add: byte_char_def char_of_def bit_iff_odd)

lemma read_chunk:
  assumes p: "p \<in> set (chunks s)"
  shows "read_string (json_chunk p @ t) =
    map_option (\<lambda>(x, u). (encode_rune (fst p) @ x, u)) (read_string t)"
proof (cases "bad_chunk p")
  case True
  have "fmt_hex 4 rune_error = ''fffd''"
    by (simp add: fmt_hex_4 rune_error_def digit_char_def byte_char_def char_of_def bit_iff_odd)
  with True show ?thesis
    using read_hex [of rune_error t] by (simp add: json_chunk_def bad_chunk_def rune_error_def)
next
  case False
  define r where "r = fst p"
  from chunk_cases [OF p] False have r: "scalar r" "snd p = encode_rune r" by (simp_all add: r_def encode_rune_def)
  show ?thesis
  proof (cases "r = 0x22 \<or> r = 0x5C \<or> r \<in> {8, 9, 10, 12, 13}")
    case True
    then consider "r = 0x22" | "r = 0x5C" | "r = 8" | "r = 9" | "r = 10" | "r = 12" | "r = 13" by auto
    then show ?thesis
      by cases (use False r in \<open>simp_all add: json_chunk_def r_def [symmetric] encode_scalar_small small_chars unescaped_def\<close>)
  next
    case plain: False
    show ?thesis
    proof (cases "r < 32 \<or> r = 0x2028 \<or> r = 0x2029")
      case True
      then show ?thesis using plain False read_hex [of r t] by (auto simp: json_chunk_def r_def [symmetric])
    next
      case printed: False
      then have "json_chunk p = encode_rune r" using plain False r by (simp add: json_chunk_def r_def)
      moreover have "list_all plain_json (encode_rune r)"
        using chunk_bytes [OF p] plain printed r
        by (auto simp: list_all_iff r_def [symmetric] intro!: plain_json_byte)
      ultimately show ?thesis by (simp add: read_plain r_def)
    qed
  qed
qed

lemma read_chunks:
  "set ps \<subseteq> set (chunks s) \<Longrightarrow> read_string (concat (map json_chunk ps) @ CHR 0x22 # t) =
     Some (concat (map (\<lambda>p. encode_rune (fst p)) ps), t)"
proof (induction ps)
  case (Cons p ps)
  then show ?case using read_chunk [of p s "concat (map json_chunk ps) @ CHR 0x22 # t"] by simp
qed simp

lemma read_json_string:
  "\<exists>u. json_string s @ t = CHR 0x22 # u \<and> read_string u = Some (coerced s, t)"
  using read_chunks [of "chunks s" s t] by (simp add: json_string_def coerced_def runes_def comp_def)

section \<open>Numbers\<close>

lemma number_char_digit [simp]: "is_digit c \<Longrightarrow> number_char c"
  by (simp add: number_char_def)

lemma digits_number: "list_all is_digit s \<Longrightarrow> list_all number_char s"
  by (auto simp: list_all_iff)

lemma exponent_number: "json_exponent s \<Longrightarrow> list_all number_char s"
proof (cases s)
  case (Cons c t)
  assume e: "json_exponent s"
  have c: "number_char c" using e Cons by (auto simp: json_exponent_def number_char_def)
  have "list_all number_char t"
  proof (cases t)
    case (Cons d u)
    then show ?thesis using e \<open>s = c # t\<close> digits_number [of u] digits_number [of t]
      by (auto simp: json_exponent_def some_digits_def number_char_def split: if_splits)
  qed simp
  with c Cons show ?thesis by simp
qed simp

lemma number_split:
  "list_all number_char (takeWhile is_digit s)" "list_all number_char (dropWhile is_digit s) \<Longrightarrow> list_all number_char s"
proof -
  show take: "list_all number_char (takeWhile is_digit s)" by (auto simp: list_all_iff dest: set_takeWhileD)
  show "list_all number_char s" if "list_all number_char (dropWhile is_digit s)"
    using take that by (metis list_all_append takeWhile_dropWhile_id)
qed

lemma fraction_number: "json_fraction s \<Longrightarrow> list_all number_char s"
proof (cases s)
  case (Cons c t)
  assume f: "json_fraction s"
  show ?thesis
  proof (cases "c = CHR ''.''")
    case True
    then have "json_exponent (dropWhile is_digit t)" using f Cons by (simp add: json_fraction_def)
    then have "list_all number_char t" by (rule number_split(2) [OF exponent_number])
    with True Cons show ?thesis by (simp add: number_char_def)
  next
    case False
    then show ?thesis using f Cons exponent_number [of s] by (simp add: json_fraction_def)
  qed
qed simp

lemma number_chars: "json_number s \<Longrightarrow> list_all number_char s"
proof -
  assume n: "json_number s"
  define t where "t = (if take 1 s = ''-'' then drop 1 s else s)"
  have "json_fraction (dropWhile is_digit t)" using n by (simp add: json_number_def Let_def t_def)
  then have "list_all number_char t" by (rule number_split(2) [OF fraction_number])
  then show ?thesis by (cases s) (auto simp: t_def number_char_def split: if_splits)
qed

lemma number_start: "json_number s \<Longrightarrow> \<exists>c t. s = c # t \<and> (c = CHR ''-'' \<or> is_digit c)"
  by (cases s) (auto simp: json_number_def Let_def split: if_splits)

text \<open>What is left after a value: a number goes on as long as it can.\<close>

definition stops :: "string \<Rightarrow> bool" where
  "stops s \<longleftrightarrow> (case s of [] \<Rightarrow> True | c # t \<Rightarrow> \<not> number_char c)"

lemma read_atom_number:
  assumes d: "json_number d" and t: "stops t"
  shows "read_atom (d @ t) = Some (JNum d, t)"
proof -
  obtain c u where c: "d = c # u" "c = CHR ''-'' \<or> is_digit c" using number_start [OF d] by blast
  then have w: "c \<noteq> CHR ''n''" "c \<noteq> CHR ''t''" "c \<noteq> CHR ''f''" by (auto simp: is_digit_def byte_def)
  have "takeWhile number_char (d @ t) = d" "dropWhile number_char (d @ t) = t"
    using number_chars [OF d] t by (cases t; auto simp: stops_def list_all_iff takeWhile_append2 dropWhile_append2)+
  with d w show ?thesis by (auto simp: read_atom_def after_text_def c(1))
qed

section \<open>Values\<close>

text \<open>A tree as it is read back, what its numbers have to be, and the nesting its text asks of the reader.\<close>

fun coerce :: "json \<Rightarrow> json" where
  "coerce (JStr s) = JStr (coerced s)"
| "coerce (JArr xs) = JArr (map coerce xs)"
| "coerce (JObj kvs) = JObj (map (\<lambda>(k, v). (coerced k, coerce v)) kvs)"
| "coerce j = j"

fun proper :: "json \<Rightarrow> bool" where
  "proper (JNum d) = json_number d"
| "proper (JArr xs) = list_all proper xs"
| "proper (JObj kvs) = list_all (\<lambda>(k, v). proper v) kvs"
| "proper j = True"

fun cost :: "json \<Rightarrow> nat" where
  "cost (JArr xs) = Suc (sum_list (map (\<lambda>x. Suc (cost x)) xs))"
| "cost (JObj kvs) = Suc (sum_list (map (\<lambda>kv. Suc (cost (snd kv))) kvs))"
| "cost j = 1"

lemma skip_space_append [simp]: "list_all json_space w \<Longrightarrow> skip_space (w @ s) = skip_space s"
  by (simp add: skip_space_def list_all_iff dropWhile_append2)

lemma skip_space_Cons [simp]: "\<not> json_space c \<Longrightarrow> skip_space (c # s) = c # s"
  by (simp add: skip_space_def)

lemma read_value_space: "list_all json_space w \<Longrightarrow> read_value m (w @ s) = read_value m s"
  by (cases m) simp_all

lemma read_elements_space: "list_all json_space w \<Longrightarrow> read_elements m (w @ s) = read_elements m s"
  by (cases m) (simp_all add: read_value_space)

lemma read_key_space: "list_all json_space w \<Longrightarrow> read_key (w @ s) = read_key s"
  by (simp add: read_key_def)

lemma read_members_space: "list_all json_space w \<Longrightarrow> read_members m (w @ s) = read_members m s"
  by (cases m) (simp_all add: read_key_space)

lemma indent_space [simp]: "list_all json_space (indent_text n)"
  by (simp add: indent_text_def json_space_def list_all_iff)

lemma stops_simps [simp]: "stops []" "stops (c # t) \<longleftrightarrow> \<not> number_char c"
  by (simp_all add: stops_def)

lemma space_not_number: "json_space c \<Longrightarrow> \<not> number_char c"
  by (auto simp: json_space_def number_char_def is_digit_def byte_def)

lemma stops_space: "list_all json_space w \<Longrightarrow> stops s \<Longrightarrow> stops (w @ s)"
  by (cases w) (simp_all add: space_not_number)

lemma join_Cons: "join sep (x # xs) = x @ concat (map (\<lambda>y. sep @ y) xs)"
  by (induction xs arbitrary: x) simp_all

lemma json_marks [simp]:
  "\<not> json_space (CHR 0x22)" "\<not> json_space (CHR '','')" "\<not> json_space (CHR '']'')" "\<not> json_space (CHR ''['')"
  "\<not> json_space (CHR 0x7B)" "\<not> json_space (CHR 0x7D)" "\<not> json_space (CHR '':'')"
  "\<not> number_char (CHR '','')" "\<not> number_char (CHR '']'')" "\<not> number_char (CHR 0x7D)"
  by (simp_all add: json_space_def number_char_def is_digit_def byte_def)

text \<open>The elements of an array, and the members of an object, when each value reads back.\<close>

definition reads_back :: "nat \<Rightarrow> json \<Rightarrow> bool" where
  "reads_back n j \<longleftrightarrow> (\<forall>m t. stops t \<longrightarrow> cost j \<le> m \<longrightarrow> read_value m (json_text n j @ t) = Some (coerce j, t))"

lemma reads_backD: "reads_back n j \<Longrightarrow> stops t \<Longrightarrow> cost j \<le> m \<Longrightarrow> read_value m (json_text n j @ t) = Some (coerce j, t)"
  by (simp add: reads_back_def)

lemma read_elements_text:
  assumes "list_all (reads_back n) (x # xs)" "sum_list (map (\<lambda>y. Suc (cost y)) (x # xs)) \<le> m"
    and w: "list_all json_space w" "list_all json_space w'"
  shows "read_elements m (json_text n x @ concat (map (\<lambda>y. '','' @ w @ json_text n y) xs) @ w' @ '']'' @ t) =
    Some (map coerce (x # xs), t)"
  using assms(1,2)
proof (induction xs arbitrary: x m)
  case Nil
  then obtain m' where m: "m = Suc m'" "cost x \<le> m'" by (cases m) auto
  have "stops (w' @ CHR '']'' # t)" using w by (intro stops_space) simp_all
  with Nil m show ?case using w by (simp add: reads_backD element_end_def)
next
  case (Cons y ys)
  then obtain m' where m: "m = Suc m'" "cost x \<le> m'" "sum_list (map (\<lambda>y. Suc (cost y)) (y # ys)) \<le> m'"
    by (cases m) auto
  have "read_elements m' (w @ json_text n y @ concat (map (\<lambda>y. '','' @ w @ json_text n y) ys) @ w' @ '']'' @ t) =
      Some (map coerce (y # ys), t)"
    using Cons m by (simp only: read_elements_space [OF w(1)]) simp
  with Cons m show ?case by (simp add: reads_backD element_end_def)
qed

lemma read_key_text: "read_key (json_string k @ CHR '':'' # s) = Some (coerced k, s)"
  using read_json_string [of k "CHR '':'' # s"] by (auto simp: read_key_def)

abbreviation member_text :: "nat \<Rightarrow> string \<times> json \<Rightarrow> string" where
  "member_text n kv \<equiv> json_string (fst kv) @ '': '' @ json_text n (snd kv)"

lemma read_member:
  assumes "reads_back n (snd kv)" "cost (snd kv) \<le> m" "stops t"
  shows "read_key (member_text n kv @ t) = Some (coerced (fst kv), '' '' @ json_text n (snd kv) @ t)"
    and "read_value m ('' '' @ json_text n (snd kv) @ t) = Some (coerce (snd kv), t)"
proof -
  show "read_key (member_text n kv @ t) = Some (coerced (fst kv), '' '' @ json_text n (snd kv) @ t)"
    using read_key_text [of "fst kv"] by simp
  show "read_value m ('' '' @ json_text n (snd kv) @ t) = Some (coerce (snd kv), t)"
    using assms by (subst read_value_space) (simp_all add: json_space_def reads_backD)
qed

lemma read_members_text:
  assumes "list_all (reads_back n \<circ> snd) (x # xs)" "sum_list (map (\<lambda>y. Suc (cost (snd y))) (x # xs)) \<le> m"
    and w: "list_all json_space w" "list_all json_space w'"
  shows "read_members m (member_text n x @ concat (map (\<lambda>y. '','' @ w @ member_text n y) xs) @ w' @ CHR 0x7D # t) =
    Some (map (\<lambda>(k, v). (coerced k, coerce v)) (x # xs), t)"
  using assms(1,2)
proof (induction xs arbitrary: x m)
  case Nil
  then obtain m' where m: "m = Suc m'" "cost (snd x) \<le> m'" by (cases m) auto
  have "stops (w' @ CHR 0x7D # t)" using w by (intro stops_space) simp_all
  with Nil m read_member [of n x m' "w' @ CHR 0x7D # t"] show ?case
    using w by (simp add: element_end_def split_beta)
next
  case (Cons y ys)
  let ?rest = "w @ member_text n y @ concat (map (\<lambda>y. '','' @ w @ member_text n y) ys) @ w' @ CHR 0x7D # t"
  obtain m' where m: "m = Suc m'" "cost (snd x) \<le> m'" "sum_list (map (\<lambda>y. Suc (cost (snd y))) (y # ys)) \<le> m'"
    using Cons by (cases m) auto
  have "read_members m' ?rest = Some (map (\<lambda>(k, v). (coerced k, coerce v)) (y # ys), t)"
    using Cons m by (simp only: read_members_space [OF w(1)]) simp
  with Cons m read_member [of n x m' "CHR '','' # ?rest"] show ?case
    by (simp add: element_end_def split_beta)
qed

text \<open>Every value whose numbers are numbers reads back.\<close>

lemma json_text_member: "(\<lambda>(k, v). json_string k @ '': '' @ json_text n v) = member_text n"
  by (simp add: fun_eq_iff split_beta)

lemma bracket_Cons:
  "bracket left right n (map f (x # xs)) =
     left # indent_text (Suc n) @ f x @ concat (map (\<lambda>y. '','' @ indent_text (Suc n) @ f y) xs) @ indent_text n @ [right]"
  by (simp add: bracket_def join_Cons comp_def del: join.simps)

lemma json_text_start:
  "proper j \<Longrightarrow> \<exists>c u. json_text n j = c # u \<and> \<not> json_space c \<and> c \<noteq> CHR '']''"
proof (cases j)
  case (JNum d)
  assume "proper j"
  with JNum obtain c u where "d = c # u" "c = CHR ''-'' \<or> is_digit c" using number_start [of d] by auto
  with JNum show ?thesis by (auto simp: json_space_def is_digit_def byte_def)
qed (simp_all add: json_string_def bracket_def json_space_def)

lemma reads_back_number: "json_number d \<Longrightarrow> reads_back n (JNum d)"
  unfolding reads_back_def
proof (intro allI impI)
  fix m :: nat and t
  assume d: "json_number d" and t: "stops t" and m: "cost (JNum d) \<le> m"
  obtain m' where m': "m = Suc m'" using m by (cases m) auto
  obtain c u where c: "d = c # u" "c = CHR ''-'' \<or> is_digit c" using number_start [OF d] by blast
  have "\<not> json_space c" "c \<noteq> CHR 0x22" "c \<noteq> CHR ''[''" "c \<noteq> CHR 0x7B"
    using c(2) by (auto simp: json_space_def is_digit_def byte_def)
  then show "read_value m (json_text n (JNum d) @ t) = Some (coerce (JNum d), t)"
    using read_atom_number [OF d t] by (simp add: m' c(1))
qed

lemma reads_back_atom: "reads_back n JNull" "reads_back n (JBool b)"
  by (auto simp: reads_back_def read_atom_def after_text_def json_space_def dest!: Suc_le_D)

lemma reads_back_string: "reads_back n (JStr s)"
  unfolding reads_back_def
proof (intro allI impI)
  fix m t
  assume m: "cost (JStr s) \<le> m"
  then obtain m' where "m = Suc m'" by (cases m) auto
  with read_json_string [of s t] show "read_value m (json_text n (JStr s) @ t) = Some (coerce (JStr s), t)"
    by auto
qed

lemma read_array:
  "take 1 (skip_space s) \<noteq> '']'' \<Longrightarrow> read_elements m s = Some (xs, u) \<Longrightarrow>
   read_value (Suc m) (CHR ''['' # s) = Some (JArr xs, u)"
  by simp

lemma read_object:
  "take 1 (skip_space s) \<noteq> [CHR 0x7D] \<Longrightarrow> read_members m s = Some (xs, u) \<Longrightarrow>
   read_value (Suc m) (CHR 0x7B # s) = Some (JObj xs, u)"
  by simp

lemma reads_back_array:
  assumes all: "list_all (reads_back (Suc n)) xs" and proper: "list_all proper xs"
  shows "reads_back n (JArr xs)"
proof (cases xs)
  case Nil
  then show ?thesis by (auto simp: reads_back_def bracket_def dest!: Suc_le_D)
next
  case (Cons x ys)
  show ?thesis unfolding reads_back_def Cons
  proof (intro allI impI)
    fix m t
    assume m: "cost (JArr (x # ys)) \<le> m"
    then obtain m' where m': "m = Suc m'" "sum_list (map (\<lambda>y. Suc (cost y)) (x # ys)) \<le> m'" by (cases m) auto
    let ?s = "indent_text (Suc n) @ json_text (Suc n) x @
      concat (map (\<lambda>y. '','' @ indent_text (Suc n) @ json_text (Suc n) y) ys) @ indent_text n @ '']'' @ t"
    have "take 1 (skip_space ?s) \<noteq> '']''" using json_text_start [of x "Suc n"] proper Cons by auto
    moreover have "read_elements m' ?s = Some (map coerce (x # ys), t)"
      using read_elements_text [OF all [unfolded Cons] m'(2), of "indent_text (Suc n)" "indent_text n" t]
      by (simp only: read_elements_space indent_space simp_thms)
    ultimately have "read_value m (CHR ''['' # ?s) = Some (JArr (map coerce (x # ys)), t)"
      unfolding m'(1) by (rule read_array)
    moreover have "json_text n (JArr (x # ys)) @ t = CHR ''['' # ?s"
      by (simp only: json_text.simps bracket_Cons append_Cons append_assoc append_Nil)
    ultimately show "read_value m (json_text n (JArr (x # ys)) @ t) = Some (coerce (JArr (x # ys)), t)"
      by (simp only: coerce.simps)
  qed
qed

lemma reads_back_object:
  assumes all: "list_all (reads_back (Suc n) \<circ> snd) xs"
  shows "reads_back n (JObj xs)"
proof (cases xs)
  case Nil
  then show ?thesis by (auto simp: reads_back_def bracket_def dest!: Suc_le_D)
next
  case (Cons x ys)
  show ?thesis unfolding reads_back_def Cons
  proof (intro allI impI)
    fix m t
    assume m: "cost (JObj (x # ys)) \<le> m"
    then obtain m' where m': "m = Suc m'" "sum_list (map (\<lambda>y. Suc (cost (snd y))) (x # ys)) \<le> m'"
      by (cases m) auto
    let ?s = "indent_text (Suc n) @ member_text (Suc n) x @
      concat (map (\<lambda>y. '','' @ indent_text (Suc n) @ member_text (Suc n) y) ys) @ indent_text n @ CHR 0x7D # t"
    have "take 1 (skip_space ?s) \<noteq> [CHR 0x7D]" by (simp add: json_string_def)
    moreover have "read_members m' ?s = Some (map (\<lambda>(k, v). (coerced k, coerce v)) (x # ys), t)"
      using read_members_text [OF all [unfolded Cons] m'(2), of "indent_text (Suc n)" "indent_text n" t]
      by (simp only: read_members_space indent_space simp_thms)
    ultimately have "read_value m (CHR 0x7B # ?s) = Some (JObj (map (\<lambda>(k, v). (coerced k, coerce v)) (x # ys)), t)"
      unfolding m'(1) by (rule read_object)
    moreover have "json_text n (JObj (x # ys)) @ t = CHR 0x7B # ?s"
      unfolding json_text.simps json_text_member bracket_Cons
      by (simp only: append_Cons append_assoc append_Nil)
    ultimately show "read_value m (json_text n (JObj (x # ys)) @ t) = Some (coerce (JObj (x # ys)), t)"
      by (simp only: coerce.simps)
  qed
qed

lemma proper_reads_back: "proper j \<Longrightarrow> reads_back n j"
proof (induction j arbitrary: n)
  case (JArr xs)
  then show ?case by (intro reads_back_array) (simp_all add: list_all_iff)
next
  case (JObj kvs)
  have "reads_back (Suc n) (snd kv)" if "kv \<in> set kvs" for kv
    using JObj that by (cases kv) (fastforce simp: list_all_iff)
  then show ?case by (intro reads_back_object) (simp add: list_all_iff)
qed (simp_all add: reads_back_atom reads_back_number reads_back_string)

text \<open>The text is as long as the nesting it asks for, so the whole text reads back.\<close>

lemma cost_rest:
  "(\<And>x. x \<in> set xs \<Longrightarrow> c x \<le> length (f x)) \<Longrightarrow>
   sum_list (map (\<lambda>x. Suc (c x)) xs) \<le> length (concat (map (\<lambda>y. '','' @ w @ f y) xs))"
proof (induction xs)
  case (Cons x xs)
  then have "c x \<le> length (f x)" by simp
  with Cons show ?case by fastforce
qed simp

lemma cost_bracket:
  assumes "\<And>x. x \<in> set xs \<Longrightarrow> c x \<le> length (f x)"
  shows "Suc (sum_list (map (\<lambda>x. Suc (c x)) xs)) \<le> length (bracket left right n (map f xs))"
proof (cases xs)
  case (Cons x ys)
  then have "c x \<le> length (f x)" using assms by simp
  moreover have "sum_list (map (\<lambda>x. Suc (c x)) ys) \<le>
      length (concat (map (\<lambda>y. '','' @ indent_text (Suc n) @ f y) ys))"
    by (rule cost_rest) (use assms Cons in simp)
  ultimately show ?thesis unfolding Cons bracket_Cons by (simp del: length_concat)
qed (simp add: bracket_def)

lemma cost_text: "proper j \<Longrightarrow> cost j \<le> length (json_text n j)"
proof (induction j arbitrary: n)
  case (JNum d)
  then show ?case using number_start [of d] by auto
next
  case (JArr xs)
  then show ?case using cost_bracket [of xs cost "json_text (Suc n)"] by (simp add: list_all_iff)
next
  case (JObj kvs)
  have "cost (snd kv) \<le> length (member_text (Suc n) kv)" if "kv \<in> set kvs" for kv
    using JObj.IH [of kv "snd kv" "Suc n"] JObj.prems that
    by (cases kv) (fastforce simp: list_all_iff)
  then show ?case
    unfolding json_text.simps json_text_member cost.simps by (rule cost_bracket)
qed (simp_all add: json_string_def)

theorem read_json_text:
  assumes "proper j"
  shows "read_json (json_text 0 j @ [CHR 0x0A]) = Some (coerce j)"
proof -
  have "cost j \<le> length (json_text 0 j @ [CHR 0x0A])" using cost_text [OF assms, of 0] by simp
  then have "read_value (length (json_text 0 j @ [CHR 0x0A])) (json_text 0 j @ [CHR 0x0A]) =
      Some (coerce j, [CHR 0x0A])"
    by (intro reads_backD proper_reads_back assms) (simp_all add: space_not_number json_space_def)
  then show ?thesis by (simp only: read_json_def) (simp add: skip_space_def json_space_def)
qed

end
