(* ===== verification/JSONNumber.thy ===== *)
theory JSONNumber
  imports JSONRead
begin

text \<open>
  The numbers that are encoded are numbers of JSON: integers, and the shortest digits of a float in both
  formats.
\<close>

section \<open>Digits\<close>

lemma dec_nat_zero: "dec_nat 0 = ''0''"
  by (subst dec_nat_rec) (simp add: digit_char_def byte_char_def char_of_def bit_iff_odd)

lemma dec_nat_lead: "0 < n \<Longrightarrow> hd (dec_nat n) \<noteq> CHR ''0''"
proof (induction n rule: less_induct)
  case (less n)
  show ?case
  proof (cases "n < 10")
    case True
    then have "byte (hd (dec_nat n)) = 48 + n" by (subst dec_nat_rec) (simp add: byte_digit_char)
    with less.prems show ?thesis by (auto simp: byte_def)
  next
    case False
    then have "hd (dec_nat (n div 10)) \<noteq> CHR ''0''" using less by simp
    with False show ?thesis by (subst dec_nat_rec) simp
  qed
qed

lemma length_dec_nat: "0 < n \<Longrightarrow> 10 ^ (length (dec_nat n) - 1) \<le> n \<and> n < 10 ^ length (dec_nat n)"
proof (induction n rule: less_induct)
  case (less n)
  show ?case
  proof (cases "n < 10")
    case True
    with less.prems show ?thesis by (subst (1 2) dec_nat_rec) simp
  next
    case False
    define l where "l = length (dec_nat (n div 10))"
    have "0 < l" by (simp add: l_def)
    have "10 ^ (l - 1) \<le> n div 10" "n div 10 < 10 ^ l" using False less.IH [of "n div 10"] by (simp_all add: l_def)
    then have "10 * 10 ^ (l - 1) \<le> n" "n < 10 * 10 ^ l" by linarith+
    moreover have "length (dec_nat n) = Suc l" using False by (subst dec_nat_rec) (simp add: l_def)
    moreover have "10 * 10 ^ (l - 1) = (10 :: nat) ^ l" using \<open>0 < l\<close> by (cases l) simp_all
    ultimately show ?thesis by simp
  qed
qed

lemma pow10_diff: "pow10 (int a - int b) = 10 ^ a / 10 ^ b"
proof (cases "b \<le> a")
  case True
  then show ?thesis by (simp add: pow10_def power_diff flip: of_nat_diff)
next
  case False
  then have "pow10 (int a - int b) = 1 / 10 ^ (b - a)" by (simp add: pow10_def nat_diff_distrib' flip: of_nat_diff)
  with False show ?thesis by (simp add: power_diff)
qed

lemma pow10_ilog10: "0 < q \<Longrightarrow> pow10 (ilog10 q) \<le> q"
proof -
  assume q: "0 < q"
  obtain a b where ab: "quotient_of q = (a, b)" by (cases "quotient_of q")
  have b: "0 < b" and q': "q = of_int a / of_int b" using quotient_of_denom_pos [OF ab] quotient_of_div [OF ab] by simp_all
  with q have a: "0 < a" by (simp add: zero_less_divide_iff)
  define m n where "m = nat a" and "n = nat b"
  have mn: "0 < m" "0 < n" "q = of_nat m / of_nat n" using a b q' by (simp_all add: m_def n_def)
  define la lb where "la = length (dec_nat m)" and "lb = length (dec_nat n)"
  have "0 < la" by (simp add: la_def)
  have "10 ^ (la - 1) \<le> m" "n < 10 ^ lb" using length_dec_nat mn by (simp_all add: la_def lb_def)
  then have le: "10 ^ (la - 1) \<le> (of_nat m :: rat)" "(of_nat n :: rat) < 10 ^ lb"
    by (metis of_nat_le_iff of_nat_numeral of_nat_power, metis of_nat_less_iff of_nat_numeral of_nat_power)
  have "pow10 (int la - int lb - 1) = 10 ^ (la - 1) / 10 ^ lb"
    using \<open>0 < la\<close> pow10_diff [of "la - 1" lb] by (simp add: of_nat_diff algebra_simps)
  also have "\<dots> \<le> of_nat m / of_nat n" using le mn by (intro frac_le) simp_all
  finally have "pow10 (int la - int lb - 1) \<le> q" using mn by simp
  then show ?thesis
    by (simp add: ilog10_def ab m_def [symmetric] n_def [symmetric] la_def [symmetric] lb_def [symmetric] Let_def)
qed

lemma pow10_less: "pow10 (e - int k) \<le> pow10 e"
proof -
  define a b where "a = nat e" and "b = nat (- e)"
  have e: "e = int a - int b" by (simp add: a_def b_def)
  have "(10 :: rat) ^ a / 10 ^ (b + k) \<le> 10 ^ a / 10 ^ b" by (intro divide_left_mono) simp_all
  moreover have "e - int k = int a - int (b + k)" using e by simp
  moreover have "pow10 e = 10 ^ a / 10 ^ b" using pow10_diff [of a b] e by simp
  ultimately show ?thesis using pow10_diff [of a "b + k"] by (simp only:)
qed

lemma round_even_ge: "1 \<le> q \<Longrightarrow> 1 \<le> round_even q"
proof -
  assume "1 \<le> q"
  then have "1 \<le> \<lfloor>q\<rfloor>" by simp
  then show ?thesis by (simp add: round_even_def Let_def)
qed

text \<open>The digits of a positive number are not zero, for a rounding that keeps zero.\<close>

lemma first_digits_positive:
  assumes q: "0 < q" and rnd: "rnd 0 = Fin 0"
  shows "0 < fst (first_digits rnd q n ks)"
proof (induction ks)
  case Nil
  have "0 < pow10 (ilog10 q - int (n - 1))" by (simp add: pow10_def)
  moreover have "pow10 (ilog10 q - int (n - 1)) \<le> pow10 (ilog10 q)" by (rule pow10_less)
  ultimately have "1 \<le> q / pow10 (ilog10 q - int (n - 1))"
    using pow10_ilog10 [OF q] by (simp add: le_divide_eq)
  then have "1 \<le> round_even (q / pow10 (ilog10 q - int (n - 1)))" by (rule round_even_ge)
  then show ?case by (simp add: Let_def)
next
  case (Cons k ks)
  have "0 < m" if "nearest_digits rnd q k = Some (m, e)" for m e
    using nearest_digits_back [OF that] q rnd by (cases m) simp_all
  with Cons show ?case by (auto split: option.split)
qed

lemma strip_zeros_positive: "0 < fst p \<Longrightarrow> 0 < fst (strip_zeros p)"
proof (induction p rule: strip_zeros.induct)
  case (1 m e)
  show ?case
  proof (cases "m mod 10 = 0")
    case True
    then have "0 < m div 10" using 1 by auto
    with True 1 show ?thesis by (subst strip_zeros.simps) simp
  qed (use 1 in \<open>simp add: strip_zeros.simps\<close>)
qed

lemma shortest_positive:
  "0 < q \<Longrightarrow> rnd 0 = Fin 0 \<Longrightarrow> 0 < fst (strip_zeros (shortest rnd q))"
  unfolding shortest_def by (intro strip_zeros_positive first_digits_positive)

section \<open>The grammar\<close>

definition whole_part :: "string \<Rightarrow> bool" where
  "whole_part i \<longleftrightarrow> i \<noteq> [] \<and> list_all is_digit i \<and> (hd i = CHR ''0'' \<longrightarrow> length i = 1)"

lemma whole_dec_nat: "0 < m \<Longrightarrow> whole_part (dec_nat m)"
  by (simp add: whole_part_def digits_dec_nat dec_nat_lead)

lemma whole_one: "is_digit c \<Longrightarrow> whole_part [c]"
  by (simp add: whole_part_def)

lemma not_digit_marks [simp]:
  "\<not> is_digit (CHR ''.'')" "\<not> is_digit (CHR ''e'')" "\<not> is_digit (CHR ''-'')" "\<not> is_digit (CHR ''+'')"
  by (simp_all add: is_digit_def byte_def)

lemma number_of_parts:
  assumes i: "whole_part i" and f: "json_fraction f" "f = [] \<or> \<not> is_digit (hd f)"
  shows "json_number (i @ f)" "json_number (CHR ''-'' # i @ f)"
proof -
  have take: "takeWhile is_digit (i @ f) = i" "dropWhile is_digit (i @ f) = f"
    using i f(2) by (cases f; auto simp: whole_part_def list_all_iff takeWhile_append2 dropWhile_append2)+
  have "take 1 (i @ f) \<noteq> ''-''" using i by (cases i) (auto simp: whole_part_def)
  with i f(1) take show "json_number (i @ f)" "json_number (CHR ''-'' # i @ f)"
    by (simp_all add: json_number_def whole_part_def Let_def)
qed

lemma fraction_exponent: "json_exponent x \<Longrightarrow> x = [] \<or> hd x = CHR ''e'' \<Longrightarrow> json_fraction x"
  by (cases x) (auto simp: json_fraction_def)

lemma fraction_dot:
  assumes "some_digits ds" "json_exponent x" "x = [] \<or> hd x = CHR ''e''"
  shows "json_fraction (CHR ''.'' # ds @ x)"
proof -
  have "takeWhile is_digit (ds @ x) = ds" "dropWhile is_digit (ds @ x) = x"
    using assms(1,3) by (cases x; auto simp: some_digits_def list_all_iff takeWhile_append2 dropWhile_append2)+
  with assms show ?thesis by (simp add: json_fraction_def some_digits_def)
qed

section \<open>What is encoded\<close>

definition both_signs :: "string \<Rightarrow> bool" where
  "both_signs s \<longleftrightarrow> json_number s \<and> json_number (CHR ''-'' # s)"

lemma both_parts:
  "whole_part i \<Longrightarrow> json_fraction f \<Longrightarrow> f = [] \<or> \<not> is_digit (hd f) \<Longrightarrow> both_signs (i @ f)"
  by (simp add: both_signs_def number_of_parts)

lemma both_zero: "both_signs ''0''"
  using both_parts [of "''0''" "[]"] by (simp add: whole_part_def is_digit_def byte_def json_fraction_def)

lemma json_number_fmt_d: "json_number (fmt_d i)"
proof -
  have "both_signs (dec_nat n)" for n
    using both_zero both_parts [OF whole_dec_nat, of n "[]"] by (cases n) (simp_all add: dec_nat_zero json_fraction_def)
  then show ?thesis by (simp add: fmt_d_def both_signs_def)
qed

lemma is_digit_zero [simp]: "is_digit (CHR ''0'')"
  by (simp add: is_digit_def byte_def)

lemma both_plain_digits:
  assumes "0 < fst p"
  shows "both_signs (plain_digits p)"
proof -
  obtain m e where p: "p = (m, e)" by (cases p)
  show ?thesis
  proof (cases "0 \<le> e")
    case True
    have "whole_part (dec_nat m @ replicate (nat e) (CHR ''0''))"
      using whole_dec_nat [of m] dec_nat_lead [of m] assms p
      by (cases "dec_nat m") (auto simp: whole_part_def list_all_iff)
    then show ?thesis using True both_parts [of _ "[]"] by (simp add: plain_digits_def p json_fraction_def)
  next
    case False
    define k where "k = nat (- e)"
    define ds where "ds = pad_left (CHR ''0'') (k + 1) (dec_nat m)"
    have k: "0 < k" "k < length ds" using False by (simp_all add: k_def ds_def pad_left_def)
    have digits: "list_all is_digit ds" using digits_dec_nat [of m] by (auto simp: ds_def pad_left_def list_all_iff)
    have "whole_part (take (length ds - k) ds)"
    proof (cases "length (dec_nat m) \<le> k + 1")
      case True
      then have "length ds - k = 1" by (simp add: ds_def pad_left_def)
      with k(2) digits show ?thesis by (cases ds) (simp_all add: whole_part_def)
    next
      case longer: False
      then have "ds = dec_nat m" by (simp add: ds_def pad_left_def)
      moreover from this have "hd (take (length ds - k) ds) \<noteq> CHR ''0''"
        using dec_nat_lead [of m] assms p k by simp
      ultimately show ?thesis using digits k by (auto simp: whole_part_def list_all_iff dest: in_set_takeD)
    qed
    moreover have "some_digits (drop (length ds - k) ds)"
      using digits k by (auto simp: some_digits_def list_all_iff dest: in_set_dropD)
    ultimately have "both_signs (take (length ds - k) ds @ CHR ''.'' # drop (length ds - k) ds @ [])"
      by (intro both_parts fraction_dot) (simp_all add: json_exponent_def)
    then show ?thesis using False by (simp add: plain_digits_def p Let_def k_def [symmetric] ds_def)
  qed
qed

text \<open>An exponent of more than one digit may lose a leading zero.\<close>

definition exponent_text :: "bool \<Rightarrow> string \<Rightarrow> string" where
  "exponent_text neg x = (if neg then ''e-'' else ''e+'') @ x"

lemma json_exponent_text: "some_digits x \<Longrightarrow> json_exponent (exponent_text neg x)"
  by (cases x) (simp_all add: exponent_text_def json_exponent_def)

lemma both_scientific:
  assumes "is_digit d" "list_all is_digit ds" "some_digits x"
  shows "both_signs (d # (if ds = [] then [] else CHR ''.'' # ds) @ exponent_text neg x)"
proof -
  have e: "json_exponent (exponent_text neg x)" "hd (exponent_text neg x) = CHR ''e''"
    using json_exponent_text [OF assms(3)] by (simp_all add: exponent_text_def)
  have "json_fraction ((if ds = [] then [] else CHR ''.'' # ds) @ exponent_text neg x)"
    using fraction_exponent [OF e(1)] fraction_dot [of ds, OF _ e(1)] e(2) assms(2) by (simp add: some_digits_def)
  then have "both_signs ([d] @ (if ds = [] then [] else CHR ''.'' # ds) @ exponent_text neg x)"
    by (rule both_parts [OF whole_one [OF assms(1)]]) (simp add: exponent_text_def)
  then show ?thesis by simp
qed

lemma small_exponent_text:
  assumes "list_all is_digit x" "2 \<le> length x"
  shows "\<exists>y. some_digits y \<and> small_exponent (u @ exponent_text neg x) = u @ exponent_text neg y"
proof -
  define b where "b = u @ exponent_text neg x"
  have "(\<exists>y. some_digits y \<and> small_exponent b = u @ exponent_text neg y)"
  proof (cases "neg \<and> length x = 2 \<and> hd x = CHR ''0''")
    case True
    then obtain d where x: "x = [CHR ''0'', d]" by (cases x rule: remdups_adj.cases) auto
    have "small_exponent b = u @ exponent_text neg [d]"
      using True by (simp add: small_exponent_def b_def exponent_text_def x nth_append)
    then show ?thesis using assms x by (intro exI [of _ "[d]"]) (simp add: some_digits_def)
  next
    case False
    have "small_exponent b = b"
    proof (cases "length x = 2")
      case True
      then obtain c d where "x = [c, d]" by (cases x rule: remdups_adj.cases) auto
      with False show ?thesis by (simp add: small_exponent_def b_def exponent_text_def nth_append)
    next
      case longer: False
      then have x: "3 \<le> length x" using assms(2) by simp
      have "length b - 4 = length u + (length x - 2)" using x by (simp add: b_def exponent_text_def)
      then have "b ! (length b - 4) = exponent_text neg x ! (length x - 2)"
        by (simp only: b_def nth_append_length_plus)
      also have "\<dots> \<noteq> CHR ''e''"
      proof (cases "length x = 3")
        case True
        then show ?thesis by (simp add: exponent_text_def)
      next
        case False
        then have "exponent_text neg x ! (length x - 2) = x ! (length x - 4)"
          using x by (auto simp: exponent_text_def nth_Cons' nth_append numeral_eq_Suc)
        moreover have "is_digit (x ! (length x - 4))"
          using assms(1) x by (simp add: list_all_length)
        ultimately show ?thesis by auto
      qed
      finally show ?thesis by (simp add: small_exponent_def Let_def)
    qed
    then show ?thesis using assms by (intro exI [of _ x]) (auto simp: some_digits_def b_def)
  qed
  then show ?thesis by (simp add: b_def)
qed

lemma json_float_number:
  assumes x: "finite_float x" and rnd: "rnd 0 = Fin 0"
  shows "json_number (json_float rnd x)"
proof -
  define out where "out q =
     (if q = 0 then ''0''
      else if f_less (Fin q) (rnd (1 / 10 ^ 6)) \<or> f_le (rnd (10 ^ 21)) (Fin q)
      then small_exponent (exp_digits (strip_zeros (shortest rnd q)))
      else plain_digits (strip_zeros (shortest rnd q)))" for q
  have "both_signs (out q)" if q: "0 \<le> q" for q
  proof -
    define p where "p = strip_zeros (shortest rnd q)"
    consider "q = 0" | "out q = plain_digits p" "0 < fst p" | "out q = small_exponent (exp_digits p)"
    proof (cases "q = 0")
      case False
      then have "out q = plain_digits p \<or> out q = small_exponent (exp_digits p)" "0 < fst p"
        using shortest_positive [of q rnd] q rnd by (simp_all add: out_def p_def)
      then show ?thesis using that by blast
    qed (rule that)
    then show ?thesis
    proof cases
      case 3
      obtain m e where p: "p = (m, e)" by (cases p)
      obtain d ds where m: "dec_nat m = d # ds" "is_digit d" "list_all is_digit ds"
        using digits_dec_nat [of m] by (cases "dec_nat m") simp_all
      define i where "i = e + int (length ds)"
      define y where "y = pad_left (CHR ''0'') 2 (dec_nat (nat \<bar>i\<bar>))"
      have y: "list_all is_digit y" "2 \<le> length y"
        using digits_dec_nat [of "nat \<bar>i\<bar>"] by (auto simp: y_def pad_left_def list_all_iff)
      let ?u = "d # (if ds = [] then [] else CHR ''.'' # ds)"
      have "exp_digits p = ?u @ exponent_text (i < 0) y"
        by (simp add: exp_digits_def p m Let_def i_def [symmetric] y_def exponent_text_def)
      then obtain z where "some_digits z" "out q = ?u @ exponent_text (i < 0) z"
        using small_exponent_text [OF y, of ?u "i < 0"] 3 by auto
      then show ?thesis using both_scientific [of d ds z "i < 0"] m by simp
    qed (simp_all add: out_def both_zero both_plain_digits)
  qed
  moreover have "json_float rnd x = signed_text out x" by (simp add: json_float_def out_def [abs_def])
  ultimately show ?thesis using x by (auto simp: signed_text_def finite_float_def both_signs_def split: flt.splits)
qed

end
