(* ===== verification/JSONSpec.thy ===== *)
theory JSONSpec
  imports SentSpec ScenarioSpec JSONNumber
begin

text \<open>
  What a program reads from \<open>--json\<close>: the document reads back as the report, its verdict is the exit code,
  and its rows have the cells their columns name.
\<close>

section \<open>The document\<close>

lemma proper_int [simp]: "proper (json_int i)"
  by (simp add: json_int_def json_number_fmt_d)

lemma proper_option [simp]: "proper (json_option x)"
  by (simp add: json_option_def split: option.split)

lemma rnd_zero: "rnd64 0 = Fin 0" "rnd32 0 = Fin 0"
  by (simp_all add: rnd64_def rnd32_def round_fmt_def)

lemma proper_val: "unsupported_val v = [] \<Longrightarrow> proper (json_val v)"
  by (cases v) (auto simp: list_all_iff json_float_number rnd_zero split: if_splits)

lemma set_by_key [simp]: "set (by_key m) = set m"
  by (simp add: by_key_def)

definition supported :: "val \<Rightarrow> bool" where
  "supported v \<longleftrightarrow> unsupported_val v = []"

lemma unsupported_Nil: "unsupported r = [] \<longleftrightarrow>
    (\<forall>(i, p)\<in>set (Report.Data r). list_all (list_all supported) (Probe.Rows p)) \<and>
    (\<forall>f\<in>set (Report.Findings r). \<forall>e\<in>set (Finding.Evidence f). list_all (supported \<circ> snd) (Evidence.Fields e))"
  by (fastforce simp: unsupported_def report_values_def supported_def list_all_iff)

lemma proper_omitempty [simp]: "list_all (\<lambda>(k, v). proper v) (omitempty k s)"
  by (simp add: omitempty_def)

lemma proper_probe: "list_all (list_all supported) (Probe.Rows p) \<Longrightarrow> proper (probe_json p)"
  by (simp add: probe_json_def list_all_iff supported_def proper_val)

lemma proper_finding:
  "\<forall>e\<in>set (Finding.Evidence f). list_all (supported \<circ> snd) (Evidence.Fields e) \<Longrightarrow> proper (finding_json f)"
  by (fastforce simp: finding_json_def evidence_json_def next_json_def omitempty_def list_all_iff supported_def proper_val)

lemma proper_report: "unsupported r = [] \<Longrightarrow> proper (report_json r)"
  unfolding unsupported_Nil
  by (fastforce simp: report_json_def context_json_def redacted_json_def omitempty_def list_all_iff proper_probe proper_finding)

text \<open>A tree of valid strings is read back as it is.\<close>

fun valid_tree :: "json \<Rightarrow> bool" where
  "valid_tree (JStr s) = valid_string s"
| "valid_tree (JArr xs) = list_all valid_tree xs"
| "valid_tree (JObj kvs) = list_all (\<lambda>(k, v). valid_string k \<and> valid_tree v) kvs"
| "valid_tree j = True"

lemma coerce_valid: "valid_tree j \<Longrightarrow> coerce j = j"
proof (induction j)
  case (JArr xs)
  then show ?case by (simp add: list_all_iff map_idI)
next
  case (JObj kvs)
  have "(case kv of (k, v) \<Rightarrow> (coerced k, coerce v)) = kv" if "kv \<in> set kvs" for kv
    using JObj that by (cases kv) (fastforce simp: list_all_iff coerced_valid)
  then show ?case by (simp add: map_idI)
qed (simp_all add: coerced_valid)

text \<open>
  C39. The JSON of a report is the report: unless a number in it is not finite, which is an error that names
  the first such number, what \<open>WriteJSON\<close> writes is a document of RFC 8259, and reading it gives back the
  tree of the report, with every string as it is but for bytes that are not UTF-8.
\<close>

theorem WriteJSON_reads_back:
  "case WriteJSON r of
     Inl e \<Rightarrow> unsupported r \<noteq> [] \<and> \<not> finite_float (hd (unsupported r)) \<and>
       e = plain_error (''json: unsupported value: '' @ signed_text (\<lambda>_. []) (hd (unsupported r)))
   | Inr out \<Rightarrow> unsupported r = [] \<and> read_json out = Some (coerce (report_json r))"
proof (cases "unsupported r")
  case Nil
  then show ?thesis using read_json_text [OF proper_report [OF Nil]] by (simp add: WriteJSON_def nl_def)
next
  case (Cons x xs)
  have "\<forall>x\<in>set (unsupported_val v). \<not> finite_float x" for v by (cases v) auto
  then have "\<forall>x\<in>set (unsupported r). \<not> finite_float x" by (auto simp: unsupported_def)
  then show ?thesis by (simp add: WriteJSON_def Cons)
qed

section \<open>Reading a report\<close>

definition json_member :: "string \<Rightarrow> json \<Rightarrow> json" where
  "json_member k j = (case j of JObj kvs \<Rightarrow> (case map_of kvs k of Some x \<Rightarrow> x | None \<Rightarrow> JNull) | _ \<Rightarrow> JNull)"

definition json_elements :: "json \<Rightarrow> json list" where
  "json_elements j = (case j of JArr xs \<Rightarrow> xs | JObj kvs \<Rightarrow> map snd kvs | _ \<Rightarrow> [])"

text \<open>Every row of every probe has one cell for each of its columns.\<close>

definition tables_fit :: "json \<Rightarrow> bool" where
  "tables_fit j = list_all (\<lambda>p. list_all (\<lambda>row.
       length (json_elements row) = length (json_elements (json_member ''columns'' p)))
     (json_elements (json_member ''rows'' p))) (json_elements (json_member ''data'' j))"

lemma coerced_ascii: "\<forall>c\<in>set s. byte c < 128 \<Longrightarrow> coerced s = s"
proof -
  assume s: "\<forall>c\<in>set s. byte c < 128"
  have "encode_rune (byte c) = [c]" if "c \<in> set s" for c
    using s that by (simp add: encode_scalar_small)
  then have "concat (map (encode_rune \<circ> byte) s) = s" by (induction s) auto
  then show ?thesis using runes_of_ascii [OF s] by (simp add: coerced_def)
qed

lemmas coerced_names [simp] =
  coerced_ascii [of "''command''"] coerced_ascii [of "''verdict''"] coerced_ascii [of "''context''"]
  coerced_ascii [of "''data''"] coerced_ascii [of "''findings''"] coerced_ascii [of "''redacted''"]
  coerced_ascii [of "''status''"] coerced_ascii [of "''reason''"] coerced_ascii [of "''columns''"]
  coerced_ascii [of "''rows''"] coerced_ascii [of "''truncated''"]
  coerced_ascii [of "''OK''"] coerced_ascii [of "''WARN''"] coerced_ascii [of "''FAIL''"] coerced_ascii [of "''UNKNOWN''"]

lemma coerced_verdict: "coerced (verdict_text v) = verdict_text v"
  by (cases v) (simp_all add: verdict_text_def byte_def)

lemma report_members:
  "json_member ''command'' (coerce (report_json r)) = JStr (coerced (Report.Command r))"
  "json_member ''verdict'' (coerce (report_json r)) = JStr (verdict_text (Report.Verdict r))"
  "json_member ''data'' (coerce (report_json r)) =
     JObj (map (\<lambda>(i, p). (coerced i, coerce (probe_json p))) (by_key (Report.Data r)))"
  by (simp_all add: json_member_def report_json_def coerced_verdict byte_def split_beta comp_def)

lemma probe_members:
  "json_member ''columns'' (coerce (probe_json p)) = JArr (map (JStr \<circ> coerced) (Probe.Columns p))"
  "json_member ''rows'' (coerce (probe_json p)) = JArr (map (\<lambda>row. JArr (map (coerce \<circ> json_val) row)) (Probe.Rows p))"
  by (simp_all add: json_member_def probe_json_def byte_def comp_def)

lemma wf_tables_fit: "wf_report r \<Longrightarrow> tables_fit (coerce (report_json r))"
  by (auto simp: tables_fit_def report_members json_elements_def probe_members list_all_iff wf_report_def wf_probe_def)

section \<open>A run\<close>

lemmas build_defs = sessions_build_def session_build_def locks_build_def txn_build_def waits_build_def status_build_def
  slots_build_def space_build_def freeze_build_def vacuum_build_def archive_build_def params_build_def repl_build_def
  cluster_build_def top_objects_build_def table_build_def top_build_def progress_build_def checkpoint_build_def
  wal_build_def seq_build_def

lemma wf_build_of: "wf_report (fst (fst (run_state (build_of env g cmd skip info) x)))"
  by (cases cmd) (simp_all add: build_of_def build_defs silent_def split_beta Let_def
      wf_sessions wf_instance wf_replication wf_tables wf_top wf_seq)

lemma told_build_of: "sound_result (result_of (fst (fst (run_state (build_of env g cmd skip info) x))))"
  by (cases cmd) (simp_all add: build_of_def sessions_command.tells session_command.tells locks_command.tells
      txn_command.tells waits_command.tells status_command.tells slots_command.tells space_command.tells
      freeze_command.tells vacuum_command.tells archive_command.tells params_command.tells repl_command.tells
      cluster_command.tells top_objects_command.tells table_command.tells top_command.tells
      progress_command.tells checkpoint_command.tells wal_command.tells seq_command.tells)

text \<open>What was printed as JSON, and the exit code, of a report that keeps its contracts.\<close>

definition json_shown :: "Env \<Rightarrow> exited \<Rightarrow> bool" where
  "json_shown env r \<longleftrightarrow> (\<exists>j v. read_json (exited.Out r) = Some j \<and>
     json_member ''verdict'' j = JStr (verdict_text v) \<and> tables_fit j \<and>
     exited.Code r = (if \<exists>e. Env.WriteErr env (exited.Out r) = Some e then 3 else ExitCode v))"

lemma write_json_shown:
  fixes msg :: string
  assumes "wf_report rep" "write_report env True rep = (f, out)"
  defines "r \<equiv> finish \<lparr>ran.Failed = f, ran.Stdout = out, ran.Stderr = msg\<rparr>"
  shows "exited.Out r = [] \<and> exited.Code r = 3 \<or> json_shown env r"
proof (cases "WriteJSON rep")
  case (Inl e)
  then show ?thesis using assms by (auto simp: write_report_def report_output_def finish_def)
next
  case (Inr doc)
  then have j: "unsupported rep = []" "doc = json_text 0 (report_json rep) @ nl"
    by (auto simp: WriteJSON_def split: list.splits)
  have "read_json doc = Some (coerce (report_json rep))"
    using read_json_text [OF proper_report [OF j(1)]] by (simp add: j(2) nl_def)
  moreover have "exited.Out r = doc"
    "exited.Code r = (if \<exists>e. Env.WriteErr env doc = Some e then 3 else ExitCode (Report.Verdict rep))"
    using assms(2) Inr unfolding r_def write_report_def report_output_def
    by (auto simp: finish_def Let_def split: option.splits if_splits)
  ultimately have "json_shown env r"
    unfolding json_shown_def using report_members(2) wf_tables_fit [OF assms(1)] by metis
  then show ?thesis ..
qed

lemma diagnose_json:
  fixes env :: Env and w :: World
  assumes wf: "\<And>info x. wf_report (fst (fst (run_state (b info) x)))" and as_json: "json g"
  defines "r \<equiv> finish (fst (run_state (diagnose env g b) w))"
  shows "exited.Out r = [] \<and> exited.Code r \<in> {3, 69} \<or> json_shown env r"
proof (cases "fst (run_state (Open (cfg g)) w)")
  case (Inl e)
  then show ?thesis by (simp add: r_def diagnose_def split_beta failed_def finish_def ExitUnavailable_def)
next
  case (Inr x)
  obtain i y where i: "run_state (Identify (World.Now (snd (run_state (Open (cfg g)) w))) (cfg g)) x = (i, y)"
    by fastforce
  show ?thesis
  proof (cases i)
    case (Inl e)
    with Inr i show ?thesis by (simp add: r_def diagnose_def split_beta failed_def finish_def ExitCode_def)
  next
    case info: (Inr info)
    obtain rep msg z where b: "run_state (b info) y = ((rep, msg), z)" by (metis prod.exhaust)
    obtain f out where f: "write_report env True rep = (f, out)" by fastforce
    have "wf_report rep" using wf [of info y] b by simp
    from write_json_shown [OF this f, of msg]
    show ?thesis using Inr i info b f as_json by (auto simp: r_def diagnose_def split_beta)
  qed
qed


text \<open>\<open>kbdiag cluster --json\<close>.\<close>

definition json_env :: Env where
  "json_env = demo_env\<lparr>Env.Cobra := \<lambda>_ _. Selected newCluster [(''json'', BoolFlag True)] []\<rparr>"


end
