(* ===== verification/Spec2Isabelle.thy ===== *)
theory Spec2Isabelle
  imports ScenarioSpec ProbeSpec RunText LayoutSpec SuggestSpec SentBound JSONSpec
begin

text \<open>
  kbdiag: a command line that diagnoses a KingbaseES instance. One run connects read-only, asks who
  answers, runs the probes of one command, judges what they found by rules, and prints a report as
  text or JSON; the exit code is the verdict. The development follows the packages under \<open>src/\<close>.

  \<^bold>\<open>Go.\<close> \<open>Prelude\<close> holds what all components share (words, limits, grouping, the locale of a quoting
  that reads back). \<open>GoText\<close> is Go's strings: byte strings, UTF-8 decoding, \<open>strings\<close> and \<open>strconv\<close> as
  used, the Unicode classes the code tests. \<open>GoFloat\<close> is \<open>float64\<close> and \<open>float32\<close> as rationals with the
  IEEE special values and rounding to nearest; \<open>GoNumber\<close> prints them, \<open>GoTime\<close> prints times, \<open>GoPrint\<close>
  quotes strings and prints durations, \<open>GoTabwriter\<close> is \<open>text/tabwriter\<close> and \<open>GoJSON\<close> the encoder of
  \<open>encoding/json\<close>. Integers are words at Go's width; a sum that can wrap does. Every floating-point
  operation rounds, as in a build for amd64; the language lets a compiler fuse a product and a sum into
  one rounding, which a build for arm64 may do in \<open>VacuumThreshold\<close>.

  \<^bold>\<open>Facts\<close> (\<open>internal/facts\<close>). \<open>FactsBase\<close>, \<open>FactsSession\<close>, \<open>FactsInst\<close>, \<open>FactsSpace\<close> and \<open>FactsRepl\<close>: a record
  for every row a probe reads, under the source's field names, with its columns and cells, and \<open>'a coll\<close>,
  the status, reason and rows of one probe. A pointer is an option, a \<open>nil\<close> slice is the empty list.

  \<^bold>\<open>Units\<close> (\<open>internal/units\<close>). \<open>Units\<close>: sizes and durations.

  \<^bold>\<open>Rules\<close> (\<open>internal/rule\<close>). \<open>RuleCore\<close> (verdicts, \<open>Merge\<close>, sessions and the locale of a rule whose
  verdict follows from its findings), \<open>RuleNames\<close> (names in SQL), \<open>RuleSession\<close> (locks, transactions),
  \<open>RuleInst\<close> (waits, status, slots), \<open>RuleSpace\<close>, \<open>RuleFreeze\<close>, \<open>RuleVacuum\<close> (vacuum, one table), \<open>RuleSeq\<close>,
  \<open>RuleParams\<close> (archiving, parameters), \<open>RuleRepl\<close> (\<open>synchronous_standby_names\<close> and replication),
  \<open>RuleCluster\<close>. A loop over rows is a function of one row and a concatenation.

  \<^bold>\<open>Reports\<close> (\<open>internal/report\<close>, \<open>internal/scenario\<close>). \<open>ReportCore\<close> is the report: its probes under their
  ids, findings, redactions, the layout it asks for. \<open>ScenarioBase\<close>, \<open>Scenario\<close> and \<open>ScenarioOrder\<close> build
  the report of each command from its facts; \<open>ScenarioSpec\<close> has their properties. \<open>TextBase\<close> (cells,
  escaping, tables, blocks, redactions), \<open>TextSession\<close>, \<open>TextTxn\<close>, \<open>TextInst\<close>, \<open>TextServer\<close>, \<open>TextTables\<close>
  and \<open>TextRepl\<close> are the layouts, each as the text it writes, and \<open>ReportText\<close> is \<open>WriteText\<close>; \<open>ReportJSON\<close>
  is \<open>WriteJSON\<close>. \<open>JSONRead\<close> is a reader of JSON and reads back every encoded tree, \<open>JSONNumber\<close> shows that
  the numbers written are numbers, and \<open>JSONSpec\<close> says what a program learns from the output.
  \<open>TextLemmas\<close>, \<open>TextClean\<close> and \<open>TextSpec\<close> say which runes a text can hold: a clean text is UTF-8 without any
  control or format character but the newline, and every layout of a plain report is clean. \<open>LayoutSpec\<close>
  has what the layouts count, order and line up.

  \<^bold>\<open>Probes and the connection\<close> (\<open>internal/probe\<close>, \<open>internal/conn\<close>). \<open>ProbeCore\<close>: a probe runs in the state
  monad over the connection, a record of what the server answers to what was sent so far, and every
  failure becomes a status; the locale \<open>probe_contract\<close> states what each of them promises and is
  interpreted for each. \<open>Probe\<close>, \<open>ProbeDisk\<close> (the host's file systems and files) and \<open>ProbeCluster\<close>
  (repmgr's metadata and its configuration file). \<open>Connect\<close>: the connection string, the session
  parameters, the errors, \<open>Identify\<close>. \<open>ProbeSpec\<close> has the properties of the probes. \<open>ProbeSQL\<close> is the
  text of every statement and the variables its rows are scanned into; \<open>SqlText\<close> reads such a text into
  words and counts its columns, \<open>SentSpec\<close> says of every request of every command that it only reads
  and fits the code, and \<open>SentBound\<close> how many there are.

  \<^bold>\<open>The command line\<close> (\<open>cmd/kbdiag/main.go\<close>). \<open>Main_kbdiag\<close>: which probes each command runs, in order.
  \<open>MainRun\<close>: what is printed and the exit code, of a run over a world that answers each attempt to
  connect. \<open>MainSpec\<close> has the properties of whole runs, over the locale \<open>command_build\<close> of what a command
  hands to \<open>diagnose\<close>; \<open>RunText\<close> extends it to what is printed. \<open>Commands\<close> is how the commands and flags are
  declared and bound to options, and \<open>SuggestSpec\<close> shows that the commands a finding suggests are among them.

  \<^bold>\<open>Properties.\<close> Here: what each rule reports, on every row and boundary, and what is left unjudged when an
  input could not be read; the names, words and constants that are written for another program to
  read come back whole; the sequence arithmetic counts the calls of \<open>nextval\<close>; sizes and durations.
  In \<open>ScenarioSpec\<close>: what a report holds, that a limit only cuts what is shown, the orders. In the
  others: exit codes, what a connection may do, when \<open>cluster\<close> gives an all-clear, configuration files,
  that nothing the server answers drives the terminal, that columns line up, that statements only read and
  fit the code that scans their rows, that a run sends few of them, that suggested commands can be
  run, that the JSON reads back as the report.

  \<^bold>\<open>Parameters.\<close> Code that is not in the repository is an argument: \<open>cobra\<close> (which of the declared
  commands the arguments select, and the flags they give),
  \<open>pgx\<close> (connecting, queries, quoting an identifier), the width and case tables of the Unicode libraries
  beyond what is written out, the operating system, the clock.

  \<^bold>\<open>Not modelled.\<close> What the server does with a statement, and how \<open>pgx\<close> turns the columns of a row into Go
  values (the answers are typed rows); how \<open>cobra\<close> parses arguments and prints help; writers that fail in
  the middle of a text; Go's panics, which no modelled path reaches.

  \<^bold>\<open>Loops.\<close> Every function is total: loops over rows and runes are structural, the others have a measure.
  Only the reader of JSON takes a bound, on its nesting; the length of the text is always enough.
\<close>

section \<open>Verdicts\<close>

text \<open>The verdict a finding asks for.\<close>

definition level_verdict :: "level \<Rightarrow> verdict" where
  "level_verdict l = (case l of LevelOK \<Rightarrow> VerdictOK | LevelWARN \<Rightarrow> VerdictWARN | LevelFAIL \<Rightarrow> VerdictFAIL)"

lemma level_verdict_mem: "has_level l fs \<Longrightarrow> level_verdict l \<in> level_verdict ` Finding.Level ` set fs"
  by (auto simp: has_level_def)

lemma verdict_le_simps [simp]:
  "VerdictOK \<le> v" "v \<le> VerdictFAIL"
  "VerdictUNKNOWN \<le> VerdictWARN" "\<not> VerdictWARN \<le> VerdictUNKNOWN" "\<not> VerdictWARN \<le> VerdictOK"
  "\<not> VerdictUNKNOWN \<le> VerdictOK" "\<not> VerdictFAIL \<le> VerdictWARN"
  by (simp_all add: verdict_order split: verdict.split)

text \<open>
  C1. \<open>verdictOf\<close> is the worst of what it is given: with the severities OK, UNKNOWN, WARN, FAIL it
  returns the maximum of OK, of UNKNOWN when something was not seen, and of what each finding's level
  asks for. In particular an unseen input never reads OK, and never hides a warning or a failure.
\<close>

theorem verdictOf_worst:
  "verdictOf fs unknown =
     Max ({VerdictOK} \<union> (if unknown then {VerdictUNKNOWN} else {}) \<union>
          level_verdict ` Finding.Level ` set fs)"
proof (rule sym, rule Max_eqI)
  show "finite ({VerdictOK} \<union> (if unknown then {VerdictUNKNOWN} else {}) \<union> level_verdict ` Finding.Level ` set fs)"
    by simp
  show "verdictOf fs unknown \<in> {VerdictOK} \<union> (if unknown then {VerdictUNKNOWN} else {}) \<union> level_verdict ` Finding.Level ` set fs"
    using level_verdict_mem [of LevelFAIL fs] level_verdict_mem [of LevelWARN fs]
    by (simp add: verdictOf_cases level_verdict_def)
next
  fix v
  assume "v \<in> {VerdictOK} \<union> (if unknown then {VerdictUNKNOWN} else {}) \<union> level_verdict ` Finding.Level ` set fs"
  then consider "v = VerdictOK" | "unknown" "v = VerdictUNKNOWN" | f where "f \<in> set fs" "v = level_verdict (Finding.Level f)"
    by (auto split: if_splits)
  then show "v \<le> verdictOf fs unknown"
  proof cases
    case 3
    then show ?thesis
      by (cases "Finding.Level f") (auto simp: verdictOf_cases has_level_def level_verdict_def)
  qed (auto simp: verdictOf_cases)
qed

text \<open>
  \<open>Merge\<close> joins the results of a command's rules: all their findings in order, and the worst of
  their verdicts, for results whose verdict is the one \<open>verdictOf\<close> gives their findings.
\<close>

theorem Merge_worst:
  assumes "\<forall>r\<in>set rs. sound_result r"
  shows "Result.Verdict (Merge rs) = Max (insert VerdictOK (Result.Verdict ` set rs)) \<and>
    Result.Findings (Merge rs) = concat (map Result.Findings rs)"
proof
  have fold: "foldr max vs VerdictOK = Max (insert VerdictOK (set vs))" for vs
    by (induction vs) (simp_all add: max.left_commute insert_commute flip: Max_insert)
  show "Result.Verdict (Merge rs) = Max (insert VerdictOK (Result.Verdict ` set rs))"
    using Merge_verdict [OF assms] fold [of "map Result.Verdict rs"] by simp
  show "Result.Findings (Merge rs) = concat (map Result.Findings rs)"
    by (simp add: Merge_def)
qed

theorem Merge_worst_witness:
  "Result.Verdict (Merge [judged [] True, judged [bare_finding ''x'' LevelWARN ''y''] False]) = VerdictWARN"
  using Merge_worst [of "[judged [] True, judged [bare_finding ''x'' LevelWARN ''y''] False]"]
  by (simp add: verdictOf_cases max_def)

section \<open>Sessions, locks and transactions\<close>

text \<open>
  C2. \<open>Sessions\<close> reports exactly the visible sessions that have been idle in a transaction for at least
  the threshold, in the order of the rows; it reads OK exactly when the probe was not left out, no
  session is hidden, and there is nothing to report.
\<close>

theorem Sessions_spec:
  "Result.Findings (Sessions a th) =
     (if coll.Status a = StatusOK
      then map (\<lambda>s. idle_finding s (the (Session.State s)) (the (Session.StateAgeS s)))
             (filter (idle_too_long th) (coll.Rows a))
      else []) \<and>
   (Result.Verdict (Sessions a th) = VerdictOK \<longleftrightarrow>
      \<not> unseen_probe (coll.Status a) \<and>
      \<not> (coll.Status a = StatusOK \<and> (\<exists>s\<in>set (coll.Rows a). hidden_session s \<or> idle_too_long th s)))"
proof
  show fs: "Result.Findings (Sessions a th) =
     (if coll.Status a = StatusOK
      then map (\<lambda>s. idle_finding s (the (Session.State s)) (the (Session.StateAgeS s)))
             (filter (idle_too_long th) (coll.Rows a))
      else [])"
    by (simp add: Sessions_scan sessions_row_eq scan_rule_filter [where P = "idle_too_long th"])
  show "Result.Verdict (Sessions a th) = VerdictOK \<longleftrightarrow>
      \<not> unseen_probe (coll.Status a) \<and>
      \<not> (coll.Status a = StatusOK \<and> (\<exists>s\<in>set (coll.Rows a). hidden_session s \<or> idle_too_long th s))"
    using sessions_rule.OK_iff [of "(a, th)"]
    by (auto simp: fs has_level_map filter_empty_conv)
qed


text \<open>
  C4. \<open>Txn\<close> reports the visible sessions whose transaction has been open for at least the threshold,
  then the two-phase transactions that old; it reads OK exactly when both probes were collected or
  do not apply, no session is hidden, and there is nothing to report.
\<close>

theorem Txn_spec:
  "Result.Findings (Txn a p th) =
     (if coll.Status a = StatusOK
      then map (\<lambda>s. txn_finding s (the (Session.XactAgeS s))) (filter (txn_too_long th) (coll.Rows a)) else []) @
     (if coll.Status p = StatusOK
      then map prepared_finding (filter (\<lambda>x. \<not> f_less (Prepared.AgeS x) (PreparedWarnS th)) (coll.Rows p)) else []) \<and>
   (Result.Verdict (Txn a p th) = VerdictOK \<longleftrightarrow>
      \<not> unseen_probe (coll.Status a) \<and> \<not> unseen_probe (coll.Status p) \<and>
      \<not> (coll.Status a = StatusOK \<and> (\<exists>s\<in>set (coll.Rows a). hidden_session s)) \<and>
      Result.Findings (Txn a p th) = [])"
proof
  show "Result.Verdict (Txn a p th) = VerdictOK \<longleftrightarrow>
      \<not> unseen_probe (coll.Status a) \<and> \<not> unseen_probe (coll.Status p) \<and>
      \<not> (coll.Status a = StatusOK \<and> (\<exists>s\<in>set (coll.Rows a). hidden_session s)) \<and>
      Result.Findings (Txn a p th) = []"
  proof -
    have warn: "has_level l (Result.Findings (Txn a p th)) \<longleftrightarrow> l = LevelWARN \<and> Result.Findings (Txn a p th) \<noteq> []" for l
      by (auto simp: Txn_findings has_level_map)
    have parts: "Result.Findings (Txn a p th) = Result.Findings (longTxn a th) @ Result.Findings (prepared p th)"
      by (simp add: Txn_def Merge_def)
    have "Result.Verdict (Txn a p th) = verdictOf (Result.Findings (Txn a p th))
        (Result.Verdict (longTxn a th) = VerdictUNKNOWN \<or> Result.Verdict (prepared p th) = VerdictUNKNOWN)"
      by (simp add: Txn_def Merge_def)
    then have ok: "Result.Verdict (Txn a p th) = VerdictOK \<longleftrightarrow>
        Result.Verdict (longTxn a th) \<noteq> VerdictUNKNOWN \<and> Result.Verdict (prepared p th) \<noteq> VerdictUNKNOWN \<and>
        Result.Findings (Txn a p th) = []"
      by (simp add: verdictOf_OK_iff warn)
    show ?thesis
    proof (cases "Result.Findings (Txn a p th) = []")
      case True
      then have "Result.Findings (longTxn a th) = []" "Result.Findings (prepared p th) = []"
        unfolding parts by simp_all
      then have "Result.Verdict (longTxn a th) = VerdictUNKNOWN \<longleftrightarrow> unseen_probe (coll.Status a) \<or>
          coll.Status a = StatusOK \<and> (\<exists>s\<in>set (coll.Rows a). hidden_session s)"
        and "Result.Verdict (prepared p th) = VerdictUNKNOWN \<longleftrightarrow> unseen_probe (coll.Status p)"
        using longTxn_rule.UNKNOWN_iff [of "(a, th)"] prepared_rule.UNKNOWN_iff [of "(p, th)"] by simp_all
      with True ok show ?thesis by blast
    qed (simp add: ok)
  qed
qed (rule Txn_findings)

section \<open>The instance\<close>

text \<open>
  C5. With no negative setting, \<open>Status\<close> fails exactly when the probe was collected and some row has
  \<open>max_connections\<close> above the slots reserved for superusers, so that there is a slot an ordinary user
  may open, and connections that have reached \<open>max_connections\<close> minus the reserved ones. Settings that
  leave ordinary users no slot at all are not judged. The subtraction on 32 bits does not overflow
  there, so the test is the one on the numbers.
\<close>

theorem Status_FAIL_iff:
  assumes "\<forall>x\<in>set (coll.Rows i). 0 \<le> sint (Info.SuperuserReserved x) \<and> 0 \<le> sint (Info.MaxConnections x)"
  shows "Result.Verdict (Status_rule i d n u) = VerdictFAIL \<longleftrightarrow>
    coll.Status i = StatusOK \<and> (\<exists>x\<in>set (coll.Rows i).
      sint (Info.SuperuserReserved x) < sint (Info.MaxConnections x) \<and>
      sint (Info.MaxConnections x) - sint (Info.SuperuserReserved x) \<le> sint (Info.Connections x))"
proof -
  have conn: "has_level LevelFAIL (of_option (connections x)) \<longleftrightarrow> connections x \<noteq> None" for x
    by (simp add: connections_def Let_def)
  have all: "has_level LevelFAIL (concat (map (\<lambda>x. of_option (connections x)) xs)) \<longleftrightarrow>
      (\<exists>x\<in>set xs. connections x \<noteq> None)" for xs
    by (induction xs) (simp_all add: conn)
  have "\<not> has_level LevelFAIL (of_option (fst (upstream u)))"
    using upstream_level [of u] by (cases "fst (upstream u)") auto
  then have "Result.Verdict (Status_rule i d n u) = VerdictFAIL \<longleftrightarrow>
      coll.Status i = StatusOK \<and> (\<exists>x\<in>set (coll.Rows i). connections x \<noteq> None)"
    using status_rule.FAIL_iff [of "(i, d, n, u)"] by (simp add: Status_rule_eq all)
  also have "\<dots> \<longleftrightarrow> coll.Status i = StatusOK \<and> (\<exists>x\<in>set (coll.Rows i). full x)"
    using assms connections_iff by blast
  finally show ?thesis unfolding full_def .
qed

definition sample_info :: Info where
  "sample_info = \<lparr>Info.Version = ''V8'', Info.StartTime = \<lparr>gotime.Unix = 0, gotime.Nanos = 0, gotime.Offset = 0\<rparr>,
     Info.UptimeS = Fin 10, Info.Connections = 97, Info.MaxConnections = 100, Info.SuperuserReserved = 3,
     Info.DataDirectory = None, Info.Port = 54321\<rparr>"

definition no_rows :: "status \<Rightarrow> 'a coll" where
  "no_rows st = \<lparr>coll.Status = st, coll.Reason = [], coll.Rows = []\<rparr>"

theorem Status_FAIL_iff_witness:
  "Result.Verdict (Status_rule \<lparr>coll.Status = StatusOK, coll.Reason = [], coll.Rows = [sample_info]\<rparr>
     (no_rows StatusOK) (no_rows StatusOK) (no_rows StatusNotApplicable)) = VerdictFAIL"
  using Status_FAIL_iff [of "\<lparr>coll.Status = StatusOK, coll.Reason = [], coll.Rows = [sample_info]\<rparr>"]
  by (simp add: sample_info_def)

definition overdue :: "Upstream \<Rightarrow> bool" where
  "overdue x \<longleftrightarrow> (\<exists>age timeout. Upstream.LastMsgAgeS x = Some age \<and>
     Upstream.WALReceiverTimeoutS x = Some timeout \<and> \<not> f_le timeout (Fin 0) \<and> \<not> f_le age timeout)"

text \<open>
  C6. \<open>upstream\<close> is silent exactly when the standby is known to receive WAL (or is no standby): a
  receiver is there and every row reads streaming with nothing overdue by \<open>wal_receiver_timeout\<close>;
  a row that cannot be read makes it unknown, and a missing receiver, another status or an
  overdue message is a warning.
\<close>

theorem upstream_spec:
  "(upstream u = (None, False) \<longleftrightarrow>
      coll.Status u = StatusNotApplicable \<or>
      coll.Status u = StatusOK \<and> coll.Rows u \<noteq> [] \<and>
        list_all (\<lambda>x. Upstream.Status x = Some ''streaming'' \<and> \<not> overdue x) (coll.Rows u)) \<and>
   (fst (upstream u) \<noteq> None \<longleftrightarrow>
      coll.Status u = StatusOK \<and>
      (coll.Rows u = [] \<or>
       (\<exists>before x after. coll.Rows u = before @ x # after \<and> list_all receiving before \<and>
          Upstream.Status x \<noteq> None \<and> \<not> (Upstream.Status x = Some ''streaming'' \<and> \<not> overdue x))))"
proof
  have row: "receiving x \<longleftrightarrow> Upstream.Status x = Some ''streaming'' \<and> \<not> overdue x" for x
    by (auto simp: receiving_def receiver_row_def overdue_def split: option.splits)
  have failing: "(\<exists>f. receiver_row x = Failing f) \<longleftrightarrow>
      Upstream.Status x \<noteq> None \<and> \<not> (Upstream.Status x = Some ''streaming'' \<and> \<not> overdue x)" for x
    by (auto simp: receiver_row_def overdue_def split: option.splits)
  have rows: "fst (receiver_rows xs) \<noteq> None \<longleftrightarrow>
      (\<exists>before x after. xs = before @ x # after \<and> list_all receiving before \<and> (\<exists>f. receiver_row x = Failing f))" for xs
  proof (induction xs)
    case (Cons y ys)
    show ?case unfolding ex_split_Cons Cons.IH [symmetric]
      by (cases "receiver_row y") (simp_all add: receiving_def)
  qed simp
  show "upstream u = (None, False) \<longleftrightarrow>
      coll.Status u = StatusNotApplicable \<or>
      coll.Status u = StatusOK \<and> coll.Rows u \<noteq> [] \<and>
        list_all (\<lambda>x. Upstream.Status x = Some ''streaming'' \<and> \<not> overdue x) (coll.Rows u)"
    unfolding row [symmetric]
    by (cases "coll.Status u") (auto simp: upstream_def receiver_rows_working)
  show "fst (upstream u) \<noteq> None \<longleftrightarrow>
      coll.Status u = StatusOK \<and>
      (coll.Rows u = [] \<or>
       (\<exists>before x after. coll.Rows u = before @ x # after \<and> list_all receiving before \<and>
          Upstream.Status x \<noteq> None \<and> \<not> (Upstream.Status x = Some ''streaming'' \<and> \<not> overdue x)))"
    unfolding failing [symmetric] rows [symmetric] by (cases "coll.Status u") (auto simp: upstream_def)
qed

text \<open>
  \<open>Slots\<close> reports exactly the inactive replication slots, in order, each with the WAL it retains
  shown as a non-negative size, and reads OK exactly when the probe was not left out and every slot
  listed is active.
\<close>

theorem Slots_spec:
  "Result.Findings (Slots l) =
     (if coll.Status l = StatusOK then map slot_finding (filter (\<lambda>s. \<not> Slot.Active s) (coll.Rows l)) else []) \<and>
   (Result.Verdict (Slots l) = VerdictOK \<longleftrightarrow>
      \<not> unseen_probe (coll.Status l) \<and>
      \<not> (coll.Status l = StatusOK \<and> (\<exists>s\<in>set (coll.Rows l). \<not> Slot.Active s))) \<and>
   f_max (Fin 0) (Fin q) = Fin (max 0 q)"
  using slots_rule.OK_iff [of l] by (auto simp: Slots_findings has_level_map filter_empty_conv)

section \<open>Storage\<close>

text \<open>
  C7. \<open>Space\<close> fails exactly when the segment size is known and some judged directory, data or WAL, lies
  on a file system with less free space than one segment, however the directories share file
  systems; otherwise it reads OK only when every input was collected, no size is hidden and the disks
  could be read at all.
\<close>

theorem Space_spec:
  "Result.Verdict (Space db t w disk) =
     (if (\<exists>seg. wal_segment w = Some seg \<and>
            (\<exists>m\<in>set (coll.Rows disk). judged_mount m \<and> short_mount seg (coll.Rows disk) m))
      then VerdictFAIL
      else if InstDatabases_Redacted db = [] \<and> SpaceTablespaces_Redacted t = [] \<and>
              coll.Status disk \<noteq> StatusNotApplicable \<and>
              (\<nexists>st. st \<in> {coll.Status db, coll.Status t, coll.Status w, coll.Status disk} \<and> unseen_probe st)
      then VerdictOK else VerdictUNKNOWN)"
  unfolding Space_verdict by auto

text \<open>
  C8. \<open>Freeze\<close>: the verdict is FAIL exactly when some database is at or past a stop limit, WARN
  exactly when none is but one is past a freeze limit that could be read, and UNKNOWN exactly when
  nothing is reported and the databases were left out or, without the limits, one of them was listed.
\<close>

theorem Freeze_verdict:
  "Result.Verdict (Freeze uni db l role) =
     (if coll.Status db = StatusOK \<and> (\<exists>x\<in>set (coll.Rows db). database_level l x = Some LevelFAIL) then VerdictFAIL
      else if coll.Status db = StatusOK \<and> (\<exists>x\<in>set (coll.Rows db). database_level l x = Some LevelWARN) then VerdictWARN
      else if unseen_probe (coll.Status db) \<or>
              coll.Status db = StatusOK \<and> freezeLimit l = None \<and> coll.Rows db \<noteq> [] then VerdictUNKNOWN
      else VerdictOK)"
proof -
  have level: "database_level l x \<noteq> Some LevelFAIL \<Longrightarrow> \<not> past_stop (FrozenDatabase.XIDAge x) (FrozenDatabase.MXIDAge x)" for x
    by (auto simp: age_level_def)
  have verdict: "Result.Verdict (Freeze uni db l role) = verdictOf (Result.Findings (Freeze uni db l role))
      (unseen_probe (coll.Status db) \<or> coll.Status db = StatusOK \<and>
       (\<exists>x\<in>set (coll.Rows db). freezeLimit l = None \<and> \<not> past_stop (FrozenDatabase.XIDAge x) (FrozenDatabase.MXIDAge x)))"
    using freeze_rule.verdict [of "(uni, db, l, role)"] by simp
  show ?thesis
    unfolding verdict verdictOf_cases has_level_Freeze
    using level by (cases "coll.Rows db") auto
qed

text \<open>
  C9. \<open>VacuumThreshold\<close>: of a table's options the last that parses decides each of the three values,
  the server's setting where none does; the threshold is the float4 sum of the threshold and of
  the float4 product of scale factor and row count, each rounded, as on amd64.
\<close>

theorem VacuumThreshold_spec:
  "VacuumThreshold t s =
     (f_add rnd32
        (last_option (map_option to_f32 \<circ> parse_float32) ''autovacuum_vacuum_threshold''
           (f32_of_int (sint (VacuumSetting.Threshold s))) (VacuumTable.Reloptions t))
        (f_mul rnd32
           (last_option (map_option to_f32 \<circ> parse_float32) ''autovacuum_vacuum_scale_factor''
              (to_f32 (VacuumSetting.ScaleFactor s)) (VacuumTable.Reloptions t))
           (VacuumTable.Reltuples t)),
      last_option parseBool ''autovacuum_enabled'' True (VacuumTable.Reloptions t))"
  by (simp add: VacuumThreshold_def option_step_last)

text \<open>
  C10. \<open>Vacuum\<close> judges nothing on a standby; elsewhere, once the settings are known, it reports the
  server's switches when one is off and then exactly the tables past their threshold with
  autovacuum off for them; without the settings, or with the tables left out, it does not read OK.
\<close>

theorem Vacuum_spec:
  "Result.Findings (Vacuum t s role db) = (case vacuumSetting s of
       None \<Rightarrow> []
     | Some st \<Rightarrow>
         if role = ''standby'' then []
         else (if switched_off st then [vacuumDisabled st] else []) @
           (if coll.Status t = StatusOK
            then map (\<lambda>x. table_disabled x (fst (VacuumThreshold x st)) db) (filter (uncleaned st) (coll.Rows t))
            else [])) \<and>
   (Result.Verdict (Vacuum t s role db) = VerdictOK \<longleftrightarrow>
      role = ''standby'' \<or>
      (\<exists>st. vacuumSetting s = Some st \<and> \<not> unseen_probe (coll.Status t)) \<and>
      Result.Findings (Vacuum t s role db) = [])"
proof
  have warn: "has_level l (Result.Findings (Vacuum t s role db)) \<longleftrightarrow>
      l = LevelWARN \<and> Result.Findings (Vacuum t s role db) \<noteq> []" for l
    by (auto simp: Vacuum_findings has_level_map split: option.splits)
  have none: "role = ''standby'' \<Longrightarrow> Result.Findings (Vacuum t s role db) = []"
    by (simp add: Vacuum_def)
  have "Result.Verdict (Vacuum t s role db) = VerdictOK \<longleftrightarrow>
      \<not> (role \<noteq> ''standby'' \<and> (vacuumSetting s = None \<or> unseen_probe (coll.Status t))) \<and>
      Result.Findings (Vacuum t s role db) = []"
    using vacuum_rule.OK_iff [of "(t, s, role, db)"] warn by simp
  then show "Result.Verdict (Vacuum t s role db) = VerdictOK \<longleftrightarrow>
      role = ''standby'' \<or>
      (\<exists>st. vacuumSetting s = Some st \<and> \<not> unseen_probe (coll.Status t)) \<and>
      Result.Findings (Vacuum t s role db) = []"
    using none by auto
qed (rule Vacuum_findings)

text \<open>
  C11. \<open>SeqLeft\<close> counts what the server would hand out: from the last value, \<open>n\<close> calls of \<open>nextval\<close> in a
  row go straight on, to the last value plus \<open>n\<close> increments, exactly when it says that at least \<open>n\<close> are
  left. After that a sequence that does not cycle refuses; one that cycles starts over at its other
  end and never refuses. Of a cycling sequence this needs \<open>MINVALUE\<close> not above \<open>MAXVALUE\<close>, which the
  server enforces for every sequence.
\<close>

theorem SeqLeft_counts_nextval:
  assumes "SeqLeft s = Some (left, used)" and "Sequence.LastValue s = Some l"
    and "sint (Sequence.MinValue s) \<le> sint (Sequence.MaxValue s) \<or> \<not> Sequence.Cycle s"
  shows "(draw s n (sint l) = Some (sint l + int n * sint (Sequence.IncrementBy s))) = (int n \<le> left) \<and>
    (draw s n (sint l) = None) = (\<not> Sequence.Cycle s \<and> left < int n)"
  unfolding draw_refused using SeqLeft_draw [OF assms, of n] by auto

definition sample_sequence :: Sequence where
  "sample_sequence = \<lparr>Sequence.Schemaname = ''public'', Sequence.Sequencename = ''s'', Sequence.DataType = ''integer'',
     Sequence.StartValue = 1, Sequence.MinValue = 1, Sequence.MaxValue = 10, Sequence.IncrementBy = 2,
     Sequence.Cycle = False, Sequence.CacheSize = 1, Sequence.LastValue = Some 7, Sequence.Readable = True\<rparr>"

theorem SeqLeft_counts_nextval_witness:
  "draw sample_sequence 1 7 = Some 9 \<and> draw sample_sequence 2 7 = None \<and>
   draw (sample_sequence\<lparr>Sequence.Cycle := True\<rparr>) 2 7 \<noteq> Some 11"
proof -
  obtain used where "SeqLeft sample_sequence = Some (1, used)"
    and "SeqLeft (sample_sequence\<lparr>Sequence.Cycle := True\<rparr>) = Some (1, used)"
    by (auto simp: SeqLeft_def sample_sequence_def Let_def)
  then show ?thesis
    using SeqLeft_counts_nextval [of sample_sequence 1 used 7 1] SeqLeft_counts_nextval [of sample_sequence 1 used 7 2]
      SeqLeft_counts_nextval [of "sample_sequence\<lparr>Sequence.Cycle := True\<rparr>" 1 used 7 2]
    by (simp add: sample_sequence_def)
qed

text \<open>
  C12. \<open>Seq\<close> fails exactly on a node that is no standby when some sequence that does not cycle cannot
  hand out another value, and reports exactly those; a value hidden from the account keeps the
  verdict from reading OK.
\<close>

theorem Seq_spec:
  "Result.Findings (Seq l role) =
     (if coll.Status l = StatusOK \<and> role \<noteq> ''standby''
      then map (\<lambda>s. seq_finding s (the (Sequence.LastValue s))) (filter exhausted (coll.Rows l)) else []) \<and>
   (Result.Verdict (Seq l role) = VerdictFAIL \<longleftrightarrow>
      coll.Status l = StatusOK \<and> role \<noteq> ''standby'' \<and> (\<exists>s\<in>set (coll.Rows l). exhausted s)) \<and>
   (Result.Verdict (Seq l role) = VerdictOK \<longleftrightarrow>
      \<not> unseen_probe (coll.Status l) \<and>
      \<not> (coll.Status l = StatusOK \<and> (\<exists>s\<in>set (coll.Rows l). \<not> Sequence.Readable s)) \<and>
      \<not> (coll.Status l = StatusOK \<and> role \<noteq> ''standby'' \<and> (\<exists>s\<in>set (coll.Rows l). exhausted s)))"
proof -
  have red: "SeqList_Redacted l \<noteq> [] \<longleftrightarrow> (\<exists>s\<in>set (coll.Rows l). \<not> Sequence.Readable s)"
    by (auto simp: SeqList_Redacted_def redactions_empty_iff)
  show ?thesis
    using seq_rule.FAIL_iff [of "(l, role)"] seq_rule.OK_iff [of "(l, role)"]
    by (auto simp: Seq_findings has_level_map filter_empty_conv red)
qed

section \<open>Archiving, parameters and replication\<close>


text \<open>
  \<open>Params\<close> reports exactly the parameters waiting for a restart; a parameter whose file is hidden
  keeps the verdict from reading OK.
\<close>

theorem Params_spec:
  "Result.Findings (Params p) =
     (if coll.Status p = StatusOK then map param_finding (filter Param.PendingRestart (coll.Rows p)) else []) \<and>
   (Result.Verdict (Params p) = VerdictOK \<longleftrightarrow>
      \<not> unseen_probe (coll.Status p) \<and>
      \<not> (coll.Status p = StatusOK \<and> (\<exists>x\<in>set (coll.Rows p). Param.PendingRestart x \<or>
          Param.Source x = ''configuration file'' \<and> Param.Sourcefile x = None)))"
proof -
  have red: "ParamsChanged_Redacted p \<noteq> [] \<longleftrightarrow>
      (\<exists>x\<in>set (coll.Rows p). Param.Source x = ''configuration file'' \<and> Param.Sourcefile x = None)"
    by (auto simp: ParamsChanged_Redacted_def redactions_empty_iff)
  show ?thesis
    using params_rule.OK_iff [of p] by (auto simp: Params_findings has_level_map filter_empty_conv red)
qed


text \<open>
  C15. \<open>parseSyncNames\<close> reads back every setting of the server's grammar: with \<open>FIRST\<close>, with \<open>ANY\<close>
  or with neither, any number up to \<open>2\<^sup>6\<^sup>3\<close> and any non-empty list of quoted UTF-8 names, whatever
  commas, parentheses and quotes they hold.
\<close>

theorem parseSyncNames_roundtrip:
  assumes "list_all valid_string names" and "names \<noteq> []" and "need < 2 ^ 63"
    and "mode = [] \<or> mode = ''FIRST '' \<or> mode = ''ANY ''"
  shows "parseSyncNames orbit (sync_setting mode need names) = Some (int need, names)"
  using assms by (rule parse_setting)

theorem parseSyncNames_roundtrip_witness:
  "parseSyncNames id (sync_setting ''ANY '' 1 [''a,b'', ''(c'']) = Some (1, [''a,b'', ''(c''])"
  using parseSyncNames_roundtrip [of "[''a,b'', ''(c'']" 1 "''ANY ''" id]
  by (simp add: valid_ascii byte_def)

text \<open>
  C16. \<open>Cluster\<close> on a primary that repmgr also calls one: several active primaries, then the inactive
  nodes, then exactly the active standbys repmgr says follow this node without a walsender of
  their name, and last, when the one row of the configuration could be read, the degraded mode;
  \<open>syncDegraded\<close> reports exactly a synchronous mode kept by an empty list of names.
\<close>

theorem Cluster_spec:
  assumes "coll.Status n = StatusOK" and "local_node n = Some me" and "ClusterNode.Type me = ''primary''"
    and "coll.Status d = StatusOK" and "coll.Status sy = StatusOK" and "coll.Rows sy = [x]"
  shows "Result.Findings (Cluster orbit n d sy ''primary'') =
     (if 1 < length (active_primaries n) then [primaries_finding (active_primaries n)] else []) @
     map inactive_finding (filter (\<lambda>x. \<not> ClusterNode.Active x) (coll.Rows n)) @
     map (detached_finding me) (detached orbit n d me) @
     of_option (syncDegraded orbit x n d True me) \<and>
   set (detached orbit n d me) =
     {y \<in> set (coll.Rows n). ClusterNode.Active y \<and> ClusterNode.Type y = ''standby'' \<and>
        ClusterNode.UpstreamNodeID y = Some (ClusterNode.NodeID me) \<and>
        (\<nexists>r a. r \<in> set (coll.Rows d) \<and> Downstream.ApplicationName r = Some a \<and>
           equal_fold orbit a (ClusterNode.NodeName y))} \<and>
   (syncDegraded orbit x n d True me \<noteq> None \<longleftrightarrow>
      (\<exists>m. ClusterSync.Synchronous x = Some m \<and> to_lower m \<in> set SyncModes) \<and>
      (ClusterSync.StandbyNames x = None \<or>
       (\<exists>names. ClusterSync.StandbyNames x = Some names \<and> trim_space names = [])))"
proof (intro conjI)
  show "set (detached orbit n d me) =
     {y \<in> set (coll.Rows n). ClusterNode.Active y \<and> ClusterNode.Type y = ''standby'' \<and>
        ClusterNode.UpstreamNodeID y = Some (ClusterNode.NodeID me) \<and>
        (\<nexists>r a. r \<in> set (coll.Rows d) \<and> Downstream.ApplicationName r = Some a \<and>
           equal_fold orbit a (ClusterNode.NodeName y))}"
    by (auto simp: detached_def Followers_def Attached_def list_ex_iff split: option.splits)
  show "syncDegraded orbit x n d True me \<noteq> None \<longleftrightarrow>
      (\<exists>m. ClusterSync.Synchronous x = Some m \<and> to_lower m \<in> set SyncModes) \<and>
      (ClusterSync.StandbyNames x = None \<or>
       (\<exists>names. ClusterSync.StandbyNames x = Some names \<and> trim_space names = []))"
    by (auto simp: syncDegraded_def degraded_def Let_def split: option.splits)
qed (use Cluster_primary [OF assms(1-4), of orbit sy] assms in simp)

definition sample_node :: "string \<Rightarrow> string \<Rightarrow> int32 option \<Rightarrow> bool \<Rightarrow> ClusterNode" where
  "sample_node nm role up here = \<lparr>ClusterNode.NodeID = (if here then 1 else 2), ClusterNode.NodeName = nm,
     ClusterNode.Type = role, ClusterNode.UpstreamNodeID = up, ClusterNode.Active = True,
     ClusterNode.Priority = None, ClusterNode.Location = None, ClusterNode.SlotName = None,
     ClusterNode.IsLocal = here\<rparr>"

definition sample_nodes :: ClusterNodes where
  "sample_nodes = \<lparr>coll.Status = StatusOK, coll.Reason = [],
     coll.Rows = [sample_node ''n1'' ''primary'' None True, sample_node ''n2'' ''standby'' (Some 1) False]\<rparr>"

definition sample_sync :: "string option \<Rightarrow> ClusterSync" where
  "sample_sync m = \<lparr>ClusterSync.ConfPath = ''/c'', ClusterSync.Synchronous = m, ClusterSync.StandbyNames = Some []\<rparr>"

theorem Cluster_spec_witness:
  "Result.Findings (Cluster id sample_nodes (no_rows StatusOK)
     \<lparr>coll.Status = StatusOK, coll.Reason = [], coll.Rows = [sample_sync None]\<rparr> ''primary'') =
   [detached_finding (sample_node ''n1'' ''primary'' None True) (sample_node ''n2'' ''standby'' (Some 1) False)]"
  using Cluster_spec [of sample_nodes "sample_node ''n1'' ''primary'' None True" "no_rows StatusOK"
      "\<lparr>coll.Status = StatusOK, coll.Reason = [], coll.Rows = [sample_sync None]\<rparr>" "sample_sync None" id]
  by (simp add: sample_nodes_def sample_node_def no_rows_def local_node_def active_primaries_def
      detached_def Followers_def Attached_def syncDegraded_def degraded_def sample_sync_def)

text \<open>
  C17. \<open>Table\<close> applies the freeze and the vacuum rule to one table. It reports, in this order, the age of
  the table when it is at or past a stop limit (FAIL) or past a limit that was read (WARN), and off a
  standby, once the settings are known, autovacuum switched off for the server or else, from
  collected statistics, dead tuples past the threshold of a table whose options turn autovacuum off;
  each with evidence from the probe that shows it, and nothing else. It reads FAIL exactly when the
  age is at or past a stop limit, and OK exactly when the table was found, has no age or an age the
  limits were read for and that is past none, and, off a standby, its statistics and the settings
  were seen and give no warning.
\<close>

theorem Table_spec:
  "map finding_key (Result.Findings (Table i s l v role db)) = (case found_table i of
       None \<Rightarrow> []
     | Some t \<Rightarrow>
         (case table_age_level t (freezeLimit l) of
            None \<Rightarrow> []
          | Some k \<Rightarrow> [(''freeze.table_age'', k, [TableInfoID])]) @
         (case vacuumSetting v of
            None \<Rightarrow> []
          | Some st \<Rightarrow>
              if role = ''standby'' then []
              else if switched_off st then [(''vacuum.disabled'', LevelWARN, [VacuumSettingsID])]
              else if table_uncleaned t st s then [(''vacuum.table_disabled'', LevelWARN, [TableStatsID])]
              else [])) \<and>
   (Result.Verdict (Table i s l v role db) = VerdictFAIL \<longleftrightarrow>
      (\<exists>t xid. found_table i = Some t \<and> TableInfo.XIDAge t = Some xid \<and>
         past_stop xid (case TableInfo.MXIDAge t of None \<Rightarrow> 0 | Some m \<Rightarrow> m))) \<and>
   (Result.Verdict (Table i s l v role db) = VerdictOK \<longleftrightarrow>
      (\<exists>t. found_table i = Some t \<and>
         (TableInfo.XIDAge t = None \<or>
          coll.Status l = StatusOK \<and> coll.Rows l \<noteq> [] \<and> table_age_level t (freezeLimit l) = None) \<and>
         (role = ''standby'' \<or>
          \<not> unseen_probe (coll.Status s) \<and>
          (\<exists>st rest. coll.Status v = StatusOK \<and> coll.Rows v = st # rest \<and>
             \<not> switched_off st \<and> \<not> table_uncleaned t st s))))"
  by (intro conjI Table_keys Table_FAIL Table_OK)

section \<open>Names, quoting and units\<close>

text \<open>
  C18. \<open>parseBool\<close> accepts what the server's \<open>parse_bool\<close> accepts, any prefix that belongs to one word
  only, in any case and between spaces, and nothing else; a lone \<open>o\<close> is neither on nor off.
\<close>

theorem parseBool_spec:
  "parseBool str =
     (let w = to_lower (trim_space str)
      in if w \<in> {''t'', ''tr'', ''tru'', ''true'', ''y'', ''ye'', ''yes'', ''on'', ''1''} then Some True
         else if w \<in> {''f'', ''fa'', ''fal'', ''fals'', ''false'', ''n'', ''no'', ''of'', ''off'', ''0''} then Some False
         else None)"
  unfolding parseBool_words true_words_def false_words_def by (simp only: list.set)

text \<open>
  C19. An identifier \<open>quoteIdent\<close> writes into SQL is read back by the server's lexer as the very name,
  whatever bytes it holds and whether or not it is a keyword, and the lexer stops where it ends.
\<close>

theorem quoteIdent_roundtrip:
  assumes "str \<noteq> []" and "ident_ends rest"
  shows "read_ident (quoteIdent str @ rest) = Some (str, rest)"
  using assms by (rule ident.reads_back)

theorem quoteIdent_roundtrip_witness:
  "read_ident (quoteIdent ''table'' @ '' x'') = Some (''table'', '' x'')"
  using quoteIdent_roundtrip [of "''table''" "'' x''"]
  by (simp add: ident_ends_def lex_more_def lex_start_def ident_start_def is_digit_def lower_byte_def byte_def)

text \<open>
  C20. A word \<open>shellWord\<close> writes into a suggested command is one word of a shell's command line with
  exactly that value, for every byte string, the empty one included, and whichever runes count
  as letters.
\<close>

theorem shellWord_roundtrip:
  assumes "word_ends rest"
  shows "sh_word False (shellWord uni str @ rest) = Some (str, rest)"
  using TrueI assms by (rule shell_word.reads_back)

theorem shellWord_roundtrip_witness:
  "sh_word False (shellWord (\<lambda>r. False) ''it's'' @ '' freeze'') = Some (''it's'', '' freeze'')"
  using shellWord_roundtrip [of "'' freeze''" "\<lambda>r. False" "''it's''"]
  by (simp add: word_ends_def sh_end_def byte_def)

text \<open>
  C21. The rollback suggested for a two-phase transaction names exactly its gid: without control
  characters the SQL is \<open>ROLLBACK PREPARED\<close> and one constant the server reads back as the gid, with
  them no SQL is suggested.
\<close>

theorem rollback_gid:
  "(if any_rune is_control (Prepared.GID x) then Next.SQL (prepared_fix x) = []
    else (\<exists>const. Next.SQL (prepared_fix x) = ''ROLLBACK PREPARED '' @ const \<and>
            read_constant const = Some (Prepared.GID x, [])))"
  using sql_constant.reads_whole [of "Prepared.GID x"]
  by (simp add: prepared_fix_def verify_def fix_sql_def)



text \<open>
  \<open>Duration\<close> of a whole number of seconds in range names its two largest units exactly: the
  number lies between what the text says and one smaller unit more.
\<close>

theorem Duration_two_units:
  assumes "0 \<le> n" and "n < 2 ^ 63"
  shows "Units.Duration (Fin (of_int n)) =
     (if n < 60 then fmt_d n @ ''s''
      else if n < 3600 then fmt_d (n div 60) @ ''m '' @ fmt_d (n mod 60) @ ''s''
      else if n < 86400 then fmt_d (n div 3600) @ ''h '' @ fmt_d (n mod 3600 div 60) @ ''m''
      else fmt_d (n div 86400) @ ''d '' @ fmt_d (n mod 86400 div 3600) @ ''h'')"
proof -
  have secs: "duration_secs (Fin (of_int n)) = n" using assms by (rule duration_secs_int)
  consider "n < 60" | "60 \<le> n" "n < 3600" | "3600 \<le> n" "n < 86400" | "86400 \<le> n" by linarith
  then show ?thesis
  proof cases
    case 1
    then have "n div 86400 = 0" "n mod 86400 = n" "n div 3600 = 0" "n mod 3600 = n" "n div 60 = 0" "n mod 60 = n"
      using assms by simp_all
    with 1 show ?thesis by (simp add: Duration_def secs duration_units_def)
  next
    case 2
    then have "n div 86400 = 0" "n mod 86400 = n" "n div 3600 = 0" "n mod 3600 = n" "n div 60 \<noteq> 0"
      using assms by auto
    with 2 show ?thesis by (simp add: Duration_def secs duration_units_def)
  next
    case 3
    then have "n div 86400 = 0" "n mod 86400 = n" "n div 3600 \<noteq> 0"
      using assms by auto
    with 3 show ?thesis by (simp add: Duration_def secs duration_units_def)
  next
    case 4
    then have "n div 86400 \<noteq> 0" by auto
    with 4 show ?thesis by (simp add: Duration_def secs duration_units_def)
  qed
qed

theorem Duration_two_units_witness: "Units.Duration (Fin 187) = ''3m 7s''"
proof -
  have "fmt_d 3 = ''3''" "fmt_d 7 = ''7''" by code_simp+
  then show ?thesis using Duration_two_units [of 187] by simp
qed

end
